(* ===== verification/Prelude.thy ===== *)
theory Prelude
  imports Main "HOL-Library.Word" "HOL-Library.Monad_Syntax" "HOL-Library.Sublist"
begin

text \<open>
  Shared vocabulary of the development: the machine integer types of the sources, the
  conversions between characters and bytes, the operations of a string view
  (\<^verbatim>\<open>ftl::StringView\<close>, a character sequence here), little-endian byte images of words, and
  the convention for the paths on which the program does not continue.

  \<^bold>\<open>Faults.\<close>  A function whose source can hit \<^verbatim>\<open>FTL_DCHECK\<close>, read an uninitialised
  variable or access a buffer outside its bounds returns an \<open>option\<close>: \<open>None\<close> is "the program
  aborts or its behaviour is undefined", \<open>Some\<close> is an ordinary return.  The debug build,
  in which \<^verbatim>\<open>FTL_DCHECK\<close> is active, is the one modelled.
\<close>

unbundle bit_operations_syntax

section \<open>Machine types and collections of simplification rules\<close>

type_synonym u8 = "8 word"
type_synonym u16 = "16 word"
type_synonym u32 = "32 word"
type_synonym u64 = "64 word"

named_theorems rsp_simps \<open>unfolding rules of the small operations of the protocol layer\<close>
named_theorems frame_simps \<open>what an operation leaves unchanged\<close>

section \<open>Faults\<close>

definition dcheck :: "bool \<Rightarrow> unit option" where
  "dcheck b = (if b then Some () else None)"

lemma dcheck_simps [simp]:
  "dcheck True = Some ()"
  "dcheck False = None"
  by (simp_all add: dcheck_def)

lemma dcheck_eq_Some [simp]: "dcheck b = Some u \<longleftrightarrow> b"
  by (simp add: dcheck_def)

lemma dcheck_bind_eq_Some [simp]: "dcheck b \<bind> f = Some x \<longleftrightarrow> b \<and> f () = Some x"
  by (simp add: dcheck_def)

lemma dcheck_bind_eq_None [simp]: "dcheck b \<bind> f = None \<longleftrightarrow> (b \<longrightarrow> f () = None)"
  by (simp add: dcheck_def)

text \<open>
  Reasoning about such functions: \<open>post P x\<close> if an ordinary return satisfies \<open>P\<close>, \<open>run P x\<close> if there
  is one besides.
\<close>

definition post :: "('a \<Rightarrow> bool) \<Rightarrow> 'a option \<Rightarrow> bool" where
  "post P x \<longleftrightarrow> (\<forall>y. x = Some y \<longrightarrow> P y)"

definition run :: "('a \<Rightarrow> bool) \<Rightarrow> 'a option \<Rightarrow> bool" where
  "run P x \<longleftrightarrow> (\<exists>y. x = Some y \<and> P y)"

lemma post_simps [simp]:
  "post P (Some y) \<longleftrightarrow> P y"
  "post P None"
  "post Q (dcheck b) \<longleftrightarrow> (b \<longrightarrow> Q ())"
  "post P (dcheck b \<bind> f) \<longleftrightarrow> (b \<longrightarrow> post P (f ()))"
  "post P (map_option g x) \<longleftrightarrow> post (\<lambda>y. P (g y)) x"
  "post P (let x = a in h x) \<longleftrightarrow> post P (h a)"
  by (auto simp: post_def dcheck_def)

lemma run_simps [simp]:
  "run P (Some y) \<longleftrightarrow> P y"
  "\<not> run P None"
  "run Q (dcheck b) \<longleftrightarrow> b \<and> Q ()"
  "run P (dcheck b \<bind> f) \<longleftrightarrow> b \<and> run P (f ())"
  "run P (map_option g x) \<longleftrightarrow> run (\<lambda>y. P (g y)) x"
  "run P (let x = a in h x) \<longleftrightarrow> run P (h a)"
  by (auto simp: run_def dcheck_def)

lemma post_bind: "post P (x \<bind> f) \<longleftrightarrow> post (\<lambda>y. post P (f y)) x"
  by (cases x) simp_all

lemma run_bind: "run P (x \<bind> f) \<longleftrightarrow> run (\<lambda>y. run P (f y)) x"
  by (cases x) simp_all

lemma post_mono: "post Q x \<Longrightarrow> (\<And>y. Q y \<Longrightarrow> P y) \<Longrightarrow> post P x"
  by (auto simp: post_def)

lemma run_mono: "run Q x \<Longrightarrow> (\<And>y. Q y \<Longrightarrow> P y) \<Longrightarrow> run P x"
  by (auto simp: run_def)

lemma post_bindI: "post Q x \<Longrightarrow> (\<And>y. Q y \<Longrightarrow> post P (f y)) \<Longrightarrow> post P (x \<bind> f)"
  by (auto simp: post_bind elim: post_mono)

lemma run_bindI: "run Q x \<Longrightarrow> (\<And>y. Q y \<Longrightarrow> run P (f y)) \<Longrightarrow> run P (x \<bind> f)"
  by (auto simp: run_bind elim: run_mono)

lemma run_post: "run P x \<Longrightarrow> post P x"
  by (auto simp: run_def post_def)

lemma post_true [simp]: "post (\<lambda>y. True) x"
  by (simp add: post_def)

lemma runE: "run P x \<Longrightarrow> (\<And>y. x = Some y \<Longrightarrow> P y \<Longrightarrow> R) \<Longrightarrow> R"
  by (auto simp: run_def)

lemma postD: "post P x \<Longrightarrow> x = Some y \<Longrightarrow> P y"
  by (simp add: post_def)

lemma run_not_None: "run P x \<Longrightarrow> x \<noteq> None"
  by (auto simp: run_def)

section \<open>Characters and bytes\<close>

definition byte_of :: "char \<Rightarrow> u8" where
  "byte_of c = of_char c"

definition char_of_byte :: "u8 \<Rightarrow> char" where
  "char_of_byte b = char_of (unat b)"

lemma unat_byte_of: "unat (byte_of c) = of_char c"
proof -
  have "of_nat (of_char c) = (of_char c :: u8)" by (rule of_nat_of_char)
  then have "unat (byte_of c) = unat (of_nat (of_char c) :: u8)" by (simp add: byte_of_def)
  then show ?thesis by (simp add: unat_of_nat)
qed

lemma char_of_byte_of [simp]: "char_of_byte (byte_of c) = c"
  by (simp add: char_of_byte_def unat_byte_of)

lemma byte_of_char_of_byte [simp]: "byte_of (char_of_byte b) = b"
proof -
  have "unat b < 256" using unsigned_less [of b] by simp
  then have "unat (byte_of (char_of_byte b)) = unat b"
    by (simp add: unat_byte_of char_of_byte_def)
  then show ?thesis by (rule word_unat_eq_iff [THEN iffD2])
qed

lemma byte_of_inject [simp]: "byte_of c = byte_of d \<longleftrightarrow> c = d"
  by (metis char_of_byte_of)

lemma char_of_byte_inject [simp]: "char_of_byte a = char_of_byte b \<longleftrightarrow> a = b"
  by (metis byte_of_char_of_byte)

lemma map_byte_of_char_of_byte [simp]: "map byte_of (map char_of_byte bs) = bs"
  by (induction bs) simp_all

lemma map_char_of_byte_of [simp]: "map char_of_byte (map byte_of cs) = cs"
  by (induction cs) simp_all

text \<open>The C locale's classification of characters.\<close>

definition isspace :: "char \<Rightarrow> bool" where
  "isspace c \<longleftrightarrow> c = CHR '' '' \<or> (9 \<le> byte_of c \<and> byte_of c \<le> 13)"

definition isprint :: "char \<Rightarrow> bool" where
  "isprint c \<longleftrightarrow> 32 \<le> byte_of c \<and> byte_of c < 127"

section \<open>String views\<close>

definition substr :: "'a list \<Rightarrow> nat \<Rightarrow> nat \<Rightarrow> 'a list" where
  "substr s pos n = take n (drop pos s)"

definition substr_from :: "'a list \<Rightarrow> nat \<Rightarrow> 'a list" where
  "substr_from s pos = drop pos s"

lemma substr_0 [simp]: "substr s 0 n = take n s"
  by (simp add: substr_def)

lemma substr_from_1_Cons [simp]: "substr_from (c # s) (Suc 0) = s"
  by (simp add: substr_from_def)

lemma length_substr: "length (substr s pos n) = min n (length s - pos)"
  by (simp add: substr_def)

text \<open>\<open>sv_find c s pos\<close> is \<^verbatim>\<open>s.find(c, pos)\<close>; \<open>None\<close> is \<^verbatim>\<open>npos\<close>.\<close>

fun find_char :: "'a \<Rightarrow> 'a list \<Rightarrow> nat option" where
  "find_char c [] = None"
| "find_char c (x # xs) = (if x = c then Some 0 else map_option Suc (find_char c xs))"

definition sv_find :: "'a \<Rightarrow> 'a list \<Rightarrow> nat \<Rightarrow> nat option" where
  "sv_find c s pos = map_option (\<lambda>i. pos + i) (find_char c (drop pos s))"

lemma find_char_None: "find_char c s = None \<longleftrightarrow> c \<notin> set s"
  by (induction s) auto

lemma find_char_Some:
  "find_char c s = Some i \<longleftrightarrow> i < length s \<and> s ! i = c \<and> c \<notin> set (take i s)"
proof (induction s arbitrary: i)
  case Nil
  then show ?case by simp
next
  case (Cons x s)
  then show ?case by (cases i) auto
qed

lemma find_char_append:
  "c \<notin> set xs \<Longrightarrow> find_char c (xs @ ys) = map_option (\<lambda>i. length xs + i) (find_char c ys)"
proof (induction xs)
  case Nil
  then show ?case by (cases "find_char c ys") simp_all
next
  case (Cons x xs)
  then show ?case by (cases "find_char c ys") auto
qed

lemma sv_find_bounds: "sv_find c s pos = Some i \<Longrightarrow> pos \<le> i \<and> i < length s"
  by (auto simp: sv_find_def find_char_Some)

lemma sv_find_0: "sv_find c s 0 = find_char c s"
  by (simp add: sv_find_def option.map_ident)

section \<open>Little-endian byte images\<close>

text \<open>\<open>le_bytes n w\<close> are the \<open>n\<close> bytes a little-endian machine stores for \<open>w\<close>.\<close>

fun le_bytes :: "nat \<Rightarrow> u64 \<Rightarrow> u8 list" where
  "le_bytes 0 w = []"
| "le_bytes (Suc n) w = ucast w # le_bytes n (drop_bit 8 w)"

fun le_word :: "u8 list \<Rightarrow> u64" where
  "le_word [] = 0"
| "le_word (b # bs) = ucast b OR push_bit 8 (le_word bs)"

lemma length_le_bytes [simp]: "length (le_bytes n w) = n"
  by (induction n arbitrary: w) simp_all

lemma bit_le_word_le_bytes:
  "bit (le_word (le_bytes n w)) i \<longleftrightarrow> i < 8 * n \<and> bit w i"
proof (induction n arbitrary: w i)
  case 0
  then show ?case by simp
next
  case (Suc n)
  show ?case
  proof (cases "i < 8")
    case True
    then show ?thesis
      by (auto simp: bit_or_iff bit_push_bit_iff bit_ucast_iff)
  next
    case False
    then have "8 + (i - 8) = i" by simp
    with False Suc [of "drop_bit 8 w" "i - 8"] show ?thesis
      by (auto simp: bit_or_iff bit_push_bit_iff bit_ucast_iff bit_drop_bit_eq
          dest: bit_imp_le_length)
  qed
qed

lemma le_word_le_bytes [simp]: "le_word (le_bytes 8 w) = w"
  by (rule bit_word_eqI) (simp add: bit_le_word_le_bytes)

lemma ucast_le_word_Cons: "ucast (ucast (b :: u8) OR push_bit 8 (x :: u64)) = b"
  by (rule bit_word_eqI) (auto simp: bit_ucast_iff bit_or_iff bit_push_bit_iff dest: bit_imp_le_length)

lemma drop_bit_le_word_Cons:
  "length bs < 8 \<Longrightarrow> drop_bit 8 (ucast (b :: u8) OR push_bit 8 (le_word bs)) = le_word bs"
proof (rule bit_word_eqI)
  fix i
  assume len: "length bs < 8" and "i < LENGTH(64)"
  have high: "\<not> bit (le_word xs) j" if "8 * length xs \<le> j" for xs :: "u8 list" and j
    using that
  proof (induction xs arbitrary: j)
    case Nil
    then show ?case by simp
  next
    case (Cons x xs)
    then show ?case
      by (auto simp: bit_or_iff bit_push_bit_iff bit_ucast_iff dest: bit_imp_le_length)
  qed
  show "bit (drop_bit 8 (ucast b OR push_bit 8 (le_word bs))) i = bit (le_word bs) i"
  proof (cases "8 + i < 64")
    case True
    then show ?thesis
      by (auto simp: bit_drop_bit_eq bit_or_iff bit_push_bit_iff bit_ucast_iff
          dest: bit_imp_le_length)
  next
    case False
    with len have "\<not> bit (le_word bs) i" by (intro high) simp
    with False show ?thesis
      by (auto simp: bit_drop_bit_eq simp del: drop_bit_or dest: bit_imp_le_length)
  qed
qed

lemma le_bytes_le_word: "length bs \<le> 8 \<Longrightarrow> le_bytes (length bs) (le_word bs) = bs"
  by (induction bs) (simp_all add: ucast_le_word_Cons drop_bit_le_word_Cons del: drop_bit_or)

section \<open>Writing into a buffer\<close>

text \<open>\<open>memcpy_at buf i bs\<close> is \<^verbatim>\<open>memcpy(buf + i, bs, n)\<close> for \<open>n = length bs\<close>.\<close>

definition memcpy_at :: "'a list \<Rightarrow> nat \<Rightarrow> 'a list \<Rightarrow> 'a list" where
  "memcpy_at buf i bs = take i buf @ bs @ drop (i + length bs) buf"

lemma length_memcpy_at [simp]:
  "i + length bs \<le> length buf \<Longrightarrow> length (memcpy_at buf i bs) = length buf"
  by (simp add: memcpy_at_def)

lemma substr_memcpy_at [simp]:
  "i + length bs \<le> length buf \<Longrightarrow> substr (memcpy_at buf i bs) i (length bs) = bs"
  by (simp add: memcpy_at_def substr_def)

lemma substr_memcpy_at_disjoint:
  assumes "i + length bs \<le> length buf" and "j + n \<le> i \<or> i + length bs \<le> j"
  shows "substr (memcpy_at buf i bs) j n = substr buf j n"
proof (cases "j + n \<le> i")
  case True
  then have "n \<le> i - j" "n \<le> length (drop j (take i buf))" using assms(1) by simp_all
  with True assms(1) show ?thesis
    by (simp add: memcpy_at_def substr_def drop_take min_absorb1 min_absorb2)
next
  case False
  with assms show ?thesis by (simp add: memcpy_at_def substr_def min_absorb2)
qed

lemma memcpy_at_substr [simp]:
  "i + n \<le> length buf \<Longrightarrow> memcpy_at buf i (substr buf i n) = buf"
  by (simp add: memcpy_at_def substr_def min_def)
    (metis add.commute append_take_drop_id drop_drop)

lemma memcpy_at_memcpy_at [simp]:
  "length bs = length cs \<Longrightarrow> i + length bs \<le> length buf \<Longrightarrow>
    memcpy_at (memcpy_at buf i bs) i cs = memcpy_at buf i cs"
  by (cases cs) (auto simp: memcpy_at_def min_def)

end
