(* ===== verification/Magenta.thy ===== *)
theory Magenta
  imports Prelude "HOL-Library.Multiset"
begin

text \<open>
  The interface of the Magenta kernel and of launchpad, which are not part of the program: a
  record \<open>K\<close> of the system calls the sources make, over an abstract kernel state \<open>'k\<close>.  A call
  returns its status (negative on failure, 0 is \<^verbatim>\<open>NO_ERROR\<close>) and the values of its out
  parameters.  The locale \<open>mx_kernel\<close> states the documented behaviour that the code relies on (in
  most cases by an assertion); \<open>ref_mx\<close> is a small kernel that meets it, on which witnesses are
  evaluated.  \<open>um_order\<close> is the unspecified iteration order of \<^verbatim>\<open>std::unordered_map\<close> and
  \<open>stack_bytes\<close> the contents of uninitialised automatic storage.
\<close>

section \<open>Types\<close>

datatype arch_kind = Amd64 | Arm64

datatype mx_excp_type = MX_EXCP_GENERAL | MX_EXCP_FATAL_PAGE_FAULT | MX_EXCP_UNDEFINED_INSTRUCTION
  | MX_EXCP_SW_BREAKPOINT | MX_EXCP_HW_BREAKPOINT | MX_EXCP_THREAD_STARTING
  | MX_EXCP_THREAD_EXITING | MX_EXCP_GONE | MX_EXCP_OTHER nat

fun ExceptionName :: "mx_excp_type \<Rightarrow> string" where
  "ExceptionName MX_EXCP_GENERAL = ''MX_EXCP_GENERAL''"
| "ExceptionName MX_EXCP_FATAL_PAGE_FAULT = ''MX_EXCP_FATAL_PAGE_FAULT''"
| "ExceptionName MX_EXCP_UNDEFINED_INSTRUCTION = ''MX_EXCP_UNDEFINED_INSTRUCTION''"
| "ExceptionName MX_EXCP_SW_BREAKPOINT = ''MX_EXCP_SW_BREAKPOINT''"
| "ExceptionName MX_EXCP_HW_BREAKPOINT = ''MX_EXCP_HW_BREAKPOINT''"
| "ExceptionName MX_EXCP_THREAD_STARTING = ''MX_EXCP_THREAD_STARTING''"
| "ExceptionName MX_EXCP_THREAD_EXITING = ''MX_EXCP_THREAD_EXITING''"
| "ExceptionName MX_EXCP_GONE = ''MX_EXCP_GONE''"
| "ExceptionName (MX_EXCP_OTHER n) = ''UNKNOWN''"

text \<open>The fields of \<^verbatim>\<open>mx_exception_context_t\<close> that the sources read.\<close>

record mx_exception_context =
  ctx_pid :: u64
  ctx_tid :: u64
  ctx_pc :: u64
  ctx_vector :: u64
  ctx_esr :: u32

type_synonym handle = int
type_synonym status = int

abbreviation NO_ERROR :: status where
  "NO_ERROR \<equiv> 0"

abbreviation MX_HANDLE_INVALID :: handle where
  "MX_HANDLE_INVALID \<equiv> 0"

abbreviation MX_KOID_INVALID :: u64 where
  "MX_KOID_INVALID \<equiv> 0"

record 'k mx =
  mx_arch :: arch_kind
  mx_sizeof_gregs :: nat
  mx_rflags_offset :: nat
  um_order :: "u64 list \<Rightarrow> u64 list"
  stack_bytes :: "nat \<Rightarrow> 'k \<Rightarrow> u8 list"
  MX_EXCP_IS_ARCH :: "mx_excp_type \<Rightarrow> bool"
  mx_thread_read_state :: "handle \<Rightarrow> nat \<Rightarrow> nat \<Rightarrow> 'k \<Rightarrow> status \<times> u8 list"
  mx_thread_write_state :: "handle \<Rightarrow> nat \<Rightarrow> u8 list \<Rightarrow> 'k \<Rightarrow> status \<times> 'k"
  mx_process_read_memory :: "handle \<Rightarrow> u64 \<Rightarrow> nat \<Rightarrow> 'k \<Rightarrow> status \<times> u8 list"
  mx_process_write_memory :: "handle \<Rightarrow> u64 \<Rightarrow> u8 list \<Rightarrow> 'k \<Rightarrow> status \<times> nat \<times> 'k"
  mx_task_bind_exception_port :: "handle \<Rightarrow> handle \<Rightarrow> u64 \<Rightarrow> 'k \<Rightarrow> status \<times> 'k"
  mx_task_resume :: "handle \<Rightarrow> 'k \<Rightarrow> status \<times> 'k"
  mx_task_kill :: "handle \<Rightarrow> 'k \<Rightarrow> status \<times> 'k"
  mx_wait_terminated :: "handle \<Rightarrow> 'k \<Rightarrow> status \<times> bool \<times> 'k"
  mx_handle_close :: "handle \<Rightarrow> 'k \<Rightarrow> 'k"
  mx_object_get_child :: "handle \<Rightarrow> u64 \<Rightarrow> 'k \<Rightarrow> status \<times> handle \<times> 'k"
  mx_info_handle_basic :: "handle \<Rightarrow> 'k \<Rightarrow> status \<times> bool \<times> u64"
  mx_info_num_threads :: "handle \<Rightarrow> 'k \<Rightarrow> status \<times> nat"
  mx_info_threads :: "handle \<Rightarrow> nat \<Rightarrow> 'k \<Rightarrow> status \<times> u64 list"
  mx_info_process :: "handle \<Rightarrow> 'k \<Rightarrow> status \<times> bool \<times> int"
  mx_prop_debug_addr :: "handle \<Rightarrow> 'k \<Rightarrow> status \<times> u64"
  mx_port_create :: "'k \<Rightarrow> status \<times> handle \<times> 'k"
  launchpad_create :: "string \<Rightarrow> 'k \<Rightarrow> status \<times> u64 \<times> 'k"
  launchpad_set_args :: "u64 \<Rightarrow> string list \<Rightarrow> 'k \<Rightarrow> status \<times> 'k"
  launchpad_add_vdso_vmo :: "u64 \<Rightarrow> 'k \<Rightarrow> status \<times> 'k"
  launchpad_clone :: "u64 \<Rightarrow> 'k \<Rightarrow> 'k"
  launchpad_destroy :: "u64 \<Rightarrow> 'k \<Rightarrow> 'k"
  launchpad_elf_load_file :: "u64 \<Rightarrow> string \<Rightarrow> 'k \<Rightarrow> status \<times> 'k"
  launchpad_load_vdso :: "u64 \<Rightarrow> 'k \<Rightarrow> status \<times> 'k"
  launchpad_get_process_handle :: "u64 \<Rightarrow> 'k \<Rightarrow> handle"
  launchpad_get_base_address :: "u64 \<Rightarrow> 'k \<Rightarrow> status \<times> u64"
  launchpad_get_entry_address :: "u64 \<Rightarrow> 'k \<Rightarrow> status \<times> u64"
  launchpad_start :: "u64 \<Rightarrow> 'k \<Rightarrow> handle \<times> 'k"

section \<open>Documented behaviour\<close>

text \<open>\<open>addr_range a n\<close> is the set of the \<open>n\<close> addresses from \<open>a\<close> on, wrapping at 64 bits.\<close>

definition addr_range :: "u64 \<Rightarrow> nat \<Rightarrow> u64 set" where
  "addr_range a n = (\<lambda>i. a + of_nat i) ` {0..<n}"

lemma addr_range_1 [simp]: "addr_range a (Suc 0) = {a}"
  by (simp add: addr_range_def)

lemma addr_range_0 [simp]: "addr_range a 0 = {}"
  by (simp add: addr_range_def)

text \<open>
  The laws: an unordered map is iterated in some order; architectural exceptions are told from
  synthetic ones; memory and register transfers are never short; what was written is what is
  read, and nothing else changes; a successful call never returns an invalid handle.
\<close>

locale mx_kernel =
  fixes K :: "'k mx"
  assumes um_order_mset: "mset (um_order K ks) = mset ks"
    and stack_bytes_size: "length (stack_bytes K n k) = n"
    and excp_arch: "MX_EXCP_IS_ARCH K MX_EXCP_SW_BREAKPOINT" "MX_EXCP_IS_ARCH K MX_EXCP_HW_BREAKPOINT"
      "MX_EXCP_IS_ARCH K MX_EXCP_GENERAL" "MX_EXCP_IS_ARCH K MX_EXCP_FATAL_PAGE_FAULT"
      "MX_EXCP_IS_ARCH K MX_EXCP_UNDEFINED_INSTRUCTION"
    and excp_synthetic: "\<not> MX_EXCP_IS_ARCH K MX_EXCP_THREAD_STARTING"
      "\<not> MX_EXCP_IS_ARCH K MX_EXCP_THREAD_EXITING" "\<not> MX_EXCP_IS_ARCH K MX_EXCP_GONE"
    and layout: "mx_sizeof_gregs K = (case mx_arch K of Amd64 \<Rightarrow> 144 | Arm64 \<Rightarrow> 272)"
      "mx_rflags_offset K = 136"
    and read_memory_size: "mx_process_read_memory K h a n k = (NO_ERROR, bs) \<Longrightarrow> length bs = n"
    and write_memory_size: "mx_process_write_memory K h a bs k = (NO_ERROR, n, k') \<Longrightarrow> n = length bs"
    and write_read_memory:
      "mx_process_write_memory K h a bs k = (NO_ERROR, n, k') \<Longrightarrow>
        mx_process_read_memory K h a (length bs) k' = (NO_ERROR, bs)"
    and write_read_memory_disjoint:
      "mx_process_write_memory K h a bs k = (NO_ERROR, n, k') \<Longrightarrow>
        addr_range a (length bs) \<inter> addr_range a' m = {} \<Longrightarrow>
        mx_process_read_memory K h a' m k' = mx_process_read_memory K h a' m k"
    and read_state_size:
      "mx_thread_read_state K h rs n k = (s, bs) \<Longrightarrow> 0 \<le> s \<Longrightarrow> n = mx_sizeof_gregs K \<Longrightarrow> length bs = n"
    and write_read_state:
      "mx_thread_write_state K h rs bs k = (s, k') \<Longrightarrow> 0 \<le> s \<Longrightarrow>
        \<exists>s'. 0 \<le> s' \<and> mx_thread_read_state K h rs (length bs) k' = (s', bs)"
    and get_child_valid:
      "mx_object_get_child K h i k = (NO_ERROR, h', k') \<Longrightarrow> h' \<noteq> MX_HANDLE_INVALID"
    and num_threads_exact:
      "mx_info_num_threads K h k = (NO_ERROR, n) \<Longrightarrow> mx_info_threads K h n k = (NO_ERROR, ids) \<Longrightarrow>
        length ids = n \<and> distinct ids \<and> MX_KOID_INVALID \<notin> set ids"
    and wait_terminated: "mx_wait_terminated K h k = (NO_ERROR, t, k') \<Longrightarrow> t"
    and port_create_valid: "mx_port_create K k = (s, h, k') \<Longrightarrow> 0 \<le> s \<Longrightarrow> h \<noteq> MX_HANDLE_INVALID"
    and launchpad_create_valid: "launchpad_create K nm k = (NO_ERROR, lp, k') \<Longrightarrow> lp \<noteq> 0"
    and launchpad_process:
      "lp \<noteq> 0 \<Longrightarrow> launchpad_load_vdso K lp k = (NO_ERROR, k') \<Longrightarrow>
        launchpad_get_process_handle K lp k' \<noteq> MX_HANDLE_INVALID \<and>
        (\<exists>i. mx_info_handle_basic K (launchpad_get_process_handle K lp k') k' = (NO_ERROR, True, i)
          \<and> i \<noteq> MX_KOID_INVALID)"
begin

lemma um_order_set: "set (um_order K ks) = set ks"
  by (metis um_order_mset set_mset_mset)

lemma um_order_length: "length (um_order K ks) = length ks"
  by (metis um_order_mset size_mset)

lemma um_order_distinct: "distinct (um_order K ks) \<longleftrightarrow> distinct ks"
  by (rule mset_eq_imp_distinct_iff) (rule um_order_mset)

lemma um_order_Nil [simp]: "um_order K ks = [] \<longleftrightarrow> ks = []"
  using um_order_length [of ks] by auto

end

section \<open>A reference kernel\<close>

text \<open>
  One process whose koid is 1 with threads \<open>rk_threads\<close>; handles equal koids plus one; memory is
  total, registers are kept per handle.  \<open>rk_fds\<close> are the open file descriptors with their paths and
  \<open>rk_files\<close> the contents of the files.
\<close>

record ref_kernel =
  rk_mem :: "u64 \<Rightarrow> u8"
  rk_regs :: "handle \<Rightarrow> u8 list"
  rk_threads :: "u64 list"
  rk_resumed :: "handle list"
  rk_fds :: "(int \<times> string) list"
  rk_files :: "string \<Rightarrow> u8 list"

definition ref_write :: "u64 \<Rightarrow> u8 list \<Rightarrow> (u64 \<Rightarrow> u8) \<Rightarrow> u64 \<Rightarrow> u8" where
  "ref_write a bs m = (\<lambda>x. if unat (x - a) < length bs then bs ! unat (x - a) else m x)"

definition ref_mx :: "ref_kernel mx" where
  "ref_mx = \<lparr>
     mx_arch = Amd64,
     mx_sizeof_gregs = 144,
     mx_rflags_offset = 136,
     um_order = (\<lambda>ks. ks),
     stack_bytes = (\<lambda>n k. replicate n 0xaa),
     MX_EXCP_IS_ARCH = (\<lambda>t. t \<in> {MX_EXCP_GENERAL, MX_EXCP_FATAL_PAGE_FAULT,
       MX_EXCP_UNDEFINED_INSTRUCTION, MX_EXCP_SW_BREAKPOINT, MX_EXCP_HW_BREAKPOINT}),
     mx_thread_read_state = (\<lambda>h rs n k.
       if h \<noteq> 0 \<and> length (rk_regs k h) = n then (NO_ERROR, rk_regs k h) else (-1, [])),
     mx_thread_write_state = (\<lambda>h rs bs k.
       if h \<noteq> 0 then (NO_ERROR, k\<lparr>rk_regs := (rk_regs k)(h := bs)\<rparr>) else (-1, k)),
     mx_process_read_memory = (\<lambda>h a n k.
       if n < 2 ^ 64 then (NO_ERROR, map (\<lambda>i. rk_mem k (a + of_nat i)) [0..<n]) else (-1, [])),
     mx_process_write_memory = (\<lambda>h a bs k.
       if length bs < 2 ^ 64 then (NO_ERROR, length bs, k\<lparr>rk_mem := ref_write a bs (rk_mem k)\<rparr>)
       else (-1, 0, k)),
     mx_task_bind_exception_port = (\<lambda>h p key k. (NO_ERROR, k)),
     mx_task_resume = (\<lambda>h k. if h \<noteq> 0 then (NO_ERROR, k\<lparr>rk_resumed := h # rk_resumed k\<rparr>) else (-1, k)),
     mx_task_kill = (\<lambda>h k. (NO_ERROR, k)),
     mx_wait_terminated = (\<lambda>h k. (NO_ERROR, True, k)),
     mx_handle_close = (\<lambda>h k. k),
     mx_object_get_child = (\<lambda>h i k. if i \<noteq> 0 then (NO_ERROR, uint i + 1, k) else (-1, 0, k)),
     mx_info_handle_basic = (\<lambda>h k. (NO_ERROR, True, 1)),
     mx_info_num_threads = (\<lambda>h k. (NO_ERROR, length (rk_threads k))),
     mx_info_threads = (\<lambda>h n k. if distinct (rk_threads k) \<and> 0 \<notin> set (rk_threads k)
         \<and> n = length (rk_threads k) then (NO_ERROR, rk_threads k) else (-1, [])),
     mx_info_process = (\<lambda>h k. (NO_ERROR, True, 0)),
     mx_prop_debug_addr = (\<lambda>h k. (-1, 0)),
     mx_port_create = (\<lambda>k. (NO_ERROR, 1, k)),
     launchpad_create = (\<lambda>nm k. (NO_ERROR, 1, k)),
     launchpad_set_args = (\<lambda>lp args k. (NO_ERROR, k)),
     launchpad_add_vdso_vmo = (\<lambda>lp k. (NO_ERROR, k)),
     launchpad_clone = (\<lambda>lp k. k),
     launchpad_destroy = (\<lambda>lp k. k),
     launchpad_elf_load_file = (\<lambda>lp f k. (NO_ERROR, k)),
     launchpad_load_vdso = (\<lambda>lp k. (NO_ERROR, k)),
     launchpad_get_process_handle = (\<lambda>lp k. 2),
     launchpad_get_base_address = (\<lambda>lp k. (NO_ERROR, 0x1000)),
     launchpad_get_entry_address = (\<lambda>lp k. (NO_ERROR, 0x1100)),
     launchpad_start = (\<lambda>lp k. (2, k))
   \<rparr>"

lemma ref_mx_sel [simp]:
  "mx_arch ref_mx = Amd64"
  "mx_sizeof_gregs ref_mx = 144"
  "mx_rflags_offset ref_mx = 136"
  "um_order ref_mx = (\<lambda>ks. ks)"
  "stack_bytes ref_mx = (\<lambda>n k. replicate n 0xaa)"
  "MX_EXCP_IS_ARCH ref_mx = (\<lambda>t. t \<in> {MX_EXCP_GENERAL, MX_EXCP_FATAL_PAGE_FAULT,
     MX_EXCP_UNDEFINED_INSTRUCTION, MX_EXCP_SW_BREAKPOINT, MX_EXCP_HW_BREAKPOINT})"
  "mx_thread_read_state ref_mx = (\<lambda>h rs n k. if h \<noteq> 0 \<and> length (rk_regs k h) =
     n then (NO_ERROR, rk_regs k h) else (-1, []))"
  "mx_thread_write_state ref_mx = (\<lambda>h rs bs k. if h \<noteq> 0 then (NO_ERROR,
     k\<lparr>rk_regs := (rk_regs k)(h := bs)\<rparr>) else (-1, k))"
  "mx_process_read_memory ref_mx = (\<lambda>h a n k. if n < 2 ^ 64 then (NO_ERROR, map
     (\<lambda>i. rk_mem k (a + of_nat i)) [0..<n]) else (-1, []))"
  "mx_process_write_memory ref_mx = (\<lambda>h a bs k. if length bs < 2 ^ 64 then (NO_ERROR,
     length bs, k\<lparr>rk_mem := ref_write a bs (rk_mem k)\<rparr>) else (-1, 0, k))"
  "mx_task_bind_exception_port ref_mx = (\<lambda>h p key k. (NO_ERROR, k))"
  "mx_task_resume ref_mx = (\<lambda>h k. if h \<noteq> 0 then (NO_ERROR, k\<lparr>rk_resumed := h
     # rk_resumed k\<rparr>) else (-1, k))"
  "mx_task_kill ref_mx = (\<lambda>h k. (NO_ERROR, k))"
  "mx_wait_terminated ref_mx = (\<lambda>h k. (NO_ERROR, True, k))"
  "mx_handle_close ref_mx = (\<lambda>h k. k)"
  "mx_object_get_child ref_mx = (\<lambda>h i k. if i \<noteq> 0 then (NO_ERROR, uint i + 1, k)
     else (-1, 0, k))"
  "mx_info_handle_basic ref_mx = (\<lambda>h k. (NO_ERROR, True, 1))"
  "mx_info_num_threads ref_mx = (\<lambda>h k. (NO_ERROR, length (rk_threads k)))"
  "mx_info_threads ref_mx = (\<lambda>h n k. if distinct (rk_threads k) \<and> 0 \<notin> set
     (rk_threads k) \<and> n = length (rk_threads k) then (NO_ERROR, rk_threads k) else (-1,
     []))"
  "mx_info_process ref_mx = (\<lambda>h k. (NO_ERROR, True, 0))"
  "mx_prop_debug_addr ref_mx = (\<lambda>h k. (-1, 0))"
  "mx_port_create ref_mx = (\<lambda>k. (NO_ERROR, 1, k))"
  "launchpad_create ref_mx = (\<lambda>nm k. (NO_ERROR, 1, k))"
  "launchpad_set_args ref_mx = (\<lambda>lp args k. (NO_ERROR, k))"
  "launchpad_add_vdso_vmo ref_mx = (\<lambda>lp k. (NO_ERROR, k))"
  "launchpad_clone ref_mx = (\<lambda>lp k. k)"
  "launchpad_destroy ref_mx = (\<lambda>lp k. k)"
  "launchpad_elf_load_file ref_mx = (\<lambda>lp f k. (NO_ERROR, k))"
  "launchpad_load_vdso ref_mx = (\<lambda>lp k. (NO_ERROR, k))"
  "launchpad_get_process_handle ref_mx = (\<lambda>lp k. 2)"
  "launchpad_get_base_address ref_mx = (\<lambda>lp k. (NO_ERROR, 0x1000))"
  "launchpad_get_entry_address ref_mx = (\<lambda>lp k. (NO_ERROR, 0x1100))"
  "launchpad_start ref_mx = (\<lambda>lp k. (2, k))"
  by (simp_all add: ref_mx_def)

lemma ref_write_range:
  assumes "i < length bs" and "length bs < 2 ^ 64"
  shows "ref_write a bs m (a + of_nat i) = bs ! i"
proof -
  from assms have "unat (of_nat i :: u64) = i" by (simp add: unat_of_nat)
  with assms(1) show ?thesis by (simp add: ref_write_def)
qed

lemma ref_write_other:
  assumes "x \<notin> addr_range a (length bs)" shows "ref_write a bs m x = m x"
proof -
  have "x = a + of_nat (unat (x - a))" by simp
  with assms have "\<not> unat (x - a) < length bs"
    unfolding addr_range_def by (metis atLeastLessThan_iff imageI zero_le)
  then show ?thesis by (simp add: ref_write_def)
qed

lemma ref_read_write_disjoint:
  assumes "addr_range a (length bs) \<inter> addr_range a' m = {}"
  shows "map (\<lambda>i. ref_write a bs f (a' + of_nat i)) [0..<m] = map (\<lambda>i. f (a' + of_nat i)) [0..<m]"
proof (rule map_cong [OF refl])
  fix i
  assume "i \<in> set [0..<m]"
  then have "a' + of_nat i \<in> addr_range a' m" by (simp add: addr_range_def)
  with assms show "ref_write a bs f (a' + of_nat i) = f (a' + of_nat i)"
    by (intro ref_write_other) blast
qed

lemma uint_succ_ne_0: "uint (i :: u64) + 1 \<noteq> 0"
  using uint_ge_0 [of i] by linarith

interpretation ref_mx: mx_kernel ref_mx
proof unfold_locales
  fix h :: handle and a a' :: u64 and bs bs' :: "u8 list" and k k' :: ref_kernel and m n :: nat
  assume w: "mx_process_write_memory ref_mx h a bs k = (NO_ERROR, n, k')"
  then have k': "k' = k\<lparr>rk_mem := ref_write a bs (rk_mem k)\<rparr>" and len: "length bs < 2 ^ 64"
    by (auto simp: ref_mx_def split: if_splits)
  show "mx_process_read_memory ref_mx h a (length bs) k' = (NO_ERROR, bs)"
    using len by (auto simp: k' ref_mx_def ref_write_range intro: nth_equalityI)
  show "mx_process_read_memory ref_mx h a' m k' = mx_process_read_memory ref_mx h a' m k"
    if "addr_range a (length bs) \<inter> addr_range a' m = {}"
    using ref_read_write_disjoint [OF that] by (simp add: k' ref_mx_def)
qed (auto simp: ref_mx_def uint_succ_ne_0 split: if_splits)

end
