(* ===== verification/Arch.thy ===== *)
theory Arch
  imports Magenta
begin

text \<open>
  The architecture layer below threads: the mapping of exceptions to debugger signals
  (\<^verbatim>\<open>lib/inferior-control/arch.h\<close>, \<^verbatim>\<open>arch-x86.h\<close>, \<^verbatim>\<open>arch-amd64.cc\<close>, \<^verbatim>\<open>arch-arm64.cc\<close>).
  \<^verbatim>\<open>FTL_NOTREACHED\<close> is \<open>None\<close>.
\<close>

section \<open>Definitions\<close>

datatype GdbSignal = sig_kUnsupported | sig_kNone | sig_kInt | sig_kQuit | sig_kIll | sig_kTrap
  | sig_kAbrt | sig_kEmt | sig_kFpe | sig_kBus | sig_kSegv | sig_kUrg | sig_kStop | sig_kCont
  | sig_kVtalrm | sig_kUsr1 | sig_kUsr2

fun signal_value :: "GdbSignal \<Rightarrow> int" where
  "signal_value sig_kUnsupported = -1"
| "signal_value sig_kNone = 0"
| "signal_value sig_kInt = 2"
| "signal_value sig_kQuit = 3"
| "signal_value sig_kIll = 4"
| "signal_value sig_kTrap = 5"
| "signal_value sig_kAbrt = 6"
| "signal_value sig_kEmt = 7"
| "signal_value sig_kFpe = 8"
| "signal_value sig_kBus = 10"
| "signal_value sig_kSegv = 11"
| "signal_value sig_kUrg = 16"
| "signal_value sig_kStop = 17"
| "signal_value sig_kCont = 19"
| "signal_value sig_kVtalrm = 26"
| "signal_value sig_kUsr1 = 30"
| "signal_value sig_kUsr2 = 31"

definition ComputeGdbSignal_amd64 :: "mx_exception_context \<Rightarrow> GdbSignal" where
  "ComputeGdbSignal_amd64 context =
     (let v = ctx_vector context in
      if v = 0 then sig_kFpe
      else if v = 1 then sig_kTrap
      else if v = 2 then sig_kUrg
      else if v = 3 then sig_kTrap
      else if v = 4 then sig_kFpe
      else if v = 5 then sig_kSegv
      else if v = 6 then sig_kIll
      else if v = 7 then sig_kFpe
      else if v = 8 then sig_kEmt
      else if v \<in> {9, 10, 11, 12, 13, 14} then sig_kSegv
      else if v = 15 then sig_kUsr1
      else if v \<in> {16, 17} then sig_kEmt
      else if v = 18 then sig_kUrg
      else if v = 19 then sig_kFpe
      else if v = 20 then sig_kVtalrm
      else if v = 21 then sig_kSegv
      else if 22 \<le> v \<and> v \<le> 31 then sig_kUsr1
      else sig_kUsr2)"

definition ComputeGdbSignal_arm64 :: "mx_exception_context \<Rightarrow> GdbSignal option" where
  "ComputeGdbSignal_arm64 context =
     (let exception_class = drop_bit 26 (ctx_esr context) in
      if exception_class = 0 then Some sig_kSegv
      else if exception_class \<in> {0x38, 0x3c} then Some sig_kTrap
      else if exception_class = 0x07 then Some sig_kFpe
      else if exception_class \<in> {0x11, 0x15} then None
      else if exception_class \<in> {0x20, 0x21} then Some sig_kIll
      else if exception_class \<in> {0x24, 0x25} then Some sig_kSegv
      else Some sig_kSegv)"

definition ComputeGdbSignal :: "arch_kind \<Rightarrow> mx_exception_context \<Rightarrow> GdbSignal option" where
  "ComputeGdbSignal A context =
     (case A of Amd64 \<Rightarrow> Some (ComputeGdbSignal_amd64 context)
      | Arm64 \<Rightarrow> ComputeGdbSignal_arm64 context)"

definition IsSingleStepException :: "arch_kind \<Rightarrow> mx_exception_context \<Rightarrow> bool" where
  "IsSingleStepException A context =
     (case A of Amd64 \<Rightarrow> ctx_vector context = 1 | Arm64 \<Rightarrow> False)"

section \<open>Signals\<close>

lemma signal_value_inject: "signal_value a = signal_value b \<longleftrightarrow> a = b"
  by (cases a; cases b; simp)

lemma ComputeGdbSignal_real:
  "ComputeGdbSignal A context = Some s \<Longrightarrow> 4 \<le> signal_value s \<and> signal_value s \<le> 31"
  by (auto simp: ComputeGdbSignal_def ComputeGdbSignal_amd64_def ComputeGdbSignal_arm64_def Let_def
      split: arch_kind.splits if_splits)

text \<open>
  Every exception of an x86-64 thread is mapped to a real signal, and a single-step
  exception to the trap signal a debugger waits for; the number fits the two hexadecimal
  digits of a stop reply and is never zero.
\<close>

lemma ComputeGdbSignal_amd64_total:
  "\<exists>s. ComputeGdbSignal Amd64 context = Some s \<and> 0 < signal_value s \<and> signal_value s < 256
    \<and> (IsSingleStepException Amd64 context \<longrightarrow> s = sig_kTrap)"
proof -
  obtain s where s: "ComputeGdbSignal Amd64 context = Some s" by (simp add: ComputeGdbSignal_def)
  with ComputeGdbSignal_real [OF s] show ?thesis
    by (auto simp: ComputeGdbSignal_def ComputeGdbSignal_amd64_def IsSingleStepException_def Let_def)
qed

lemma ComputeGdbSignal_amd64_total_example:
  "\<exists>s. ComputeGdbSignal Amd64
      \<lparr>ctx_pid = 1, ctx_tid = 2, ctx_pc = 0, ctx_vector = 1, ctx_esr = 0\<rparr> = Some s \<and> s = sig_kTrap"
proof -
  let ?c = "\<lparr>ctx_pid = 1, ctx_tid = 2, ctx_pc = 0, ctx_vector = 1, ctx_esr = 0\<rparr>"
  have "IsSingleStepException Amd64 ?c" by (simp add: IsSingleStepException_def)
  with ComputeGdbSignal_amd64_total [of ?c] show ?thesis by blast
qed

end
