(* ===== verification/Ftl.thy ===== *)
theory Ftl
  imports Prelude
begin

text \<open>
  The string library the sources link against (\<^verbatim>\<open>lib/ftl/strings\<close>) is not part of the
  repository.  Its functions are the fields of the record \<open>ftl\<close>, an argument of every
  definition that uses them, and the locale \<open>ftl_conversions\<close> states what their
  documentation promises.  The last section gives one implementation of the documented
  behaviour and proves that it meets the locale; witnesses evaluate with it.
\<close>

section \<open>The interface\<close>

datatype num_type = Int32 | Int64 | UInt16 | UInt32 | UInt64

fun in_range :: "num_type \<Rightarrow> int \<Rightarrow> bool" where
  "in_range Int32 v \<longleftrightarrow> - (2 ^ 31) \<le> v \<and> v < 2 ^ 31"
| "in_range Int64 v \<longleftrightarrow> - (2 ^ 63) \<le> v \<and> v < 2 ^ 63"
| "in_range UInt16 v \<longleftrightarrow> 0 \<le> v \<and> v < 2 ^ 16"
| "in_range UInt32 v \<longleftrightarrow> 0 \<le> v \<and> v < 2 ^ 32"
| "in_range UInt64 v \<longleftrightarrow> 0 \<le> v \<and> v < 2 ^ 64"

text \<open>
  \<open>StringToNumberWithError F t b s\<close> is \<^verbatim>\<open>ftl::StringToNumberWithError<t>(s, &out, b)\<close>:
  \<open>None\<close> where it returns false.  \<open>SplitString F s d trim nonempty\<close> takes
  \<^verbatim>\<open>kTrimWhitespace\<close> and \<^verbatim>\<open>kSplitWantNonEmpty\<close> as its two flags.
\<close>

record ftl =
  StringToNumberWithError :: "num_type \<Rightarrow> nat \<Rightarrow> string \<Rightarrow> int option"
  NumberToString :: "num_type \<Rightarrow> nat \<Rightarrow> int \<Rightarrow> string"
  SplitString :: "string \<Rightarrow> string \<Rightarrow> bool \<Rightarrow> bool \<Rightarrow> string list"
  LOG_NUM_SEVERITIES :: int

section \<open>Positional notation\<close>

definition digit_char :: "nat \<Rightarrow> char" where
  "digit_char d = (if d < 10 then char_of (48 + d) else char_of (55 + d))"

fun nat_string :: "nat \<Rightarrow> nat \<Rightarrow> string" where
  "nat_string b n =
     (if b < 2 \<or> n < b then [digit_char n]
      else nat_string b (n div b) @ [digit_char (n mod b)])"

declare nat_string.simps [simp del]

text \<open>The text that \<^verbatim>\<open>%x\<close> prints.\<close>

definition hex_text :: "nat \<Rightarrow> string" where
  "hex_text n = map (\<lambda>c. if c \<in> set ''ABCDEF'' then char_of (of_char c + 32 :: nat) else c) (nat_string 16 n)"

definition number_string :: "nat \<Rightarrow> int \<Rightarrow> string" where
  "number_string b v =
     (if v < 0 then CHR ''-'' # nat_string b (nat (- v)) else nat_string b (nat v))"

definition hex_alphabet :: "char set" where
  "hex_alphabet = set ''0123456789ABCDEF''"

definition num_alphabet :: "char set" where
  "num_alphabet = set ''-+0123456789ABCDEFabcdef''"

lemma digit_char_hex: "d < 16 \<Longrightarrow> digit_char d \<in> hex_alphabet"
proof -
  assume "d < 16"
  then have "d \<in> {0..<16}" by simp
  then have "d \<in> set [0..<16]" by (simp only: set_upt)
  moreover have "\<forall>d \<in> set [0..<16]. digit_char d \<in> hex_alphabet"
    unfolding hex_alphabet_def by code_simp
  ultimately show ?thesis by blast
qed

lemma nat_string_hex: "set (nat_string 16 n) \<subseteq> hex_alphabet"
proof (induction n rule: less_induct)
  case (less n)
  show ?case
  proof (cases "n < 16")
    case True
    then show ?thesis by (subst nat_string.simps) (simp add: digit_char_hex)
  next
    case False
    with less.IH [of "n div 16"] show ?thesis
      by (subst nat_string.simps) (simp add: digit_char_hex)
  qed
qed

lemma nat_string_nonempty [simp]: "nat_string b n \<noteq> []"
  by (subst nat_string.simps) simp

lemma length_nat_string_1: "n < b \<Longrightarrow> length (nat_string b n) = Suc 0"
  by (subst nat_string.simps) simp

lemma length_nat_string_2: "b \<le> n \<Longrightarrow> n < b * b \<Longrightarrow> 2 \<le> b \<Longrightarrow> length (nat_string b n) = 2"
  by (subst nat_string.simps)
    (simp add: length_nat_string_1 less_mult_imp_div_less)

section \<open>What the documentation promises\<close>

locale ftl_conversions =
  fixes F :: ftl
  assumes parse_in_range: "StringToNumberWithError F t b s = Some v \<Longrightarrow> in_range t v"
    and print_number: "in_range t v \<Longrightarrow> b \<in> {10, 16} \<Longrightarrow> NumberToString F t b v = number_string b v"
    and parse_number:
      "in_range t v \<Longrightarrow> b \<in> {10, 16} \<Longrightarrow> StringToNumberWithError F t b (number_string b v) = Some v"
    and parse_digits_only:
      "StringToNumberWithError F t b s = Some v \<Longrightarrow>
        s \<noteq> [] \<and> set s \<subseteq> num_alphabet"
    and split_two:
      "\<lbrakk>d \<notin> set x; d \<notin> set y; x \<noteq> []; y \<noteq> []\<rbrakk> \<Longrightarrow>
        SplitString F (x @ d # y) [d] False True = [x, y]"
    and split_all_two:
      "\<lbrakk>d \<notin> set x; d \<notin> set y\<rbrakk> \<Longrightarrow> SplitString F (x @ d # y) [d] False False = [x, y]"
begin

lemma parse_empty: "StringToNumberWithError F t b [] = None"
proof (cases "StringToNumberWithError F t b []")
  case (Some v)
  then show ?thesis using parse_digits_only by blast
qed

lemma print_hex_alphabet:
  "in_range t v \<Longrightarrow> 0 \<le> v \<Longrightarrow> set (NumberToString F t 16 v) \<subseteq> hex_alphabet"
  using nat_string_hex by (simp add: print_number number_string_def)

lemma print_hex_nonempty: "in_range t v \<Longrightarrow> NumberToString F t 16 v \<noteq> []"
  by (simp add: print_number number_string_def)

lemma hex_roundtrip:
  "in_range t v \<Longrightarrow> in_range t' v \<Longrightarrow>
    StringToNumberWithError F t 16 (NumberToString F t' 16 v) = Some v"
  by (simp add: print_number parse_number)

end

section \<open>One implementation of the documentation\<close>

definition digit_value :: "nat \<Rightarrow> char \<Rightarrow> nat option" where
  "digit_value b c =
     (let n = (of_char c :: nat);
          v = (if 48 \<le> n \<and> n \<le> 57 then Some (n - 48)
               else if 65 \<le> n \<and> n \<le> 70 then Some (n - 55)
               else if 97 \<le> n \<and> n \<le> 102 then Some (n - 87) else None)
      in case v of None \<Rightarrow> None | Some d \<Rightarrow> if d < b then Some d else None)"

fun parse_digits :: "nat \<Rightarrow> nat \<Rightarrow> string \<Rightarrow> nat option" where
  "parse_digits b acc [] = Some acc"
| "parse_digits b acc (c # cs) =
     (case digit_value b c of None \<Rightarrow> None | Some d \<Rightarrow> parse_digits b (acc * b + d) cs)"

definition parse_int :: "nat \<Rightarrow> string \<Rightarrow> int option" where
  "parse_int b s =
     (case s of
        [] \<Rightarrow> None
      | c # cs \<Rightarrow>
          if c = CHR ''-'' then
            (if cs = [] then None else map_option (\<lambda>n. - int n) (parse_digits b 0 cs))
          else map_option int (parse_digits b 0 s))"

definition ref_string_to_number :: "num_type \<Rightarrow> nat \<Rightarrow> string \<Rightarrow> int option" where
  "ref_string_to_number t b s =
     (case parse_int (min b 16) s of
        None \<Rightarrow> None
      | Some v \<Rightarrow> if in_range t v then Some v else None)"

fun split_on :: "char list \<Rightarrow> string \<Rightarrow> string \<Rightarrow> string list" where
  "split_on ds acc [] = [rev acc]"
| "split_on ds acc (c # cs) =
     (if c \<in> set ds then rev acc # split_on ds [] cs else split_on ds (c # acc) cs)"

definition trim_view :: "string \<Rightarrow> string" where
  "trim_view s = rev (dropWhile isspace (rev (dropWhile isspace s)))"

definition ref_split_string :: "string \<Rightarrow> string \<Rightarrow> bool \<Rightarrow> bool \<Rightarrow> string list" where
  "ref_split_string s ds trim nonempty =
     (let pieces = map (if trim then trim_view else id) (split_on ds [] s)
      in if nonempty then filter (\<lambda>p. p \<noteq> []) pieces else pieces)"

definition ftl_ref :: ftl where
  "ftl_ref =
     \<lparr>StringToNumberWithError = ref_string_to_number,
      NumberToString = (\<lambda>t b v. number_string b v),
      SplitString = ref_split_string,
      LOG_NUM_SEVERITIES = 4\<rparr>"

lemma digit_value_digit_char:
  assumes "d < b" and "b \<le> 16"
  shows "digit_value b (digit_char d) = Some d"
proof -
  have "\<forall>d \<in> set [0..<16]. (if d < 10 then of_char (digit_char d) = (48 + d :: nat)
      else of_char (digit_char d) = (55 + d :: nat))"
    by code_simp
  moreover have "d \<in> set [0..<16]" using assms by simp
  ultimately have "if d < 10 then of_char (digit_char d) = (48 + d :: nat)
      else of_char (digit_char d) = (55 + d :: nat)"
    by blast
  with assms show ?thesis by (auto simp: digit_value_def split: if_splits)
qed

lemma parse_digits_append:
  "parse_digits b acc (xs @ ys) =
     (case parse_digits b acc xs of None \<Rightarrow> None | Some a \<Rightarrow> parse_digits b a ys)"
  by (induction b acc xs rule: parse_digits.induct) (auto split: option.splits)

lemma parse_digits_nat_string:
  "2 \<le> b \<Longrightarrow> b \<le> 16 \<Longrightarrow> parse_digits b 0 (nat_string b n) = Some n"
proof (induction n rule: less_induct)
  case (less n)
  show ?case
  proof (cases "n < b")
    case True
    with less.prems show ?thesis
      by (subst nat_string.simps) (simp add: digit_value_digit_char)
  next
    case False
    with less.prems have "parse_digits b 0 (nat_string b (n div b)) = Some (n div b)"
      by (intro less.IH) simp_all
    with False less.prems show ?thesis
      by (subst nat_string.simps)
        (simp add: parse_digits_append digit_value_digit_char)
  qed
qed

lemma digit_char_not_minus: "d < 16 \<Longrightarrow> digit_char d \<noteq> CHR ''-''"
  using digit_char_hex [of d] by (auto simp: hex_alphabet_def)

lemma hd_nat_string: "2 \<le> b \<Longrightarrow> b \<le> 16 \<Longrightarrow> hd (nat_string b n) \<noteq> CHR ''-''"
proof (induction n rule: less_induct)
  case (less n)
  show ?case
  proof (cases "n < b")
    case True
    with less.prems show ?thesis
      by (subst nat_string.simps) (simp add: digit_char_not_minus)
  next
    case False
    with less.prems have "hd (nat_string b (n div b)) \<noteq> CHR ''-''"
      by (intro less.IH) simp_all
    with False less.prems show ?thesis
      by (subst nat_string.simps) (simp add: hd_append)
  qed
qed

lemma parse_int_number_string:
  assumes "2 \<le> b" and "b \<le> 16"
  shows "parse_int b (number_string b v) = Some v"
proof (cases "v < 0")
  case True
  then show ?thesis
    using assms by (simp add: parse_int_def number_string_def parse_digits_nat_string)
next
  case False
  obtain c cs where s: "nat_string b (nat v) = c # cs"
    using nat_string_nonempty by (metis neq_Nil_conv)
  with hd_nat_string [OF assms, of "nat v"] have "c \<noteq> CHR ''-''" by simp
  with False show ?thesis
    using parse_digits_nat_string [OF assms, of "nat v"]
    by (simp add: parse_int_def number_string_def s)
qed

lemma digit_value_alphabet:
  assumes "digit_value b c = Some d"
  shows "c \<in> num_alphabet"
proof -
  let ?n = "of_char c :: nat"
  have "?n \<in> {48..<58} \<union> {65..<71} \<union> {97..<103}"
    using assms by (auto simp: digit_value_def Let_def split: option.splits if_splits)
  then have "?n \<in> set ([48..<58] @ [65..<71] @ [97..<103])" by (simp only: set_append set_upt Un_assoc)
  then have "char_of ?n \<in> char_of ` set ([48..<58] @ [65..<71] @ [97..<103])" by (rule imageI)
  moreover have "char_of ` set ([48..<58] @ [65..<71] @ [97..<103 :: nat])
      \<subseteq> num_alphabet"
    unfolding set_map [symmetric] num_alphabet_def by code_simp
  ultimately show ?thesis by auto
qed

lemma minus_in_num_alphabet: "CHR ''-'' \<in> num_alphabet"
  by (simp add: num_alphabet_def)

lemma parse_digits_alphabet:
  "parse_digits b acc s = Some n \<Longrightarrow> set s \<subseteq> num_alphabet"
proof (induction b acc s rule: parse_digits.induct)
  case (2 b acc c cs)
  then obtain d where d: "digit_value b c = Some d"
    by (auto split: option.splits)
  with 2 have "set cs \<subseteq> num_alphabet" by simp
  with digit_value_alphabet [OF d] show ?case by simp
qed simp

lemma split_on_no_delim: "set s \<inter> set ds = {} \<Longrightarrow> split_on ds acc s = [rev acc @ s]"
  by (induction ds acc s rule: split_on.induct) auto

lemma split_on_delim:
  "set x \<inter> set ds = {} \<Longrightarrow> d \<in> set ds \<Longrightarrow>
    split_on ds acc (x @ d # y) = (rev acc @ x) # split_on ds [] y"
  by (induction x arbitrary: acc) auto

interpretation ftl_ref: ftl_conversions ftl_ref
proof
  fix t b s v
  assume *: "StringToNumberWithError ftl_ref t b s = Some v"
  then show "in_range t v"
    by (auto simp: ftl_ref_def ref_string_to_number_def split: option.splits if_splits)
  from * have "parse_int (min b 16) s = Some v"
    by (auto simp: ftl_ref_def ref_string_to_number_def split: option.splits if_splits)
  then show "s \<noteq> [] \<and> set s \<subseteq> num_alphabet"
    using parse_digits_alphabet [of "min b 16" 0 s] parse_digits_alphabet [of "min b 16" 0 "tl s"]
    by (auto simp: parse_int_def minus_in_num_alphabet split: list.splits if_splits)
next
  fix t v and b :: nat
  assume "in_range t v" and "b \<in> {10, 16}"
  then show "NumberToString ftl_ref t b v = number_string b v"
    by (simp add: ftl_ref_def)
  from \<open>in_range t v\<close> \<open>b \<in> {10, 16}\<close>
  show "StringToNumberWithError ftl_ref t b (number_string b v) = Some v"
    by (auto simp: ftl_ref_def ref_string_to_number_def parse_int_number_string)
next
  fix d :: char and x y
  assume "d \<notin> set x" "d \<notin> set y"
  then show "SplitString ftl_ref (x @ d # y) [d] False False = [x, y]"
    by (simp add: ftl_ref_def ref_split_string_def split_on_delim split_on_no_delim)
  assume "x \<noteq> []" "y \<noteq> []"
  with \<open>d \<notin> set x\<close> \<open>d \<notin> set y\<close> show "SplitString ftl_ref (x @ d # y) [d] False True = [x, y]"
    by (simp add: ftl_ref_def ref_split_string_def split_on_delim split_on_no_delim)
qed

end
