(* ===== verification/Util.thy ===== *)
theory Util
  imports Ftl
begin

text \<open>
  The byte/string helpers of \<^verbatim>\<open>lib/debugger-utils/util.cc\<close>: the hexadecimal codec every
  packet goes through, argument vectors, string joining and base names.  A
  \<^verbatim>\<open>bool f(in, T* out)\<close> is a function into \<open>T option\<close>.  The assertion
  \<^verbatim>\<open>FTL_DCHECK(byte < 0x10)\<close> of \<open>HalfByteToHexChar\<close> is discharged at its only two call
  sites by \<open>half_byte_dcheck\<close>, so the function itself is total here.
\<close>

section \<open>Definitions\<close>

definition HexCharToByte :: "char \<Rightarrow> u8 option" where
  "HexCharToByte hex_char =
     (if byte_of (CHR ''a'') \<le> byte_of hex_char \<and> byte_of hex_char \<le> byte_of (CHR ''f'')
      then Some (byte_of hex_char - byte_of (CHR ''a'') + 10)
      else if byte_of (CHR ''0'') \<le> byte_of hex_char \<and> byte_of hex_char \<le> byte_of (CHR ''9'')
      then Some (byte_of hex_char - byte_of (CHR ''0''))
      else if byte_of (CHR ''A'') \<le> byte_of hex_char \<and> byte_of hex_char \<le> byte_of (CHR ''F'')
      then Some (byte_of hex_char - byte_of (CHR ''A'') + 10)
      else None)"

definition HalfByteToHexChar :: "u8 \<Rightarrow> char" where
  "HalfByteToHexChar byte =
     (if byte < 10 then char_of_byte (byte_of (CHR ''0'') + byte)
      else char_of_byte (byte_of (CHR ''a'') + byte mod 10))"

definition DecodeByteString :: "char \<Rightarrow> char \<Rightarrow> u8 option" where
  "DecodeByteString hex0 hex1 =
     (case HexCharToByte hex0 of
        None \<Rightarrow> None
      | Some msb \<Rightarrow>
          (case HexCharToByte hex1 of
             None \<Rightarrow> None
           | Some lsb \<Rightarrow> Some (lsb OR push_bit 4 msb)))"

definition EncodeByteString :: "u8 \<Rightarrow> string" where
  "EncodeByteString byte =
     [HalfByteToHexChar (drop_bit 4 byte), HalfByteToHexChar (byte AND 0x0f)]"

fun EncodeByteArrayString :: "u8 list \<Rightarrow> string" where
  "EncodeByteArrayString [] = []"
| "EncodeByteArrayString (b # bytes) = EncodeByteString b @ EncodeByteArrayString bytes"

definition EncodeString :: "string \<Rightarrow> string" where
  "EncodeString s = EncodeByteArrayString (map byte_of s)"

text \<open>The decoding loop; \<open>None\<close> is its early return of an empty vector.\<close>

fun decode_loop :: "string \<Rightarrow> u8 list option" where
  "decode_loop (h0 # h1 # s) =
     (case DecodeByteString h0 h1 of
        None \<Rightarrow> None
      | Some b \<Rightarrow> map_option (\<lambda>bs. b # bs) (decode_loop s))"
| "decode_loop _ = Some []"

definition DecodeByteArrayString :: "string \<Rightarrow> u8 list" where
  "DecodeByteArrayString s =
     (if length s mod 2 \<noteq> 0 then []
      else case decode_loop s of None \<Rightarrow> [] | Some result \<Rightarrow> result)"

definition DecodeString :: "string \<Rightarrow> string" where
  "DecodeString s = map char_of_byte (DecodeByteArrayString s)"

fun EscapeNonPrintableString :: "string \<Rightarrow> string" where
  "EscapeNonPrintableString [] = []"
| "EscapeNonPrintableString (c # data) =
     (if isprint c then [c] else CHR 0x5C # CHR ''x'' # EncodeByteString (byte_of c))
      @ EscapeNonPrintableString data"

text \<open>
  \<open>JoinStrings strings delimiter buffer index\<close> is the loop of \<^verbatim>\<open>JoinStrings\<close> from
  \<^verbatim>\<open>index\<close> on; it returns the final index and the buffer, whose length is
  \<^verbatim>\<open>buffer_size\<close>.
\<close>

fun JoinStrings_loop :: "string list \<Rightarrow> char \<Rightarrow> char list \<Rightarrow> nat \<Rightarrow> (nat \<times> char list) option" where
  "JoinStrings_loop [] delimiter buffer index = Some (index, buffer)"
| "JoinStrings_loop (str # strings) delimiter buffer index =
     do {
       dcheck (index + length str \<le> length buffer);
       let buffer = memcpy_at buffer index str;
       let index = index + length str;
       if strings = [] then Some (index, buffer)
       else do {
         dcheck (index < length buffer);
         JoinStrings_loop strings delimiter (buffer[index := delimiter]) (Suc index)
       }
     }"

definition JoinStrings :: "string list \<Rightarrow> char \<Rightarrow> char list \<Rightarrow> (nat \<times> char list) option" where
  "JoinStrings strings delimiter buffer = JoinStrings_loop strings delimiter buffer 0"

text \<open>
  One round of the outer loop of \<^verbatim>\<open>BuildArgv\<close>: skip blanks, take the word that starts
  there, step over the blank that ended it (the \<^verbatim>\<open>++i\<close> of the \<^verbatim>\<open>for\<close>).
\<close>

function BuildArgv :: "string \<Rightarrow> string list" where
  "BuildArgv args =
     (case dropWhile isspace args of
        [] \<Rightarrow> []
      | c # rest \<Rightarrow>
          (c # takeWhile (\<lambda>x. \<not> isspace x) rest)
          # BuildArgv (drop 1 (dropWhile (\<lambda>x. \<not> isspace x) rest)))"
  by pat_completeness auto
termination
proof (relation "measure length")
  fix args c rest
  assume "dropWhile isspace args = c # rest"
  then have "Suc (length rest) \<le> length args"
    by (metis length_Cons length_dropWhile_le)
  then show "(drop 1 (dropWhile (\<lambda>x. \<not> isspace x) rest), args) \<in> measure length"
    using length_dropWhile_le [of "\<lambda>x. \<not> isspace x" rest] by simp
qed simp

declare BuildArgv.simps [simp del]

fun argv_tail :: "string list \<Rightarrow> string" where
  "argv_tail [] = []"
| "argv_tail (a # argv) = '' '' @ a @ argv_tail argv"

definition ArgvToString :: "string list \<Rightarrow> string" where
  "ArgvToString argv = (case argv of [] \<Rightarrow> [] | a # rest \<Rightarrow> a @ argv_tail rest)"

text \<open>\<open>basename\<close>: \<open>None\<close> is a null pointer; the scan runs \<open>i\<close> down to the last slash.\<close>

fun basename_scan :: "string \<Rightarrow> nat \<Rightarrow> nat" where
  "basename_scan s 0 = 0"
| "basename_scan s (Suc i) = (if s ! i \<noteq> CHR ''/'' then basename_scan s i else Suc i)"

definition basename :: "string option \<Rightarrow> string" where
  "basename p =
     (case p of
        None \<Rightarrow> ''.''
      | Some s \<Rightarrow>
          if s = [] then ''.''
          else let i = length s - 1 in
            if i > 0 \<and> s ! i = CHR ''/'' then s
            else drop (basename_scan s i) s)"

section \<open>The codec\<close>

definition hex_lower :: "char set" where
  "hex_lower =
     {c. 48 \<le> byte_of c \<and> byte_of c \<le> 57 \<or> 97 \<le> byte_of c \<and> byte_of c \<le> 102}"

lemma nibble_cases:
  assumes "n < (16 :: u8)"
  obtains "n = 0" | "n = 1" | "n = 2" | "n = 3" | "n = 4" | "n = 5" | "n = 6" | "n = 7"
    | "n = 8" | "n = 9" | "n = 10" | "n = 11" | "n = 12" | "n = 13" | "n = 14" | "n = 15"
proof -
  define k where "k = unat n"
  have n: "n = of_nat k" by (simp add: k_def)
  have "k < 16" using assms by (simp add: word_less_nat_alt k_def)
  then have "k \<in> {0, 1, 2, 3, 4, 5, 6, 7, 8, 9, 10, 11, 12, 13, 14, 15}"
    by (simp add: numeral_eq_Suc less_Suc_eq)
  with n that show thesis by auto
qed

lemma byte_of_hex_bounds:
  "byte_of (CHR ''a'') = 97" "byte_of (CHR ''f'') = 102" "byte_of (CHR ''0'') = 48"
  "byte_of (CHR ''9'') = 57" "byte_of (CHR ''A'') = 65" "byte_of (CHR ''F'') = 70"
  by (simp_all add: byte_of_def)

lemma byte_of_HalfByteToHexChar:
  "byte_of (HalfByteToHexChar n) = (if n < 10 then 48 + n else 97 + n mod 10)"
  by (simp add: HalfByteToHexChar_def byte_of_hex_bounds)

lemma hex_nibble:
  assumes "n < (16 :: u8)"
  shows "HexCharToByte (HalfByteToHexChar n) = Some n" and "HalfByteToHexChar n \<in> hex_lower"
  unfolding HexCharToByte_def hex_lower_def mem_Collect_eq byte_of_hex_bounds
    byte_of_HalfByteToHexChar
  by (cases rule: nibble_cases [OF assms]; simp)+

lemma half_byte_dcheck: "drop_bit 4 (b :: u8) < 16" "(b :: u8) AND 0x0f < 16"
proof -
  have "unat (drop_bit 4 b) = unat b div 16"
    by (simp add: drop_bit_eq_div unat_div)
  moreover have "unat b < 256" using unsigned_less [of b] by simp
  ultimately show "drop_bit 4 b < 16" by (simp add: word_less_nat_alt)
  show "b AND 0x0f < 16"
    using word_and_le1 [of b "0x0f"] by (rule order.strict_trans1) simp
qed

lemma unat_and_mask_4: "unat ((b :: u8) AND 0x0f) = unat b mod 16"
proof -
  have "(0x0f :: u8) = mask 4" by (simp add: mask_eq_exp_minus_1)
  then have "b AND 0x0f = take_bit 4 b" by (simp only: take_bit_eq_mask)
  then show ?thesis by (simp add: take_bit_eq_mod unat_mod)
qed

lemma nibbles_of_byte: "(b AND 0x0f) OR push_bit 4 (drop_bit 4 b) = (b :: u8)"
proof -
  have m: "(0x0f :: u8) = mask 4" by (simp add: mask_eq_exp_minus_1)
  show ?thesis
    unfolding m
  proof (rule bit_word_eqI)
    fix n
    show "bit (b AND mask 4 OR push_bit 4 (drop_bit 4 b)) n = bit b n" if "n < LENGTH(8)"
      using that by (cases "n < 4")
        (auto simp add: bit_or_iff bit_and_iff bit_push_bit_iff bit_drop_bit_eq bit_mask_iff)
  qed
qed

lemma DecodeByteString_EncodeByteString:
  "EncodeByteString b = [h0, h1] \<Longrightarrow> DecodeByteString h0 h1 = Some b"
  by (auto simp: EncodeByteString_def DecodeByteString_def hex_nibble half_byte_dcheck
      nibbles_of_byte)

lemma length_EncodeByteString [simp]: "length (EncodeByteString b) = 2"
  by (simp add: EncodeByteString_def)

lemma EncodeByteString_alphabet: "set (EncodeByteString b) \<subseteq> hex_lower"
  by (simp add: EncodeByteString_def hex_nibble half_byte_dcheck)

lemma length_EncodeByteArrayString [simp]:
  "length (EncodeByteArrayString bs) = 2 * length bs"
  by (induction bs) simp_all

lemma EncodeByteArrayString_alphabet: "set (EncodeByteArrayString bs) \<subseteq> hex_lower"
  using EncodeByteString_alphabet by (induction bs) auto

lemma EncodeByteArrayString_append [simp]:
  "EncodeByteArrayString (bs @ cs) = EncodeByteArrayString bs @ EncodeByteArrayString cs"
  by (induction bs) simp_all

lemma decode_loop_encode: "decode_loop (EncodeByteArrayString bs) = Some bs"
proof (induction bs)
  case Nil
  then show ?case by simp
next
  case (Cons b bs)
  obtain h0 h1 where h: "EncodeByteString b = [h0, h1]" by (simp add: EncodeByteString_def)
  with Cons DecodeByteString_EncodeByteString [OF h] show ?case by simp
qed

lemma length_decode_loop: "decode_loop s = Some bs \<Longrightarrow> length bs = length s div 2"
  by (induction s arbitrary: bs rule: decode_loop.induct) (auto split: option.splits)

text \<open>
  What the clients of the codec rely on: decoding undoes encoding, an encoded byte takes two
  characters, and the encoding consists of characters that mean nothing to the packet
  framing.
\<close>

locale byte_string_codec =
  fixes Enc :: "u8 list \<Rightarrow> string" and Dec :: "string \<Rightarrow> u8 list"
  assumes dec_enc: "Dec (Enc bs) = bs"
    and length_enc: "length (Enc bs) = 2 * length bs"
    and enc_alphabet: "set (Enc bs) \<subseteq> hex_lower"
begin

lemma enc_inject: "Enc bs = Enc cs \<longleftrightarrow> bs = cs"
  by (metis dec_enc)

lemma enc_empty_iff: "Enc bs = [] \<longleftrightarrow> bs = []"
  using length_enc [of bs] by auto

lemma enc_no_char: "c \<notin> hex_lower \<Longrightarrow> c \<notin> set (Enc bs)"
  using enc_alphabet by blast

lemma dec_enc_length: "length (Dec (Enc bs)) = n \<longleftrightarrow> length bs = n"
  by (simp add: dec_enc)

end

interpretation hex: byte_string_codec EncodeByteArrayString DecodeByteArrayString
  by unfold_locales
    (simp_all add: DecodeByteArrayString_def decode_loop_encode EncodeByteArrayString_alphabet)

text \<open>
  Decoding the hexadecimal text of any byte sequence gives the sequence back, and the text
  has exactly two characters per byte.
\<close>

lemma DecodeByteArrayString_EncodeByteArrayString:
  "DecodeByteArrayString (EncodeByteArrayString bs) = bs
    \<and> length (EncodeByteArrayString bs) = 2 * length bs"
  by (simp add: hex.dec_enc)

lemma DecodeString_EncodeString: "DecodeString (EncodeString s) = s"
  by (simp add: DecodeString_def EncodeString_def hex.dec_enc comp_def)

lemma DecodeByteArrayString_length:
  "DecodeByteArrayString s \<noteq> [] \<Longrightarrow> length s = 2 * length (DecodeByteArrayString s)"
  by (auto simp: DecodeByteArrayString_def dest: length_decode_loop split: if_splits option.splits)

lemma DecodeByteString_Some:
  "DecodeByteString h0 h1 = Some b \<Longrightarrow> HexCharToByte h0 \<noteq> None \<and> HexCharToByte h1 \<noteq> None"
  by (cases "HexCharToByte h0"; cases "HexCharToByte h1") (simp_all add: DecodeByteString_def)

lemma decode_loop_strict:
  "decode_loop s = Some bs \<Longrightarrow> even (length s) \<Longrightarrow> \<forall>c \<in> set s. HexCharToByte c \<noteq> None"
proof (induction s arbitrary: bs rule: decode_loop.induct)
  case (1 h0 h1 s)
  from "1.prems" obtain b bs' where "DecodeByteString h0 h1 = Some b" "decode_loop s = Some bs'"
    by (simp split: option.splits) blast
  with 1 DecodeByteString_Some [of h0 h1 b] show ?case by simp
qed simp_all

text \<open>
  Whatever is decoded successfully, decoding is strict: an odd number of characters or
  any character that is not a hexadecimal digit gives the empty vector, never a
  partial result.
\<close>

lemma DecodeByteArrayString_strict:
  "DecodeByteArrayString s \<noteq> [] \<Longrightarrow>
     even (length s) \<and> (\<forall>c \<in> set s. HexCharToByte c \<noteq> None)
     \<and> length (DecodeByteArrayString s) = length s div 2"
proof -
  assume "DecodeByteArrayString s \<noteq> []"
  then obtain bs where bs: "decode_loop s = Some bs" "even (length s)"
    and "DecodeByteArrayString s = bs"
    by (auto simp: DecodeByteArrayString_def split: option.splits if_splits)
  with decode_loop_strict [OF bs] length_decode_loop [OF bs(1)] show ?thesis by simp
qed

lemma DecodeByteArrayString_strict_example:
  "DecodeByteArrayString ''0aFf'' = [10, 255] \<and> even (length ''0aFf'')
    \<and> length (DecodeByteArrayString ''0aFf'') = 2"
proof -
  have v: "DecodeByteArrayString ''0aFf'' = [10, 255]" by code_simp
  then have "DecodeByteArrayString ''0aFf'' \<noteq> []" by simp
  from DecodeByteArrayString_strict [OF this] v show ?thesis by simp
qed

section \<open>Joining strings and argument vectors\<close>

fun join :: "char \<Rightarrow> string list \<Rightarrow> string" where
  "join d [] = []"
| "join d [s] = s"
| "join d (s # t # ss) = s @ d # join d (t # ss)"

lemma length_join:
  "ss \<noteq> [] \<Longrightarrow> length (join d ss) = sum_list (map length ss) + (length ss - 1)"
  by (induction d ss rule: join.induct) auto

lemma memcpy_at_append:
  "length pre = i \<Longrightarrow> memcpy_at (pre @ buf) i bs = pre @ bs @ drop (length bs) buf"
  by (simp add: memcpy_at_def)

lemma JoinStrings_loop_join:
  "length pre = index \<Longrightarrow> length (join d ss) \<le> length buf \<Longrightarrow>
    JoinStrings_loop ss d (pre @ buf) index =
      Some (index + length (join d ss), pre @ join d ss @ drop (length (join d ss)) buf)"
proof (induction ss arbitrary: pre buf index)
  case Nil
  then show ?case by simp
next
  case (Cons s ss)
  show ?case
  proof (cases ss)
    case Nil
    with Cons.prems show ?thesis by (simp add: memcpy_at_append Let_def)
  next
    case (Cons t ts)
    then have ne: "ss \<noteq> []" and j: "join d (s # ss) = s @ d # join d ss" by simp_all
    let ?buf = "drop (length s) buf"
    from j Cons.prems have len: "Suc (length s + length (join d ss)) \<le> length buf" by simp
    then have "?buf \<noteq> []" by simp
    then obtain x rest where r: "?buf = x # rest" by (cases ?buf) simp_all
    then have rest: "rest = drop (Suc (length s)) buf" by (simp add: drop_Suc drop_tl)
    have upd: "(pre @ s @ ?buf)[index + length s := d] = (pre @ s @ [d]) @ rest"
      using Cons.prems(1) r by (simp add: list_update_append)
    have "JoinStrings_loop ss d ((pre @ s @ [d]) @ rest) (Suc (index + length s)) =
        Some (Suc (index + length s) + length (join d ss),
          (pre @ s @ [d]) @ join d ss @ drop (length (join d ss)) rest)"
      using len Cons.prems(1) by (intro Cons.IH) (simp_all add: rest)
    then show ?thesis
      using len Cons.prems(1) ne upd
      by (simp add: memcpy_at_append Let_def j rest add.commute)
  qed
qed

text \<open>
  With a buffer of exactly the joined size, no assertion of \<^verbatim>\<open>JoinStrings\<close> can fail; it
  fills the whole buffer with the delimiter-separated strings and returns its size.
\<close>

lemma JoinStrings_exact_fit:
  assumes "length buffer = length (join d ss)"
  shows "JoinStrings ss d buffer = Some (length buffer, join d ss)"
  using JoinStrings_loop_join [of "[]" 0 d ss buffer] assms by (simp add: JoinStrings_def)

lemma JoinStrings_exact_fit_example:
  "JoinStrings [''an'', ''entry''] (CHR '','') (replicate 8 (CHR ''?'')) = Some (8, ''an,entry'')"
proof -
  have "length (replicate 8 (CHR ''?'')) = length (join (CHR '','') [''an'', ''entry''])" by simp
  from JoinStrings_exact_fit [OF this] show ?thesis by simp
qed

lemma takeWhile_word: "\<forall>x \<in> set w. \<not> isspace x \<Longrightarrow>
    takeWhile (\<lambda>x. \<not> isspace x) (w @ CHR '' '' # s) = w"
  by (simp add: takeWhile_append isspace_def)

lemma dropWhile_word: "\<forall>x \<in> set w. \<not> isspace x \<Longrightarrow>
    dropWhile (\<lambda>x. \<not> isspace x) (w @ CHR '' '' # s) = CHR '' '' # s"
  by (simp add: dropWhile_append isspace_def)

lemma BuildArgv_word:
  assumes "a \<noteq> []" and "\<forall>x \<in> set a. \<not> isspace x"
  shows "BuildArgv (a @ CHR '' '' # s) = a # BuildArgv s" and "BuildArgv a = [a]"
proof -
  obtain c w where a: "a = c # w" using assms(1) by (cases a) auto
  with assms(2) have c: "\<not> isspace c" and w: "\<forall>x \<in> set w. \<not> isspace x" by simp_all
  show "BuildArgv (a @ CHR '' '' # s) = a # BuildArgv s"
    using a c takeWhile_word [OF w] dropWhile_word [OF w]
    by (subst BuildArgv.simps) simp
  have "BuildArgv [] = []" by (simp add: BuildArgv.simps)
  moreover have "takeWhile (\<lambda>x. \<not> isspace x) w = w" "dropWhile (\<lambda>x. \<not> isspace x) w = []"
    using w by (simp_all add: takeWhile_eq_all_conv dropWhile_eq_Nil_conv)
  ultimately show "BuildArgv a = [a]"
    using a c by (subst BuildArgv.simps) (simp del: dropWhile_eq_Nil_conv)
qed

lemma argv_tail_Cons: "argv_tail (a # argv) = CHR '' '' # ArgvToString (a # argv)"
  by (simp add: ArgvToString_def)

text \<open>
  Splitting the printed form of an argument vector gives the vector back, provided every
  argument is a non-empty word without blanks (the form \<^verbatim>\<open>BuildArgv\<close> can express).
\<close>

lemma BuildArgv_ArgvToString:
  "\<forall>a \<in> set argv. a \<noteq> [] \<and> (\<forall>x \<in> set a. \<not> isspace x) \<Longrightarrow>
    BuildArgv (ArgvToString argv) = argv"
proof (induction argv)
  case Nil
  then show ?case by (simp add: ArgvToString_def BuildArgv.simps)
next
  case (Cons a argv)
  then have IH: "BuildArgv (ArgvToString argv) = argv" by simp
  show ?case
  proof (cases argv)
    case Nil
    with Cons.prems show ?thesis by (simp add: ArgvToString_def BuildArgv_word)
  next
    case (Cons b rest)
    then have "ArgvToString (a # argv) = a @ CHR '' '' # ArgvToString argv"
      by (simp add: ArgvToString_def)
    with Cons.prems IH show ?thesis by (simp add: BuildArgv_word)
  qed
qed

lemma BuildArgv_ArgvToString_example:
  "BuildArgv (ArgvToString [''/bin/ls'', ''-l'']) = [''/bin/ls'', ''-l'']"
proof -
  have "\<forall>a \<in> set [''/bin/ls'', ''-l'']. a \<noteq> [] \<and> (\<forall>x \<in> set a. \<not> isspace x)" by code_simp
  then show ?thesis by (rule BuildArgv_ArgvToString)
qed

lemma basename_scan_le: "basename_scan s i \<le> i"
  by (induction s i rule: basename_scan.induct) auto

lemma basename_scan_no_slash:
  "basename_scan s i \<le> k \<Longrightarrow> k < i \<Longrightarrow> s ! k \<noteq> CHR ''/''"
  by (induction s i rule: basename_scan.induct) (auto split: if_splits simp: less_Suc_eq)

text \<open>
  The base name of a path that does not end in a slash is the suffix after its last
  slash: it is a suffix of the path, has no slash in it and is not empty.
\<close>

lemma basename_suffix:
  assumes "s \<noteq> []" and "last s \<noteq> CHR ''/''"
  shows "suffix (basename (Some s)) s \<and> CHR ''/'' \<notin> set (basename (Some s))
    \<and> basename (Some s) \<noteq> []"
proof -
  let ?i = "length s - 1"
  let ?k = "basename_scan s ?i"
  have k: "?k \<le> ?i" by (rule basename_scan_le)
  have b: "basename (Some s) = drop ?k s"
    using assms by (auto simp: basename_def Let_def last_conv_nth)
  have "s ! j \<noteq> CHR ''/''" if "?k \<le> j" "j < length s" for j
    using that assms basename_scan_no_slash [of s ?i j]
    by (cases "j = ?i") (auto simp: last_conv_nth)
  then have "CHR ''/'' \<notin> set (drop ?k s)"
    by (auto simp: in_set_conv_nth)
  moreover from k assms(1) have "?k < length s" by (cases s) simp_all
  then have "drop ?k s \<noteq> []" by simp
  ultimately show ?thesis by (simp add: b suffix_drop)
qed

lemma basename_suffix_example: "basename (Some ''/boot/bin/sh'') = ''sh''
    \<and> CHR ''/'' \<notin> set (basename (Some ''/boot/bin/sh''))"
proof -
  have "''/boot/bin/sh'' \<noteq> []" "last ''/boot/bin/sh'' \<noteq> CHR ''/''" by simp_all
  from basename_suffix [OF this] have "CHR ''/'' \<notin> set (basename (Some ''/boot/bin/sh''))"
    by blast
  moreover have "basename (Some ''/boot/bin/sh'') = ''sh''" by code_simp
  ultimately show ?thesis by blast
qed

end
