(* ===== verification/Registers.thy ===== *)
theory Registers
  imports Arch Util
begin

text \<open>
  The register cache of a thread: \<^verbatim>\<open>lib/inferior-control/registers.{h,cc}\<close> and its two
  architecture classes in \<^verbatim>\<open>registers-amd64.cc\<close> and \<^verbatim>\<open>registers-arm64.cc\<close>.  The object state is
  \<^verbatim>\<open>gregs_\<close>, the byte image of the kernel's register structure; its size is the kernel's
  (\<open>mx_sizeof_gregs\<close>).  A function \<open>None\<close>/\<open>Some\<close> pair for \<^verbatim>\<open>return false\<close>/\<^verbatim>\<open>true\<close> is used where
  the method cannot fail an assertion.  The abstract class is the locale \<open>register_file\<close>.
\<close>

section \<open>Definitions\<close>

text \<open>\<^verbatim>\<open>Thread::State\<close>, which the register cache consults.\<close>

datatype ThreadState = thr_kNew | thr_kStopped | thr_kRunning | thr_kStepping | thr_kExiting
  | thr_kGone

fun NUM_REGISTERS :: "arch_kind \<Rightarrow> int" where
  "NUM_REGISTERS Amd64 = 18"
| "NUM_REGISTERS Arm64 = 34"

fun GetPCRegisterNumber :: "arch_kind \<Rightarrow> int" where
  "GetPCRegisterNumber Amd64 = 16"
| "GetPCRegisterNumber Arm64 = 32"

fun GetFPRegisterNumber :: "arch_kind \<Rightarrow> int" where
  "GetFPRegisterNumber Amd64 = 6"
| "GetFPRegisterNumber Arm64 = 29"

fun GetSPRegisterNumber :: "arch_kind \<Rightarrow> int" where
  "GetSPRegisterNumber Amd64 = 7"
| "GetSPRegisterNumber Arm64 = 31"

text \<open>\<open>RefreshRegsetHelper\<close> returns the result and the new contents of the buffer.\<close>

definition RefreshRegsetHelper ::
  "'k mx \<Rightarrow> ThreadState \<Rightarrow> handle \<Rightarrow> nat \<Rightarrow> u8 list \<Rightarrow> 'k \<Rightarrow> (bool \<times> u8 list) option" where
  "RefreshRegsetHelper K state handle regset buf k =
     (if state = thr_kNew then Some (True, replicate (length buf) 0)
      else case mx_thread_read_state K handle regset (length buf) k of
        (status, bytes) \<Rightarrow>
          if status < 0 then Some (False, buf)
          else do {
            dcheck (length bytes = length buf);
            Some (True, bytes)
          })"

definition WriteRegsetHelper :: "'k mx \<Rightarrow> handle \<Rightarrow> nat \<Rightarrow> u8 list \<Rightarrow> 'k \<Rightarrow> bool \<times> 'k" where
  "WriteRegsetHelper K handle regset buf k =
     (case mx_thread_write_state K handle regset buf k of (status, k') \<Rightarrow> (\<not> status < 0, k'))"

definition SetRegsetFromStringHelper :: "nat \<Rightarrow> string \<Rightarrow> u8 list option" where
  "SetRegsetFromStringHelper buf_size value =
     (let bytes = DecodeByteArrayString value in
      if length bytes \<noteq> buf_size then None else Some bytes)"

definition Registers_new :: "'k mx \<Rightarrow> u8 list" where
  "Registers_new K = replicate (mx_sizeof_gregs K) 0"

definition RefreshGeneralRegisters ::
  "'k mx \<Rightarrow> ThreadState \<Rightarrow> handle \<Rightarrow> u8 list \<Rightarrow> 'k \<Rightarrow> (bool \<times> u8 list) option" where
  "RefreshGeneralRegisters K state handle gregs k = RefreshRegsetHelper K state handle 0 gregs k"

definition WriteGeneralRegisters :: "'k mx \<Rightarrow> handle \<Rightarrow> u8 list \<Rightarrow> 'k \<Rightarrow> bool \<times> 'k" where
  "WriteGeneralRegisters K handle gregs k = WriteRegsetHelper K handle 0 gregs k"

text \<open>The class for x86-64.\<close>

definition GetRegisterAsStringHelper :: "u8 list \<Rightarrow> int \<Rightarrow> string option" where
  "GetRegisterAsStringHelper gregs regno =
     do {
       dcheck (regno \<ge> -1 \<and> regno < NUM_REGISTERS Amd64);
       let kDataSize = (if regno < 0 then length gregs else 8);
       let start = (if regno < 0 then 0 else nat regno * 8);
       Some (EncodeByteArrayString (substr gregs start kDataSize))
     }"

definition GetRegisterAsString_amd64 :: "u8 list \<Rightarrow> int \<Rightarrow> string option" where
  "GetRegisterAsString_amd64 gregs regno =
     (if regno < 0 \<or> regno \<ge> NUM_REGISTERS Amd64 then Some ''''
      else GetRegisterAsStringHelper gregs regno)"

definition GetRegister_amd64 :: "u8 list \<Rightarrow> int \<Rightarrow> nat \<Rightarrow> u8 list option" where
  "GetRegister_amd64 gregs regno buf_size =
     (if regno < 0 \<or> regno \<ge> NUM_REGISTERS Amd64 then None
      else if buf_size \<noteq> 8 then None
      else Some (substr gregs (nat regno * 8) buf_size))"

definition SetRegister_amd64 :: "u8 list \<Rightarrow> int \<Rightarrow> u8 list \<Rightarrow> u8 list option" where
  "SetRegister_amd64 gregs regno value =
     (if regno < 0 \<or> regno \<ge> NUM_REGISTERS Amd64 then None
      else if length value \<noteq> 8 then None
      else Some (memcpy_at gregs (nat regno * 8) value))"

definition EFLAGS_TF_MASK :: u64 where
  "EFLAGS_TF_MASK = 0x100"

definition SetSingleStep_amd64 :: "'k mx \<Rightarrow> bool \<Rightarrow> u8 list \<Rightarrow> u8 list" where
  "SetSingleStep_amd64 K enable gregs =
     (let rflags = le_word (substr gregs (mx_rflags_offset K) 8);
          rflags = (if enable then rflags OR EFLAGS_TF_MASK else rflags AND NOT EFLAGS_TF_MASK)
      in memcpy_at gregs (mx_rflags_offset K) (le_bytes 8 rflags))"

text \<open>
  The class for arm64.  On the wire \<^verbatim>\<open>cpsr\<close> has 32 bits: \<open>RspArm64GeneralRegs\<close> is the packed
  structure of 268 bytes.  Both translations pass \<^verbatim>\<open>arraysize(gregs_.r)\<close>, which is 30, to
  \<^verbatim>\<open>memcpy\<close> as a number of bytes.
\<close>

definition sizeof_rsp_arm64 :: nat where
  "sizeof_rsp_arm64 = 30 * 8 + 8 + 8 + 8 + 4"

definition TranslateToRsp :: "u8 list \<Rightarrow> u8 list \<Rightarrow> u8 list" where
  "TranslateToRsp rsp_gregs gregs =
     (let rsp_gregs = memcpy_at rsp_gregs 0 (substr gregs 0 30);
          rsp_gregs = memcpy_at rsp_gregs 240 (substr gregs 240 8);
          rsp_gregs = memcpy_at rsp_gregs 248 (substr gregs 248 8);
          rsp_gregs = memcpy_at rsp_gregs 256 (substr gregs 256 8)
      in memcpy_at rsp_gregs 264 (substr gregs 264 4))"

definition TranslateFromRsp :: "u8 list \<Rightarrow> u8 list \<Rightarrow> u8 list" where
  "TranslateFromRsp rsp_gregs gregs =
     (let gregs = memcpy_at gregs 0 (substr rsp_gregs 0 30);
          gregs = memcpy_at gregs 240 (substr rsp_gregs 240 8);
          gregs = memcpy_at gregs 248 (substr rsp_gregs 248 8);
          gregs = memcpy_at gregs 256 (substr rsp_gregs 256 8)
      in memcpy_at gregs 264 (substr rsp_gregs 264 4 @ [0, 0, 0, 0]))"

definition GetRegisterAsString_arm64 :: "u8 list \<Rightarrow> int \<Rightarrow> string option" where
  "GetRegisterAsString_arm64 gregs regno =
     (if regno < 0 \<or> regno \<ge> NUM_REGISTERS Arm64 then Some ''''
      else
        let data_size = (if regno = 33 then 4 else 8) in
        Some (EncodeByteArrayString (substr gregs (nat regno * 8) data_size)))"

definition GetRegister_arm64 :: "u8 list \<Rightarrow> int \<Rightarrow> nat \<Rightarrow> u8 list option" where
  "GetRegister_arm64 gregs regno buf_size =
     (if regno < 0 \<or> regno \<ge> NUM_REGISTERS Arm64 then None
      else if buf_size \<noteq> 8 then None
      else Some (substr gregs (nat regno * 8) buf_size))"

definition SetRegister_arm64 :: "u8 list \<Rightarrow> int \<Rightarrow> u8 list \<Rightarrow> u8 list option" where
  "SetRegister_arm64 gregs regno value =
     (if regno < 0 \<or> regno \<ge> NUM_REGISTERS Arm64 then None
      else if length value \<noteq> 8 then None
      else Some (memcpy_at gregs (nat regno * 8) value))"

text \<open>The virtual calls.\<close>

definition GetGeneralRegistersAsString :: "'k mx \<Rightarrow> u8 list \<Rightarrow> 'k \<Rightarrow> string option" where
  "GetGeneralRegistersAsString K gregs k =
     (case mx_arch K of
        Amd64 \<Rightarrow> GetRegisterAsStringHelper gregs (-1)
      | Arm64 \<Rightarrow>
          Some (EncodeByteArrayString (TranslateToRsp (stack_bytes K sizeof_rsp_arm64 k) gregs)))"

definition SetGeneralRegistersFromString :: "'k mx \<Rightarrow> string \<Rightarrow> u8 list \<Rightarrow> u8 list option" where
  "SetGeneralRegistersFromString K value gregs =
     (case mx_arch K of
        Amd64 \<Rightarrow> SetRegsetFromStringHelper (length gregs) value
      | Arm64 \<Rightarrow>
          (case SetRegsetFromStringHelper sizeof_rsp_arm64 value of
             None \<Rightarrow> None
           | Some rsp_gregs \<Rightarrow> Some (TranslateFromRsp rsp_gregs gregs)))"

definition GetRegisterAsString :: "arch_kind \<Rightarrow> u8 list \<Rightarrow> int \<Rightarrow> string option" where
  "GetRegisterAsString A gregs regno =
     (case A of Amd64 \<Rightarrow> GetRegisterAsString_amd64 gregs regno
      | Arm64 \<Rightarrow> GetRegisterAsString_arm64 gregs regno)"

definition GetRegister :: "arch_kind \<Rightarrow> u8 list \<Rightarrow> int \<Rightarrow> nat \<Rightarrow> u8 list option" where
  "GetRegister A gregs regno buf_size =
     (case A of Amd64 \<Rightarrow> GetRegister_amd64 gregs regno buf_size
      | Arm64 \<Rightarrow> GetRegister_arm64 gregs regno buf_size)"

definition SetRegister :: "arch_kind \<Rightarrow> u8 list \<Rightarrow> int \<Rightarrow> u8 list \<Rightarrow> u8 list option" where
  "SetRegister A gregs regno value =
     (case A of Amd64 \<Rightarrow> SetRegister_amd64 gregs regno value
      | Arm64 \<Rightarrow> SetRegister_arm64 gregs regno value)"

definition SetSingleStep :: "'k mx \<Rightarrow> bool \<Rightarrow> u8 list \<Rightarrow> bool \<times> u8 list" where
  "SetSingleStep K enable gregs =
     (case mx_arch K of Amd64 \<Rightarrow> (True, SetSingleStep_amd64 K enable gregs)
      | Arm64 \<Rightarrow> (False, gregs))"

definition GetIntRegister :: "arch_kind \<Rightarrow> u8 list \<Rightarrow> int \<Rightarrow> u64 option" where
  "GetIntRegister A gregs regno = map_option le_word (GetRegister A gregs regno 8)"

definition GetPC :: "arch_kind \<Rightarrow> u8 list \<Rightarrow> u64 option" where
  "GetPC A gregs = GetIntRegister A gregs (GetPCRegisterNumber A)"

definition GetSP :: "arch_kind \<Rightarrow> u8 list \<Rightarrow> u64 option" where
  "GetSP A gregs = GetIntRegister A gregs (GetSPRegisterNumber A)"

definition GetFP :: "arch_kind \<Rightarrow> u8 list \<Rightarrow> u64 option" where
  "GetFP A gregs = GetIntRegister A gregs (GetFPRegisterNumber A)"

definition GetUninitializedGeneralRegistersAsString :: "'k mx \<Rightarrow> string" where
  "GetUninitializedGeneralRegistersAsString K =
     replicate ((case mx_arch K of Amd64 \<Rightarrow> mx_sizeof_gregs K | Arm64 \<Rightarrow> sizeof_rsp_arm64) * 2)
       (CHR ''0'')"

section \<open>Register slots\<close>

lemma slot_disjoint: "r \<noteq> r' \<Longrightarrow> r * 8 + 8 \<le> r' * 8 \<or> r' * 8 + 8 \<le> (r :: nat) * 8"
  by presburger

lemma slots_eqI:
  assumes "length g = 8 * n" and "length g' = 8 * n"
    and "\<And>r. r < n \<Longrightarrow> substr g (r * 8) 8 = substr g' (r * 8) 8"
  shows "g = g'"
proof (rule nth_equalityI)
  show "length g = length g'" using assms by simp
  fix i
  assume i: "i < length g"
  let ?r = "i div 8" and ?j = "i mod 8"
  have j: "?j < 8" and ij: "?r * 8 + ?j = i" by simp_all
  have r: "?r < n" using i assms(1) by (simp add: less_mult_imp_div_less)
  then have r8: "?r * 8 + 8 \<le> 8 * n" by simp
  have "substr g (?r * 8) 8 ! ?j = g ! i" "substr g' (?r * 8) 8 ! ?j = g' ! i"
    using assms(1,2) r8 j ij by (simp_all add: substr_def)
  with assms(3) [OF r] show "g ! i = g' ! i" by simp
qed

text \<open>
  The contract of a register class: fixed-width registers numbered from 0, where a write is
  seen by reads of the same register and by no other, and the registers are the whole state.
\<close>

locale register_file =
  fixes Get :: "u8 list \<Rightarrow> int \<Rightarrow> nat \<Rightarrow> u8 list option"
    and Set :: "u8 list \<Rightarrow> int \<Rightarrow> u8 list \<Rightarrow> u8 list option"
    and num :: nat
  assumes get_defined: "(\<exists>v. Get g r 8 = Some v) \<longleftrightarrow> 0 \<le> r \<and> r < int num"
    and get_length: "length g = 8 * num \<Longrightarrow> Get g r 8 = Some v \<Longrightarrow> length v = 8"
    and set_defined: "(\<exists>g'. Set g r v = Some g') \<longleftrightarrow> 0 \<le> r \<and> r < int num \<and> length v = 8"
    and set_length: "length g = 8 * num \<Longrightarrow> Set g r v = Some g' \<Longrightarrow> length g' = 8 * num"
    and get_set: "length g = 8 * num \<Longrightarrow> Set g r v = Some g' \<Longrightarrow> Get g' r 8 = Some v"
    and get_set_other:
      "length g = 8 * num \<Longrightarrow> Set g r v = Some g' \<Longrightarrow> r' \<noteq> r \<Longrightarrow> Get g' r' 8 = Get g r' 8"
    and file_eqI:
      "length g = 8 * num \<Longrightarrow> length g' = 8 * num \<Longrightarrow>
        (\<And>r. 0 \<le> r \<Longrightarrow> r < int num \<Longrightarrow> Get g r 8 = Get g' r 8) \<Longrightarrow> g = g'"
begin

lemma set_get_same: "length g = 8 * num \<Longrightarrow> Get g r 8 = Some v \<Longrightarrow> Set g r v = Some g"
proof -
  assume len: "length g = 8 * num" and get: "Get g r 8 = Some v"
  from get get_defined [of g r] get_length [OF len get] obtain g' where g': "Set g r v = Some g'"
    using set_defined [of g r v] by auto
  have "g' = g"
  proof (rule file_eqI)
    show "length g' = 8 * num" using set_length [OF len g'] .
    show "length g = 8 * num" by (rule len)
    fix r'
    show "Get g' r' 8 = Get g r' 8"
      using get get_set [OF len g'] get_set_other [OF len g'] by (cases "r' = r") simp_all
  qed
  with g' show ?thesis by simp
qed

lemma set_set:
  assumes "length g = 8 * num" and "Set g r v = Some g1" and "Set g1 r w = Some g2"
  shows "Set g r w = Some g2"
proof -
  note l1 = set_length [OF assms(1,2)]
  from assms(3) set_defined [of g1 r w] obtain g3 where g3: "Set g r w = Some g3"
    using set_defined [of g r w] by auto
  have "g3 = g2"
  proof (rule file_eqI)
    show "length g3 = 8 * num" by (rule set_length [OF assms(1) g3])
    show "length g2 = 8 * num" by (rule set_length [OF l1 assms(3)])
    fix r'
    show "Get g3 r' 8 = Get g2 r' 8"
      using get_set [OF assms(1) g3] get_set [OF l1 assms(3)]
        get_set_other [OF assms(1) g3] get_set_other [OF l1 assms(3)]
        get_set_other [OF assms(1,2)] by (cases "r' = r") simp_all
  qed
  with g3 show ?thesis by simp
qed

end

text \<open>Both classes store register \<open>r\<close> in the eight bytes from \<open>8 * r\<close> on.\<close>

definition slot_get :: "nat \<Rightarrow> u8 list \<Rightarrow> int \<Rightarrow> nat \<Rightarrow> u8 list option" where
  "slot_get num g r n =
     (if r < 0 \<or> r \<ge> int num then None else if n \<noteq> 8 then None
      else Some (substr g (nat r * 8) n))"

definition slot_set :: "nat \<Rightarrow> u8 list \<Rightarrow> int \<Rightarrow> u8 list \<Rightarrow> u8 list option" where
  "slot_set num g r v =
     (if r < 0 \<or> r \<ge> int num then None else if length v \<noteq> 8 then None
      else Some (memcpy_at g (nat r * 8) v))"

lemma slot_bound: "0 \<le> r \<Longrightarrow> r < int n \<Longrightarrow> nat r * 8 + 8 \<le> 8 * n"
  by linarith

lemma slot_getD: "slot_get num g r n = Some v \<Longrightarrow>
    0 \<le> r \<and> r < int num \<and> n = 8 \<and> v = substr g (nat r * 8) 8"
  by (auto simp: slot_get_def split: if_splits)

lemma slot_setD: "slot_set num g r v = Some g' \<Longrightarrow>
    0 \<le> r \<and> r < int num \<and> length v = 8 \<and> g' = memcpy_at g (nat r * 8) v"
  by (auto simp: slot_set_def split: if_splits)

lemma slot_register_file: "register_file (slot_get num) (slot_set num) num"
proof
  fix g g' :: "u8 list" and v :: "u8 list" and r :: int
  show "(\<exists>v. slot_get num g r 8 = Some v) \<longleftrightarrow> 0 \<le> r \<and> r < int num" by (auto simp: slot_get_def)
  show "(\<exists>g'. slot_set num g r v = Some g') \<longleftrightarrow> 0 \<le> r \<and> r < int num \<and> length v = 8"
    by (auto simp: slot_set_def)
  assume len: "length g = 8 * num"
  show "length v = 8" if "slot_get num g r 8 = Some v"
    using slot_getD [OF that] slot_bound [of r num] len by (simp add: length_substr)
  show "g = g'" if "length g' = 8 * num"
    and eq: "\<And>r. 0 \<le> r \<Longrightarrow> r < int num \<Longrightarrow> slot_get num g r 8 = slot_get num g' r 8"
  proof (rule slots_eqI [OF len that(1)])
    fix r assume "r < num"
    then show "substr g (r * 8) 8 = substr g' (r * 8) 8"
      using eq [of "int r"] by (simp add: slot_get_def)
  qed
  assume set: "slot_set num g r v = Some g'"
  from slot_setD [OF set] have r: "0 \<le> r" "r < int num" and v: "length v = 8"
    and g': "g' = memcpy_at g (nat r * 8) v" by auto
  have b: "nat r * 8 + length v \<le> length g" using slot_bound [OF r] len v by simp
  show "length g' = 8 * num" using b len by (simp add: g')
  show "slot_get num g' r 8 = Some v"
    using r substr_memcpy_at [OF b] v by (simp add: slot_get_def g')
  fix r' assume ne: "r' \<noteq> r"
  show "slot_get num g' r' 8 = slot_get num g r' 8"
  proof (cases "0 \<le> r' \<and> r' < int num")
    case True
    then have "nat r' \<noteq> nat r" using ne r by (simp add: eq_nat_nat_iff)
    then have "substr g' (nat r' * 8) 8 = substr g (nat r' * 8) 8"
      unfolding g' by (intro substr_memcpy_at_disjoint [OF b]) (use slot_disjoint v in auto)
    then show ?thesis by (simp add: slot_get_def)
  qed (auto simp: slot_get_def)
qed

lemma amd64_slots: "GetRegister_amd64 = slot_get 18" "SetRegister_amd64 = slot_set 18"
  by (intro ext, simp add: GetRegister_amd64_def SetRegister_amd64_def slot_get_def slot_set_def)+

lemma arm64_slots: "GetRegister_arm64 = slot_get 34" "SetRegister_arm64 = slot_set 34"
  by (intro ext, simp add: GetRegister_arm64_def SetRegister_arm64_def slot_get_def slot_set_def)+

interpretation amd64: register_file GetRegister_amd64 SetRegister_amd64 18
  unfolding amd64_slots by (rule slot_register_file)

interpretation arm64: register_file GetRegister_arm64 SetRegister_arm64 34
  unfolding arm64_slots by (rule slot_register_file)

text \<open>
  On both architectures a register written in the cache reads back as written,
  every other register is unchanged, and writing back what was read changes nothing.
\<close>

lemma SetRegister_GetRegister:
  assumes "length gregs = 8 * nat (NUM_REGISTERS A)" and "SetRegister A gregs regno value = Some gregs'"
  shows "GetRegister A gregs' regno 8 = Some value
    \<and> (\<forall>r. r \<noteq> regno \<longrightarrow> GetRegister A gregs' r 8 = GetRegister A gregs r 8)
    \<and> (\<forall>r v. GetRegister A gregs r 8 = Some v \<longrightarrow> SetRegister A gregs r v = Some gregs)"
proof (cases A)
  case Amd64
  with assms have g: "length gregs = 8 * 18" "SetRegister_amd64 gregs regno value = Some gregs'"
    by (simp_all add: SetRegister_def)
  from amd64.get_set [OF g] amd64.get_set_other [OF g] amd64.set_get_same [OF g(1)] show ?thesis
    unfolding Amd64 GetRegister_def SetRegister_def arch_kind.case by blast
next
  case Arm64
  with assms have g: "length gregs = 8 * 34" "SetRegister_arm64 gregs regno value = Some gregs'"
    by (simp_all add: SetRegister_def)
  from arm64.get_set [OF g] arm64.get_set_other [OF g] arm64.set_get_same [OF g(1)] show ?thesis
    unfolding Arm64 GetRegister_def SetRegister_def arch_kind.case by blast
qed

lemma SetRegister_GetRegister_example:
  "\<exists>g'. SetRegister Amd64 (replicate 144 0) 16 [1, 2, 3, 4, 5, 6, 7, 8] = Some g'
    \<and> GetRegister Amd64 g' 16 8 = Some [1, 2, 3, 4, 5, 6, 7, 8]"
proof -
  obtain g' where g': "SetRegister Amd64 (replicate 144 0) 16 [1, 2, 3, 4, 5, 6, 7, 8] = Some g'"
    by (simp add: SetRegister_def SetRegister_amd64_def)
  have "length (replicate 144 (0 :: u8)) = 8 * nat (NUM_REGISTERS Amd64)" by simp
  from SetRegister_GetRegister [OF this g'] g' show ?thesis by blast
qed

section \<open>Register sets as text\<close>

lemma GetRegisterAsStringHelper_all:
  "GetRegisterAsStringHelper gregs (-1) = Some (EncodeByteArrayString gregs)"
  by (simp add: GetRegisterAsStringHelper_def)

text \<open>
  On x86-64 the text of all registers, sent back by the debugger, restores exactly the
  same registers into any cache, and a text of any other size is refused.
\<close>

lemma GeneralRegisters_string_roundtrip:
  assumes "mx_arch K = Amd64" and "length gregs = length cache"
  shows "\<exists>s. GetGeneralRegistersAsString K gregs k = Some s
    \<and> SetGeneralRegistersFromString K s cache = Some gregs
    \<and> (\<forall>t. length t \<noteq> length s \<longrightarrow> length cache \<noteq> 0 \<longrightarrow>
          SetGeneralRegistersFromString K t cache = None)"
proof -
  have "SetGeneralRegistersFromString K t cache = None"
    if "length t \<noteq> 2 * length gregs" "length cache \<noteq> 0" for t
  proof -
    have "length (DecodeByteArrayString t) \<noteq> length cache"
    proof
      assume eq: "length (DecodeByteArrayString t) = length cache"
      with that(2) have "DecodeByteArrayString t \<noteq> []" by auto
      from DecodeByteArrayString_length [OF this] eq that(1) assms(2) show False by simp
    qed
    then show ?thesis
      using assms(1) by (simp add: SetGeneralRegistersFromString_def SetRegsetFromStringHelper_def)
  qed
  moreover have "SetGeneralRegistersFromString K (EncodeByteArrayString gregs) cache = Some gregs"
    using assms
    by (simp add: SetGeneralRegistersFromString_def SetRegsetFromStringHelper_def hex.dec_enc)
  ultimately show ?thesis
    using assms(1) by (simp add: GetGeneralRegistersAsString_def GetRegisterAsStringHelper_all)
qed

lemma GeneralRegisters_string_roundtrip_example:
  "\<exists>s. GetGeneralRegistersAsString ref_mx (replicate 144 7) undefined = Some s
    \<and> SetGeneralRegistersFromString ref_mx s (replicate 144 0) = Some (replicate 144 7)"
proof -
  have A: "mx_arch ref_mx = Amd64" by (simp add: ref_mx_def)
  have "length (replicate 144 (7 :: u8)) = length (replicate 144 (0 :: u8))"
    by (simp only: length_replicate)
  from GeneralRegisters_string_roundtrip [OF A this] show ?thesis by blast
qed

text \<open>
  C37: on arm64 the text of the registers is not the registers: bytes 30 to 239 of it (the
  general registers from the middle of x3 to x29) are whatever the uninitialised local
  structure held, for every register contents.
\<close>

theorem arm64_registers_string_leaks_stack:
  assumes "mx_arch K = Arm64" and "length gregs = 272"
    and "length (stack_bytes K sizeof_rsp_arm64 k) = sizeof_rsp_arm64"
  shows "\<exists>s. GetGeneralRegistersAsString K gregs k = Some s
    \<and> substr (DecodeByteArrayString s) 30 210 = substr (stack_bytes K sizeof_rsp_arm64 k) 30 210"
proof -
  let ?stk = "stack_bytes K sizeof_rsp_arm64 k"
  have keep: "substr (memcpy_at buf i bs) 30 210 = substr buf 30 210"
    if "i + length bs \<le> 30 \<or> 240 \<le> i" "i + length bs \<le> length buf" for buf bs :: "u8 list" and i
    using that by (intro substr_memcpy_at_disjoint) auto
  have "substr (TranslateToRsp ?stk gregs) 30 210 = substr ?stk 30 210"
    using assms(2,3) by (simp add: TranslateToRsp_def Let_def keep length_substr sizeof_rsp_arm64_def)
  with assms(1) show ?thesis by (simp add: GetGeneralRegistersAsString_def hex.dec_enc)
qed

theorem arm64_registers_string_leaks_stack_witness:
  "\<exists>s. GetGeneralRegistersAsString (ref_mx\<lparr>mx_arch := Arm64\<rparr>) (replicate 272 7) undefined = Some s
    \<and> substr (DecodeByteArrayString s) 30 210 = replicate 210 0xaa"
proof -
  let ?K = "ref_mx\<lparr>mx_arch := Arm64\<rparr>"
  have "mx_arch ?K = Arm64" "length (replicate 272 (7 :: u8)) = 272"
    "length (stack_bytes ?K sizeof_rsp_arm64 undefined) = sizeof_rsp_arm64" by (simp_all add: ref_mx_def)
  from arm64_registers_string_leaks_stack [OF this] show ?thesis
    by (simp add: ref_mx_def sizeof_rsp_arm64_def substr_def)
qed

section \<open>Single stepping\<close>

lemma GetIntRegister_amd64:
  "length gregs = 144 \<Longrightarrow> 0 \<le> r \<Longrightarrow> r < 18 \<Longrightarrow>
    GetIntRegister Amd64 gregs r = Some (le_word (substr gregs (nat r * 8) 8))"
  by (simp add: GetIntRegister_def GetRegister_def GetRegister_amd64_def)

lemma SetSingleStep_is_SetRegister:
  assumes "mx_rflags_offset K = 136" and "length gregs = 144"
  shows "SetRegister_amd64 gregs 17 (le_bytes 8
      (let w = le_word (substr gregs 136 8)
       in if enable then w OR EFLAGS_TF_MASK else w AND NOT EFLAGS_TF_MASK))
    = Some (SetSingleStep_amd64 K enable gregs)"
  using assms by (simp add: SetRegister_amd64_def SetSingleStep_amd64_def Let_def)

lemma length_SetSingleStep:
  "mx_rflags_offset K = 136 \<Longrightarrow> length gregs = 144 \<Longrightarrow> length (SetSingleStep_amd64 K e gregs) = 144"
  by (simp add: SetSingleStep_amd64_def Let_def)

text \<open>
  Single stepping is the trap flag and nothing else: enabling it sets bit 8 of the
  flags register, disabling clears it, no other bit and no other register changes, and
  if the flag was clear, disabling restores the registers as they were.
\<close>

lemma SetSingleStep_trap_flag:
  assumes "mx_rflags_offset K = 136" and "length gregs = 144"
    and "GetIntRegister Amd64 gregs 17 = Some w"
  shows "GetIntRegister Amd64 (SetSingleStep_amd64 K enable gregs) 17 =
      Some (if enable then set_bit 8 w else unset_bit 8 w)
    \<and> (\<forall>r. r \<noteq> 17 \<longrightarrow>
        GetRegister Amd64 (SetSingleStep_amd64 K enable gregs) r 8 = GetRegister Amd64 gregs r 8)
    \<and> (\<not> bit w 8 \<longrightarrow> SetSingleStep_amd64 K False (SetSingleStep_amd64 K True gregs) = gregs)"
proof -
  have len: "length gregs = 8 * 18" using assms(2) by simp
  have w: "w = le_word (substr gregs 136 8)" "GetRegister_amd64 gregs 17 8 = Some (substr gregs 136 8)"
    using assms(3) by (simp_all add: GetIntRegister_def GetRegister_def GetRegister_amd64_def)
  note S = SetSingleStep_is_SetRegister [OF assms(1,2)]
  have m: "v OR EFLAGS_TF_MASK = set_bit 8 v" "v AND NOT EFLAGS_TF_MASK = unset_bit 8 v" for v :: u64
    by (simp_all add: EFLAGS_TF_MASK_def set_bit_eq_or unset_bit_eq_and_not)
  have get: "GetRegister_amd64 (SetSingleStep_amd64 K e gregs) 17 8
      = Some (le_bytes 8 (if e then set_bit 8 w else unset_bit 8 w))" for e
    using amd64.get_set [OF len S] by (simp add: w(1) m Let_def)
  have restore: "SetSingleStep_amd64 K False (SetSingleStep_amd64 K True gregs) = gregs"
    if "\<not> bit w 8"
  proof -
    let ?g = "SetSingleStep_amd64 K True gregs"
    have lg: "length ?g = 144" by (rule length_SetSingleStep [OF assms(1,2)])
    have "substr ?g 136 8 = le_bytes 8 (set_bit 8 w)"
      using get [of True] by (simp add: GetRegister_amd64_def)
    then have "SetRegister_amd64 ?g 17 (le_bytes 8 (unset_bit 8 (set_bit 8 w)))
        = Some (SetSingleStep_amd64 K False ?g)"
      using SetSingleStep_is_SetRegister [OF assms(1) lg, of False] by (simp add: m Let_def)
    moreover have "unset_bit 8 (set_bit 8 w) = w"
      using that by (intro bit_word_eqI) (auto simp: bit_unset_bit_iff bit_set_bit_iff)
    moreover have "le_bytes 8 w = substr gregs 136 8"
      using le_bytes_le_word [of "substr gregs 136 8"] assms(2) by (simp add: w(1) length_substr)
    ultimately show ?thesis
      using amd64.set_set [OF len S] amd64.set_get_same [OF len w(2)] by simp
  qed
  show ?thesis
    using get amd64.get_set_other [OF len S] restore
    by (simp add: GetIntRegister_def GetRegister_def)
qed

lemma SetSingleStep_trap_flag_example:
  "GetIntRegister Amd64 (SetSingleStep_amd64 ref_mx True (replicate 144 0)) 17 = Some (set_bit 8 0)"
proof -
  have "mx_rflags_offset ref_mx = 136" "length (replicate 144 (0 :: u8)) = 144"
    by (simp_all add: ref_mx_def)
  moreover have "GetIntRegister Amd64 (replicate 144 0) 17 = Some 0" by code_simp
  ultimately show ?thesis using SetSingleStep_trap_flag [of ref_mx _ 0 True] by simp
qed

end
