(* ===== verification/Byte_Block.thy ===== *)
theory Byte_Block
  imports Magenta
begin

text \<open>
  Blocks of bytes: the interface \<^verbatim>\<open>util::ByteBlock\<close> of \<^verbatim>\<open>lib/debugger-utils/byte-block.h\<close> as the
  locale \<open>byte_block\<close>, its implementation \<^verbatim>\<open>ProcessMemory\<close> on an inferior's memory
  (\<^verbatim>\<open>lib/inferior-control/memory-process.cc\<close>), and \<^verbatim>\<open>ReadString\<close> of \<^verbatim>\<open>util-mx.cc\<close>.  A
  read gives \<open>None\<close> when an assertion fails, \<open>Some None\<close> for \<^verbatim>\<open>false\<close>, \<open>Some (Some bytes)\<close>
  for \<^verbatim>\<open>true\<close>.
\<close>

section \<open>Definitions\<close>

type_synonym read_fn = "u64 \<Rightarrow> nat \<Rightarrow> u8 list option option"

definition ProcessMemory_Read ::
  "'k mx \<Rightarrow> handle \<Rightarrow> u64 \<Rightarrow> nat \<Rightarrow> 'k \<Rightarrow> u8 list option option" where
  "ProcessMemory_Read K handle address len k =
     do {
       dcheck (handle \<noteq> MX_HANDLE_INVALID);
       (case mx_process_read_memory K handle address len k of
          (status, bytes) \<Rightarrow>
            if status \<noteq> NO_ERROR then Some None
            else do {
              dcheck (length bytes = len);
              Some (Some bytes)
            })
     }"

definition ProcessMemory_Write ::
  "'k mx \<Rightarrow> handle \<Rightarrow> u64 \<Rightarrow> u8 list \<Rightarrow> 'k \<Rightarrow> (bool \<times> 'k) option" where
  "ProcessMemory_Write K handle address buffer k =
     (if handle = MX_HANDLE_INVALID then Some (False, k)
      else if length buffer = 0 then Some (True, k)
      else case mx_process_write_memory K handle address buffer k of
        (status, bytes_written, k') \<Rightarrow>
          if status \<noteq> NO_ERROR then Some (False, k')
          else do {
            dcheck (length buffer = bytes_written);
            Some (True, k')
          })"

text \<open>
  The loop of \<^verbatim>\<open>ReadString\<close> with \<^verbatim>\<open>max\<close> bytes left in the buffer: the result and what was
  stored, the final zero included.  It reads \<^verbatim>\<open>max - 1\<close> bytes whatever they are.
\<close>

fun ReadString :: "read_fn \<Rightarrow> u64 \<Rightarrow> nat \<Rightarrow> (bool \<times> u8 list) option" where
  "ReadString Read vaddr (Suc (Suc m)) =
     do {
       r \<leftarrow> Read vaddr 1;
       (case r of
          None \<Rightarrow> Some (False, [0])
        | Some bytes \<Rightarrow>
            do {
              (ok, rest) \<leftarrow> ReadString Read (vaddr + 1) (Suc m);
              Some (ok, bytes @ rest)
            })
     }"
| "ReadString Read vaddr _ = Some (True, [0])"

text \<open>The characters of a buffer as a C string.\<close>

definition c_string :: "u8 list \<Rightarrow> string" where
  "c_string bytes = map char_of_byte (takeWhile (\<lambda>b. b \<noteq> 0) bytes)"

section \<open>The interface\<close>

locale byte_block =
  fixes Read :: "u64 \<Rightarrow> nat \<Rightarrow> 's \<Rightarrow> u8 list option option"
    and Write :: "u64 \<Rightarrow> u8 list \<Rightarrow> 's \<Rightarrow> (bool \<times> 's) option"
  assumes read_total: "Read a n s \<noteq> None"
    and write_total: "Write a bs s \<noteq> None"
    and read_length: "Read a n s = Some (Some bs) \<Longrightarrow> length bs = n"
    and write_read: "bs \<noteq> [] \<Longrightarrow> Write a bs s = Some (True, s') \<Longrightarrow> Read a (length bs) s' = Some (Some bs)"
    and write_frame:
      "Write a bs s = Some (True, s') \<Longrightarrow> addr_range a (length bs) \<inter> addr_range a' m = {} \<Longrightarrow>
        Read a' m s' = Read a' m s"
begin

lemma patch_restore:
  assumes "Read a 1 s = Some (Some [x])" and "Write a [y] s = Some (True, s1)"
    and "Write a [x] s1 = Some (True, s2)"
  shows "Read a' 1 s2 = Read a' 1 s"
proof (cases "a' = a")
  case True
  with write_read [OF _ assms(3)] assms(1) show ?thesis by simp
next
  case False
  then have "Read a' 1 s2 = Read a' 1 s1" "Read a' 1 s1 = Read a' 1 s"
    using write_frame [OF assms(3), of a' 1] write_frame [OF assms(2), of a' 1] by simp_all
  then show ?thesis by simp
qed

lemma patch_visible:
  "Write a [y] s = Some (True, s1) \<Longrightarrow>
    Read a 1 s1 = Some (Some [y]) \<and> (\<forall>a'. a' \<noteq> a \<longrightarrow> Read a' 1 s1 = Read a' 1 s)"
  using write_read [of "[y]" a s s1] write_frame [of a "[y]" s s1 _ 1] by simp

lemma read_1: "Read a (Suc 0) s = Some (Some bs) \<Longrightarrow> \<exists>x. bs = [x]"
  using read_length [of a "Suc 0" s bs] by (cases bs) auto

end

section \<open>Memory of an inferior\<close>

text \<open>A process we hold a valid handle of.\<close>

locale mx_process = mx_kernel K for K :: "'k mx" +
  fixes handle :: handle
  assumes handle_valid: "handle \<noteq> MX_HANDLE_INVALID"

sublocale mx_process \<subseteq> mem: byte_block "ProcessMemory_Read K handle" "ProcessMemory_Write K handle"
proof
  fix a a' :: u64 and bs bs' :: "u8 list" and s s' :: 'k and m n :: nat
  show "ProcessMemory_Read K handle a n s \<noteq> None"
    using read_memory_size [of handle a n s]
    by (auto simp: ProcessMemory_Read_def handle_valid split: prod.splits)
  show "ProcessMemory_Write K handle a bs s \<noteq> None"
    using write_memory_size [of handle a bs s]
    by (auto simp: ProcessMemory_Write_def split: prod.splits)
  show "length bs' = n" if "ProcessMemory_Read K handle a n s = Some (Some bs')"
    using that by (auto simp: ProcessMemory_Read_def split: prod.splits if_splits)
  assume w: "ProcessMemory_Write K handle a bs s = Some (True, s')"
  show "ProcessMemory_Read K handle a (length bs) s' = Some (Some bs)" if "bs \<noteq> []"
    using w that write_read_memory [of handle a bs s]
    by (auto simp: ProcessMemory_Write_def ProcessMemory_Read_def handle_valid
        split: prod.splits if_splits)
  show "ProcessMemory_Read K handle a' m s' = ProcessMemory_Read K handle a' m s"
    if "addr_range a (length bs) \<inter> addr_range a' m = {}"
    using w that write_read_memory_disjoint [of handle a bs s]
    by (auto simp: ProcessMemory_Write_def ProcessMemory_Read_def split: prod.splits if_splits)
qed

context mx_process
begin

lemma memory_byte_block: "byte_block (ProcessMemory_Read K handle) (ProcessMemory_Write K handle)"
  by (rule mem.byte_block_axioms)

end

interpretation ref_process: mx_process ref_mx 2
  by unfold_locales simp

text \<open>
  Memory written to the inferior is what a later read returns, a read that does not
  overlap the write sees no change, and with a valid handle neither call can fail an
  assertion.
\<close>

lemma ProcessMemory_write_read:
  assumes "mx_kernel K" and "handle \<noteq> MX_HANDLE_INVALID"
  shows "ProcessMemory_Read K handle a n k \<noteq> None \<and> ProcessMemory_Write K handle a bs k \<noteq> None
    \<and> (ProcessMemory_Write K handle a bs k = Some (True, k') \<and> bs \<noteq> [] \<longrightarrow>
        ProcessMemory_Read K handle a (length bs) k' = Some (Some bs)
        \<and> (\<forall>a' m. addr_range a (length bs) \<inter> addr_range a' m = {} \<longrightarrow>
            ProcessMemory_Read K handle a' m k' = ProcessMemory_Read K handle a' m k))"
proof -
  have "mx_process K handle" using assms by (simp add: mx_process_def mx_process_axioms_def)
  then have bb: "byte_block (ProcessMemory_Read K handle) (ProcessMemory_Write K handle)"
    by (rule mx_process.memory_byte_block)
  show ?thesis
    using byte_block.read_total [OF bb] byte_block.write_total [OF bb]
      byte_block.write_read [OF bb] byte_block.write_frame [OF bb] by blast
qed

lemma ProcessMemory_write_read_example:
  "\<forall>k. \<exists>k'. ProcessMemory_Write ref_mx 2 0x1000 [1, 2] k = Some (True, k')
    \<and> ProcessMemory_Read ref_mx 2 0x1000 2 k' = Some (Some [1, 2])"
proof
  fix k
  obtain k' where k': "ProcessMemory_Write ref_mx 2 0x1000 [1, 2] k = Some (True, k')"
    by (simp add: ProcessMemory_Write_def ref_mx_def)
  with ProcessMemory_write_read [where handle = 2 and k = k and k' = k' and a = "0x1000"
      and bs = "[1, 2]", OF ref_mx.mx_kernel_axioms]
  show "\<exists>k'. ProcessMemory_Write ref_mx 2 0x1000 [1, 2] k = Some (True, k')
      \<and> ProcessMemory_Read ref_mx 2 0x1000 2 k' = Some (Some [1, 2])"
    by (simp add: numeral_2_eq_2)
qed

section \<open>Strings in memory\<close>

lemma ReadString_length:
  "ReadString Read v m = Some (True, bs) \<Longrightarrow> \<forall>a bs. Read a 1 = Some (Some bs) \<longrightarrow> length bs = 1 \<Longrightarrow>
    m \<noteq> 0 \<Longrightarrow> length bs = m"
  by (induction Read v m arbitrary: bs rule: ReadString.induct)
    (auto simp: bind_eq_Some_conv split: option.splits)

text \<open>
  Reading a string of at most \<open>m\<close> bytes succeeds only if all \<open>m - 1\<close> bytes are readable: one
  unreadable byte among them makes it fail, also when it lies behind the end of the string.
\<close>

lemma ReadString_reads_past_end:
  assumes "\<forall>a. Read a 1 \<noteq> None" and "Suc i < m" and "Read (vaddr + of_nat i) 1 = Some None"
  shows "\<exists>bs. ReadString Read vaddr m = Some (False, bs)"
  using assms
proof (induction Read vaddr m arbitrary: i rule: ReadString.induct)
  case (1 Read vaddr m)
  show ?case
  proof (cases i)
    case 0
    with "1.prems"(3) show ?thesis by simp
  next
    case (Suc j)
    obtain r where r: "Read vaddr 1 = Some r" using "1.prems"(1) by blast
    show ?thesis
    proof (cases r)
      case None
      with r show ?thesis by simp
    next
      case (Some bytes)
      have "Read (vaddr + 1 + of_nat j) 1 = Some None" "Suc j < Suc m"
        using "1.prems"(2,3) Suc by (simp_all add: add.assoc)
      with "1.IH" [OF r Some "1.prems"(1), of j] r Some show ?thesis by auto
    qed
  qed
qed simp_all

definition test_block :: read_fn where
  "test_block a n = (if a = 3 then Some None else Some (Some (replicate n 0)))"

lemma ReadString_reads_past_end_example: "\<exists>bs. ReadString test_block 0 64 = Some (False, bs)"
  by (rule ReadString_reads_past_end [where i = 3]) (simp_all add: test_block_def)

end
