(* ===== verification/Breakpoint.thy ===== *)
theory Breakpoint
  imports Registers Byte_Block
begin

text \<open>
  Breakpoints: \<^verbatim>\<open>lib/inferior-control/breakpoint.{h,cc}\<close>, \<^verbatim>\<open>breakpoint-amd64.cc\<close> and
  \<^verbatim>\<open>breakpoint-arm64.cc\<close> (where every operation is unimplemented and returns false).  An
  operation returns the result, the breakpoint and the state it acts on: the kernel for a
  software breakpoint, the thread's register cache and the kernel for a single step.  The
  contract of the abstract class \<^verbatim>\<open>Breakpoint\<close> is the locale \<open>breakpoint\<close>.
\<close>

section \<open>Definitions\<close>

definition kInt3 :: u8 where "kInt3 = 0xCC"

record SoftwareBreakpoint =
  sb_address :: u64
  sb_kind :: nat
  sb_original_bytes :: "u8 list"

definition SoftwareBreakpoint_new :: "u64 \<Rightarrow> nat \<Rightarrow> SoftwareBreakpoint" where
  "SoftwareBreakpoint_new address kind =
     \<lparr>sb_address = address, sb_kind = kind, sb_original_bytes = []\<rparr>"

definition SoftwareBreakpoint_IsInserted :: "arch_kind \<Rightarrow> SoftwareBreakpoint \<Rightarrow> bool" where
  "SoftwareBreakpoint_IsInserted A b =
     (case A of Amd64 \<Rightarrow> sb_original_bytes b \<noteq> [] | Arm64 \<Rightarrow> False)"

definition SoftwareBreakpoint_Insert ::
  "'k mx \<Rightarrow> handle \<Rightarrow> SoftwareBreakpoint \<Rightarrow> 'k \<Rightarrow> (bool \<times> SoftwareBreakpoint \<times> 'k) option" where
  "SoftwareBreakpoint_Insert K h b k =
     (case mx_arch K of
        Arm64 \<Rightarrow> Some (False, b, k)
      | Amd64 \<Rightarrow>
          if SoftwareBreakpoint_IsInserted Amd64 b then Some (False, b, k)
          else if sb_kind b \<noteq> 1 then Some (False, b, k)
          else do {
            orig \<leftarrow> ProcessMemory_Read K h (sb_address b) 1 k;
            (case orig of
               None \<Rightarrow> Some (False, b, k)
             | Some bytes \<Rightarrow>
                 do {
                   (ok, k) \<leftarrow> ProcessMemory_Write K h (sb_address b) [kInt3] k;
                   if \<not> ok then Some (False, b, k)
                   else Some (True, b\<lparr>sb_original_bytes := sb_original_bytes b @ bytes\<rparr>, k)
                 })
          })"

definition SoftwareBreakpoint_Remove ::
  "'k mx \<Rightarrow> handle \<Rightarrow> SoftwareBreakpoint \<Rightarrow> 'k \<Rightarrow> (bool \<times> SoftwareBreakpoint \<times> 'k) option" where
  "SoftwareBreakpoint_Remove K h b k =
     (case mx_arch K of
        Arm64 \<Rightarrow> Some (False, b, k)
      | Amd64 \<Rightarrow>
          if \<not> SoftwareBreakpoint_IsInserted Amd64 b then Some (False, b, k)
          else do {
            dcheck (length (sb_original_bytes b) = 1);
            (ok, k) \<leftarrow> ProcessMemory_Write K h (sb_address b) (sb_original_bytes b) k;
            if \<not> ok then Some (False, b, k)
            else Some (True, b\<lparr>sb_original_bytes := []\<rparr>, k)
          })"

text \<open>The destructor: remove if still inserted.\<close>

definition SoftwareBreakpoint_destroy :: "'k mx \<Rightarrow> handle \<Rightarrow> SoftwareBreakpoint \<Rightarrow> 'k \<Rightarrow> 'k option" where
  "SoftwareBreakpoint_destroy K h b k =
     (if SoftwareBreakpoint_IsInserted (mx_arch K) b then
        map_option (\<lambda>(ok, b, k). k) (SoftwareBreakpoint_Remove K h b k)
      else Some k)"

type_synonym ProcessBreakpointSet = "u64 \<rightharpoonup> SoftwareBreakpoint"

definition InsertSoftwareBreakpoint ::
  "'k mx \<Rightarrow> handle \<Rightarrow> u64 \<Rightarrow> nat \<Rightarrow> ProcessBreakpointSet \<Rightarrow> 'k
    \<Rightarrow> (bool \<times> ProcessBreakpointSet \<times> 'k) option" where
  "InsertSoftwareBreakpoint K h address kind bset k =
     (if bset address \<noteq> None then Some (False, bset, k)
      else do {
        (ok, b, k) \<leftarrow> SoftwareBreakpoint_Insert K h (SoftwareBreakpoint_new address kind) k;
        if \<not> ok then do {
          k \<leftarrow> SoftwareBreakpoint_destroy K h b k;
          Some (False, bset, k)
        }
        else Some (True, bset(address \<mapsto> b), k)
      })"

definition RemoveSoftwareBreakpoint ::
  "'k mx \<Rightarrow> handle \<Rightarrow> u64 \<Rightarrow> ProcessBreakpointSet \<Rightarrow> 'k
    \<Rightarrow> (bool \<times> ProcessBreakpointSet \<times> 'k) option" where
  "RemoveSoftwareBreakpoint K h address bset k =
     (case bset address of
        None \<Rightarrow> Some (False, bset, k)
      | Some b \<Rightarrow>
          do {
            (ok, b, k) \<leftarrow> SoftwareBreakpoint_Remove K h b k;
            if \<not> ok then Some (False, bset(address \<mapsto> b), k)
            else do {
              k \<leftarrow> SoftwareBreakpoint_destroy K h b k;
              Some (True, bset(address := None), k)
            }
          })"

text \<open>
  Single stepping acts on a thread with state \<open>st\<close> and handle \<open>h\<close>; the state is its register
  cache and the kernel.  A single-step breakpoint is its address and the flag \<^verbatim>\<open>inserted_\<close>.
\<close>

type_synonym SingleStepBreakpoint = "u64 \<times> bool"
type_synonym 'k regs_state = "u8 list \<times> 'k"

definition SetRflagsTF ::
  "'k mx \<Rightarrow> ThreadState \<Rightarrow> handle \<Rightarrow> bool \<Rightarrow> 'k regs_state \<Rightarrow> (bool \<times> 'k regs_state) option" where
  "SetRflagsTF K st h enable s =
     (case s of (gregs, k) \<Rightarrow>
        do {
          (ok, gregs) \<leftarrow> RefreshGeneralRegisters K st h gregs k;
          if \<not> ok then Some (False, gregs, k)
          else
            (case SetSingleStep K enable gregs of
               (ok, gregs) \<Rightarrow>
                 if \<not> ok then Some (False, gregs, k)
                 else
                   (case WriteGeneralRegisters K h gregs k of
                      (ok, k) \<Rightarrow> if \<not> ok then Some (False, gregs, k) else Some (True, gregs, k)))
        })"

definition SingleStepBreakpoint_IsInserted :: "arch_kind \<Rightarrow> SingleStepBreakpoint \<Rightarrow> bool" where
  "SingleStepBreakpoint_IsInserted A b = (case A of Amd64 \<Rightarrow> snd b | Arm64 \<Rightarrow> False)"

definition SingleStepBreakpoint_Insert ::
  "'k mx \<Rightarrow> ThreadState \<Rightarrow> handle \<Rightarrow> SingleStepBreakpoint \<Rightarrow> 'k regs_state
    \<Rightarrow> (bool \<times> SingleStepBreakpoint \<times> 'k regs_state) option" where
  "SingleStepBreakpoint_Insert K st h b s =
     (case mx_arch K of
        Arm64 \<Rightarrow> Some (False, b, s)
      | Amd64 \<Rightarrow>
          if SingleStepBreakpoint_IsInserted Amd64 b then Some (False, b, s)
          else do {
            (ok, s) \<leftarrow> SetRflagsTF K st h True s;
            if \<not> ok then Some (False, b, s) else Some (True, (fst b, True), s)
          })"

definition SingleStepBreakpoint_Remove ::
  "'k mx \<Rightarrow> ThreadState \<Rightarrow> handle \<Rightarrow> SingleStepBreakpoint \<Rightarrow> 'k regs_state
    \<Rightarrow> (bool \<times> SingleStepBreakpoint \<times> 'k regs_state) option" where
  "SingleStepBreakpoint_Remove K st h b s =
     (case mx_arch K of
        Arm64 \<Rightarrow> Some (False, b, s)
      | Amd64 \<Rightarrow>
          if \<not> SingleStepBreakpoint_IsInserted Amd64 b then Some (False, b, s)
          else do {
            (ok, s) \<leftarrow> SetRflagsTF K st h False s;
            if \<not> ok then Some (False, b, s) else Some (True, (fst b, False), s)
          })"

definition SingleStepBreakpoint_destroy ::
  "'k mx \<Rightarrow> ThreadState \<Rightarrow> handle \<Rightarrow> SingleStepBreakpoint \<Rightarrow> 'k regs_state \<Rightarrow> 'k regs_state option" where
  "SingleStepBreakpoint_destroy K st h b s =
     (if SingleStepBreakpoint_IsInserted (mx_arch K) b then
        map_option (\<lambda>(ok, b, s). s) (SingleStepBreakpoint_Remove K st h b s)
      else Some s)"

text \<open>\<^verbatim>\<open>ThreadBreakpointSet\<close>: at most one single-step breakpoint.\<close>

definition InsertSingleStepBreakpoint ::
  "'k mx \<Rightarrow> ThreadState \<Rightarrow> handle \<Rightarrow> u64 \<Rightarrow> SingleStepBreakpoint option \<Rightarrow> 'k regs_state
    \<Rightarrow> (bool \<times> SingleStepBreakpoint option \<times> 'k regs_state) option" where
  "InsertSingleStepBreakpoint K st h address ss s =
     (if ss \<noteq> None then Some (False, ss, s)
      else do {
        (ok, b, s) \<leftarrow> SingleStepBreakpoint_Insert K st h (address, False) s;
        if \<not> ok then do {
          s \<leftarrow> SingleStepBreakpoint_destroy K st h b s;
          Some (False, ss, s)
        }
        else Some (True, Some b, s)
      })"

definition RemoveSingleStepBreakpoint ::
  "'k mx \<Rightarrow> ThreadState \<Rightarrow> handle \<Rightarrow> SingleStepBreakpoint option \<Rightarrow> 'k regs_state
    \<Rightarrow> (bool \<times> SingleStepBreakpoint option \<times> 'k regs_state) option" where
  "RemoveSingleStepBreakpoint K st h ss s =
     (case ss of
        None \<Rightarrow> Some (False, ss, s)
      | Some b \<Rightarrow>
          do {
            s \<leftarrow> SingleStepBreakpoint_destroy K st h b s;
            Some (True, None, s)
          })"

definition SingleStepBreakpointInserted :: "SingleStepBreakpoint option \<Rightarrow> bool" where
  "SingleStepBreakpointInserted ss \<longleftrightarrow> ss \<noteq> None"

section \<open>The contract of the class\<close>

locale breakpoint =
  fixes Insert Remove :: "'b \<Rightarrow> 's \<Rightarrow> (bool \<times> 'b \<times> 's) option" and IsInserted :: "'b \<Rightarrow> bool"
  assumes insert_true: "Insert b s = Some (True, b', s') \<Longrightarrow> \<not> IsInserted b \<and> IsInserted b'"
    and insert_false: "Insert b s = Some (False, b', s') \<Longrightarrow> b' = b"
    and remove_true: "Remove b s = Some (True, b', s') \<Longrightarrow> IsInserted b \<and> \<not> IsInserted b'"
    and remove_false: "Remove b s = Some (False, b', s') \<Longrightarrow> b' = b"
begin

lemma insert_twice: "Insert b s = Some (True, b', s') \<Longrightarrow> Insert b' t = Some (ok, b'', t') \<Longrightarrow> \<not> ok"
  using insert_true [of b s b' s'] insert_true [of b' t b'' t'] by (cases ok) simp_all

lemma remove_twice: "Remove b s = Some (True, b', s') \<Longrightarrow> Remove b' t = Some (ok, b'', t') \<Longrightarrow> \<not> ok"
  using remove_true [of b s b' s'] remove_true [of b' t b'' t'] by (cases ok) simp_all

lemma insert_status: "Insert b s = Some (ok, b', s') \<Longrightarrow> IsInserted b' \<longleftrightarrow> ok \<or> IsInserted b"
  using insert_true [of b s b' s'] insert_false [of b s b' s'] by (cases ok) simp_all

lemma remove_status: "Remove b s = Some (ok, b', s') \<Longrightarrow> IsInserted b' \<longleftrightarrow> \<not> ok \<and> IsInserted b"
  using remove_true [of b s b' s'] remove_false [of b s b' s'] by (cases ok) simp_all

end

lemma Read_1_nonempty: "ProcessMemory_Read K h a (Suc 0) k = Some (Some bs) \<Longrightarrow> \<exists>x. bs = [x]"
  by (cases bs) (auto simp: ProcessMemory_Read_def split: prod.splits if_splits)

lemma SoftwareBreakpoint_Insert_cases:
  assumes "SoftwareBreakpoint_Insert K h b k = Some (ok, b', k')"
  obtains (no) "\<not> ok" "b' = b"
    | (yes) orig where "ok" "mx_arch K = Amd64" "sb_original_bytes b = []" "sb_kind b = 1"
      "ProcessMemory_Read K h (sb_address b) 1 k = Some (Some [orig])"
      "ProcessMemory_Write K h (sb_address b) [kInt3] k = Some (True, k')"
      "b' = b\<lparr>sb_original_bytes := [orig]\<rparr>"
  using assms
  by (auto simp: SoftwareBreakpoint_Insert_def SoftwareBreakpoint_IsInserted_def bind_eq_Some_conv
      dest!: Read_1_nonempty split: arch_kind.splits option.splits if_splits)

lemma SoftwareBreakpoint_Remove_cases:
  assumes "SoftwareBreakpoint_Remove K h b k = Some (ok, b', k')"
  obtains (no) "\<not> ok" "b' = b"
    | (yes) orig where "ok" "mx_arch K = Amd64" "sb_original_bytes b = [orig]"
      "ProcessMemory_Write K h (sb_address b) [orig] k = Some (True, k')"
      "b' = b\<lparr>sb_original_bytes := []\<rparr>"
  using assms
  by (auto simp: SoftwareBreakpoint_Remove_def SoftwareBreakpoint_IsInserted_def bind_eq_Some_conv
      length_Suc_conv split: arch_kind.splits if_splits)

interpretation swb: breakpoint "SoftwareBreakpoint_Insert K h" "SoftwareBreakpoint_Remove K h"
  "SoftwareBreakpoint_IsInserted (mx_arch K)" for K h
  by unfold_locales
    (auto simp: SoftwareBreakpoint_IsInserted_def
      elim: SoftwareBreakpoint_Insert_cases SoftwareBreakpoint_Remove_cases)

interpretation ssb: breakpoint "SingleStepBreakpoint_Insert K st h" "SingleStepBreakpoint_Remove K st h"
  "SingleStepBreakpoint_IsInserted (mx_arch K)" for K st h
  by unfold_locales
    (auto simp: SingleStepBreakpoint_Insert_def SingleStepBreakpoint_Remove_def
      SingleStepBreakpoint_IsInserted_def bind_eq_Some_conv split: arch_kind.splits if_splits)

section \<open>Software breakpoints and the memory of the inferior\<close>

text \<open>\<open>bset_wf\<close>: every recorded breakpoint is at its key and holds one original byte.\<close>

definition bset_wf :: "ProcessBreakpointSet \<Rightarrow> bool" where
  "bset_wf bset \<longleftrightarrow>
     (\<forall>a b. bset a = Some b \<longrightarrow> sb_address b = a \<and> length (sb_original_bytes b) = 1)"

lemma swb_destroy_fresh:
  "SoftwareBreakpoint_destroy K h (SoftwareBreakpoint_new a n) k = Some k"
  "SoftwareBreakpoint_destroy K h (b\<lparr>sb_original_bytes := []\<rparr>) k = Some k"
  by (cases "mx_arch K"; simp add: SoftwareBreakpoint_destroy_def SoftwareBreakpoint_new_def
      SoftwareBreakpoint_IsInserted_def)+

lemma InsertSoftwareBreakpoint_cases:
  assumes "InsertSoftwareBreakpoint K h a n bset k = Some (ok, bset', k')"
  obtains (no) "\<not> ok" "bset' = bset"
    | (yes) orig where "ok" "bset a = None" "mx_arch K = Amd64"
      "ProcessMemory_Read K h a 1 k = Some (Some [orig])"
      "ProcessMemory_Write K h a [kInt3] k = Some (True, k')"
      "bset' = bset(a \<mapsto> \<lparr>sb_address = a, sb_kind = 1, sb_original_bytes = [orig]\<rparr>)"
  using assms
  by (auto simp: InsertSoftwareBreakpoint_def bind_eq_Some_conv SoftwareBreakpoint_new_def
      elim!: SoftwareBreakpoint_Insert_cases split: if_splits)

lemma RemoveSoftwareBreakpoint_cases:
  assumes "RemoveSoftwareBreakpoint K h a bset k = Some (ok, bset', k')"
  obtains (no) "\<not> ok" "bset' = bset"
    | (yes) b orig where "ok" "bset a = Some b" "mx_arch K = Amd64" "sb_original_bytes b = [orig]"
      "ProcessMemory_Write K h (sb_address b) [orig] k = Some (True, k')"
      "bset' = bset(a := None)"
  using assms
  by (auto simp: RemoveSoftwareBreakpoint_def bind_eq_Some_conv swb_destroy_fresh map_upd_triv
      elim!: SoftwareBreakpoint_Remove_cases split: option.splits if_splits)

lemma bset_wf_Insert:
  "bset_wf bset \<Longrightarrow> InsertSoftwareBreakpoint K h a n bset k = Some (ok, bset', k') \<Longrightarrow> bset_wf bset'"
  by (erule InsertSoftwareBreakpoint_cases) (auto simp: bset_wf_def)

lemma bset_wf_Remove:
  "bset_wf bset \<Longrightarrow> RemoveSoftwareBreakpoint K h a bset k = Some (ok, bset', k') \<Longrightarrow> bset_wf bset'"
  by (erule RemoveSoftwareBreakpoint_cases) (auto simp: bset_wf_def)

text \<open>
  The program as it was before any breakpoint: the byte at an address is the original byte of
  the breakpoint there, or what memory holds.
\<close>

definition program_byte ::
  "'k mx \<Rightarrow> handle \<Rightarrow> ProcessBreakpointSet \<Rightarrow> 'k \<Rightarrow> u64 \<Rightarrow> u8 list option option" where
  "program_byte K h bset k a =
     (case bset a of Some b \<Rightarrow> Some (Some (sb_original_bytes b)) | None \<Rightarrow> ProcessMemory_Read K h a 1 k)"

definition patched :: "'k mx \<Rightarrow> handle \<Rightarrow> ProcessBreakpointSet \<Rightarrow> 'k \<Rightarrow> bool" where
  "patched K h bset k \<longleftrightarrow> (\<forall>a \<in> dom bset. ProcessMemory_Read K h a 1 k = Some (Some [kInt3]))"

context mx_process
begin

lemma insert_program_byte:
  assumes "InsertSoftwareBreakpoint K handle a n bset k = Some (True, bset', k')"
    and "patched K handle bset k"
  shows "program_byte K handle bset' k' x = program_byte K handle bset k x" and "patched K handle bset' k'"
proof -
  from assms(1) obtain orig where ins: "bset a = None"
    "ProcessMemory_Read K handle a 1 k = Some (Some [orig])"
    "ProcessMemory_Write K handle a [kInt3] k = Some (True, k')"
    "bset' = bset(a \<mapsto> \<lparr>sb_address = a, sb_kind = 1, sb_original_bytes = [orig]\<rparr>)"
    by (cases rule: InsertSoftwareBreakpoint_cases) auto
  have r: "ProcessMemory_Read K handle a 1 k' = Some (Some [kInt3])"
    "y \<noteq> a \<Longrightarrow> ProcessMemory_Read K handle y 1 k' = ProcessMemory_Read K handle y 1 k" for y
    using mem.patch_visible [OF ins(3)] by simp_all
  show "program_byte K handle bset' k' x = program_byte K handle bset k x"
    using ins r(2) [of x] by (cases "x = a") (auto simp: program_byte_def split: option.splits)
  show "patched K handle bset' k'"
    unfolding patched_def
  proof
    fix y
    assume "y \<in> dom bset'"
    with ins(4) r assms(2) show "ProcessMemory_Read K handle y 1 k' = Some (Some [kInt3])"
      by (cases "y = a") (auto simp: patched_def)
  qed
qed

lemma remove_program_byte:
  assumes "RemoveSoftwareBreakpoint K handle a bset k = Some (True, bset', k')"
    and "bset_wf bset" and "patched K handle bset k"
  shows "program_byte K handle bset' k' x = program_byte K handle bset k x" and "patched K handle bset' k'"
proof -
  from assms(1,2) obtain b orig where rem: "bset a = Some b" "sb_original_bytes b = [orig]"
    "ProcessMemory_Write K handle a [orig] k = Some (True, k')" "bset' = bset(a := None)"
    by (cases rule: RemoveSoftwareBreakpoint_cases) (auto simp: bset_wf_def)
  have r: "ProcessMemory_Read K handle a 1 k' = Some (Some [orig])"
    "y \<noteq> a \<Longrightarrow> ProcessMemory_Read K handle y 1 k' = ProcessMemory_Read K handle y 1 k" for y
    using mem.patch_visible [OF rem(3)] by simp_all
  show "program_byte K handle bset' k' x = program_byte K handle bset k x"
    using rem r by (cases "x = a") (auto simp: program_byte_def split: option.splits)
  show "patched K handle bset' k'"
    using rem r assms(3) by (auto simp: patched_def)
qed

end

text \<open>
  C30: breakpoints are transparent: inserting or removing a software breakpoint (successfully)
  changes no byte of the program under it, every recorded breakpoint is in memory, and removing a
  breakpoint right after inserting it restores memory byte by byte.
\<close>

theorem SoftwareBreakpoint_transparent:
  assumes "mx_kernel K" and "h \<noteq> MX_HANDLE_INVALID" and "bset_wf bset" and "patched K h bset k"
    and "InsertSoftwareBreakpoint K h a n bset k = Some (True, bset1, k1)"
    and "RemoveSoftwareBreakpoint K h r bset1 k1 = Some (True, bset2, k2)"
  shows "(\<forall>x. program_byte K h bset1 k1 x = program_byte K h bset k x
        \<and> program_byte K h bset2 k2 x = program_byte K h bset k x)
    \<and> bset_wf bset2 \<and> patched K h bset1 k1 \<and> patched K h bset2 k2
    \<and> (r = a \<longrightarrow> bset2 = bset \<and> (\<forall>x. ProcessMemory_Read K h x 1 k2 = ProcessMemory_Read K h x 1 k))"
proof -
  have P: "mx_process K h" using assms(1,2) by (simp add: mx_process_def mx_process_axioms_def)
  note wf1 = bset_wf_Insert [OF assms(3,5)]
  note i = mx_process.insert_program_byte [OF P assms(5,4)]
  note m = mx_process.remove_program_byte [OF P assms(6) wf1 i(2)]
  have fresh: "bset a = None" "bset2 = bset1(r := None)" "\<exists>b. bset1 = bset(a \<mapsto> b)"
    using assms(5,6)
    by (auto elim: InsertSoftwareBreakpoint_cases RemoveSoftwareBreakpoint_cases)
  have same: "bset2 = bset" if "r = a" using fresh that by (auto simp: fun_upd_idem)
  have "ProcessMemory_Read K h x 1 k2 = ProcessMemory_Read K h x 1 k" if "r = a" for x
  proof (cases "bset x")
    case None
    then show ?thesis using m(1) [of x] i(1) [of x] same [OF that] by (simp add: program_byte_def)
  next
    case (Some b)
    then have "x \<in> dom bset" "x \<in> dom bset2" using same [OF that] by auto
    then show ?thesis using m(2) assms(4) by (simp add: patched_def)
  qed
  with same i m bset_wf_Remove [OF wf1 assms(6)] show ?thesis by simp
qed

definition demo_kernel :: ref_kernel where
  "demo_kernel =
     \<lparr>rk_mem = (\<lambda>a. ucast a), rk_regs = (\<lambda>h. replicate 144 0), rk_threads = [3, 4], rk_resumed = [],
      rk_fds = [], rk_files = (\<lambda>p. [])\<rparr>"

theorem SoftwareBreakpoint_transparent_witness:
  "\<exists>bset1 k1 k2. InsertSoftwareBreakpoint ref_mx 2 0x1000 1 Map.empty demo_kernel = Some (True, bset1, k1)
    \<and> RemoveSoftwareBreakpoint ref_mx 2 0x1000 bset1 k1 = Some (True, Map.empty, k2)
    \<and> (\<forall>x. ProcessMemory_Read ref_mx 2 x 1 k2 = ProcessMemory_Read ref_mx 2 x 1 demo_kernel)"
proof -
  obtain bset1 k1 where i:
    "InsertSoftwareBreakpoint ref_mx 2 0x1000 1 Map.empty demo_kernel = Some (True, bset1, k1)"
    by (simp add: InsertSoftwareBreakpoint_def SoftwareBreakpoint_Insert_def SoftwareBreakpoint_new_def
        SoftwareBreakpoint_IsInserted_def ProcessMemory_Read_def ProcessMemory_Write_def)
  then obtain b x where "bset1 0x1000 = Some b" "sb_original_bytes b = [x]"
    by (cases rule: InsertSoftwareBreakpoint_cases) auto
  then obtain bset2 k2 where r: "RemoveSoftwareBreakpoint ref_mx 2 0x1000 bset1 k1 = Some (True, bset2, k2)"
    by (simp add: RemoveSoftwareBreakpoint_def SoftwareBreakpoint_Remove_def swb_destroy_fresh
        SoftwareBreakpoint_IsInserted_def ProcessMemory_Write_def)
  have e: "bset_wf Map.empty" "patched ref_mx 2 Map.empty demo_kernel"
    by (simp_all add: bset_wf_def patched_def)
  from SoftwareBreakpoint_transparent [OF ref_mx.mx_kernel_axioms _ e i r] i r show ?thesis by auto
qed

section \<open>Single-step breakpoints and the registers of the thread\<close>

lemma RefreshGeneralRegisters_live:
  assumes "mx_kernel K" and "st \<noteq> thr_kNew" and "length gregs = mx_sizeof_gregs K"
  shows "\<exists>ok g. RefreshGeneralRegisters K st h gregs k = Some (ok, g) \<and> length g = mx_sizeof_gregs K
    \<and> (ok \<longrightarrow> (\<exists>s. 0 \<le> s \<and> mx_thread_read_state K h 0 (mx_sizeof_gregs K) k = (s, g)))"
  using assms(2,3) mx_kernel.read_state_size [OF assms(1), of h 0 "mx_sizeof_gregs K" k]
  by (auto simp: RefreshGeneralRegisters_def RefreshRegsetHelper_def not_less split: prod.splits)

lemma RefreshGeneralRegisters_length:
  "RefreshGeneralRegisters K st h gregs k = Some (ok, g) \<Longrightarrow> length g = length gregs"
  by (auto simp: RefreshGeneralRegisters_def RefreshRegsetHelper_def split: prod.splits if_splits)

lemma SetRflagsTF_total:
  assumes "mx_kernel K" and "length gregs = mx_sizeof_gregs K"
  shows "\<exists>ok s. SetRflagsTF K st h e (gregs, k) = Some (ok, s)"
proof -
  obtain ok g where "RefreshGeneralRegisters K st h gregs k = Some (ok, g)"
    using RefreshGeneralRegisters_live [OF assms(1) _ assms(2), of st h k]
    by (cases "st = thr_kNew") (auto simp: RefreshGeneralRegisters_def RefreshRegsetHelper_def)
  then show ?thesis by (auto simp: SetRflagsTF_def split: prod.splits)
qed

lemma SetRflagsTF_True:
  assumes "mx_kernel K" and "mx_arch K = Amd64" and "length gregs = mx_sizeof_gregs K" and "st \<noteq> thr_kNew"
    and "SetRflagsTF K st h e (gregs, k) = Some (True, gregs', k')"
  shows "\<exists>s g0 s'. 0 \<le> s \<and> mx_thread_read_state K h 0 144 k = (s, g0) \<and> length g0 = 144
    \<and> gregs' = SetSingleStep_amd64 K e g0
    \<and> 0 \<le> s' \<and> mx_thread_read_state K h 0 144 k' = (s', gregs')"
proof -
  have sz: "mx_sizeof_gregs K = 144" and off: "mx_rflags_offset K = 136"
    using mx_kernel.layout [OF assms(1)] assms(2) by simp_all
  from RefreshGeneralRegisters_live [OF assms(1,4,3), of h k] sz obtain ok g0 where
    r: "RefreshGeneralRegisters K st h gregs k = Some (ok, g0)" "length g0 = 144"
      "ok \<longrightarrow> (\<exists>s. 0 \<le> s \<and> mx_thread_read_state K h 0 144 k = (s, g0))" by auto
  let ?g = "SetSingleStep_amd64 K e g0"
  from assms(5) r(1) have ok: "ok" "gregs' = ?g" and
    w: "WriteGeneralRegisters K h ?g k = (True, k')"
    by (auto simp: SetRflagsTF_def SetSingleStep_def assms(2) split: prod.splits if_splits)
  from w obtain s where "mx_thread_write_state K h 0 ?g k = (s, k')" "0 \<le> s"
    by (auto simp: WriteGeneralRegisters_def WriteRegsetHelper_def not_less split: prod.splits)
  from mx_kernel.write_read_state [OF assms(1) this] length_SetSingleStep [OF off r(2)]
  obtain s' where "0 \<le> s'" "mx_thread_read_state K h 0 144 k' = (s', ?g)" by auto
  with r(2,3) ok show ?thesis by blast
qed

text \<open>
  Inserting the single-step breakpoint of a stopped x86-64 thread sets the trap flag in the
  registers the kernel holds for it, and removing it clears the flag; no other register is
  touched, and neither operation can fail an assertion.
\<close>

lemma SingleStepBreakpoint_sets_TF:
  assumes "mx_kernel K" and "mx_arch K = Amd64" and "length gregs = mx_sizeof_gregs K" and "st \<noteq> thr_kNew"
  shows "SingleStepBreakpoint_Insert K st h (a, False) (gregs, k) \<noteq> None
    \<and> (SingleStepBreakpoint_Insert K st h (a, False) (gregs, k) = Some (True, b, gregs1, k1) \<longrightarrow>
        (\<exists>s0 g0 s1. mx_thread_read_state K h 0 144 k = (s0, g0)
          \<and> mx_thread_read_state K h 0 144 k1 = (s1, gregs1) \<and> b = (a, True)
          \<and> gregs1 = SetSingleStep_amd64 K True g0))
    \<and> (SingleStepBreakpoint_Remove K st h (a, True) (gregs, k) = Some (True, b, gregs1, k1) \<longrightarrow>
        (\<exists>s0 g0 s1. mx_thread_read_state K h 0 144 k = (s0, g0)
          \<and> mx_thread_read_state K h 0 144 k1 = (s1, gregs1) \<and> b = (a, False)
          \<and> gregs1 = SetSingleStep_amd64 K False g0))"
proof (intro conjI impI)
  show "SingleStepBreakpoint_Insert K st h (a, False) (gregs, k) \<noteq> None"
    using SetRflagsTF_total [OF assms(1,3), of st h True k]
    by (auto simp: SingleStepBreakpoint_Insert_def SingleStepBreakpoint_IsInserted_def assms(2))
next
  assume "SingleStepBreakpoint_Insert K st h (a, False) (gregs, k) = Some (True, b, gregs1, k1)"
  then have "SetRflagsTF K st h True (gregs, k) = Some (True, gregs1, k1)" "b = (a, True)"
    by (auto simp: SingleStepBreakpoint_Insert_def SingleStepBreakpoint_IsInserted_def assms(2)
        bind_eq_Some_conv split: if_splits)
  with SetRflagsTF_True [OF assms] show "\<exists>s0 g0 s1. mx_thread_read_state K h 0 144 k = (s0, g0)
      \<and> mx_thread_read_state K h 0 144 k1 = (s1, gregs1) \<and> b = (a, True)
      \<and> gregs1 = SetSingleStep_amd64 K True g0" by blast
next
  assume "SingleStepBreakpoint_Remove K st h (a, True) (gregs, k) = Some (True, b, gregs1, k1)"
  then have "SetRflagsTF K st h False (gregs, k) = Some (True, gregs1, k1)" "b = (a, False)"
    by (auto simp: SingleStepBreakpoint_Remove_def SingleStepBreakpoint_IsInserted_def assms(2)
        bind_eq_Some_conv split: if_splits)
  with SetRflagsTF_True [OF assms] show "\<exists>s0 g0 s1. mx_thread_read_state K h 0 144 k = (s0, g0)
      \<and> mx_thread_read_state K h 0 144 k1 = (s1, gregs1) \<and> b = (a, False)
      \<and> gregs1 = SetSingleStep_amd64 K False g0" by blast
qed

lemma SingleStepBreakpoint_sets_TF_example:
  "SingleStepBreakpoint_Insert ref_mx thr_kStopped 4 (0, False) (replicate 144 0, demo_kernel) \<noteq> None"
proof -
  have "mx_arch ref_mx = Amd64" "length (replicate 144 (0 :: u8)) = mx_sizeof_gregs ref_mx"
    "thr_kStopped \<noteq> thr_kNew" by simp_all
  from SingleStepBreakpoint_sets_TF [OF ref_mx.mx_kernel_axioms this] show ?thesis by blast
qed

end
