(* ===== verification/Thread.thy ===== *)
theory Thread
  imports Breakpoint
begin

text \<open>
  Threads of an inferior: \<^verbatim>\<open>lib/inferior-control/thread.{h,cc}\<close>.  The object is a record; \<open>t_oid\<close>
  is its identity, which weak pointers refer to, and \<open>t_ss\<close> the single-step breakpoint of its
  \<^verbatim>\<open>ThreadBreakpointSet\<close>.  \<^verbatim>\<open>ipt_buffer_\<close>, which the constructor does not set, is \<open>None\<close> until it is
  assigned.  Every operation takes and returns the thread and the kernel.
\<close>

section \<open>Definitions\<close>

record thread =
  t_oid :: nat
  t_handle :: handle
  t_id :: u64
  t_state :: ThreadState
  t_gregs :: "u8 list"
  t_ss :: "SingleStepBreakpoint option"
  t_exc :: "mx_exception_context option"
  t_ipt_buffer :: "int option"

fun Thread_StateName :: "ThreadState \<Rightarrow> string" where
  "Thread_StateName thr_kNew = ''kNew''"
| "Thread_StateName thr_kStopped = ''kStopped''"
| "Thread_StateName thr_kRunning = ''kRunning''"
| "Thread_StateName thr_kStepping = ''kStepping''"
| "Thread_StateName thr_kExiting = ''kExiting''"
| "Thread_StateName thr_kGone = ''kGone''"

definition Thread_new :: "'k mx \<Rightarrow> nat \<Rightarrow> handle \<Rightarrow> u64 \<Rightarrow> thread option" where
  "Thread_new K oid handle tid =
     do {
       dcheck (handle \<noteq> MX_HANDLE_INVALID);
       dcheck (tid \<noteq> MX_KOID_INVALID);
       Some \<lparr>t_oid = oid, t_handle = handle, t_id = tid, t_state = thr_kNew,
             t_gregs = Registers_new K, t_ss = None, t_exc = None, t_ipt_buffer = None\<rparr>
     }"

definition Thread_set_state :: "ThreadState \<Rightarrow> thread \<Rightarrow> thread option" where
  "Thread_set_state state t =
     do {
       dcheck (state \<noteq> thr_kNew);
       Some (t\<lparr>t_state := state\<rparr>)
     }"

definition Thread_IsLive :: "thread \<Rightarrow> bool" where
  "Thread_IsLive t \<longleftrightarrow> t_state t \<in> {thr_kNew, thr_kStopped, thr_kRunning, thr_kStepping}"

definition Thread_Clear :: "'k mx \<Rightarrow> thread \<Rightarrow> 'k \<Rightarrow> thread \<times> 'k" where
  "Thread_Clear K t k =
     (t\<lparr>t_handle := MX_HANDLE_INVALID\<rparr>,
      if t_handle t \<noteq> MX_HANDLE_INVALID then mx_handle_close K (t_handle t) k else k)"

text \<open>
  The destructor clears the thread and then destroys its members, the breakpoint set before
  the registers; a single-step breakpoint still inserted is removed from a thread without handle.
\<close>

definition Thread_destroy :: "'k mx \<Rightarrow> thread \<Rightarrow> 'k \<Rightarrow> 'k option" where
  "Thread_destroy K t k =
     (case Thread_Clear K t k of (t, k) \<Rightarrow>
        (case t_ss t of
           None \<Rightarrow> Some k
         | Some b \<Rightarrow>
             map_option snd
               (SingleStepBreakpoint_destroy K (t_state t) (t_handle t) b (t_gregs t, k))))"

definition Thread_GetGdbSignal :: "arch_kind \<Rightarrow> thread \<Rightarrow> GdbSignal option" where
  "Thread_GetGdbSignal A t =
     (case t_exc t of
        None \<Rightarrow> Some sig_kUnsupported
      | Some context \<Rightarrow> ComputeGdbSignal A context)"

text \<open>The calls on the members \<^verbatim>\<open>registers_\<close> and \<^verbatim>\<open>breakpoints_\<close> of a thread.\<close>

definition Thread_RefreshGeneralRegisters :: "'k mx \<Rightarrow> thread \<Rightarrow> 'k \<Rightarrow> (bool \<times> thread) option" where
  "Thread_RefreshGeneralRegisters K t k =
     do {
       (ok, gregs) \<leftarrow> RefreshGeneralRegisters K (t_state t) (t_handle t) (t_gregs t) k;
       Some (ok, t\<lparr>t_gregs := gregs\<rparr>)
     }"

definition Thread_RemoveSingleStep :: "'k mx \<Rightarrow> thread \<Rightarrow> 'k \<Rightarrow> (bool \<times> thread \<times> 'k) option" where
  "Thread_RemoveSingleStep K t k =
     do {
       (ok, ss, gregs, k) \<leftarrow>
         RemoveSingleStepBreakpoint K (t_state t) (t_handle t) (t_ss t) (t_gregs t, k);
       Some (ok, t\<lparr>t_ss := ss, t_gregs := gregs\<rparr>, k)
     }"

definition Thread_InsertSingleStep :: "'k mx \<Rightarrow> u64 \<Rightarrow> thread \<Rightarrow> 'k \<Rightarrow> (bool \<times> thread \<times> 'k) option" where
  "Thread_InsertSingleStep K pc t k =
     do {
       (ok, ss, gregs, k) \<leftarrow>
         InsertSingleStepBreakpoint K (t_state t) (t_handle t) pc (t_ss t) (t_gregs t, k);
       Some (ok, t\<lparr>t_ss := ss, t_gregs := gregs\<rparr>, k)
     }"

definition Thread_OnException ::
  "'k mx \<Rightarrow> mx_excp_type \<Rightarrow> mx_exception_context \<Rightarrow> thread \<Rightarrow> 'k \<Rightarrow> (thread \<times> 'k) option" where
  "Thread_OnException K type context t k =
     do {
       let t = t\<lparr>t_exc := Some context\<rparr>;
       let prev_state = t_state t;
       t \<leftarrow> Thread_set_state thr_kStopped t;
       if prev_state = thr_kStepping \<and> type \<noteq> MX_EXCP_THREAD_EXITING then
         do {
           dcheck (SingleStepBreakpointInserted (t_ss t));
           (ok, t, k) \<leftarrow> Thread_RemoveSingleStep K t k;
           Some (t, k)
         }
       else Some (t, k)
     }"

definition Thread_Resume :: "'k mx \<Rightarrow> thread \<Rightarrow> 'k \<Rightarrow> bool \<times> thread \<times> 'k" where
  "Thread_Resume K t k =
     (if t_state t \<noteq> thr_kStopped \<and> t_state t \<noteq> thr_kNew then (False, t, k)
      else case mx_task_resume K (t_handle t) k of
        (status, k) \<Rightarrow>
          if status < 0 then (False, t, k) else (True, t\<lparr>t_state := thr_kRunning\<rparr>, k))"

definition Thread_ResumeForExit :: "'k mx \<Rightarrow> thread \<Rightarrow> 'k \<Rightarrow> (thread \<times> 'k) option" where
  "Thread_ResumeForExit K t k =
     do {
       dcheck (t_state t \<in> {thr_kNew, thr_kStopped, thr_kExiting});
       (case mx_task_resume K (t_handle t) k of
          (status, k) \<Rightarrow>
            do {
              t \<leftarrow> Thread_set_state thr_kGone t;
              Some (Thread_Clear K t k)
            })
     }"

definition Thread_Step :: "'k mx \<Rightarrow> thread \<Rightarrow> 'k \<Rightarrow> (bool \<times> thread \<times> 'k) option" where
  "Thread_Step K t k =
     (if t_state t \<noteq> thr_kStopped then Some (False, t, k)
      else do {
        (ok, t) \<leftarrow> Thread_RefreshGeneralRegisters K t k;
        if \<not> ok then Some (False, t, k)
        else do {
          pc \<leftarrow> GetPC (mx_arch K) (t_gregs t);
          (ok, t, k) \<leftarrow> Thread_InsertSingleStep K pc t k;
          if \<not> ok then Some (False, t, k)
          else
            (case mx_task_resume K (t_handle t) k of
               (status, k) \<Rightarrow>
                 if status < 0 then
                   do {
                     (ok, t, k) \<leftarrow> Thread_RemoveSingleStep K t k;
                     Some (False, t, k)
                   }
                 else Some (True, t\<lparr>t_state := thr_kStepping\<rparr>, k))
        }
      })"

section \<open>The state machine of a thread\<close>

text \<open>
  \<open>thread_step\<close>: the operations in the order a process may call them on a thread (exceptions are
  delivered only to threads that are not gone).
\<close>

inductive thread_step :: "'k mx \<Rightarrow> thread \<times> 'k \<Rightarrow> thread \<times> 'k \<Rightarrow> bool" for K where
  exception: "t_state t \<noteq> thr_kGone \<Longrightarrow> Thread_OnException K type context t k = Some (t', k') \<Longrightarrow>
    thread_step K (t, k) (t', k')"
| resume: "Thread_Resume K t k = (ok, t', k') \<Longrightarrow> thread_step K (t, k) (t', k')"
| step: "Thread_Step K t k = Some (ok, t', k') \<Longrightarrow> thread_step K (t, k) (t', k')"
| exit: "Thread_ResumeForExit K t k = Some (t', k') \<Longrightarrow> thread_step K (t, k) (t', k')"
| refresh: "Thread_RefreshGeneralRegisters K t k = Some (ok, t') \<Longrightarrow> thread_step K (t, k) (t', k)"
| world: "thread_step K (t, k) (t, k')"

inductive thread_reach :: "'k mx \<Rightarrow> thread \<times> 'k \<Rightarrow> bool" for K where
  start: "Thread_new K oid h i = Some t \<Longrightarrow> thread_reach K (t, k)"
| more: "thread_reach K s \<Longrightarrow> thread_step K s s' \<Longrightarrow> thread_reach K s'"

definition thread_ok :: "'k mx \<Rightarrow> thread \<Rightarrow> bool" where
  "thread_ok K t \<longleftrightarrow> length (t_gregs t) = mx_sizeof_gregs K \<and> t_id t \<noteq> MX_KOID_INVALID
     \<and> t_state t \<noteq> thr_kExiting
     \<and> (t_state t = thr_kStepping \<longrightarrow> t_ss t \<noteq> None)
     \<and> (t_state t = thr_kNew \<longrightarrow> t_ss t = None \<and> t_exc t = None)
     \<and> (t_handle t = MX_HANDLE_INVALID \<longleftrightarrow> t_state t = thr_kGone)"

lemma SetSingleStep_length:
  assumes "mx_kernel K" and "length g = mx_sizeof_gregs K" and "SetSingleStep K e g = (ok, g')"
  shows "length g' = mx_sizeof_gregs K"
proof (cases "mx_arch K")
  case Amd64
  then have "length g = 144" "mx_rflags_offset K = 136" "mx_sizeof_gregs K = 144"
    using assms(2) mx_kernel.layout [OF assms(1)] by simp_all
  with Amd64 assms(3) length_SetSingleStep show ?thesis by (auto simp: SetSingleStep_def)
qed (use assms in \<open>auto simp: SetSingleStep_def\<close>)

lemma SetRflagsTF_length:
  assumes "mx_kernel K" and "length g = mx_sizeof_gregs K"
    and "SetRflagsTF K st h e (g, k) = Some (ok, g', k')"
  shows "length g' = mx_sizeof_gregs K"
proof -
  obtain ok0 g0 where r: "RefreshGeneralRegisters K st h g k = Some (ok0, g0)"
    using assms(3) by (auto simp: SetRflagsTF_def bind_eq_Some_conv)
  have g0: "length g0 = mx_sizeof_gregs K" using RefreshGeneralRegisters_length [OF r] assms(2) by simp
  obtain ok1 g1 where ss: "SetSingleStep K e g0 = (ok1, g1)" by fastforce
  from SetSingleStep_length [OF assms(1) g0 ss] g0 assms(3) r ss show ?thesis
    by (auto simp: SetRflagsTF_def split: if_splits prod.splits)
qed

lemma ss_destroy:
  assumes "mx_kernel K" and "length g = mx_sizeof_gregs K"
  shows "\<exists>g' k'. SingleStepBreakpoint_destroy K st h b (g, k) = Some (g', k')
    \<and> length g' = mx_sizeof_gregs K"
  using SetRflagsTF_total [OF assms, of st h False k] SetRflagsTF_length [OF assms] assms(2)
  by (cases "mx_arch K")
    (fastforce simp: SingleStepBreakpoint_destroy_def SingleStepBreakpoint_Remove_def
      SingleStepBreakpoint_IsInserted_def)+

lemma ss_remove:
  assumes "mx_kernel K" and "length (t_gregs t) = mx_sizeof_gregs K" and "t_ss t \<noteq> None"
  shows "\<exists>g k'. Thread_RemoveSingleStep K t k = Some (True, t\<lparr>t_ss := None, t_gregs := g\<rparr>, k')
    \<and> length g = mx_sizeof_gregs K"
  using ss_destroy [OF assms(1,2), of "t_state t" "t_handle t" "the (t_ss t)" k] assms(3)
  by (auto simp: Thread_RemoveSingleStep_def RemoveSingleStepBreakpoint_def)

lemma InsertSingleStepBreakpoint_total:
  assumes "mx_kernel K" and "length g = mx_sizeof_gregs K"
  shows "\<exists>ok ss' g' k'. InsertSingleStepBreakpoint K st h pc ss (g, k) = Some (ok, ss', g', k')
    \<and> length g' = mx_sizeof_gregs K \<and> (if ok then ss = None \<and> ss' \<noteq> None else ss' = ss)"
proof (cases "ss = None \<and> mx_arch K = Amd64")
  case True
  obtain ok g' k' where tf: "SetRflagsTF K st h True (g, k) = Some (ok, g', k')"
    using SetRflagsTF_total [OF assms, of st h True k] by auto
  have "length g' = mx_sizeof_gregs K" by (rule SetRflagsTF_length [OF assms tf])
  with True tf show ?thesis
    by (cases ok) (auto simp: InsertSingleStepBreakpoint_def SingleStepBreakpoint_Insert_def
        SingleStepBreakpoint_IsInserted_def SingleStepBreakpoint_destroy_def)
next
  case False
  with assms(2) show ?thesis
    by (cases "mx_arch K") (auto simp: InsertSingleStepBreakpoint_def SingleStepBreakpoint_Insert_def
        SingleStepBreakpoint_IsInserted_def SingleStepBreakpoint_destroy_def)
qed

lemma ss_insert:
  assumes "mx_kernel K" and "length (t_gregs t) = mx_sizeof_gregs K"
  shows "\<exists>ok ss g k'. Thread_InsertSingleStep K pc t k = Some (ok, t\<lparr>t_ss := ss, t_gregs := g\<rparr>, k')
    \<and> length g = mx_sizeof_gregs K \<and> (if ok then t_ss t = None \<and> ss \<noteq> None else ss = t_ss t)"
proof -
  obtain ok ss' g' k' where
    "InsertSingleStepBreakpoint K (t_state t) (t_handle t) pc (t_ss t) (t_gregs t, k) = Some (ok, ss', g', k')"
    "length g' = mx_sizeof_gregs K" "if ok then t_ss t = None \<and> ss' \<noteq> None else ss' = t_ss t"
    using InsertSingleStepBreakpoint_total [OF assms] by blast
  then have "Thread_InsertSingleStep K pc t k = Some (ok, t\<lparr>t_ss := ss', t_gregs := g'\<rparr>, k')"
    by (simp add: Thread_InsertSingleStep_def)
  with \<open>length g' = _\<close> \<open>if ok then _ else _\<close> show ?thesis by blast
qed

lemma Thread_refresh:
  assumes "mx_kernel K" and "length (t_gregs t) = mx_sizeof_gregs K"
  shows "\<exists>ok g. Thread_RefreshGeneralRegisters K t k = Some (ok, t\<lparr>t_gregs := g\<rparr>)
    \<and> length g = mx_sizeof_gregs K"
  using RefreshGeneralRegisters_live [OF assms(1) _ assms(2), of "t_state t" "t_handle t" k] assms(2)
  by (cases "t_state t = thr_kNew")
    (auto simp: Thread_RefreshGeneralRegisters_def RefreshGeneralRegisters_def RefreshRegsetHelper_def)

lemma GetPC_defined: "length g = mx_sizeof_gregs K \<Longrightarrow> \<exists>pc. GetPC (mx_arch K) g = Some pc"
  by (cases "mx_arch K") (simp_all add: GetPC_def GetIntRegister_def GetRegister_def
      GetRegister_amd64_def GetRegister_arm64_def)

section \<open>Every operation keeps the invariant\<close>

lemma thread_ok_new: "Thread_new K oid h i = Some t \<Longrightarrow> thread_ok K t \<and> t_state t = thr_kNew"
  by (auto simp: Thread_new_def thread_ok_def Registers_new_def)

lemma thread_ok_OnException:
  assumes "mx_kernel K" and "thread_ok K t" and "t_state t \<noteq> thr_kGone"
  shows "\<exists>t' k'. Thread_OnException K type context t k = Some (t', k') \<and> thread_ok K t'
    \<and> t_state t' = thr_kStopped \<and> t_exc t' = Some context \<and> t_oid t' = t_oid t \<and> t_id t' = t_id t
    \<and> t_handle t' = t_handle t
    \<and> (t_state t = thr_kStepping \<and> type \<noteq> MX_EXCP_THREAD_EXITING \<longrightarrow> t_ss t' = None)"
proof (cases "t_state t = thr_kStepping \<and> type \<noteq> MX_EXCP_THREAD_EXITING")
  case True
  let ?t = "t\<lparr>t_exc := Some context, t_state := thr_kStopped\<rparr>"
  obtain g k' where "Thread_RemoveSingleStep K ?t k = Some (True, ?t\<lparr>t_ss := None, t_gregs := g\<rparr>, k')"
    "length g = mx_sizeof_gregs K"
    using ss_remove [OF assms(1), of ?t k] assms(2) True by (auto simp: thread_ok_def)
  with True assms(2) show ?thesis
    by (auto simp: Thread_OnException_def Thread_set_state_def SingleStepBreakpointInserted_def
        thread_ok_def)
next
  case False
  with assms(2,3) show ?thesis
    by (auto simp: Thread_OnException_def Thread_set_state_def thread_ok_def Let_def)
qed

lemma thread_ok_Resume:
  "thread_ok K t \<Longrightarrow> Thread_Resume K t k = (ok, t', k') \<Longrightarrow> thread_ok K t'
    \<and> t_oid t' = t_oid t \<and> t_id t' = t_id t
    \<and> (if ok then t_state t \<in> {thr_kNew, thr_kStopped} \<and> t_state t' = thr_kRunning else t' = t)"
  by (auto simp: Thread_Resume_def thread_ok_def split: if_splits prod.splits)

lemma thread_ok_ResumeForExit:
  "thread_ok K t \<Longrightarrow> Thread_ResumeForExit K t k = Some (t', k') \<Longrightarrow>
    thread_ok K t' \<and> t_state t' = thr_kGone \<and> t_oid t' = t_oid t \<and> t_id t' = t_id t"
  by (auto simp: Thread_ResumeForExit_def Thread_set_state_def Thread_Clear_def thread_ok_def
      split: prod.splits)

lemma thread_ok_Step:
  assumes "mx_kernel K" and "thread_ok K t"
  shows "\<exists>ok t' k'. Thread_Step K t k = Some (ok, t', k') \<and> thread_ok K t'
    \<and> t_oid t' = t_oid t \<and> t_id t' = t_id t
    \<and> (if ok then t_state t = thr_kStopped \<and> t_ss t = None \<and> t_state t' = thr_kStepping
        else t_state t' = t_state t \<and> t_ss t' = t_ss t)"
proof (cases "t_state t = thr_kStopped")
  case False
  with assms(2) show ?thesis by (auto simp: Thread_Step_def)
next
  case True
  have len: "length (t_gregs t) = mx_sizeof_gregs K" using assms(2) by (simp add: thread_ok_def)
  obtain ok g where r: "Thread_RefreshGeneralRegisters K t k = Some (ok, t\<lparr>t_gregs := g\<rparr>)"
    "length g = mx_sizeof_gregs K" using Thread_refresh [OF assms(1) len] by blast
  let ?t = "t\<lparr>t_gregs := g\<rparr>"
  have len': "length (t_gregs ?t) = mx_sizeof_gregs K" using r(2) by simp
  obtain pc where pc: "GetPC (mx_arch K) g = Some pc" using GetPC_defined [OF r(2)] by blast
  obtain ok2 ss g2 k2 where ins: "Thread_InsertSingleStep K pc ?t k = Some (ok2, ?t\<lparr>t_ss := ss, t_gregs := g2\<rparr>, k2)"
    "length g2 = mx_sizeof_gregs K" and "if ok2 then t_ss ?t = None \<and> ss \<noteq> None else ss = t_ss ?t"
    using ss_insert [OF assms(1) len', of pc k] by blast
  then have ins3: "if ok2 then t_ss t = None \<and> ss \<noteq> None else ss = t_ss t"
    by (simp split: if_splits)
  let ?t2 = "?t\<lparr>t_ss := ss, t_gregs := g2\<rparr>"
  obtain s k3 where res: "mx_task_resume K (t_handle t) k2 = (s, k3)" by (cases "mx_task_resume K (t_handle t) k2")
  show ?thesis
  proof (cases "ok \<and> ok2 \<and> s < 0")
    case fail: True
    then obtain g4 k4 where "Thread_RemoveSingleStep K ?t2 k3 = Some (True, ?t2\<lparr>t_ss := None, t_gregs := g4\<rparr>, k4)"
      "length g4 = mx_sizeof_gregs K" using ss_remove [OF assms(1), of ?t2 k3] ins ins3 by auto
    with fail True r pc ins ins3 res assms(2) show ?thesis by (auto simp: Thread_Step_def thread_ok_def)
  next
    case False
    with True r pc ins ins3 res assms(2) show ?thesis
      by (cases ok; cases ok2) (auto simp: Thread_Step_def thread_ok_def)
  qed
qed

lemmas thread_ok_ops = thread_ok_new thread_ok_OnException thread_ok_Resume thread_ok_ResumeForExit
  thread_ok_Step

lemma thread_ok_step:
  assumes "mx_kernel K" and "thread_ok K t" and "thread_step K (t, k) (t', k')"
  shows "thread_ok K t'"
  using assms(3)
proof (cases rule: thread_step.cases)
  case (exception ty cx)
  with thread_ok_OnException [OF assms(1,2), of ty cx k] show ?thesis by auto
next
  case (step ok)
  with thread_ok_Step [OF assms(1,2), of k] show ?thesis by auto
next
  case (refresh ok)
  with Thread_refresh [OF assms(1), of t k] assms(2) show ?thesis by (auto simp: thread_ok_def)
next
  case (resume ok)
  from thread_ok_Resume [OF assms(2) this] show ?thesis by blast
next
  case exit
  from thread_ok_ResumeForExit [OF assms(2) this] show ?thesis by blast
qed (use assms(2) in simp)



end
