(* ===== verification/Exception_Port.thy ===== *)
theory Exception_Port
  imports Magenta
begin

text \<open>
  The exception port: \<^verbatim>\<open>lib/inferior-control/exception-port.{h,cc}\<close>.  \<open>eport\<close> holds the members of
  the class; a bound callback is always \<^verbatim>\<open>Process::OnException\<close> of the server's process, so
  \<^verbatim>\<open>callbacks_\<close> keeps the process handle of each key only.  The static \<^verbatim>\<open>g_key_counter\<close> is a
  64-bit word and wraps.  The worker runs on its own thread: \<open>Worker\<close> maps what it observes (the
  flag \<^verbatim>\<open>keep_running_\<close> and the result of each \<^verbatim>\<open>mx_port_wait\<close>) to the packets it posts
  to the main loop, where \<open>Worker_task\<close> runs.
\<close>

section \<open>Definitions\<close>

datatype port_packet_type = MX_PORT_PKT_TYPE_KERN | MX_PORT_PKT_TYPE_IOSN | MX_PORT_PKT_TYPE_USER
  | MX_PORT_PKT_TYPE_EXCEPTION | MX_PORT_PKT_TYPE_OTHER nat

fun IOPortPacketTypeToString :: "port_packet_type \<Rightarrow> string" where
  "IOPortPacketTypeToString MX_PORT_PKT_TYPE_KERN = ''MX_PORT_PKT_TYPE_KERN''"
| "IOPortPacketTypeToString MX_PORT_PKT_TYPE_IOSN = ''MX_PORT_PKT_TYPE_IOSN''"
| "IOPortPacketTypeToString MX_PORT_PKT_TYPE_USER = ''MX_PORT_PKT_TYPE_USER''"
| "IOPortPacketTypeToString MX_PORT_PKT_TYPE_EXCEPTION = ''MX_PORT_PKT_TYPE_EXCEPTION''"
| "IOPortPacketTypeToString (MX_PORT_PKT_TYPE_OTHER n) = ''(unknown)''"

record port_packet =
  pkt_type :: port_packet_type
  pkt_key :: u64
  pkt_excp :: mx_excp_type
  pkt_context :: mx_exception_context

record eport =
  ep_handle :: handle
  ep_keep_running :: bool
  ep_callbacks :: "(u64 \<times> handle) list"
  ep_key_counter :: u64

definition ExceptionPort_new :: "u64 \<Rightarrow> eport" where
  "ExceptionPort_new g_key_counter =
     \<lparr>ep_handle = MX_HANDLE_INVALID, ep_keep_running = False, ep_callbacks = [],
      ep_key_counter = g_key_counter\<rparr>"

definition ExceptionPort_Run :: "'k mx \<Rightarrow> eport \<Rightarrow> 'k \<Rightarrow> (bool \<times> eport \<times> 'k) option" where
  "ExceptionPort_Run K ep k =
     do {
       dcheck (ep_handle ep = MX_HANDLE_INVALID);
       dcheck (\<not> ep_keep_running ep);
       (case mx_port_create K k of
          (status, h, k) \<Rightarrow>
            if status < 0 then Some (False, ep, k)
            else do {
              dcheck (h \<noteq> MX_HANDLE_INVALID);
              Some (True, ep\<lparr>ep_handle := h, ep_keep_running := True\<rparr>, k)
            })
     }"

text \<open>\<^verbatim>\<open>Quit\<close> joins the worker, whose last action is to close the port.\<close>

definition ExceptionPort_Quit :: "eport \<Rightarrow> eport option" where
  "ExceptionPort_Quit ep =
     do {
       dcheck (ep_handle ep \<noteq> MX_HANDLE_INVALID);
       dcheck (ep_keep_running ep);
       Some (ep\<lparr>ep_keep_running := False, ep_handle := MX_HANDLE_INVALID\<rparr>)
     }"

definition ExceptionPort_destroy :: "eport \<Rightarrow> eport option" where
  "ExceptionPort_destroy ep =
     (if ep_handle ep \<noteq> MX_HANDLE_INVALID then ExceptionPort_Quit ep else Some ep)"

definition ExceptionPort_Bind :: "'k mx \<Rightarrow> handle \<Rightarrow> eport \<Rightarrow> 'k \<Rightarrow> (u64 \<times> eport \<times> 'k) option" where
  "ExceptionPort_Bind K process_handle ep k =
     do {
       dcheck (process_handle \<noteq> MX_HANDLE_INVALID);
       dcheck (ep_handle ep \<noteq> MX_HANDLE_INVALID);
       let next_key = ep_key_counter ep + 1;
       if next_key = 0 then Some (0, ep, k)
       else
         (case mx_task_bind_exception_port K process_handle (ep_handle ep) next_key k of
            (status, k) \<Rightarrow>
              if status < 0 then Some (0, ep, k)
              else do {
                dcheck (map_of (ep_callbacks ep) next_key = None);
                Some (next_key,
                      ep\<lparr>ep_callbacks := (next_key, process_handle) # ep_callbacks ep,
                         ep_key_counter := next_key\<rparr>, k)
              })
     }"

definition ExceptionPort_Unbind :: "'k mx \<Rightarrow> u64 \<Rightarrow> eport \<Rightarrow> 'k \<Rightarrow> bool \<times> eport \<times> 'k" where
  "ExceptionPort_Unbind K key ep k =
     (case map_of (ep_callbacks ep) key of
        None \<Rightarrow> (False, ep, k)
      | Some process_handle \<Rightarrow>
          (case mx_task_bind_exception_port K process_handle MX_HANDLE_INVALID key k of
             (status, k) \<Rightarrow>
               (True, ep\<lparr>ep_callbacks := filter (\<lambda>b. fst b \<noteq> key) (ep_callbacks ep)\<rparr>, k)))"

text \<open>
  The worker.  A round starts by reading \<^verbatim>\<open>keep_running_\<close>; a failed wait leaves the packet
  uninitialised, and the packet is read all the same.
\<close>

fun Worker :: "(bool \<times> status \<times> port_packet) list \<Rightarrow> port_packet list option" where
  "Worker [] = Some []"
| "Worker ((keep_running, status, packet) # rounds) =
     (if \<not> keep_running then Some []
      else do {
        dcheck (\<not> status < 0);
        posted \<leftarrow> Worker rounds;
        Some (if pkt_type packet \<noteq> MX_PORT_PKT_TYPE_EXCEPTION then posted else packet # posted)
      })"

definition Worker_task ::
  "(mx_excp_type \<Rightarrow> mx_exception_context \<Rightarrow> 's \<Rightarrow> 's option) \<Rightarrow> eport \<Rightarrow> port_packet \<Rightarrow> 's \<Rightarrow> 's option"
where
  "Worker_task callback ep packet s =
     (case map_of (ep_callbacks ep) (pkt_key packet) of
        None \<Rightarrow> Some s
      | Some process_handle \<Rightarrow> callback (pkt_excp packet) (pkt_context packet) s)"

section \<open>The contract of a key registry\<close>

text \<open>
  What a process relies on: a binding gets a new, non-zero key, under which its handle is found
  until it is unbound; other bindings are not affected.
\<close>

locale key_registry =
  fixes ok :: "'p \<Rightarrow> bool"
    and open_for :: "'p \<Rightarrow> bool"
    and bound :: "'p \<Rightarrow> u64 \<Rightarrow> handle option"
    and bind :: "handle \<Rightarrow> 'p \<Rightarrow> 'k \<Rightarrow> (u64 \<times> 'p \<times> 'k) option"
    and unbind :: "u64 \<Rightarrow> 'p \<Rightarrow> 'k \<Rightarrow> bool \<times> 'p \<times> 'k"
  assumes bind_total: "ok p \<Longrightarrow> open_for p \<Longrightarrow> h \<noteq> MX_HANDLE_INVALID \<Longrightarrow> bind h p k \<noteq> None"
    and bind_fail: "bind h p k = Some (0, p', k') \<Longrightarrow> p' = p"
    and bind_ok: "ok p \<Longrightarrow> bind h p k = Some (key, p', k') \<Longrightarrow> ok p' \<and> (open_for p' \<longleftrightarrow> open_for p)"
    and bind_bound: "ok p \<Longrightarrow> bind h p k = Some (key, p', k') \<Longrightarrow> key \<noteq> 0 \<Longrightarrow>
      bound p key = None \<and> bound p' = (bound p)(key \<mapsto> h)"
    and unbind_ok: "ok p \<Longrightarrow> unbind key p k = (b, p', k') \<Longrightarrow> ok p' \<and> (open_for p' \<longleftrightarrow> open_for p)"
    and unbind_bound: "ok p \<Longrightarrow> unbind key p k = (b, p', k') \<Longrightarrow>
      (b \<longleftrightarrow> bound p key \<noteq> None) \<and> bound p' = (bound p)(key := None)"
begin

lemma bind_unbind:
  assumes "ok p" and "bind h p k = Some (key, p1, k1)" and "key \<noteq> 0" and "unbind key p1 k2 = (b, p2, k3)"
  shows "b \<and> bound p2 = bound p \<and> ok p2"
proof -
  note b = bind_bound [OF assms(1-3)] bind_ok [OF assms(1,2)]
  note u = unbind_bound [OF _ assms(4)] unbind_ok [OF _ assms(4)]
  from b u show ?thesis by (auto simp: fun_eq_iff)
qed

lemma bind_other: "ok p \<Longrightarrow> bind h p k = Some (key, p', k') \<Longrightarrow> bound p key' = Some h' \<Longrightarrow>
    bound p' key' = Some h'"
  using bind_bound [of p h k key p' k'] bind_fail [of h p k p' k'] by (cases "key = 0") auto

end

definition eport_ok :: "eport \<Rightarrow> bool" where
  "eport_ok ep \<longleftrightarrow> (\<forall>b \<in> set (ep_callbacks ep). 0 < fst b \<and> fst b \<le> ep_key_counter ep)"

definition eport_open :: "eport \<Rightarrow> bool" where
  "eport_open ep \<longleftrightarrow> ep_handle ep \<noteq> MX_HANDLE_INVALID"

definition eport_bound :: "eport \<Rightarrow> u64 \<Rightarrow> handle option" where
  "eport_bound ep = map_of (ep_callbacks ep)"

lemma next_key_greater:
  fixes c :: u64
  assumes "c + 1 \<noteq> 0" and "x \<le> c"
  shows "x < c + 1"
proof -
  have "unat (c + 1) = Suc (unat c)" using assms(1) unatSuc [of c] by (simp add: add.commute)
  with assms(2) show ?thesis by (simp add: word_less_nat_alt word_le_nat_alt)
qed

lemma next_key_unbound:
  assumes "eport_ok ep" and "ep_key_counter ep + 1 \<noteq> 0"
  shows "map_of (ep_callbacks ep) (ep_key_counter ep + 1) = None"
proof -
  have "fst b \<noteq> ep_key_counter ep + 1" if "b \<in> set (ep_callbacks ep)" for b
    using that assms next_key_greater [of "ep_key_counter ep" "fst b"] by (auto simp: eport_ok_def)
  then show ?thesis by (force simp: map_of_eq_None_iff)
qed

lemma map_of_filter_key: "map_of (filter (\<lambda>b. fst b \<noteq> k) xs) = (map_of xs)(k := None)"
  by (induction xs) auto

interpretation registry: key_registry eport_ok eport_open eport_bound
  "ExceptionPort_Bind K" "ExceptionPort_Unbind K" for K :: "'k mx"
proof
  fix p p' :: eport and h :: handle and k k' :: 'k and key :: u64 and b :: bool
  show "ExceptionPort_Bind K h p k \<noteq> None" if "eport_ok p" "eport_open p" "h \<noteq> MX_HANDLE_INVALID"
    using that next_key_unbound [of p]
    by (auto simp: ExceptionPort_Bind_def eport_open_def Let_def split: prod.splits)
  show "p' = p" if "ExceptionPort_Bind K h p k = Some (0, p', k')"
    using that by (auto simp: ExceptionPort_Bind_def Let_def split: prod.splits if_splits)
  show "eport_ok p' \<and> (eport_open p' \<longleftrightarrow> eport_open p)"
    if "eport_ok p" "ExceptionPort_Bind K h p k = Some (key, p', k')"
    using that next_key_greater [of "ep_key_counter p"]
    by (fastforce simp: ExceptionPort_Bind_def eport_ok_def eport_open_def Let_def word_neq_0_conv
        split: prod.splits if_splits)
  show "eport_bound p key = None \<and> eport_bound p' = (eport_bound p)(key \<mapsto> h)"
    if "eport_ok p" "ExceptionPort_Bind K h p k = Some (key, p', k')" "key \<noteq> 0"
    using that by (auto simp: ExceptionPort_Bind_def eport_bound_def Let_def split: prod.splits if_splits)
  show "eport_ok p' \<and> (eport_open p' \<longleftrightarrow> eport_open p)"
    if "eport_ok p" "ExceptionPort_Unbind K key p k = (b, p', k')"
    using that by (fastforce simp: ExceptionPort_Unbind_def eport_ok_def eport_open_def
        split: prod.splits option.splits)
  show "(b \<longleftrightarrow> eport_bound p key \<noteq> None) \<and> eport_bound p' = (eport_bound p)(key := None)"
    if "eport_ok p" "ExceptionPort_Unbind K key p k = (b, p', k')"
    using that by (auto simp: ExceptionPort_Unbind_def eport_bound_def map_of_filter_key fun_eq_iff
        split: prod.splits option.splits)
qed

section \<open>Properties\<close>

text \<open>
  C28: binding a process to the open port never fails an assertion; the key handed out is new and
  not zero, its handle is found under it and every other binding is kept; when the 64-bit counter
  is exhausted no key is handed out and nothing changes.  Unbinding the key right after restores the
  registry.
\<close>

theorem ExceptionPort_Bind_fresh:
  assumes "eport_ok ep" and "ep_handle ep \<noteq> MX_HANDLE_INVALID" and "h \<noteq> MX_HANDLE_INVALID"
  shows "\<exists>key ep' k'. ExceptionPort_Bind K h ep k = Some (key, ep', k') \<and> eport_ok ep'
    \<and> (ep_key_counter ep = - 1 \<longrightarrow> key = 0)
    \<and> (if key = 0 then ep' = ep
        else key \<notin> fst ` set (ep_callbacks ep) \<and> eport_bound ep' = (eport_bound ep)(key \<mapsto> h)
          \<and> (\<forall>k2. eport_bound (fst (snd (ExceptionPort_Unbind K key ep' k2))) = eport_bound ep))"
proof -
  from registry.bind_total [OF assms(1) _ assms(3), of K k] assms(2)
  obtain key ep' k' where b: "ExceptionPort_Bind K h ep k = Some (key, ep', k')"
    by (auto simp: eport_open_def)
  have "eport_bound (fst (snd (ExceptionPort_Unbind K key ep' k2))) = eport_bound ep" if "key \<noteq> 0" for k2
    using registry.bind_unbind [OF assms(1) b that, of k2]
    by (cases "ExceptionPort_Unbind K key ep' k2") auto
  moreover have "key \<notin> fst ` set (ep_callbacks ep)" if "key \<noteq> 0"
    using registry.bind_bound [OF assms(1) b that] by (simp add: eport_bound_def map_of_eq_None_iff)
  moreover have "key = 0" if "ep_key_counter ep = - 1"
    using b that by (auto simp: ExceptionPort_Bind_def split: prod.splits if_splits)
  ultimately show ?thesis
    using b registry.bind_ok [OF assms(1) b] registry.bind_bound [OF assms(1) b]
      registry.bind_fail [of K h ep k ep' k'] by auto
qed

theorem ExceptionPort_Bind_fresh_witness:
  "\<exists>ep'. \<forall>k. ExceptionPort_Bind ref_mx 2
      \<lparr>ep_handle = 1, ep_keep_running = True, ep_callbacks = [(1, 9)], ep_key_counter = 1\<rparr> k
      = Some (2, ep', k) \<and> eport_bound ep' 1 = Some 9 \<and> eport_bound ep' 2 = Some 2"
proof -
  let ?ep = "\<lparr>ep_handle = 1, ep_keep_running = True, ep_callbacks = [(1, 9)], ep_key_counter = 1\<rparr>"
  have "ExceptionPort_Bind ref_mx 2 ?ep k = Some (2, ?ep\<lparr>ep_callbacks := [(2, 2), (1, 9)],
      ep_key_counter := 2\<rparr>, k)" for k
    by (simp add: ExceptionPort_Bind_def Let_def)
  with ExceptionPort_Bind_fresh [where ep = ?ep and h = 2 and K = ref_mx] show ?thesis
    by (intro exI [of _ "?ep\<lparr>ep_callbacks := [(2, 2), (1, 9)], ep_key_counter := 2\<rparr>"])
      (simp add: eport_ok_def eport_bound_def)
qed

text \<open>
  The worker posts exactly the exception packets it received while it was asked to run, in order.
\<close>

lemma Worker_posts:
  assumes "\<forall>r \<in> set rounds. 0 \<le> fst (snd r)"
  shows "Worker rounds = Some (filter (\<lambda>p. pkt_type p = MX_PORT_PKT_TYPE_EXCEPTION)
    (map (snd \<circ> snd) (takeWhile fst rounds)))"
  using assms by (induction rounds rule: Worker.induct) auto

end
