(* ===== verification/Elf_Reader.thy ===== *)
theory Elf_Reader
  imports Byte_Block Util
begin

text \<open>
  ELF images read through a byte block: \<^verbatim>\<open>lib/debugger-utils/elf-reader.{h,cc}\<close> with the 64-bit
  structures of \<^verbatim>\<open>third_party/musl/include/elf.h\<close>, decoded from their little-endian images.
  The outer \<open>None\<close> of a result is a failed assertion, a read outside an object, or a loop that
  does not end.  \<open>malloc_ok n\<close> says whether \<^verbatim>\<open>malloc(n)\<close> returns memory.
\<close>

section \<open>Definitions\<close>

definition fld :: "u8 list \<Rightarrow> nat \<Rightarrow> nat \<Rightarrow> u64" where
  "fld bytes off n = le_word (substr bytes off n)"

record elf_header =
  e_ident :: "u8 list"
  e_type :: u64
  e_machine :: u64
  e_version :: u64
  e_entry :: u64
  e_phoff :: u64
  e_shoff :: u64
  e_flags :: u64
  e_ehsize :: u64
  e_phentsize :: u64
  e_phnum :: u64
  e_shentsize :: u64
  e_shnum :: u64
  e_shstrndx :: u64

definition decode_header :: "u8 list \<Rightarrow> elf_header" where
  "decode_header b =
     \<lparr>e_ident = substr b 0 16, e_type = fld b 16 2, e_machine = fld b 18 2, e_version = fld b 20 4,
      e_entry = fld b 24 8, e_phoff = fld b 32 8, e_shoff = fld b 40 8, e_flags = fld b 48 4,
      e_ehsize = fld b 52 2, e_phentsize = fld b 54 2, e_phnum = fld b 56 2,
      e_shentsize = fld b 58 2, e_shnum = fld b 60 2, e_shstrndx = fld b 62 2\<rparr>"

record segment_header =
  p_type :: u64
  p_flags :: u64
  p_offset :: u64
  p_vaddr :: u64
  p_paddr :: u64
  p_filesz :: u64
  p_memsz :: u64
  p_align :: u64

definition decode_segment :: "u8 list \<Rightarrow> segment_header" where
  "decode_segment b =
     \<lparr>p_type = fld b 0 4, p_flags = fld b 4 4, p_offset = fld b 8 8, p_vaddr = fld b 16 8,
      p_paddr = fld b 24 8, p_filesz = fld b 32 8, p_memsz = fld b 40 8, p_align = fld b 48 8\<rparr>"

record section_header =
  sh_name :: u64
  sh_type :: u64
  sh_flags :: u64
  sh_addr :: u64
  sh_offset :: u64
  sh_size :: u64
  sh_link :: u64
  sh_info :: u64
  sh_addralign :: u64
  sh_entsize :: u64

definition decode_section :: "u8 list \<Rightarrow> section_header" where
  "decode_section b =
     \<lparr>sh_name = fld b 0 4, sh_type = fld b 4 4, sh_flags = fld b 8 8, sh_addr = fld b 16 8,
      sh_offset = fld b 24 8, sh_size = fld b 32 8, sh_link = fld b 40 4, sh_info = fld b 44 4,
      sh_addralign = fld b 48 8, sh_entsize = fld b 56 8\<rparr>"

record raw_symbol =
  st_name :: u64
  st_info :: u64
  st_other :: u64
  st_shndx :: u64
  st_value :: u64
  st_size :: u64

definition decode_symbol :: "u8 list \<Rightarrow> raw_symbol" where
  "decode_symbol b =
     \<lparr>st_name = fld b 0 4, st_info = fld b 4 1, st_other = fld b 5 1, st_shndx = fld b 6 2,
      st_value = fld b 8 8, st_size = fld b 16 8\<rparr>"

definition sizeof_header :: nat where "sizeof_header = 64"
definition sizeof_segment :: nat where "sizeof_segment = 56"
definition sizeof_section :: nat where "sizeof_section = 64"
definition sizeof_symbol :: nat where "sizeof_symbol = 24"

definition ELFMAG :: "u8 list" where "ELFMAG = [0x7f, 0x45, 0x4c, 0x46]"
definition PT_LOAD :: u64 where "PT_LOAD = 1"
definition PT_NOTE :: u64 where "PT_NOTE = 4"
definition NT_GNU_BUILD_ID :: u32 where "NT_GNU_BUILD_ID = 3"
definition SHT_SYMTAB :: u64 where "SHT_SYMTAB = 2"
definition SHT_DYNSYM :: u64 where "SHT_DYNSYM = 11"
definition kMaxBuildIdSize :: nat where "kMaxBuildIdSize = 64"

datatype elf_error = ELF_OK | ELF_IO | ELF_BADELF | ELF_NOMEM

fun ErrorName :: "elf_error \<Rightarrow> string" where
  "ErrorName ELF_OK = ''OK''"
| "ErrorName ELF_IO = ''IO''"
| "ErrorName ELF_BADELF = ''BADELF''"
| "ErrorName ELF_NOMEM = ''NOMEM''"

record elf_reader =
  rd_base :: u64
  rd_header :: elf_header
  rd_segments :: "segment_header list option"
  rd_sections :: "section_header list option"

definition ReadHeader :: "read_fn \<Rightarrow> u64 \<Rightarrow> elf_header option option" where
  "ReadHeader Read base =
     map_option (map_option decode_header) (Read base sizeof_header)"

definition VerifyHeader :: "elf_header \<Rightarrow> bool" where
  "VerifyHeader hdr =
     (if take 4 (e_ident hdr) \<noteq> ELFMAG then False
      else if e_ehsize hdr \<noteq> of_nat sizeof_header then False
      else if e_phentsize hdr \<noteq> of_nat sizeof_segment then False
      else if e_shentsize hdr \<noteq> of_nat sizeof_section then False
      else True)"

definition Reader_Create :: "read_fn \<Rightarrow> nat \<Rightarrow> u64 \<Rightarrow> (elf_error + elf_reader) option" where
  "Reader_Create Read options base =
     do {
       dcheck (options = 0);
       h \<leftarrow> ReadHeader Read base;
       Some (case h of
          None \<Rightarrow> Inl ELF_IO
        | Some hdr \<Rightarrow>
            if \<not> VerifyHeader hdr then Inl ELF_BADELF
            else Inr \<lparr>rd_base = base, rd_header = hdr, rd_segments = None, rd_sections = None\<rparr>)
     }"

definition GetNumSegments :: "elf_reader \<Rightarrow> nat" where
  "GetNumSegments r = unat (e_phnum (rd_header r))"

definition GetNumSections :: "elf_reader \<Rightarrow> nat" where
  "GetNumSections r = unat (e_shnum (rd_header r))"

definition decode_array :: "(u8 list \<Rightarrow> 'a) \<Rightarrow> nat \<Rightarrow> nat \<Rightarrow> u8 list \<Rightarrow> 'a list" where
  "decode_array dec sz n bytes = map (\<lambda>i. dec (substr bytes (i * sz) sz)) [0..<n]"

definition ReadSegmentHeaders :: "read_fn \<Rightarrow> elf_reader \<Rightarrow> (elf_error \<times> elf_reader) option" where
  "ReadSegmentHeaders Read r =
     (if rd_segments r \<noteq> None then Some (ELF_OK, r)
      else do {
        let num_segments = GetNumSegments r;
        bytes \<leftarrow> Read (rd_base r + e_phoff (rd_header r)) (num_segments * sizeof_segment);
        Some (case bytes of
           None \<Rightarrow> (ELF_IO, r)
         | Some b \<Rightarrow>
             (ELF_OK, r\<lparr>rd_segments := Some (decode_array decode_segment sizeof_segment num_segments b)\<rparr>))
      })"

definition FreeSegmentHeaders :: "elf_reader \<Rightarrow> elf_reader" where
  "FreeSegmentHeaders r = r\<lparr>rd_segments := None\<rparr>"

definition GetSegmentHeader :: "elf_reader \<Rightarrow> nat \<Rightarrow> segment_header option" where
  "GetSegmentHeader r segment_number =
     do {
       segs \<leftarrow> rd_segments r;
       dcheck (segment_number < GetNumSegments r);
       dcheck (segment_number < length segs);
       Some (segs ! segment_number)
     }"

definition ReadSectionHeaders :: "read_fn \<Rightarrow> elf_reader \<Rightarrow> (elf_error \<times> elf_reader) option" where
  "ReadSectionHeaders Read r =
     (if rd_sections r \<noteq> None then Some (ELF_OK, r)
      else do {
        let num_sections = GetNumSections r;
        bytes \<leftarrow> Read (rd_base r + e_shoff (rd_header r)) (num_sections * sizeof_section);
        Some (case bytes of
           None \<Rightarrow> (ELF_IO, r)
         | Some b \<Rightarrow>
             (ELF_OK, r\<lparr>rd_sections := Some (decode_array decode_section sizeof_section num_sections b)\<rparr>))
      })"

definition FreeSectionHeaders :: "elf_reader \<Rightarrow> elf_reader" where
  "FreeSectionHeaders r = r\<lparr>rd_sections := None\<rparr>"

definition GetSectionHeader :: "elf_reader \<Rightarrow> nat \<Rightarrow> section_header option" where
  "GetSectionHeader r section_number =
     do {
       scns \<leftarrow> rd_sections r;
       dcheck (section_number < GetNumSections r);
       dcheck (section_number < length scns);
       Some (scns ! section_number)
     }"

text \<open>The loop of \<^verbatim>\<open>GetSectionHeaderByType\<close> over the section numbers that are left.\<close>

fun section_by_type :: "elf_reader \<Rightarrow> u64 \<Rightarrow> nat list \<Rightarrow> section_header option option" where
  "section_by_type r type [] = Some None"
| "section_by_type r type (i # is) =
     do {
       shdr \<leftarrow> GetSectionHeader r i;
       if sh_type shdr = type then Some (Some shdr) else section_by_type r type is
     }"

definition GetSectionHeaderByType :: "elf_reader \<Rightarrow> u64 \<Rightarrow> section_header option option" where
  "GetSectionHeaderByType r type = section_by_type r type [0..<GetNumSections r]"

record section_contents =
  sc_header :: section_header
  sc_contents :: "u8 list"

definition GetSectionContents ::
  "read_fn \<Rightarrow> (u64 \<Rightarrow> bool) \<Rightarrow> elf_reader \<Rightarrow> section_header \<Rightarrow> (elf_error + section_contents) option"
where
  "GetSectionContents Read malloc_ok r sh =
     (if \<not> malloc_ok (sh_size sh) then Some (Inl ELF_NOMEM)
      else do {
        bytes \<leftarrow> Read (rd_base r + sh_offset sh) (unat (sh_size sh));
        Some (case bytes of
           None \<Rightarrow> Inl ELF_IO
         | Some b \<Rightarrow> Inr \<lparr>sc_header = sh, sc_contents = b\<rparr>)
      })"

definition GetNumEntries :: "section_contents \<Rightarrow> nat option" where
  "GetNumEntries sc =
     (if sh_type (sc_header sc) = SHT_SYMTAB \<or> sh_type (sc_header sc) = SHT_DYNSYM then
        do {
          dcheck (sh_entsize (sc_header sc) \<noteq> 0);
          Some (unat (sh_size (sc_header sc) div sh_entsize (sc_header sc)))
        }
      else Some 0)"

definition GetSymbolEntry :: "section_contents \<Rightarrow> nat \<Rightarrow> raw_symbol option" where
  "GetSymbolEntry sc entry_number =
     do {
       dcheck (sh_type (sc_header sc) = SHT_SYMTAB \<or> sh_type (sc_header sc) = SHT_DYNSYM);
       n \<leftarrow> GetNumEntries sc;
       dcheck (entry_number < n);
       let off = entry_number * unat (sh_entsize (sc_header sc));
       dcheck (off + sizeof_symbol \<le> length (sc_contents sc));
       Some (decode_symbol (substr (sc_contents sc) off sizeof_symbol))
     }"

text \<open>The notes of one segment, from \<^verbatim>\<open>offset\<close> on with \<open>left\<close> (\<^verbatim>\<open>size\<close>) bytes left.\<close>

definition note_u32 :: "u8 list \<Rightarrow> nat \<Rightarrow> u32" where
  "note_u32 note off = ucast (fld note off 4)"

definition note_header_size :: "u8 list \<Rightarrow> u64" where
  "note_header_size note = 12 + ucast ((note_u32 note 0 + 3) AND NOT 3)"

definition note_payload_size :: "u8 list \<Rightarrow> u64" where
  "note_payload_size note = ucast ((note_u32 note 4 + 3) AND NOT 3)"

definition is_build_id_note :: "u8 list \<Rightarrow> bool" where
  "is_build_id_note note \<longleftrightarrow>
     \<not> (note_u32 note 8 \<noteq> NT_GNU_BUILD_ID \<or> note_u32 note 0 \<noteq> 4
        \<or> substr note 12 4 \<noteq> [0x47, 0x4e, 0x55, 0])"

definition printf_02x :: "u8 \<Rightarrow> string" where
  "printf_02x b =
     (let digit = (\<lambda>d :: nat. if d < 10 then char_of (48 + d) else char_of (87 + d))
      in [digit (unat b div 16), digit (unat b mod 16)])"

text \<open>\<open>Found rc buf\<close>: the function returns \<open>rc\<close>; \<open>buf\<close> is the new text, if the buffer is written.\<close>

datatype note_result = NotFound | Found elf_error "string option"

definition build_id_payload :: "read_fn \<Rightarrow> u32 \<Rightarrow> u64 \<Rightarrow> note_result option" where
  "build_id_payload Read n_descsz payload_vaddr =
     (if unat n_descsz > kMaxBuildIdSize then
        Some (Found ELF_OK (Some (''build_id_too_large_'' @ nat_string 10 (unat n_descsz))))
      else do {
        payload \<leftarrow> Read payload_vaddr (unat n_descsz);
        Some (case payload of
           None \<Rightarrow> Found ELF_IO None
         | Some buildid \<Rightarrow>
             Found ELF_OK (if buildid = [] then None else Some (concat (map printf_02x buildid))))
      })"

partial_function (option) note_loop :: "read_fn \<Rightarrow> u64 \<Rightarrow> u64 \<Rightarrow> u64 \<Rightarrow> note_result option" where
  "note_loop Read vaddr left offset =
     (if \<not> left > 16 then Some NotFound
      else do {
        r \<leftarrow> Read (vaddr + offset) 16;
        (case r of
           None \<Rightarrow> Some (Found ELF_IO None)
         | Some note \<Rightarrow>
             if \<not> is_build_id_note note then
               note_loop Read vaddr (left - note_header_size note - note_payload_size note)
                 (offset + note_header_size note + note_payload_size note)
             else build_id_payload Read (note_u32 note 4) (vaddr + (offset + note_header_size note)))
      })"

fun segments_loop :: "read_fn \<Rightarrow> elf_reader \<Rightarrow> nat list \<Rightarrow> note_result option" where
  "segments_loop Read r [] = Some NotFound"
| "segments_loop Read r (i # is) =
     do {
       phdr \<leftarrow> GetSegmentHeader r i;
       if p_type phdr \<noteq> PT_NOTE then segments_loop Read r is
       else do {
         res \<leftarrow> note_loop Read (rd_base r) (p_filesz phdr) (p_offset phdr);
         (case res of
            NotFound \<Rightarrow> segments_loop Read r is
          | Found rc buf \<Rightarrow> Some (Found rc buf))
       }
     }"

text \<open>\<open>ReadBuildId\<close> returns the error code, the new text of \<^verbatim>\<open>buf\<close> and the reader.\<close>

definition ReadBuildId ::
  "read_fn \<Rightarrow> elf_reader \<Rightarrow> string \<Rightarrow> nat \<Rightarrow> (elf_error \<times> string \<times> elf_reader) option" where
  "ReadBuildId Read r buf buf_size =
     do {
       dcheck (buf_size \<ge> kMaxBuildIdSize * 2 + 1);
       (rc, r) \<leftarrow> ReadSegmentHeaders Read r;
       if rc \<noteq> ELF_OK then Some (rc, buf, r)
       else do {
         res \<leftarrow> segments_loop Read r [0..<GetNumSegments r];
         (case res of
            NotFound \<Rightarrow> Some (ELF_OK, '''', r)
          | Found rc new \<Rightarrow> Some (rc, case new of None \<Rightarrow> buf | Some s \<Rightarrow> s, r))
       }
     }"

section \<open>Headers\<close>

lemma length_decode_array [simp]: "length (decode_array dec sz n b) = n"
  by (simp add: decode_array_def)

text \<open>\<open>segs_ok r\<close>: cached headers are as many as the ELF header announces.\<close>

definition segs_ok :: "elf_reader \<Rightarrow> bool" where
  "segs_ok r \<longleftrightarrow> (\<forall>segs. rd_segments r = Some segs \<longrightarrow> length segs = GetNumSegments r)
     \<and> (\<forall>scns. rd_sections r = Some scns \<longrightarrow> length scns = GetNumSections r)"

lemma Reader_Create_Inr:
  "Reader_Create Read opts base = Some (Inr r) \<Longrightarrow>
    \<exists>hdr. VerifyHeader hdr \<and> ReadHeader Read base = Some (Some hdr)
      \<and> r = \<lparr>rd_base = base, rd_header = hdr, rd_segments = None, rd_sections = None\<rparr>"
  by (auto simp: Reader_Create_def bind_eq_Some_conv split: option.splits if_splits)

lemma VerifyHeader_magic: "VerifyHeader hdr \<Longrightarrow> take 4 (e_ident hdr) = ELFMAG"
  by (rule ccontr) (simp add: VerifyHeader_def)

lemma segs_ok_Create: "Reader_Create Read opts base = Some (Inr r) \<Longrightarrow> segs_ok r"
  by (auto simp: segs_ok_def dest!: Reader_Create_Inr)

lemma segs_ok_ReadSegmentHeaders:
  "segs_ok r \<Longrightarrow> ReadSegmentHeaders Read r = Some (rc, r') \<Longrightarrow> segs_ok r'"
  by (auto simp: ReadSegmentHeaders_def segs_ok_def bind_eq_Some_conv Let_def GetNumSegments_def
      GetNumSections_def split: option.splits if_splits)

lemma segs_ok_ReadSectionHeaders:
  "segs_ok r \<Longrightarrow> ReadSectionHeaders Read r = Some (rc, r') \<Longrightarrow> segs_ok r'"
  by (auto simp: ReadSectionHeaders_def segs_ok_def bind_eq_Some_conv Let_def GetNumSegments_def
      GetNumSections_def split: option.splits if_splits)

lemma ReadSegmentHeaders_cached:
  "ReadSegmentHeaders Read r = Some (ELF_OK, r') \<Longrightarrow>
    \<exists>segs. rd_segments r' = Some segs \<and> ReadSegmentHeaders Read r' = Some (ELF_OK, r')
      \<and> rd_header r' = rd_header r \<and> rd_base r' = rd_base r"
  by (auto simp: ReadSegmentHeaders_def bind_eq_Some_conv Let_def split: option.splits if_splits)

lemma GetSegmentHeader_defined:
  "segs_ok r \<Longrightarrow> rd_segments r = Some segs \<Longrightarrow> i < GetNumSegments r \<Longrightarrow>
    GetSegmentHeader r i = Some (segs ! i)"
  by (simp add: GetSegmentHeader_def segs_ok_def)

lemma GetSectionHeader_defined:
  "segs_ok r \<Longrightarrow> rd_sections r = Some scns \<Longrightarrow> i < GetNumSections r \<Longrightarrow>
    GetSectionHeader r i = Some (scns ! i)"
  by (simp add: GetSectionHeader_def segs_ok_def)

text \<open>
  A reader that was created has a verified header, and once its segment headers are
  read every segment number below the header's count can be fetched without failing an
  assertion; reading them again changes nothing.
\<close>

lemma Reader_segments_accessible:
  assumes "Reader_Create Read opts base = Some (Inr r)"
    and "ReadSegmentHeaders Read r = Some (ELF_OK, r')"
  shows "take 4 (e_ident (rd_header r')) = ELFMAG \<and> rd_base r' = base
    \<and> ReadSegmentHeaders Read r' = Some (ELF_OK, r')
    \<and> (\<forall>i. i < GetNumSegments r' \<longrightarrow> GetSegmentHeader r' i \<noteq> None)"
proof -
  have ok: "segs_ok r'" by (rule segs_ok_ReadSegmentHeaders [OF segs_ok_Create [OF assms(1)] assms(2)])
  have "take 4 (e_ident (rd_header r)) = ELFMAG" "rd_base r = base"
    using Reader_Create_Inr [OF assms(1)] VerifyHeader_magic by auto
  moreover obtain segs where "rd_segments r' = Some segs"
    "ReadSegmentHeaders Read r' = Some (ELF_OK, r')" "rd_header r' = rd_header r" "rd_base r' = rd_base r"
    using ReadSegmentHeaders_cached [OF assms(2)] by blast
  ultimately show ?thesis using GetSegmentHeader_defined [OF ok] by simp
qed

lemma section_by_type_find:
  "segs_ok r \<Longrightarrow> rd_sections r = Some scns \<Longrightarrow> \<forall>i \<in> set is. i < GetNumSections r \<Longrightarrow>
    section_by_type r ty is = Some (find (\<lambda>s. sh_type s = ty) (map ((!) scns) is))"
  by (induction "is") (simp_all add: GetSectionHeader_defined)

text \<open>
  After the section headers are read, looking a section up by type returns the first
  one of that type, or null when there is none.
\<close>

lemma GetSectionHeaderByType_first:
  assumes "Reader_Create Read opts base = Some (Inr r)"
    and "ReadSectionHeaders Read r = Some (ELF_OK, r')"
  shows "\<exists>scns. rd_sections r' = Some scns
    \<and> GetSectionHeaderByType r' ty = Some (find (\<lambda>s. sh_type s = ty) scns)"
proof -
  have ok: "segs_ok r'" by (rule segs_ok_ReadSectionHeaders [OF segs_ok_Create [OF assms(1)] assms(2)])
  obtain scns where s: "rd_sections r' = Some scns"
    using assms(2) by (auto simp: ReadSectionHeaders_def bind_eq_Some_conv Let_def
        split: option.splits if_splits)
  then have "length scns = GetNumSections r'" using ok by (simp add: segs_ok_def)
  then have "map ((!) scns) [0..<GetNumSections r'] = scns" by (metis map_nth)
  with section_by_type_find [OF ok s, of "[0..<GetNumSections r']" ty] s show ?thesis
    by (simp add: GetSectionHeaderByType_def)
qed

section \<open>Build identifiers\<close>

lemma printf_02x_EncodeByteString: "printf_02x b = EncodeByteString b"
proof -
  have digit: "(if unat n < 10 then char_of (48 + unat n) else char_of (87 + unat n))
      = HalfByteToHexChar n" if "n < (16 :: u8)" for n
    using that
    by (cases rule: nibble_cases)
      (simp_all add: HalfByteToHexChar_def byte_of_hex_bounds char_of_byte_def)
  have u: "unat b div 16 = unat (drop_bit 4 b)" "unat b mod 16 = unat (b AND 0x0f)"
    by (simp_all add: drop_bit_eq_div unat_div unat_and_mask_4)
  show ?thesis
    unfolding printf_02x_def EncodeByteString_def Let_def u
    using digit [OF half_byte_dcheck(1), of b] digit [OF half_byte_dcheck(2), of b] by simp
qed

lemma concat_printf_02x: "concat (map printf_02x bs) = EncodeByteArrayString bs"
  by (induction bs) (simp_all add: printf_02x_EncodeByteString)

lemma note_header_size_pos: "0 < note_header_size nt"
proof -
  let ?x = "(note_u32 nt 0 + 3) AND NOT 3"
  have x: "unat ?x < 2 ^ 32" using unsigned_less [of ?x] by simp
  then have "unat (ucast ?x :: u64) = unat ?x"
    by (simp add: unsigned_ucast_eq take_bit_nat_eq_self)
  with x have "unat (12 + ucast ?x :: u64) = 12 + unat ?x" by (simp add: unat_word_ariths)
  then have "unat (note_header_size nt) \<noteq> 0" by (simp add: note_header_size_def)
  then show ?thesis by (simp add: word_neq_0_conv unat_eq_0)
qed

lemma note_shrinks:
  assumes "note_header_size nt \<le> left" and "note_payload_size nt \<le> left - note_header_size nt"
  shows "unat (left - note_header_size nt - note_payload_size nt) < unat left"
  using assms note_header_size_pos [of nt]
  by (simp add: unat_sub word_le_nat_alt word_less_nat_alt)

text \<open>
  \<open>notes_wf Read v n o\<close>: the notes from offset \<open>o\<close> on never claim more than the \<open>n\<close> bytes left, and
  reads do not fail an assertion.
\<close>

function notes_wf :: "read_fn \<Rightarrow> u64 \<Rightarrow> u64 \<Rightarrow> u64 \<Rightarrow> bool" where
  "notes_wf Read v left off =
     (if \<not> left > 16 then True
      else case Read (v + off) 16 of
        None \<Rightarrow> False
      | Some None \<Rightarrow> True
      | Some (Some note) \<Rightarrow>
          if is_build_id_note note then
            build_id_payload Read (note_u32 note 4) (v + (off + note_header_size note)) \<noteq> None
          else if note_header_size note \<le> left
            \<and> note_payload_size note \<le> left - note_header_size note then
            notes_wf Read v (left - note_header_size note - note_payload_size note)
              (off + note_header_size note + note_payload_size note)
          else False)"
  by pat_completeness auto

termination
  by (relation "measure (\<lambda>(_, _, left, _). unat left)") (simp_all add: note_shrinks)

declare notes_wf.simps [simp del]

text \<open>
  C38: the search for a build id in a note segment ends whenever no note claims more bytes
  than its segment has left.
\<close>

theorem note_loop_terminates:
  "notes_wf Read v left off \<Longrightarrow> \<exists>res. note_loop Read v left off = Some res"
proof (induction Read v left off rule: notes_wf.induct)
  case (1 Read v left off)
  note wf = "1.prems" [unfolded notes_wf.simps [of Read v left off]]
  show ?case
  proof (cases "left > 16")
    case False
    then show ?thesis by (simp add: note_loop.simps)
  next
    case True
    with wf obtain r where r: "Read (v + off) 16 = Some r" by (auto split: option.splits)
    show ?thesis
    proof (cases r)
      case None
      with True r show ?thesis by (simp add: note_loop.simps)
    next
      case (Some nt)
      show ?thesis
      proof (cases "is_build_id_note nt")
        case True
        with wf \<open>left > 16\<close> r Some show ?thesis by (subst note_loop.simps) simp
      next
        case False
        with wf \<open>left > 16\<close> r Some have fits: "note_header_size nt \<le> left"
          "note_payload_size nt \<le> left - note_header_size nt"
          "notes_wf Read v (left - note_header_size nt - note_payload_size nt)
             (off + note_header_size nt + note_payload_size nt)"
          by (simp_all split: if_splits)
        with "1.IH" [of r nt] True False r Some \<open>left > 16\<close> show ?thesis
          by (subst note_loop.simps) simp
      qed
    qed
  qed
qed

lemma segments_loop_first_note:
  assumes ok: "segs_ok r" and segs: "rd_segments r = Some segs"
    and found: "note_loop Read (rd_base r) (p_filesz (segs ! i)) (p_offset (segs ! i)) = Some (Found rc b)"
    and i: "i < GetNumSegments r" "p_type (segs ! i) = PT_NOTE"
    and before: "\<And>j. j < i \<Longrightarrow> p_type (segs ! j) \<noteq> PT_NOTE"
  shows "k \<le> i \<Longrightarrow> segments_loop Read r [k..<GetNumSegments r] = Some (Found rc b)"
proof (induction "i - k" arbitrary: k)
  case 0
  then have "k = i" by simp
  then show ?case
    using i found GetSegmentHeader_defined [OF ok segs i(1)] by (simp add: upt_conv_Cons)
next
  case (Suc n)
  then have k: "k < i" "k < GetNumSegments r" using i(1) by simp_all
  then show ?case
    using Suc before [OF k(1)] GetSegmentHeader_defined [OF ok segs k(2)] by (simp add: upt_conv_Cons)
qed

text \<open>
  If the first note segment of an image starts with a GNU build-id note of at most 64
  bytes that can be read, the text returned is the hexadecimal form of exactly these
  bytes.
\<close>

lemma ReadBuildId_hex:
  assumes "Reader_Create Read 0 base = Some (Inr r)" and "ReadSegmentHeaders Read r = Some (ELF_OK, r')"
    and "rd_segments r' = Some segs" and "i < length segs" and "p_type (segs ! i) = PT_NOTE"
    and "\<And>j. j < i \<Longrightarrow> p_type (segs ! j) \<noteq> PT_NOTE" and "p_filesz (segs ! i) > 16"
    and "Read (base + p_offset (segs ! i)) 16 = Some (Some nt)" and "is_build_id_note nt"
    and "unat (note_u32 nt 4) \<le> kMaxBuildIdSize"
    and "Read (base + (p_offset (segs ! i) + note_header_size nt)) (unat (note_u32 nt 4))
      = Some (Some buildid)"
    and "buildid \<noteq> []" and "buf_size \<ge> kMaxBuildIdSize * 2 + 1"
  shows "\<exists>s. ReadBuildId Read r buf buf_size = Some (ELF_OK, s, r') \<and> DecodeByteArrayString s = buildid"
proof -
  have ok: "segs_ok r'" by (rule segs_ok_ReadSegmentHeaders [OF segs_ok_Create [OF assms(1)] assms(2)])
  have base: "rd_base r' = base"
    using Reader_Create_Inr [OF assms(1)] ReadSegmentHeaders_cached [OF assms(2)] by auto
  have n: "GetNumSegments r' = length segs" using ok assms(3) by (simp add: segs_ok_def)
  have "note_loop Read base (p_filesz (segs ! i)) (p_offset (segs ! i))
      = Some (Found ELF_OK (Some (EncodeByteArrayString buildid)))"
    using assms(7-12)
    by (subst note_loop.simps) (simp add: build_id_payload_def concat_printf_02x)
  then have "segments_loop Read r' [0..<GetNumSegments r']
      = Some (Found ELF_OK (Some (EncodeByteArrayString buildid)))"
    using assms(4-6) by (intro segments_loop_first_note [OF ok assms(3), of _ i]) (simp_all add: base n)
  with assms(2,13) show ?thesis by (simp add: ReadBuildId_def hex.dec_enc)
qed

section \<open>An image\<close>

text \<open>An ELF header with one note segment that holds the build id \<^verbatim>\<open>abcd\<close>.\<close>

definition test_image :: "u8 list" where
  "test_image =
     [0x7f, 0x45, 0x4c, 0x46] @ replicate 28 0 @ le_bytes 8 64 @ le_bytes 8 0 @ replicate 4 0
     @ le_bytes 2 64 @ le_bytes 2 56 @ le_bytes 2 1 @ le_bytes 2 64 @ le_bytes 2 0 @ replicate 2 0
     @ le_bytes 4 4 @ replicate 4 0 @ le_bytes 8 120 @ replicate 16 0 @ le_bytes 8 20 @ replicate 16 0
     @ le_bytes 4 4 @ le_bytes 4 2 @ le_bytes 4 3 @ [0x47, 0x4e, 0x55, 0] @ [0xab, 0xcd, 0, 0]"

definition test_read :: read_fn where
  "test_read a n =
     (if unat a + n \<le> length test_image then Some (Some (substr test_image (unat a) n)) else Some None)"

definition test_reader :: elf_reader where
  "test_reader =
     \<lparr>rd_base = 0, rd_header = decode_header (substr test_image 0 64), rd_segments = None,
      rd_sections = None\<rparr>"

definition test_segment :: segment_header where
  "test_segment = decode_segment (substr test_image 64 56)"

lemma test_reader_created: "Reader_Create test_read 0 0 = Some (Inr test_reader)"
  by code_simp

lemma test_reader_segments:
  "ReadSegmentHeaders test_read test_reader =
    Some (ELF_OK, test_reader\<lparr>rd_segments := Some [test_segment]\<rparr>)"
  by code_simp

lemma test_reader_sections:
  "ReadSectionHeaders test_read test_reader = Some (ELF_OK, test_reader\<lparr>rd_sections := Some []\<rparr>)"
  by code_simp

lemma test_segment_fields:
  "p_type test_segment = PT_NOTE" "p_filesz test_segment = 20" "p_offset test_segment = 120"
  by code_simp+

lemma test_note:
  "test_read 120 16 = Some (Some (substr test_image 120 16))"
  "is_build_id_note (substr test_image 120 16)" "note_u32 (substr test_image 120 16) 4 = 2"
  "note_header_size (substr test_image 120 16) = 16" "test_read 136 2 = Some (Some [0xab, 0xcd])"
  by code_simp+

lemma Reader_segments_accessible_example:
  "take 4 (e_ident (rd_header test_reader)) = ELFMAG
    \<and> ReadSegmentHeaders test_read test_reader
      = Some (ELF_OK, test_reader\<lparr>rd_segments := Some [test_segment]\<rparr>)"
  using Reader_segments_accessible [OF test_reader_created test_reader_segments] test_reader_segments
  by simp

lemma GetSectionHeaderByType_first_example:
  "GetSectionHeaderByType (test_reader\<lparr>rd_sections := Some []\<rparr>) 2 = Some None"
  using GetSectionHeaderByType_first [OF test_reader_created test_reader_sections, of 2] by auto

theorem note_loop_terminates_witness: "\<exists>res. note_loop test_read 0 20 120 = Some res"
proof -
  have "notes_wf test_read 0 20 120"
    using test_note by (subst notes_wf.simps) (simp add: build_id_payload_def kMaxBuildIdSize_def)
  then show ?thesis by (rule note_loop_terminates)
qed

lemma ReadBuildId_hex_example:
  "\<exists>s. ReadBuildId test_read test_reader [] 129 =
      Some (ELF_OK, s, test_reader\<lparr>rd_segments := Some [test_segment]\<rparr>)
    \<and> DecodeByteArrayString s = [0xab, 0xcd]"
  by (rule ReadBuildId_hex [OF test_reader_created test_reader_segments, where i = 0
        and nt = "substr test_image 120 16" and segs = "[test_segment]"])
    (simp_all add: test_segment_fields test_note kMaxBuildIdSize_def)

end
