(* ===== verification/Dso_List.thy ===== *)
theory Dso_List
  imports Elf_Reader
begin

text \<open>
  The list of shared objects of an inferior: \<^verbatim>\<open>lib/debugger-utils/dso-list.{h,cc}\<close>.  The
  intrusive list is a HOL list; an element is added once its fields are known, which is the
  same because its position depends on its base address only.  The record \<open>dso_env\<close> holds what the
  source takes from outside: the dynamic linker's \<^verbatim>\<open>struct link_map\<close> and \<^verbatim>\<open>struct r_debug\<close>, the
  allocator, the file system and three kernel status codes.  \<open>dso_fetch_loop\<close> is \<open>None\<close> if the
  loop never ends.
\<close>

section \<open>Definitions\<close>

record dso_env =
  sizeof_link_map :: nat
  l_addr :: "u8 list \<Rightarrow> u64"
  l_name :: "u8 list \<Rightarrow> u64"
  l_next :: "u8 list \<Rightarrow> u64"
  sizeof_r_debug :: nat
  r_version :: "u8 list \<Rightarrow> int"
  r_map :: "u8 list \<Rightarrow> u64"
  r_brk :: "u8 list \<Rightarrow> u64"
  calloc_ok :: "nat \<Rightarrow> bool"
  malloc_ok :: "u64 \<Rightarrow> bool"
  asprintf_ok :: bool
  can_open :: "string \<Rightarrow> bool"
  ERR_BAD_STATE :: int
  ERR_NO_MEMORY :: int
  ERR_NOT_FOUND :: int

record dsoinfo =
  dso_base :: u64
  dso_entry :: u64
  dso_phdr :: u64
  dso_loadable_phdrs :: "segment_header list"
  dso_phentsize :: u64
  dso_phnum :: u64
  dso_buildid :: string
  dso_is_main_exec :: bool
  dso_debug_file_tried :: bool
  dso_debug_file_status :: int
  dso_debug_file :: "string option"
  dso_name :: string

definition kDebugDirectory :: string where "kDebugDirectory = ''/boot/debug''"
definition kDebugSuffix :: string where "kDebugSuffix = ''.debug''"

definition dso_new :: "dso_env \<Rightarrow> string \<Rightarrow> u64 \<Rightarrow> dsoinfo option" where
  "dso_new A name base =
     (let name = (if name = ''libc.so'' then ''libmusl.so'' else name) in
      if \<not> calloc_ok A (length name + 1) then None
      else Some
        \<lparr>dso_base = base, dso_entry = 0, dso_phdr = 0, dso_loadable_phdrs = [], dso_phentsize = 0,
         dso_phnum = 0, dso_buildid = replicate (kMaxBuildIdSize * 2) (CHR ''x''),
         dso_is_main_exec = False, dso_debug_file_tried = False,
         dso_debug_file_status = ERR_BAD_STATE A, dso_debug_file = None, dso_name = name\<rparr>)"

fun dsolist_add :: "dsoinfo list \<Rightarrow> dsoinfo \<Rightarrow> dsoinfo list" where
  "dsolist_add [] dso = [dso]"
| "dsolist_add (d # list) dso =
     (if dso_base d < dso_base dso then dso # d # list else d # dsolist_add list dso)"

fun fetch_segments :: "elf_reader \<Rightarrow> nat list \<Rightarrow> segment_header list option" where
  "fetch_segments r [] = Some []"
| "fetch_segments r (i # is) =
     do {
       phdr \<leftarrow> GetSegmentHeader r i;
       rest \<leftarrow> fetch_segments r is;
       Some (phdr # rest)
     }"

definition dso_read_phdrs ::
  "dso_env \<Rightarrow> read_fn \<Rightarrow> elf_reader \<Rightarrow> dsoinfo \<Rightarrow> (elf_reader \<times> dsoinfo) option" where
  "dso_read_phdrs A Read er dso =
     do {
       (rc, er) \<leftarrow> ReadSegmentHeaders Read er;
       if rc \<noteq> ELF_OK then Some (er, dso)
       else do {
         phdrs \<leftarrow> fetch_segments er [0..<GetNumSegments er];
         let loadable = filter (\<lambda>phdr. p_type phdr = PT_LOAD) phdrs;
         if loadable = [] \<or> malloc_ok A (of_nat (length loadable) * e_phentsize (rd_header er)) then
           Some (er, dso\<lparr>dso_loadable_phdrs := loadable\<rparr>)
         else Some (er, dso)
       }
     }"

text \<open>
  What one round of the loop makes of the object at \<^verbatim>\<open>lmap.l_addr\<close>; the flag says that the loop
  is left by \<^verbatim>\<open>break\<close>.
\<close>

definition dso_read ::
  "dso_env \<Rightarrow> read_fn \<Rightarrow> string \<Rightarrow> u64 \<Rightarrow> bool \<Rightarrow> (dsoinfo \<times> bool) option" where
  "dso_read A Read file_name base is_main_exec =
     do {
       dso \<leftarrow> dso_new A file_name base;
       res \<leftarrow> Reader_Create Read 0 base;
       (case res of
          Inl rc \<Rightarrow> Some (dso, True)
        | Inr er \<Rightarrow>
            do {
              let hdr = rd_header er;
              (er, dso) \<leftarrow> dso_read_phdrs A Read er dso;
              (rc, buildid, er) \<leftarrow> ReadBuildId Read er (dso_buildid dso) (kMaxBuildIdSize * 2 + 1);
              Some (dso\<lparr>dso_buildid := buildid, dso_is_main_exec := is_main_exec,
                        dso_entry := base + e_entry hdr, dso_phdr := base + e_phoff hdr,
                        dso_phentsize := e_phentsize hdr, dso_phnum := e_phnum hdr\<rparr>, False)
            })
     }"

text \<open>
  One round of the loop: the new list and, unless the loop is left, the next link map.
\<close>

definition dso_file_name :: "u8 list \<Rightarrow> string \<Rightarrow> string" where
  "dso_file_name dsoname name = (if c_string dsoname \<noteq> [] then c_string dsoname else name)"

definition dso_step ::
  "dso_env \<Rightarrow> read_fn \<Rightarrow> string \<Rightarrow> u64 \<Rightarrow> bool \<Rightarrow> dsoinfo list \<Rightarrow> (dsoinfo list \<times> u64 option) option"
where
  "dso_step A Read name lmap_addr is_main_exec dsolist =
     do {
       lmap \<leftarrow> Read lmap_addr (sizeof_link_map A);
       (case lmap of
          None \<Rightarrow> Some (dsolist, None)
        | Some lm \<Rightarrow>
            do {
              (ok, dsoname) \<leftarrow> ReadString Read (l_name A lm) 64;
              if \<not> ok then Some (dsolist, None)
              else do {
                (dso, stop) \<leftarrow> dso_read A Read (dso_file_name dsoname name) (l_addr A lm) is_main_exec;
                Some (dsolist_add dsolist dso, if stop then None else Some (l_next A lm))
              }
            })
     }"

partial_function (option) dso_fetch_loop ::
  "dso_env \<Rightarrow> read_fn \<Rightarrow> string \<Rightarrow> u64 \<Rightarrow> bool \<Rightarrow> dsoinfo list \<Rightarrow> dsoinfo list option" where
  "dso_fetch_loop A Read name lmap_addr is_main_exec dsolist =
     (if lmap_addr = 0 then Some dsolist
      else do {
        (dsolist, next) \<leftarrow> dso_step A Read name lmap_addr is_main_exec dsolist;
        (case next of
           None \<Rightarrow> Some dsolist
         | Some lmap_addr \<Rightarrow> dso_fetch_loop A Read name lmap_addr False dsolist)
      })"

definition dso_fetch_list ::
  "dso_env \<Rightarrow> read_fn \<Rightarrow> u64 \<Rightarrow> string \<Rightarrow> dsoinfo list option" where
  "dso_fetch_list A Read lmap_addr name = dso_fetch_loop A Read name lmap_addr True []"

fun dso_lookup :: "dsoinfo list \<Rightarrow> u64 \<Rightarrow> dsoinfo option" where
  "dso_lookup [] pc = None"
| "dso_lookup (dso # list) pc = (if pc \<ge> dso_base dso then Some dso else dso_lookup list pc)"

fun dso_get_main_exec :: "dsoinfo list \<Rightarrow> dsoinfo option" where
  "dso_get_main_exec [] = None"
| "dso_get_main_exec (dso # list) =
     (if dso_is_main_exec dso then Some dso else dso_get_main_exec list)"

text \<open>\<open>dso_find_debug_file\<close>: the status, the out parameter if it is set, and the object.\<close>

definition dso_find_debug_file ::
  "dso_env \<Rightarrow> dsoinfo \<Rightarrow> (int \<times> string option \<times> dsoinfo) option" where
  "dso_find_debug_file A dso =
     (if dso_debug_file_tried dso then
        (if dso_debug_file_status dso = NO_ERROR then
           do {
             dcheck (dso_debug_file dso \<noteq> None);
             Some (dso_debug_file_status dso, dso_debug_file dso, dso)
           }
         else Some (dso_debug_file_status dso, None, dso))
      else
        let dso = dso\<lparr>dso_debug_file_tried := True\<rparr> in
        if \<not> asprintf_ok A then
          Some (ERR_NO_MEMORY A, None, dso\<lparr>dso_debug_file_status := ERR_NO_MEMORY A\<rparr>)
        else
          let path = kDebugDirectory @ ''/'' @ dso_buildid dso @ kDebugSuffix in
          if \<not> can_open A path then
            Some (ERR_NOT_FOUND A, None, dso\<lparr>dso_debug_file_status := ERR_NOT_FOUND A\<rparr>)
          else
            Some (NO_ERROR, Some path,
              dso\<lparr>dso_debug_file := Some path, dso_debug_file_status := NO_ERROR\<rparr>))"

section \<open>Order and lookup\<close>

definition dso_sorted :: "dsoinfo list \<Rightarrow> bool" where
  "dso_sorted = sorted_wrt (\<lambda>a b. dso_base b \<le> dso_base a)"

lemma set_dsolist_add [simp]: "set (dsolist_add l d) = insert d (set l)"
  by (induction l) auto

lemma dso_sorted_add: "dso_sorted l \<Longrightarrow> dso_sorted (dsolist_add l d)"
  by (induction l) (auto simp: dso_sorted_def)

lemma filter_dsolist_add:
  "length (filter P (dsolist_add l d)) = length (filter P l) + (if P d then 1 else 0)"
  by (induction l) auto

lemma dso_lookup_greatest:
  assumes "dso_sorted l"
  shows "case dso_lookup l pc of
      None \<Rightarrow> \<forall>d \<in> set l. pc < dso_base d
    | Some d \<Rightarrow> d \<in> set l \<and> dso_base d \<le> pc \<and> (\<forall>e \<in> set l. dso_base e \<le> pc \<longrightarrow> dso_base e \<le> dso_base d)"
  using assms by (induction l) (auto simp: dso_sorted_def split: option.splits)

lemma dso_step_cases:
  assumes "dso_step A Read name addr main l = Some (l', nxt)"
  obtains (break) "l' = l" "nxt = None"
  | (add) f b d stop where "dso_read A Read f b main = Some (d, stop)" "l' = dsolist_add l d"
  using assms by (auto simp: dso_step_def bind_eq_Some_conv split: option.splits if_splits)

lemma dso_step_sorted:
  "dso_step A Read name addr main l = Some (l', nxt) \<Longrightarrow> dso_sorted l \<Longrightarrow> dso_sorted l'"
  by (erule dso_step_cases) (simp_all add: dso_sorted_add)

lemma dso_fetch_loop_sorted:
  "dso_fetch_loop A Read name addr main l = Some l' \<Longrightarrow> dso_sorted l \<longrightarrow> dso_sorted l'"
  by (rule dso_fetch_loop.raw_induct
      [where P = "\<lambda>A Read name addr main l l'. dso_sorted l \<longrightarrow> dso_sorted l'"])
    (auto simp: bind_eq_Some_conv split: if_splits option.splits, (blast dest: dso_step_sorted)+)

text \<open>
  C39: in a fetched list of shared objects, looking an address up gives the object with the
  greatest base address not above it, and nothing only when every object starts above it.
\<close>

theorem dso_lookup_fetched:
  assumes "dso_fetch_list A Read lmap name = Some l"
  shows "case dso_lookup l pc of
      None \<Rightarrow> \<forall>d \<in> set l. pc < dso_base d
    | Some d \<Rightarrow> d \<in> set l \<and> dso_base d \<le> pc \<and> (\<forall>e \<in> set l. dso_base e \<le> pc \<longrightarrow> dso_base e \<le> dso_base d)"
proof (rule dso_lookup_greatest)
  have "dso_sorted []" by (simp add: dso_sorted_def)
  with assms dso_fetch_loop_sorted show "dso_sorted l" unfolding dso_fetch_list_def by blast
qed

section \<open>The main executable\<close>

lemma dso_read_main: "dso_read A Read f b main = Some (d, stop) \<Longrightarrow> dso_is_main_exec d \<Longrightarrow> main"
  by (auto simp: dso_read_def dso_new_def bind_eq_Some_conv Let_def split: if_splits sum.splits)

definition main_count :: "dsoinfo list \<Rightarrow> nat" where
  "main_count l = length (filter dso_is_main_exec l)"

lemma dso_step_main:
  assumes "dso_step A Read name addr main l = Some (l', nxt)"
  shows "main_count l' \<le> main_count l + (if main then 1 else 0)"
  using assms
  by (cases rule: dso_step_cases) (auto simp: main_count_def filter_dsolist_add dest: dso_read_main)

lemma dso_fetch_loop_main:
  assumes "dso_fetch_loop A Read name addr main l = Some l'"
  shows "main_count l' \<le> main_count l + (if main then 1 else 0)"
proof (rule dso_fetch_loop.raw_induct [OF _ assms])
  fix rec :: "dso_env \<Rightarrow> read_fn \<Rightarrow> string \<Rightarrow> u64 \<Rightarrow> bool \<Rightarrow> dsoinfo list \<Rightarrow> dsoinfo list option"
    and A Read name addr main l l'
  assume IH: "\<And>A Read name addr main l l'. rec A Read name addr main l = Some l' \<Longrightarrow>
      main_count l' \<le> main_count l + (if main then 1 else 0)"
    and body: "(if addr = 0 then Some l
      else do {
        (l, next) \<leftarrow> dso_step A Read name addr main l;
        (case next of None \<Rightarrow> Some l | Some addr \<Rightarrow> rec A Read name addr False l)
      }) = Some l'"
  show "main_count l' \<le> main_count l + (if main then 1 else 0)"
  proof (cases "addr = 0")
    case False
    with body obtain l1 nxt where step: "dso_step A Read name addr main l = Some (l1, nxt)"
      and rest: "(case nxt of None \<Rightarrow> Some l1 | Some addr \<Rightarrow> rec A Read name addr False l1) = Some l'"
      by (auto simp: bind_eq_Some_conv)
    have "main_count l' \<le> main_count l1"
      using rest IH [of A Read name _ False l1 l'] by (cases nxt) simp_all
    with dso_step_main [OF step] show ?thesis by linarith
  qed (use body in simp)
qed

text \<open>
  A fetched list names at most one object as the main executable.
\<close>

lemma dso_fetch_list_one_main:
  assumes "dso_fetch_list A Read lmap name = Some l"
  shows "length (filter dso_is_main_exec l) \<le> 1"
  using dso_fetch_loop_main [OF assms [unfolded dso_fetch_list_def]] by (simp add: main_count_def)

section \<open>Termination\<close>

text \<open>\<open>lmap_chain n a\<close>: the chain of link maps from \<open>a\<close> ends, or cannot be read, within \<open>n\<close> steps.\<close>

fun lmap_chain :: "dso_env \<Rightarrow> read_fn \<Rightarrow> nat \<Rightarrow> u64 \<Rightarrow> bool" where
  "lmap_chain A Read 0 addr \<longleftrightarrow> addr = 0"
| "lmap_chain A Read (Suc n) addr \<longleftrightarrow>
     addr = 0 \<or> (case Read addr (sizeof_link_map A) of
       Some (Some lm) \<Rightarrow> lmap_chain A Read n (l_next A lm) | Some None \<Rightarrow> True | None \<Rightarrow> False)"

lemma dso_step_next:
  "dso_step A Read name addr main l = Some (l', Some a) \<Longrightarrow>
    \<exists>lm. Read addr (sizeof_link_map A) = Some (Some lm) \<and> a = l_next A lm"
  by (auto simp: dso_step_def bind_eq_Some_conv split: option.splits if_splits)

lemma dso_fetch_loop_chain:
  assumes "\<And>addr main l. dso_step A Read name addr main l \<noteq> None"
  shows "lmap_chain A Read n addr \<Longrightarrow> \<exists>l'. dso_fetch_loop A Read name addr main l = Some l'"
proof (induction n arbitrary: addr main l)
  case 0
  then show ?case by (simp add: dso_fetch_loop.simps)
next
  case (Suc n)
  obtain l1 nxt where step: "dso_step A Read name addr main l = Some (l1, nxt)"
    using assms [of addr main l] by auto
  show ?case
  proof (cases "addr = 0 \<or> nxt = None")
    case True
    with step show ?thesis by (subst dso_fetch_loop.simps) auto
  next
    case False
    then obtain a where nxt: "nxt = Some a" and "addr \<noteq> 0" by auto
    with dso_step_next [OF step [unfolded nxt]] Suc.prems have "lmap_chain A Read n a" by auto
    from Suc.IH [OF this, of False l1] step nxt \<open>addr \<noteq> 0\<close> show ?thesis
      by (subst dso_fetch_loop.simps) simp
  qed
qed

text \<open>
  Fetching the list of shared objects ends and returns a list for every chain of link maps
  that ends, provided the reads made for a single object return.
\<close>

lemma dso_fetch_list_terminates:
  assumes "\<And>addr main l. dso_step A Read name addr main l \<noteq> None" and "lmap_chain A Read n lmap"
  shows "\<exists>l. dso_fetch_list A Read lmap name = Some l"
  unfolding dso_fetch_list_def by (rule dso_fetch_loop_chain [OF assms])


section \<open>An inferior with one object\<close>

definition test_env :: "(u8 list \<Rightarrow> u64) \<Rightarrow> dso_env" where
  "test_env nx =
     \<lparr>sizeof_link_map = 1, l_addr = (\<lambda>_. 0), l_name = (\<lambda>_. 1), l_next = nx,
      sizeof_r_debug = 1, r_version = (\<lambda>_. 1), r_map = (\<lambda>_. 8), r_brk = (\<lambda>_. 0),
      calloc_ok = (\<lambda>_. True), malloc_ok = (\<lambda>_. True), asprintf_ok = True, can_open = (\<lambda>_. True),
      ERR_BAD_STATE = -20, ERR_NO_MEMORY = -4, ERR_NOT_FOUND = -25\<rparr>"

definition test_dso :: "bool \<Rightarrow> dsoinfo" where
  "test_dso main =
     \<lparr>dso_base = 0, dso_entry = 0, dso_phdr = 64, dso_loadable_phdrs = [], dso_phentsize = 56,
      dso_phnum = 1, dso_buildid = ''abcd'', dso_is_main_exec = main, dso_debug_file_tried = False,
      dso_debug_file_status = -20, dso_debug_file = None, dso_name = ''ELF''\<rparr>"

lemma test_header_fields:
  "e_entry (rd_header test_reader) = 0" "e_phoff (rd_header test_reader) = 64"
  "e_phentsize (rd_header test_reader) = 56" "e_phnum (rd_header test_reader) = 1"
  by code_simp+

lemma test_build_id_note: "note_loop test_read 0 20 120 = Some (Found ELF_OK (Some ''abcd''))"
proof -
  have "printf_02x 0xab = ''ab''" "printf_02x 0xcd = ''cd''" by code_simp+
  then show ?thesis
    using test_note by (subst note_loop.simps) (simp add: build_id_payload_def kMaxBuildIdSize_def)
qed

lemma test_dso_read: "dso_read (test_env nx) test_read ''ELF'' 0 main = Some (test_dso main, False)"
proof -
  let ?r = "test_reader\<lparr>rd_segments := Some [test_segment]\<rparr>"
  have r: "GetNumSegments ?r = 1" "rd_base ?r = 0"
    by (simp_all add: GetNumSegments_def test_header_fields) (simp add: test_reader_def)
  have "ReadBuildId test_read ?r buf 129 = Some (ELF_OK, ''abcd'', ?r)" for buf
    using r by (simp add: ReadBuildId_def ReadSegmentHeaders_def GetSegmentHeader_def kMaxBuildIdSize_def
        test_segment_fields test_build_id_note)
  moreover have "PT_NOTE \<noteq> PT_LOAD" by (simp add: PT_NOTE_def PT_LOAD_def)
  then have "dso_read_phdrs (test_env nx) test_read test_reader dso
      = Some (?r, dso\<lparr>dso_loadable_phdrs := []\<rparr>)" for dso
    using r by (simp add: dso_read_phdrs_def test_reader_segments GetSegmentHeader_def
        test_segment_fields)
  ultimately show ?thesis
    by (simp add: dso_read_def dso_new_def test_env_def test_reader_created test_header_fields
        test_dso_def kMaxBuildIdSize_def)
qed

lemma test_dso_name: "ReadString test_read 1 64 = Some (True, substr test_image 1 63 @ [0])"
  by code_simp

lemma test_c_string: "c_string (substr test_image 1 63 @ [0]) = ''ELF''"
  by code_simp

lemma test_step:
  "dso_step (test_env nx) test_read ''app'' addr main l =
    (case test_read addr 1 of
       Some (Some lm) \<Rightarrow> Some (dsolist_add l (test_dso main), Some (nx lm))
     | _ \<Rightarrow> Some (l, None))"
proof -
  have "dso_file_name (substr test_image 1 63 @ [0]) ''app'' = ''ELF''"
    using test_c_string by (simp add: dso_file_name_def)
  moreover have "test_read addr 1 \<noteq> None" by (simp add: test_read_def)
  ultimately show ?thesis
    using test_dso_read [of nx main]
    by (auto simp: dso_step_def test_dso_name test_env_def split: option.splits)
qed

lemma test_read_8: "\<exists>b. test_read 8 1 = Some (Some b)"
  by (simp add: test_read_def test_image_def)

lemma test_fetch:
  "dso_fetch_list (test_env (\<lambda>_. 0)) test_read 8 ''app'' = Some [test_dso True]"
  using test_read_8 unfolding dso_fetch_list_def
  by (subst dso_fetch_loop.simps) (auto simp: test_step dso_fetch_loop.simps)

theorem dso_lookup_fetched_witness:
  "case dso_lookup [test_dso True] 5 of None \<Rightarrow> False | Some d \<Rightarrow> d = test_dso True \<and> dso_base d \<le> 5"
  using dso_lookup_fetched [OF test_fetch, of 5] by (simp add: test_dso_def)

lemma dso_fetch_list_one_main_example: "length (filter dso_is_main_exec [test_dso True]) \<le> 1"
  by (rule dso_fetch_list_one_main [OF test_fetch])

lemma dso_fetch_list_terminates_example:
  "\<exists>l. dso_fetch_list (test_env (\<lambda>_. 0)) test_read 8 ''app'' = Some l"
proof (rule dso_fetch_list_terminates)
  show "lmap_chain (test_env (\<lambda>_. 0)) test_read 1 8"
    by (auto simp: test_read_def test_env_def split: option.splits)
  show "dso_step (test_env (\<lambda>_. 0)) test_read ''app'' addr main l \<noteq> None" for addr main l
    by (simp add: test_step split: option.splits)
qed


text \<open>
  The search for a debug file is made once: whatever it returned, a second call
  returns the same status and file without looking again, also when the file system has
  changed, and leaves the object alone.
\<close>

lemma dso_find_debug_file_cached:
  assumes "\<not> dso_debug_file_tried dso" and "dso_find_debug_file A dso = Some (st, out, dso')"
    and "ERR_NO_MEMORY A \<noteq> NO_ERROR" and "ERR_NOT_FOUND A \<noteq> NO_ERROR"
  shows "dso_find_debug_file B dso' = Some (st, out, dso') \<and> (st = NO_ERROR \<longleftrightarrow> out \<noteq> None)"
proof -
  have "dso_debug_file_tried dso' \<and> dso_debug_file_status dso' = st
      \<and> (if st = NO_ERROR then out \<noteq> None \<and> dso_debug_file dso' = out else out = None)"
    using assms by (auto simp: dso_find_debug_file_def [of A dso] Let_def split: if_splits)
  then show ?thesis by (cases "st = NO_ERROR") (simp_all add: dso_find_debug_file_def [of B dso'])
qed

lemma dso_find_debug_file_cached_example:
  "\<exists>d. dso_find_debug_file (test_env (\<lambda>_. 0)) (test_dso True) = Some (NO_ERROR, Some ''/boot/debug/abcd.debug'', d)
    \<and> dso_find_debug_file ((test_env (\<lambda>_. 0))\<lparr>can_open := \<lambda>_. False\<rparr>) d
      = Some (NO_ERROR, Some ''/boot/debug/abcd.debug'', d)"
proof -
  obtain d where d: "dso_find_debug_file (test_env (\<lambda>_. 0)) (test_dso True)
      = Some (NO_ERROR, Some ''/boot/debug/abcd.debug'', d)"
    by (simp add: dso_find_debug_file_def test_env_def test_dso_def kDebugDirectory_def kDebugSuffix_def
        Let_def)
  have "\<not> dso_debug_file_tried (test_dso True)" "ERR_NO_MEMORY (test_env (\<lambda>_. 0)) \<noteq> NO_ERROR"
    "ERR_NOT_FOUND (test_env (\<lambda>_. 0)) \<noteq> NO_ERROR" by (simp_all add: test_dso_def test_env_def)
  from dso_find_debug_file_cached [OF this(1) d this(2,3)] d show ?thesis by blast
qed

end
