(* ===== verification/Process.thy ===== *)
theory Process
  imports Thread Exception_Port Dso_List Util "HOL-Library.AList"
begin

text \<open>
  The inferior: \<^verbatim>\<open>lib/inferior-control/process.{h,cc}\<close>.  \<open>process\<close> holds the members of the class; a
  null \<^verbatim>\<open>launchpad_\<close>, \<^verbatim>\<open>dsos_\<close> or handle is 0, the empty list or 0.  \<open>inferior\<close> adds what the
  methods reach through their server: the exception port and the kernel.  A server is an
  extension of that record, so every operation here also works on a server.  \<open>Thread*\<close> is the
  thread's koid, its key in \<open>p_threads\<close>; \<open>p_next_oid\<close> numbers thread objects in the order of their
  creation, for weak pointers.  The delegate of a process is a record of its four call-backs.
\<close>

section \<open>Definitions\<close>

datatype ProcessState = prc_kNew | prc_kStarting | prc_kRunning | prc_kGone

record process =
  p_argv :: "string list"
  p_launchpad :: u64
  p_handle :: handle
  p_state :: ProcessState
  p_id :: u64
  p_base_address :: u64
  p_entry_address :: u64
  p_eport_key :: u64
  p_attached_running :: bool
  p_breakpoints :: ProcessBreakpointSet
  p_threads :: "(u64 \<times> thread) list"
  p_thread_map_stale :: bool
  p_dsos :: "dsoinfo list"
  p_dsos_build_failed :: bool
  p_next_oid :: nat

record 'k inferior =
  i_proc :: process
  i_eport :: eport
  i_k :: 'k

definition Process_new :: process where
  "Process_new =
     \<lparr>p_argv = [], p_launchpad = 0, p_handle = MX_HANDLE_INVALID, p_state = prc_kNew,
      p_id = MX_KOID_INVALID, p_base_address = 0, p_entry_address = 0, p_eport_key = 0,
      p_attached_running = False, p_breakpoints = Map.empty, p_threads = [], p_thread_map_stale = False,
      p_dsos = [], p_dsos_build_failed = False, p_next_oid = 0\<rparr>"

text \<open>\<^verbatim>\<open>std::string::c_str\<close> as a C string.\<close>

definition c_str :: "string \<Rightarrow> string" where
  "c_str s = takeWhile (\<lambda>c. c \<noteq> char_of (0 :: nat)) s"

definition SetupLaunchpad :: "'k mx \<Rightarrow> string list \<Rightarrow> 'k \<Rightarrow> (u64 option \<times> 'k) option" where
  "SetupLaunchpad K argv k =
     do {
       dcheck (argv \<noteq> []);
       let c_args = map c_str argv;
       let fail = (\<lambda>lp k. (None, if lp \<noteq> 0 then launchpad_destroy K lp k else k));
       (case launchpad_create K (basename (Some (hd c_args))) k of
          (status, lp, k) \<Rightarrow>
            if status \<noteq> NO_ERROR then Some (fail lp k)
            else case launchpad_set_args K lp c_args k of
              (status, k) \<Rightarrow>
                if status \<noteq> NO_ERROR then Some (fail lp k)
                else case launchpad_add_vdso_vmo K lp k of
                  (status, k) \<Rightarrow>
                    if status \<noteq> NO_ERROR then Some (fail lp k)
                    else Some (Some lp, launchpad_clone K lp k))
     }"

definition LoadBinary :: "'k mx \<Rightarrow> u64 \<Rightarrow> string \<Rightarrow> 'k \<Rightarrow> (bool \<times> 'k) option" where
  "LoadBinary K lp binary_path k =
     do {
       dcheck (lp \<noteq> 0);
       (case launchpad_elf_load_file K lp (c_str binary_path) k of
          (status, k) \<Rightarrow>
            if status \<noteq> NO_ERROR then Some (False, k)
            else case launchpad_load_vdso K lp k of
              (status, k) \<Rightarrow> Some (status = NO_ERROR, k))
     }"

definition GetProcessId :: "'k mx \<Rightarrow> u64 \<Rightarrow> 'k \<Rightarrow> u64 option" where
  "GetProcessId K lp k =
     do {
       dcheck (lp \<noteq> 0);
       let process_handle = launchpad_get_process_handle K lp k;
       dcheck (process_handle \<noteq> MX_HANDLE_INVALID);
       (case mx_info_handle_basic K process_handle k of
          (status, is_process, koid) \<Rightarrow>
            if status \<noteq> NO_ERROR then Some MX_KOID_INVALID
            else do {
              dcheck is_process;
              Some koid
            })
     }"

definition GetProcessDebugHandle :: "'k mx \<Rightarrow> u64 \<Rightarrow> 'k \<Rightarrow> (handle \<times> 'k) option" where
  "GetProcessDebugHandle K pid k =
     (case mx_object_get_child K MX_HANDLE_INVALID pid k of
        (status, h, k) \<Rightarrow>
          if status \<noteq> NO_ERROR then Some (MX_HANDLE_INVALID, k)
          else do {
            dcheck (h \<noteq> MX_HANDLE_INVALID);
            Some (h, k)
          })"

fun Process_StateName :: "ProcessState \<Rightarrow> string" where
  "Process_StateName prc_kNew = ''kNew''"
| "Process_StateName prc_kStarting = ''kStarting''"
| "Process_StateName prc_kRunning = ''kRunning''"
| "Process_StateName prc_kGone = ''kGone''"

definition Process_set_state :: "ProcessState \<Rightarrow> process \<Rightarrow> process option" where
  "Process_set_state new_state p =
     do {
       (case new_state of
          prc_kNew \<Rightarrow> dcheck (p_state p = prc_kGone)
        | prc_kStarting \<Rightarrow> dcheck (p_state p = prc_kNew)
        | prc_kRunning \<Rightarrow> dcheck (p_state p = prc_kNew \<or> p_state p = prc_kStarting)
        | prc_kGone \<Rightarrow> Some ());
       Some (p\<lparr>p_state := new_state\<rparr>)
     }"

definition Process_IsLive :: "process \<Rightarrow> bool" where
  "Process_IsLive p \<longleftrightarrow> p_state p \<noteq> prc_kNew \<and> p_state p \<noteq> prc_kGone"

definition Process_IsAttached :: "process \<Rightarrow> bool option" where
  "Process_IsAttached p =
     (if p_eport_key p \<noteq> 0 then
        do {
          dcheck (p_handle p \<noteq> MX_HANDLE_INVALID);
          Some True
        }
      else do {
          dcheck (p_handle p = MX_HANDLE_INVALID);
          Some False
        })"

text \<open>What both forms of \<^verbatim>\<open>Initialize\<close> start with: nothing may be left of an earlier run.\<close>

definition Process_Renew :: "process \<Rightarrow> process option" where
  "Process_Renew p =
     do {
       dcheck (p_launchpad p = 0);
       dcheck (p_handle p = MX_HANDLE_INVALID);
       dcheck (p_eport_key p = 0);
       (case p_state p of
          prc_kNew \<Rightarrow> Some p
        | prc_kGone \<Rightarrow> Process_set_state prc_kNew p
        | _ \<Rightarrow> None)
     }"

text \<open>The label \<^verbatim>\<open>fail\<close> of \<^verbatim>\<open>Initialize()\<close>.\<close>

definition Initialize_fail ::
  "'k mx \<Rightarrow> u64 \<Rightarrow> process \<Rightarrow> 'k \<Rightarrow> ('k, 'm) inferior_scheme \<Rightarrow> bool \<times> ('k, 'm) inferior_scheme" where
  "Initialize_fail K lp p k s =
     (False, s\<lparr>i_proc := p\<lparr>p_id := MX_KOID_INVALID, p_launchpad := 0\<rparr>, i_k := launchpad_destroy K lp k\<rparr>)"

text \<open>\<^verbatim>\<open>Initialize()\<close> from \<^verbatim>\<open>LoadBinary\<close> on, with the new launchpad.\<close>

definition Initialize_load ::
  "'k mx \<Rightarrow> u64 \<Rightarrow> process \<Rightarrow> 'k \<Rightarrow> ('k, 'm) inferior_scheme \<Rightarrow> (bool \<times> ('k, 'm) inferior_scheme) option" where
  "Initialize_load K lp p k s =
     do {
       (ok, k) \<leftarrow> LoadBinary K lp (hd (p_argv p)) k;
       if \<not> ok then Some (Initialize_fail K lp p k s)
       else do {
         pid \<leftarrow> GetProcessId K lp k;
         dcheck (pid \<noteq> MX_KOID_INVALID);
         (case launchpad_get_base_address K lp k of
            (status, base) \<Rightarrow>
              if status \<noteq> NO_ERROR then Some (Initialize_fail K lp p k s)
              else
                (case launchpad_get_entry_address K lp k of
                   (status, entry) \<Rightarrow>
                     if status \<noteq> NO_ERROR then
                       Some (Initialize_fail K lp (p\<lparr>p_base_address := base\<rparr>) k s)
                     else Some (True,
                       s\<lparr>i_proc := p\<lparr>p_id := pid, p_base_address := base, p_entry_address := entry,
                         p_launchpad := lp\<rparr>, i_k := k\<rparr>)))
       }
     }"

definition Process_Initialize ::
  "'k mx \<Rightarrow> ('k, 'm) inferior_scheme \<Rightarrow> (bool \<times> ('k, 'm) inferior_scheme) option" where
  "Process_Initialize K s =
     do {
       p \<leftarrow> Process_Renew (i_proc s);
       let p = p\<lparr>p_attached_running := False\<rparr>;
       if p_argv p = [] \<or> hd (p_argv p) = [] then Some (False, s\<lparr>i_proc := p\<rparr>)
       else do {
         (launchpad, k) \<leftarrow> SetupLaunchpad K (p_argv p) (i_k s);
         (case launchpad of
            None \<Rightarrow> Some (False, s\<lparr>i_proc := p, i_k := k\<rparr>)
          | Some lp \<Rightarrow> Initialize_load K lp p k s)
       }
     }"

definition Process_Initialize_pid ::
  "u64 \<Rightarrow> ('k, 'm) inferior_scheme \<Rightarrow> (bool \<times> ('k, 'm) inferior_scheme) option" where
  "Process_Initialize_pid pid s =
     do {
       p \<leftarrow> Process_Renew (i_proc s);
       Some (True, s\<lparr>i_proc := p\<lparr>p_attached_running := True, p_id := pid\<rparr>\<rparr>)
     }"

definition Process_AllocDebugHandle ::
  "'k mx \<Rightarrow> ('k, 'm) inferior_scheme \<Rightarrow> (bool \<times> ('k, 'm) inferior_scheme) option" where
  "Process_AllocDebugHandle K s =
     do {
       dcheck (p_handle (i_proc s) = MX_HANDLE_INVALID);
       (h, k) \<leftarrow> GetProcessDebugHandle K (p_id (i_proc s)) (i_k s);
       if h = MX_HANDLE_INVALID then Some (False, s\<lparr>i_k := k\<rparr>)
       else Some (True, s\<lparr>i_proc := (i_proc s)\<lparr>p_handle := h\<rparr>, i_k := k\<rparr>)
     }"

definition Process_CloseDebugHandle ::
  "'k mx \<Rightarrow> ('k, 'm) inferior_scheme \<Rightarrow> ('k, 'm) inferior_scheme" where
  "Process_CloseDebugHandle K s =
     s\<lparr>i_proc := (i_proc s)\<lparr>p_handle := MX_HANDLE_INVALID\<rparr>,
       i_k := mx_handle_close K (p_handle (i_proc s)) (i_k s)\<rparr>"

definition Process_BindExceptionPort ::
  "'k mx \<Rightarrow> ('k, 'm) inferior_scheme \<Rightarrow> (bool \<times> ('k, 'm) inferior_scheme) option" where
  "Process_BindExceptionPort K s =
     do {
       (key, ep, k) \<leftarrow> ExceptionPort_Bind K (p_handle (i_proc s)) (i_eport s) (i_k s);
       let s = s\<lparr>i_eport := ep, i_k := k\<rparr>;
       if key = 0 then Some (False, s)
       else Some (True, s\<lparr>i_proc := (i_proc s)\<lparr>p_eport_key := key\<rparr>\<rparr>)
     }"

definition Process_UnbindExceptionPort ::
  "'k mx \<Rightarrow> ('k, 'm) inferior_scheme \<Rightarrow> ('k, 'm) inferior_scheme option" where
  "Process_UnbindExceptionPort K s =
     do {
       dcheck (p_eport_key (i_proc s) \<noteq> 0);
       (case ExceptionPort_Unbind K (p_eport_key (i_proc s)) (i_eport s) (i_k s) of
          (ok, ep, k) \<Rightarrow>
            Some (s\<lparr>i_proc := (i_proc s)\<lparr>p_eport_key := 0\<rparr>, i_eport := ep, i_k := k\<rparr>))
     }"

definition Process_Attach ::
  "'k mx \<Rightarrow> ('k, 'm) inferior_scheme \<Rightarrow> (bool \<times> ('k, 'm) inferior_scheme) option" where
  "Process_Attach K s =
     do {
       attached \<leftarrow> Process_IsAttached (i_proc s);
       if attached then Some (False, s)
       else do {
         (ok, s) \<leftarrow> Process_AllocDebugHandle K s;
         if \<not> ok then Some (False, s)
         else do {
           (ok, s) \<leftarrow> Process_BindExceptionPort K s;
           if \<not> ok then Some (False, Process_CloseDebugHandle K s)
           else if p_attached_running (i_proc s) then
             do {
               p \<leftarrow> Process_set_state prc_kRunning (i_proc s);
               Some (True, s\<lparr>i_proc := p\<lparr>p_thread_map_stale := True\<rparr>\<rparr>)
             }
           else Some (True, s)
         }
       }
     }"

definition Process_RawDetach ::
  "'k mx \<Rightarrow> ('k, 'm) inferior_scheme \<Rightarrow> ('k, 'm) inferior_scheme option" where
  "Process_RawDetach K s =
     do {
       dcheck (p_handle (i_proc s) \<noteq> MX_HANDLE_INVALID);
       attached \<leftarrow> Process_IsAttached (i_proc s);
       dcheck attached;
       s \<leftarrow> Process_UnbindExceptionPort K s;
       Some (Process_CloseDebugHandle K s)
     }"

text \<open>
  The threads in the order in which the hash map iterates over them, and the destruction of all of
  them.
\<close>

definition um_threads :: "'k mx \<Rightarrow> (u64 \<times> thread) list \<Rightarrow> thread list" where
  "um_threads K threads = List.map_filter (map_of threads) (um_order K (map fst threads))"

fun destroy_threads :: "'k mx \<Rightarrow> thread list \<Rightarrow> 'k \<Rightarrow> 'k option" where
  "destroy_threads K [] k = Some k"
| "destroy_threads K (t # ts) k =
     do {
       k \<leftarrow> Thread_destroy K t k;
       destroy_threads K ts k
     }"

definition Process_Clear ::
  "'k mx \<Rightarrow> ('k, 'm) inferior_scheme \<Rightarrow> ('k, 'm) inferior_scheme option" where
  "Process_Clear K s =
     do {
       attached \<leftarrow> Process_IsAttached (i_proc s);
       dcheck (\<not> attached);
       k \<leftarrow> destroy_threads K (um_threads K (p_threads (i_proc s))) (i_k s);
       let lp = p_launchpad (i_proc s);
       p \<leftarrow> Process_set_state prc_kGone
         ((i_proc s)\<lparr>p_threads := [], p_thread_map_stale := False, p_id := MX_KOID_INVALID,
            p_base_address := 0, p_entry_address := 0, p_attached_running := False,
            p_dsos := [], p_dsos_build_failed := False, p_launchpad := 0\<rparr>);
       Some (s\<lparr>i_proc := p, i_k := (if lp \<noteq> 0 then launchpad_destroy K lp k else k)\<rparr>)
     }"

definition Process_Detach ::
  "'k mx \<Rightarrow> ('k, 'm) inferior_scheme \<Rightarrow> (bool \<times> ('k, 'm) inferior_scheme) option" where
  "Process_Detach K s =
     do {
       attached \<leftarrow> Process_IsAttached (i_proc s);
       if \<not> attached then Some (False, s)
       else do {
         s \<leftarrow> Process_RawDetach K s;
         s \<leftarrow> Process_Clear K s;
         Some (True, s)
       }
     }"

definition Process_Start ::
  "'k mx \<Rightarrow> ('k, 'm) inferior_scheme \<Rightarrow> (bool \<times> ('k, 'm) inferior_scheme) option" where
  "Process_Start K s =
     do {
       let lp = p_launchpad (i_proc s);
       dcheck (lp \<noteq> 0);
       dcheck (p_handle (i_proc s) \<noteq> MX_HANDLE_INVALID);
       if p_state (i_proc s) \<noteq> prc_kNew then Some (False, s)
       else
         (case launchpad_start K lp (i_k s) of
            (dup_handle, k) \<Rightarrow>
              let s = s\<lparr>i_proc := (i_proc s)\<lparr>p_launchpad := 0\<rparr>, i_k := launchpad_destroy K lp k\<rparr> in
              if dup_handle < 0 then Some (False, s)
              else do {
                p \<leftarrow> Process_set_state prc_kStarting (i_proc s);
                Some (True, s\<lparr>i_proc := p, i_k := mx_handle_close K dup_handle (i_k s)\<rparr>)
              })
     }"

definition Process_Kill ::
  "'k mx \<Rightarrow> ('k, 'm) inferior_scheme \<Rightarrow> (bool \<times> ('k, 'm) inferior_scheme) option" where
  "Process_Kill K s =
     (if p_state (i_proc s) = prc_kNew \<or> p_state (i_proc s) = prc_kGone then Some (True, s)
      else do {
        let h = p_handle (i_proc s);
        dcheck (h \<noteq> MX_HANDLE_INVALID);
        (case mx_task_kill K h (i_k s) of
           (status, k) \<Rightarrow>
             let s = s\<lparr>i_k := k\<rparr> in
             if status \<noteq> NO_ERROR then Some (False, s)
             else do {
               s \<leftarrow> Process_UnbindExceptionPort K s;
               (case mx_wait_terminated K h (i_k s) of
                  (status, terminated, k) \<Rightarrow>
                    do {
                      dcheck (status \<noteq> NO_ERROR \<or> terminated);
                      s \<leftarrow> Process_Clear K (Process_CloseDebugHandle K (s\<lparr>i_k := k\<rparr>));
                      Some (True, s)
                    })
             })
      })"

text \<open>The body of the destructor.\<close>

definition Process_destroy ::
  "'k mx \<Rightarrow> ('k, 'm) inferior_scheme \<Rightarrow> ('k, 'm) inferior_scheme option" where
  "Process_destroy K s =
     do {
       s \<leftarrow>
         (if p_attached_running (i_proc s) then Process_RawDetach K s
          else do {
            (ok, s) \<leftarrow> Process_Kill K s;
            if \<not> ok then Process_RawDetach K s else Some s
          });
       Process_Clear K s
     }"

text \<open>
  \<open>refresh_loop\<close> is the loop of \<^verbatim>\<open>RefreshAllThreads\<close> over the koids; the element a map entry had
  before an assignment is destroyed.
\<close>

fun refresh_loop ::
  "'k mx \<Rightarrow> handle \<Rightarrow> u64 list \<Rightarrow> (u64 \<times> thread) list \<Rightarrow> nat \<Rightarrow> 'k
    \<Rightarrow> ((u64 \<times> thread) list \<times> nat \<times> 'k) option" where
  "refresh_loop K h [] new_threads oid k = Some (new_threads, oid, k)"
| "refresh_loop K h (thread_id # koids) new_threads oid k =
     (case mx_object_get_child K h thread_id k of
        (status, thread_handle, k) \<Rightarrow>
          if status \<noteq> NO_ERROR then refresh_loop K h koids new_threads oid k
          else do {
            t \<leftarrow> Thread_new K oid thread_handle thread_id;
            k \<leftarrow> (case map_of new_threads thread_id of
                    None \<Rightarrow> Some k
                  | Some old \<Rightarrow> Thread_destroy K old k);
            refresh_loop K h koids (AList.update thread_id t new_threads) (Suc oid) k
          })"

definition Process_RefreshAllThreads ::
  "'k mx \<Rightarrow> ('k, 'm) inferior_scheme \<Rightarrow> (bool \<times> ('k, 'm) inferior_scheme) option" where
  "Process_RefreshAllThreads K s =
     do {
       let h = p_handle (i_proc s);
       dcheck (h \<noteq> MX_HANDLE_INVALID);
       (case mx_info_num_threads K h (i_k s) of
          (status, num_threads) \<Rightarrow>
            if status \<noteq> NO_ERROR then Some (False, s)
            else case mx_info_threads K h num_threads (i_k s) of
              (status, koids) \<Rightarrow>
                if status \<noteq> NO_ERROR then Some (False, s)
                else do {
                  dcheck (length koids = num_threads);
                  (new_threads, oid, k) \<leftarrow> refresh_loop K h koids [] (p_next_oid (i_proc s)) (i_k s);
                  k \<leftarrow> destroy_threads K (um_threads K (p_threads (i_proc s))) k;
                  Some (True,
                    s\<lparr>i_proc := (i_proc s)\<lparr>p_threads := new_threads, p_thread_map_stale := False,
                        p_next_oid := oid\<rparr>, i_k := k\<rparr>)
                })
     }"

definition Process_EnsureThreadMapFresh ::
  "'k mx \<Rightarrow> ('k, 'm) inferior_scheme \<Rightarrow> ('k, 'm) inferior_scheme option" where
  "Process_EnsureThreadMapFresh K s =
     (if p_thread_map_stale (i_proc s) then map_option snd (Process_RefreshAllThreads K s) else Some s)"

definition get_thread :: "u64 \<Rightarrow> ('k, 'm) inferior_scheme \<Rightarrow> thread option" where
  "get_thread tid s = map_of (p_threads (i_proc s)) tid"

definition put_thread :: "u64 \<Rightarrow> thread \<Rightarrow> ('k, 'm) inferior_scheme \<Rightarrow> ('k, 'm) inferior_scheme" where
  "put_thread tid t s = s\<lparr>i_proc := (i_proc s)\<lparr>p_threads := AList.update tid t (p_threads (i_proc s))\<rparr>\<rparr>"

definition Process_FindThreadById ::
  "'k mx \<Rightarrow> u64 \<Rightarrow> ('k, 'm) inferior_scheme \<Rightarrow> (u64 option \<times> ('k, 'm) inferior_scheme) option" where
  "Process_FindThreadById K thread_id s =
     do {
       dcheck (p_handle (i_proc s) \<noteq> MX_HANDLE_INVALID);
       if thread_id = 0 then Some (None, s)
       else do {
         s \<leftarrow> Process_EnsureThreadMapFresh K s;
         (case get_thread thread_id s of
            Some t \<Rightarrow> Some (if t_state t = thr_kGone then None else Some thread_id, s)
          | None \<Rightarrow>
              (case mx_object_get_child K (p_handle (i_proc s)) thread_id (i_k s) of
                 (status, thread_handle, k) \<Rightarrow>
                   let s = s\<lparr>i_k := k\<rparr> in
                   if status \<noteq> NO_ERROR then Some (None, s)
                   else do {
                     t \<leftarrow> Thread_new K (p_next_oid (i_proc s)) thread_handle thread_id;
                     Some (Some thread_id,
                       put_thread thread_id t
                         (s\<lparr>i_proc := (i_proc s)\<lparr>p_next_oid := Suc (p_next_oid (i_proc s))\<rparr>\<rparr>))
                   }))
       }
     }"

definition Process_PickOneThread ::
  "'k mx \<Rightarrow> ('k, 'm) inferior_scheme \<Rightarrow> (u64 option \<times> ('k, 'm) inferior_scheme) option" where
  "Process_PickOneThread K s =
     do {
       s \<leftarrow> Process_EnsureThreadMapFresh K s;
       if p_threads (i_proc s) = [] then Some (None, s)
       else Some (Some (hd (um_order K (map fst (p_threads (i_proc s))))), s)
     }"

text \<open>The loops over all threads; \<open>'a\<close> holds the variables a call-back captures.\<close>

fun for_threads :: "(u64 \<Rightarrow> 'a \<Rightarrow> 's \<Rightarrow> ('a \<times> 's) option) \<Rightarrow> u64 list \<Rightarrow> 'a \<Rightarrow> 's \<Rightarrow> ('a \<times> 's) option" where
  "for_threads callback [] a s = Some (a, s)"
| "for_threads callback (tid # tids) a s =
     do {
       (a, s) \<leftarrow> callback tid a s;
       for_threads callback tids a s
     }"

definition Process_ForEachThread ::
  "'k mx \<Rightarrow> (u64 \<Rightarrow> 'a \<Rightarrow> ('k, 'm) inferior_scheme \<Rightarrow> ('a \<times> ('k, 'm) inferior_scheme) option)
    \<Rightarrow> 'a \<Rightarrow> ('k, 'm) inferior_scheme \<Rightarrow> ('a \<times> ('k, 'm) inferior_scheme) option" where
  "Process_ForEachThread K callback a s =
     do {
       s \<leftarrow> Process_EnsureThreadMapFresh K s;
       for_threads callback (um_order K (map fst (p_threads (i_proc s)))) a s
     }"

definition live_callback ::
  "(u64 \<Rightarrow> 'a \<Rightarrow> ('k, 'm) inferior_scheme \<Rightarrow> ('a \<times> ('k, 'm) inferior_scheme) option)
    \<Rightarrow> u64 \<Rightarrow> 'a \<Rightarrow> ('k, 'm) inferior_scheme \<Rightarrow> ('a \<times> ('k, 'm) inferior_scheme) option" where
  "live_callback callback tid a s =
     do {
       t \<leftarrow> get_thread tid s;
       if t_state t \<noteq> thr_kGone then callback tid a s else Some (a, s)
     }"

definition Process_ForEachLiveThread ::
  "'k mx \<Rightarrow> (u64 \<Rightarrow> 'a \<Rightarrow> ('k, 'm) inferior_scheme \<Rightarrow> ('a \<times> ('k, 'm) inferior_scheme) option)
    \<Rightarrow> 'a \<Rightarrow> ('k, 'm) inferior_scheme \<Rightarrow> ('a \<times> ('k, 'm) inferior_scheme) option" where
  "Process_ForEachLiveThread K callback a s =
     do {
       s \<leftarrow> Process_EnsureThreadMapFresh K s;
       for_threads (live_callback callback) (um_order K (map fst (p_threads (i_proc s)))) a s
     }"

definition Process_ReadMemory ::
  "'k mx \<Rightarrow> u64 \<Rightarrow> nat \<Rightarrow> ('k, 'm) inferior_scheme \<Rightarrow> u8 list option option" where
  "Process_ReadMemory K address len s = ProcessMemory_Read K (p_handle (i_proc s)) address len (i_k s)"

definition Process_WriteMemory ::
  "'k mx \<Rightarrow> u64 \<Rightarrow> u8 list \<Rightarrow> ('k, 'm) inferior_scheme \<Rightarrow> (bool \<times> ('k, 'm) inferior_scheme) option" where
  "Process_WriteMemory K address data s =
     do {
       (ok, k) \<leftarrow> ProcessMemory_Write K (p_handle (i_proc s)) address data (i_k s);
       Some (ok, s\<lparr>i_k := k\<rparr>)
     }"

text \<open>Calls on a thread of the process.\<close>

definition on_thread ::
  "u64 \<Rightarrow> (thread \<Rightarrow> 'k \<Rightarrow> ('r \<times> thread \<times> 'k) option) \<Rightarrow> ('k, 'm) inferior_scheme
    \<Rightarrow> ('r \<times> ('k, 'm) inferior_scheme) option" where
  "on_thread tid f s =
     do {
       t \<leftarrow> get_thread tid s;
       (r, t, k) \<leftarrow> f t (i_k s);
       Some (r, put_thread tid t (s\<lparr>i_k := k\<rparr>))
     }"

text \<open>
  \<open>at_ldso_bkpt\<close> is the test made when \<^verbatim>\<open>check_ldso_bkpt\<close> is set: whether the thread is stopped
  at the dynamic linker's breakpoint.
\<close>

definition at_ldso_bkpt ::
  "'k mx \<Rightarrow> u64 \<Rightarrow> u64 \<Rightarrow> ('k, 'm) inferior_scheme \<Rightarrow> (bool \<times> ('k, 'm) inferior_scheme) option" where
  "at_ldso_bkpt K tid brk s =
     on_thread tid (\<lambda>t k.
       do {
         (success, t) \<leftarrow> Thread_RefreshGeneralRegisters K t k;
         dcheck success;
         pc \<leftarrow> GetPC (mx_arch K) (t_gregs t);
         Some (pc - 1 = brk, t, k)
       }) s"

definition Process_TryBuildLoadedDsosList ::
  "'k mx \<Rightarrow> dso_env \<Rightarrow> u64 option \<Rightarrow> bool \<Rightarrow> ('k, 'm) inferior_scheme \<Rightarrow> ('k, 'm) inferior_scheme option"
where
  "Process_TryBuildLoadedDsosList K A thread check_ldso_bkpt s =
     do {
       dcheck (p_dsos (i_proc s) = []);
       tid \<leftarrow> thread;
       (case mx_prop_debug_addr K (p_handle (i_proc s)) (i_k s) of
          (status, debug_addr) \<Rightarrow>
            if status \<noteq> NO_ERROR then Some s
            else do {
              r \<leftarrow> Process_ReadMemory K debug_addr (sizeof_r_debug A) s;
              (case r of
                 None \<Rightarrow> Some s
               | Some debug \<Rightarrow>
                   if r_version A debug = 0 then Some s
                   else do {
                     (here, s) \<leftarrow>
                       (if check_ldso_bkpt then at_ldso_bkpt K tid (r_brk A debug) s
                        else do {
                          dcheck (thread = None);
                          Some (True, s)
                        });
                     if \<not> here then Some s
                     else do {
                       dsos \<leftarrow> dso_fetch_list A (\<lambda>a n. Process_ReadMemory K a n s) (r_map A debug) ''app'';
                       Some (s\<lparr>i_proc := (i_proc s)\<lparr>p_dsos := dsos, p_dsos_build_failed := (dsos = [])\<rparr>\<rparr>)
                     }
                   })
            })
     }"

record 's delegate =
  OnThreadStarting :: "u64 \<Rightarrow> mx_exception_context \<Rightarrow> 's \<Rightarrow> 's option"
  OnThreadExiting :: "u64 \<Rightarrow> mx_excp_type \<Rightarrow> mx_exception_context \<Rightarrow> 's \<Rightarrow> 's option"
  OnProcessExit :: "mx_excp_type \<Rightarrow> mx_exception_context \<Rightarrow> 's \<Rightarrow> 's option"
  OnArchitecturalException :: "u64 \<Rightarrow> mx_excp_type \<Rightarrow> mx_exception_context \<Rightarrow> 's \<Rightarrow> 's option"

definition thread_exception ::
  "'k mx \<Rightarrow> u64 \<Rightarrow> mx_excp_type \<Rightarrow> mx_exception_context \<Rightarrow> ('k, 'm) inferior_scheme
    \<Rightarrow> ('k, 'm) inferior_scheme option" where
  "thread_exception K tid type context s =
     map_option snd (on_thread tid (\<lambda>t k. map_option (Pair ()) (Thread_OnException K type context t k)) s)"

text \<open>\<^verbatim>\<open>OnException\<close> up to the breakpoint test, and the dispatch on the type of the exception.\<close>

definition OnException_thread ::
  "'k mx \<Rightarrow> dso_env \<Rightarrow> mx_excp_type \<Rightarrow> mx_exception_context \<Rightarrow> ('k, 'm) inferior_scheme
    \<Rightarrow> (u64 option \<times> ('k, 'm) inferior_scheme) option" where
  "OnException_thread K A type context s =
     do {
       (thread, s) \<leftarrow>
         (if ctx_tid context \<noteq> MX_KOID_INVALID then Process_FindThreadById K (ctx_tid context) s
          else Some (None, s));
       if type = MX_EXCP_SW_BREAKPOINT then
         do {
           dcheck (thread \<noteq> None);
           if p_dsos (i_proc s) = [] \<and> \<not> p_dsos_build_failed (i_proc s) then
             map_option (Pair thread) (Process_TryBuildLoadedDsosList K A thread True s)
           else Some (thread, s)
         }
       else Some (thread, s)
     }"

definition OnException_gone ::
  "'k mx \<Rightarrow> ('k, 'm) inferior_scheme delegate \<Rightarrow> mx_excp_type \<Rightarrow> mx_exception_context
    \<Rightarrow> ('k, 'm) inferior_scheme \<Rightarrow> ('k, 'm) inferior_scheme option" where
  "OnException_gone K D type context s =
     do {
       p \<leftarrow> Process_set_state prc_kGone (i_proc s);
       s \<leftarrow> OnProcessExit D type context (s\<lparr>i_proc := p\<rparr>);
       (ok, s) \<leftarrow> Process_Detach K s;
       if \<not> ok then Process_Clear K s else Some s
     }"

definition OnException_dispatch ::
  "'k mx \<Rightarrow> ('k, 'm) inferior_scheme delegate \<Rightarrow> mx_excp_type \<Rightarrow> mx_exception_context \<Rightarrow> u64 option
    \<Rightarrow> ('k, 'm) inferior_scheme \<Rightarrow> ('k, 'm) inferior_scheme option" where
  "OnException_dispatch K D type context thread s =
     (if MX_EXCP_IS_ARCH K type then
        do {
          tid \<leftarrow> thread;
          s \<leftarrow> thread_exception K tid type context s;
          OnArchitecturalException D tid type context s
        }
      else
        (case type of
           MX_EXCP_THREAD_STARTING \<Rightarrow>
             do {
               tid \<leftarrow> thread;
               t \<leftarrow> get_thread tid s;
               dcheck (t_state t = thr_kNew);
               s \<leftarrow> thread_exception K tid type context s;
               OnThreadStarting D tid context s
             }
         | MX_EXCP_GONE \<Rightarrow> OnException_gone K D type context s
         | MX_EXCP_THREAD_EXITING \<Rightarrow>
             do {
               tid \<leftarrow> thread;
               s \<leftarrow> thread_exception K tid type context s;
               OnThreadExiting D tid type context s
             }
         | _ \<Rightarrow> Some s))"

definition Process_OnException ::
  "'k mx \<Rightarrow> dso_env \<Rightarrow> ('k, 'm) inferior_scheme delegate \<Rightarrow> mx_excp_type \<Rightarrow> mx_exception_context
    \<Rightarrow> ('k, 'm) inferior_scheme \<Rightarrow> ('k, 'm) inferior_scheme option" where
  "Process_OnException K A D type context s =
     do {
       (thread, s) \<leftarrow> OnException_thread K A type context s;
       OnException_dispatch K D type context thread s
     }"

definition Process_ExitCode :: "'k mx \<Rightarrow> ('k, 'm) inferior_scheme \<Rightarrow> int option" where
  "Process_ExitCode K s =
     do {
       dcheck (p_state (i_proc s) = prc_kGone);
       (case mx_info_process K (p_handle (i_proc s)) (i_k s) of
          (status, exited, return_code) \<Rightarrow> Some (if status = NO_ERROR then return_code else - 1))
     }"

definition Process_GetExecDso :: "process \<Rightarrow> dsoinfo option" where
  "Process_GetExecDso p = dso_get_main_exec (p_dsos p)"

definition Process_LookupDso :: "u64 \<Rightarrow> process \<Rightarrow> dsoinfo option" where
  "Process_LookupDso pc p = dso_lookup (p_dsos p) pc"

end
