(* ===== verification/Process_Inv.thy ===== *)
theory Process_Inv
  imports Process
begin

text \<open>
  The invariant of a process and what every operation does to it.  \<open>proc_core\<close> relates the handle,
  the key of the exception port, the life cycle and the threads; \<open>proc_ok\<close> adds that a process
  that is gone holds nothing.  Operations that touch threads only are \<open>thread_upd\<close> steps, for which
  the invariant is preserved once and for all.
\<close>

section \<open>The invariant\<close>

definition tmap_ok :: "'k mx \<Rightarrow> (u64 \<times> thread) list \<Rightarrow> nat \<Rightarrow> bool" where
  "tmap_ok K ths n \<longleftrightarrow> distinct (map fst ths)
     \<and> (\<forall>(i, t) \<in> set ths. t_id t = i \<and> i \<noteq> 0 \<and> t_oid t < n \<and> thread_ok K t)"

abbreviation threads_ok :: "'k mx \<Rightarrow> process \<Rightarrow> bool" where
  "threads_ok K p \<equiv> tmap_ok K (p_threads p) (p_next_oid p)"

definition proc_core :: "'k mx \<Rightarrow> ('k, 'm) inferior_scheme \<Rightarrow> bool" where
  "proc_core K s \<longleftrightarrow> eport_ok (i_eport s)
     \<and> (p_handle (i_proc s) = MX_HANDLE_INVALID \<longleftrightarrow> p_eport_key (i_proc s) = 0)
     \<and> (p_eport_key (i_proc s) \<noteq> 0 \<longrightarrow>
          eport_bound (i_eport s) (p_eport_key (i_proc s)) = Some (p_handle (i_proc s)))
     \<and> (Process_IsLive (i_proc s) \<longrightarrow> p_handle (i_proc s) \<noteq> MX_HANDLE_INVALID \<and> p_launchpad (i_proc s) = 0)
     \<and> (p_threads (i_proc s) \<noteq> [] \<or> p_thread_map_stale (i_proc s) \<longrightarrow>
          p_handle (i_proc s) \<noteq> MX_HANDLE_INVALID)
     \<and> threads_ok K (i_proc s)"

definition proc_clean :: "process \<Rightarrow> bool" where
  "proc_clean p \<longleftrightarrow> p_handle p = MX_HANDLE_INVALID \<and> p_eport_key p = 0 \<and> p_launchpad p = 0"

definition proc_ok :: "'k mx \<Rightarrow> ('k, 'm) inferior_scheme \<Rightarrow> bool" where
  "proc_ok K s \<longleftrightarrow> proc_core K s \<and> (p_state (i_proc s) = prc_kGone \<longrightarrow> proc_clean (i_proc s))"

text \<open>Steps that change nothing of the process but its threads.\<close>

definition thread_upd :: "'k mx \<Rightarrow> ('k, 'm) inferior_scheme \<Rightarrow> ('k, 'm) inferior_scheme \<Rightarrow> bool" where
  "thread_upd K s s' \<longleftrightarrow> (\<exists>ths stale oid k.
     s' = s\<lparr>i_proc := (i_proc s)\<lparr>p_threads := ths, p_thread_map_stale := stale, p_next_oid := oid\<rparr>, i_k := k\<rparr>
     \<and> (stale \<longrightarrow> p_thread_map_stale (i_proc s)) \<and> p_next_oid (i_proc s) \<le> oid
     \<and> (p_handle (i_proc s) = MX_HANDLE_INVALID \<longrightarrow> ths = p_threads (i_proc s))
     \<and> (threads_ok K (i_proc s) \<longrightarrow> threads_ok K (i_proc s')))"

lemma thread_upd_refl [simp, intro]: "thread_upd K s s"
  unfolding thread_upd_def
  by (rule exI [of _ "p_threads (i_proc s)"], rule exI [of _ "p_thread_map_stale (i_proc s)"],
      rule exI [of _ "p_next_oid (i_proc s)"], rule exI [of _ "i_k s"]) simp

lemma thread_upd_trans:
  assumes "thread_upd K s s'" and "thread_upd K s' s''"
  shows "thread_upd K s s''"
proof -
  from assms(1) obtain ths stale oid k where
    1: "s' = s\<lparr>i_proc := (i_proc s)\<lparr>p_threads := ths, p_thread_map_stale := stale, p_next_oid := oid\<rparr>, i_k := k\<rparr>"
      "stale \<longrightarrow> p_thread_map_stale (i_proc s)" "p_next_oid (i_proc s) \<le> oid"
      "p_handle (i_proc s) = MX_HANDLE_INVALID \<longrightarrow> ths = p_threads (i_proc s)"
      "threads_ok K (i_proc s) \<longrightarrow> threads_ok K (i_proc s')" unfolding thread_upd_def by blast
  from assms(2) obtain ths' stale' oid' k' where
    2: "s'' = s'\<lparr>i_proc := (i_proc s')\<lparr>p_threads := ths', p_thread_map_stale := stale', p_next_oid := oid'\<rparr>, i_k := k'\<rparr>"
      "stale' \<longrightarrow> p_thread_map_stale (i_proc s')" "p_next_oid (i_proc s') \<le> oid'"
      "p_handle (i_proc s') = MX_HANDLE_INVALID \<longrightarrow> ths' = p_threads (i_proc s')"
      "threads_ok K (i_proc s') \<longrightarrow> threads_ok K (i_proc s'')" unfolding thread_upd_def by blast
  have "s'' = s\<lparr>i_proc := (i_proc s)\<lparr>p_threads := ths', p_thread_map_stale := stale', p_next_oid := oid'\<rparr>, i_k := k'\<rparr>"
    unfolding 2(1) unfolding 1(1) by simp
  moreover have "stale' \<longrightarrow> p_thread_map_stale (i_proc s)" "p_next_oid (i_proc s) \<le> oid'"
    "p_handle (i_proc s) = MX_HANDLE_INVALID \<longrightarrow> ths' = p_threads (i_proc s)"
    using 1(2-4) 2(2-4) unfolding 1(1) by auto
  ultimately show ?thesis using 1(5) 2(5) unfolding thread_upd_def by blast
qed

lemma thread_upd_frame:
  assumes "thread_upd K s s'"
  shows "inferior.more s' = inferior.more s" "i_eport s' = i_eport s"
    "p_handle (i_proc s') = p_handle (i_proc s)" "p_eport_key (i_proc s') = p_eport_key (i_proc s)"
    "p_state (i_proc s') = p_state (i_proc s)" "p_id (i_proc s') = p_id (i_proc s)"
    "p_launchpad (i_proc s') = p_launchpad (i_proc s)" "p_argv (i_proc s') = p_argv (i_proc s)"
    "p_attached_running (i_proc s') = p_attached_running (i_proc s)"
    "p_dsos (i_proc s') = p_dsos (i_proc s)"
    "p_dsos_build_failed (i_proc s') = p_dsos_build_failed (i_proc s)"
    "p_base_address (i_proc s') = p_base_address (i_proc s)"
    "p_breakpoints (i_proc s') = p_breakpoints (i_proc s)"
  using assms by (auto simp: thread_upd_def)

lemma thread_upd_core:
  assumes "thread_upd K s s'" and "proc_core K s"
  shows "proc_core K s'"
proof -
  note frame = thread_upd_frame [OF assms(1)]
  from assms(1) obtain ths stale oid k where
    s': "s' = s\<lparr>i_proc := (i_proc s)\<lparr>p_threads := ths, p_thread_map_stale := stale, p_next_oid := oid\<rparr>, i_k := k\<rparr>"
    and "stale \<longrightarrow> p_thread_map_stale (i_proc s)"
      "p_handle (i_proc s) = MX_HANDLE_INVALID \<longrightarrow> ths = p_threads (i_proc s)"
      "threads_ok K (i_proc s) \<longrightarrow> threads_ok K (i_proc s')" unfolding thread_upd_def by blast
  moreover have "p_threads (i_proc s') = ths" "p_thread_map_stale (i_proc s') = stale" by (simp_all add: s')
  ultimately show ?thesis
    using assms(2) unfolding proc_core_def Process_IsLive_def frame by metis
qed

lemma thread_upd_ok:
  "thread_upd K s s' \<Longrightarrow> proc_ok K s \<Longrightarrow> proc_ok K s'"
  using thread_upd_core [of K s s'] thread_upd_frame [of K s s']
  by (auto simp: proc_ok_def proc_clean_def)

lemma thread_upd_kernel [simp]: "thread_upd K s (s\<lparr>i_k := k\<rparr>)"
  unfolding thread_upd_def
  by (rule exI [of _ "p_threads (i_proc s)"], rule exI [of _ "p_thread_map_stale (i_proc s)"],
      rule exI [of _ "p_next_oid (i_proc s)"], rule exI [of _ k]) simp

lemma IsAttached_core: "proc_core K s \<Longrightarrow>
    Process_IsAttached (i_proc s) = Some (p_handle (i_proc s) \<noteq> MX_HANDLE_INVALID)"
  by (auto simp: proc_core_def Process_IsAttached_def)

section \<open>Threads\<close>

lemma Thread_destroy_total:
  assumes "mx_kernel K" and "thread_ok K t" shows "run (\<lambda>_. True) (Thread_destroy K t k)"
proof -
  have len: "length (t_gregs t) = mx_sizeof_gregs K" using assms(2) by (simp add: thread_ok_def)
  obtain t' k' where c: "Thread_Clear K t k = (t', k')" "t_gregs t' = t_gregs t" "t_ss t' = t_ss t"
    by (cases "Thread_Clear K t k") (auto simp: Thread_Clear_def)
  show ?thesis
  proof (cases "t_ss t")
    case None
    with c show ?thesis by (simp add: Thread_destroy_def)
  next
    case (Some b)
    with ss_destroy [OF assms(1) len, of "t_state t'" "t_handle t'" b k'] c show ?thesis
      by (auto simp: Thread_destroy_def)
  qed
qed

lemma destroy_threads_total:
  assumes "mx_kernel K" and "\<forall>t \<in> set ts. thread_ok K t"
  shows "run (\<lambda>_. True) (destroy_threads K ts k)"
  using assms(2)
proof (induction ts arbitrary: k)
  case (Cons t ts)
  then show ?case by (auto intro!: run_bindI [OF Thread_destroy_total [OF assms(1)]])
qed simp

lemma um_threads_ok: "tmap_ok K ths n \<Longrightarrow> \<forall>t \<in> set (um_threads K ths). thread_ok K t"
  by (auto simp: um_threads_def tmap_ok_def map_filter_def dest!: map_of_SomeD)

lemma tmap_ok_Nil [simp]: "tmap_ok K [] n"
  by (simp add: tmap_ok_def)

lemma tmap_ok_mono: "tmap_ok K ths n \<Longrightarrow> n \<le> m \<Longrightarrow> tmap_ok K ths m"
  by (fastforce simp: tmap_ok_def)

lemma set_alist_update: "x \<in> set (AList.update i t al) \<Longrightarrow> x = (i, t) \<or> x \<in> set al"
  by (induction al) (auto split: if_splits)

lemma tmap_ok_update:
  assumes "tmap_ok K ths n" and "t_id t = i" and "i \<noteq> 0" and "t_oid t < n" and "thread_ok K t"
  shows "tmap_ok K (AList.update i t ths) n"
proof -
  have "distinct (map fst (AList.update i t ths))"
    using assms(1) by (simp add: tmap_ok_def AList.distinct_update)
  moreover have "case x of (i, t) \<Rightarrow> t_id t = i \<and> i \<noteq> 0 \<and> t_oid t < n \<and> thread_ok K t"
    if "x \<in> set (AList.update i t ths)" for x
    using set_alist_update [OF that] assms by (auto simp: tmap_ok_def)
  ultimately show ?thesis by (simp add: tmap_ok_def)
qed

lemma tmap_ok_lookup: "tmap_ok K ths n \<Longrightarrow> map_of ths tid = Some t \<Longrightarrow>
    thread_ok K t \<and> t_id t = tid \<and> tid \<noteq> 0 \<and> t_oid t < n"
  by (auto simp: tmap_ok_def dest!: map_of_SomeD)

lemma get_thread_ok: "proc_core K s \<Longrightarrow> get_thread tid s = Some t \<Longrightarrow>
    thread_ok K t \<and> t_id t = tid \<and> tid \<noteq> 0 \<and> t_oid t < p_next_oid (i_proc s)"
  using tmap_ok_lookup [of K "p_threads (i_proc s)" "p_next_oid (i_proc s)" tid t]
  by (simp add: get_thread_def proc_core_def)

lemma get_put_thread [simp]:
  "get_thread i (put_thread j t s) = (if i = j then Some t else get_thread i s)"
  by (simp add: get_thread_def put_thread_def AList.update_conv')

lemma get_thread_kernel [simp]: "get_thread i (s\<lparr>i_k := k\<rparr>) = get_thread i s"
  by (simp add: get_thread_def)

lemma get_thread_attached:
  "proc_core K s \<Longrightarrow> get_thread tid s = Some t \<Longrightarrow> p_handle (i_proc s) \<noteq> MX_HANDLE_INVALID"
  by (auto simp: proc_core_def get_thread_def)

lemma thread_updI:
  assumes "p_handle (i_proc s) \<noteq> MX_HANDLE_INVALID" and "p_next_oid (i_proc s) \<le> oid"
    and "stale \<longrightarrow> p_thread_map_stale (i_proc s)" and "threads_ok K (i_proc s) \<longrightarrow> tmap_ok K ths oid"
  shows "thread_upd K s (s\<lparr>i_proc := (i_proc s)\<lparr>p_threads := ths, p_thread_map_stale := stale,
      p_next_oid := oid\<rparr>, i_k := k\<rparr>)"
  unfolding thread_upd_def
  by (rule exI [of _ ths], rule exI [of _ stale], rule exI [of _ oid], rule exI [of _ k]) (use assms in simp)

lemma put_thread_upd:
  assumes "p_handle (i_proc s) \<noteq> MX_HANDLE_INVALID" and "t_id t = tid" and "tid \<noteq> 0"
    and "t_oid t < p_next_oid (i_proc s)" and "thread_ok K t"
  shows "thread_upd K s (put_thread tid t (s\<lparr>i_k := k\<rparr>))"
proof -
  have "put_thread tid t (s\<lparr>i_k := k\<rparr>) = s\<lparr>i_proc := (i_proc s)\<lparr>
      p_threads := AList.update tid t (p_threads (i_proc s)),
      p_thread_map_stale := p_thread_map_stale (i_proc s), p_next_oid := p_next_oid (i_proc s)\<rparr>, i_k := k\<rparr>"
    by (simp add: put_thread_def)
  moreover have "thread_upd K s \<dots>"
    using assms by (intro thread_updI) (simp_all add: tmap_ok_update)
  ultimately show ?thesis by simp
qed

lemma on_thread_post:
  assumes "proc_core K s"
    and "\<And>t k. get_thread tid s = Some t \<Longrightarrow> thread_ok K t \<Longrightarrow> post (\<lambda>(r, t', k').
      thread_ok K t' \<and> t_id t' = t_id t \<and> t_oid t' = t_oid t \<and> Q r t') (f t k)"
  shows "post (\<lambda>(r, s'). thread_upd K s s' \<and> (\<exists>t'. get_thread tid s' = Some t' \<and> Q r t')
      \<and> (\<forall>j. j \<noteq> tid \<longrightarrow> get_thread j s' = get_thread j s)) (on_thread tid f s)"
proof (cases "get_thread tid s")
  case None
  then show ?thesis by (simp add: on_thread_def)
next
  case (Some t)
  note t = get_thread_ok [OF assms(1) Some] and h = get_thread_attached [OF assms(1) Some]
  show ?thesis
    unfolding on_thread_def using Some t h
    by (auto intro!: post_mono [OF assms(2)] put_thread_upd simp: post_bind)
qed

lemma on_thread_run:
  assumes "proc_core K s" and "get_thread tid s = Some t"
    and "\<And>k. thread_ok K t \<Longrightarrow> run (\<lambda>(r, t', k').
      thread_ok K t' \<and> t_id t' = t_id t \<and> t_oid t' = t_oid t \<and> Q r t') (f t k)"
  shows "run (\<lambda>(r, s'). thread_upd K s s' \<and> (\<exists>t'. get_thread tid s' = Some t' \<and> Q r t')
      \<and> (\<forall>j. j \<noteq> tid \<longrightarrow> get_thread j s' = get_thread j s)) (on_thread tid f s)"
proof -
  note t = get_thread_ok [OF assms(1,2)] and h = get_thread_attached [OF assms(1,2)]
  show ?thesis
    unfolding on_thread_def using assms(2) t h
    by (auto intro!: run_mono [OF assms(3)] put_thread_upd simp: run_bind)
qed

section \<open>The thread map\<close>

lemma refresh_loop_ok:
  assumes "mx_kernel K"
  shows "0 \<notin> set koids \<Longrightarrow> tmap_ok K ths oid \<Longrightarrow>
    run (\<lambda>(ths', oid', k'). oid \<le> oid' \<and> tmap_ok K ths' oid') (refresh_loop K h koids ths oid k)"
proof (induction koids arbitrary: ths oid k)
  case (Cons i koids)
  obtain st th k1 where gc: "mx_object_get_child K h i k = (st, th, k1)" by (metis prod_cases3)
  show ?case
  proof (cases "st = NO_ERROR")
    case False
    with gc Cons show ?thesis by simp
  next
    case True
    have th: "th \<noteq> MX_HANDLE_INVALID"
      using mx_kernel.get_child_valid [OF assms] gc True by blast
    let ?t = "\<lparr>t_oid = oid, t_handle = th, t_id = i, t_state = thr_kNew,
             t_gregs = Registers_new K, t_ss = None, t_exc = None, t_ipt_buffer = None\<rparr>"
    from th Cons.prems(1) have new: "Thread_new K oid th i = Some ?t" by (simp add: Thread_new_def)
    from thread_ok_new [OF new] have "tmap_ok K (AList.update i ?t ths) (Suc oid)"
      using Cons.prems by (auto intro!: tmap_ok_update elim: tmap_ok_mono)
    then have IH: "run (\<lambda>(ths', oid', k'). oid \<le> oid' \<and> tmap_ok K ths' oid')
        (refresh_loop K h koids (AList.update i ?t ths) (Suc oid) k2)" for k2
      using Cons.IH [of "AList.update i ?t ths" "Suc oid" k2] Cons.prems(1) by (auto elim: run_mono)
    have "run (\<lambda>_. True) (case map_of ths i of None \<Rightarrow> Some k1 | Some old \<Rightarrow> Thread_destroy K old k1)"
      using Thread_destroy_total [OF assms] tmap_ok_lookup [OF Cons.prems(2)] by (auto split: option.split)
    then show ?thesis using gc True new IH by (auto intro: run_bindI)
  qed
qed simp

lemma RefreshAllThreads_ok:
  assumes "mx_kernel K" and "proc_core K s" and "p_handle (i_proc s) \<noteq> MX_HANDLE_INVALID"
  shows "run (\<lambda>(ok, s'). thread_upd K s s') (Process_RefreshAllThreads K s)"
proof -
  let ?h = "p_handle (i_proc s)"
  obtain st n where n: "mx_info_num_threads K ?h (i_k s) = (st, n)" by fastforce
  obtain st' koids where koids: "mx_info_threads K ?h n (i_k s) = (st', koids)" by fastforce
  show ?thesis
  proof (cases "st = NO_ERROR \<and> st' = NO_ERROR")
    case False
    with n koids assms(3) show ?thesis by (auto simp: Process_RefreshAllThreads_def Let_def)
  next
    case True
    then have ids: "length koids = n" "0 \<notin> set koids"
      using mx_kernel.num_threads_exact [OF assms(1)] n koids by blast+
    have threads: "threads_ok K (i_proc s)" using assms(2) by (simp add: proc_core_def)
    have d: "run (\<lambda>_. True) (destroy_threads K (um_threads K (p_threads (i_proc s))) k)" for k
      by (rule destroy_threads_total [OF assms(1) um_threads_ok [OF threads]])
    have r: "run (\<lambda>(ths', oid', k'). p_next_oid (i_proc s) \<le> oid' \<and> tmap_ok K ths' oid')
        (refresh_loop K ?h koids [] (p_next_oid (i_proc s)) (i_k s))"
      by (rule refresh_loop_ok [OF assms(1) ids(2)]) simp
    show ?thesis
      unfolding Process_RefreshAllThreads_def using True n koids assms(3) ids(1)
      by (auto simp: Let_def intro!: run_bindI [OF r] run_bindI [OF d] thread_updI)
  qed
qed

lemma EnsureThreadMapFresh_ok:
  assumes "mx_kernel K" and "proc_core K s"
  shows "run (\<lambda>s'. thread_upd K s s') (Process_EnsureThreadMapFresh K s)"
proof (cases "p_thread_map_stale (i_proc s)")
  case True
  then have "p_handle (i_proc s) \<noteq> MX_HANDLE_INVALID"
    using assms(2) unfolding proc_core_def by blast
  from RefreshAllThreads_ok [OF assms this] True show ?thesis
    by (auto simp: Process_EnsureThreadMapFresh_def elim: run_mono)
qed (simp add: Process_EnsureThreadMapFresh_def)

lemma FindThreadById_ok:
  assumes "mx_kernel K" and "proc_core K s" and "p_handle (i_proc s) \<noteq> MX_HANDLE_INVALID"
  shows "run (\<lambda>(r, s'). thread_upd K s s' \<and>
      (case r of None \<Rightarrow> True | Some i \<Rightarrow> i = tid \<and> (\<exists>t. get_thread i s' = Some t \<and> t_state t \<noteq> thr_kGone)))
    (Process_FindThreadById K tid s)"
proof (cases "tid = 0")
  case True
  with assms(3) show ?thesis by (simp add: Process_FindThreadById_def)
next
  case False
  note fresh = EnsureThreadMapFresh_ok [OF assms(1,2)]
  have step: "run (\<lambda>(r, s'). thread_upd K s1 s' \<and>
      (case r of None \<Rightarrow> True | Some i \<Rightarrow> i = tid \<and> (\<exists>t. get_thread i s' = Some t \<and> t_state t \<noteq> thr_kGone)))
    (case get_thread tid s1 of
       Some t \<Rightarrow> Some (if t_state t = thr_kGone then None else Some tid, s1)
     | None \<Rightarrow> (case mx_object_get_child K (p_handle (i_proc s1)) tid (i_k s1) of
         (status, th, k) \<Rightarrow> let s1 = s1\<lparr>i_k := k\<rparr> in
           if status \<noteq> NO_ERROR then Some (None, s1)
           else do { t \<leftarrow> Thread_new K (p_next_oid (i_proc s1)) th tid;
             Some (Some tid, put_thread tid t
               (s1\<lparr>i_proc := (i_proc s1)\<lparr>p_next_oid := Suc (p_next_oid (i_proc s1))\<rparr>\<rparr>)) }))"
    (is "run ?P ?x") if u: "thread_upd K s s1" for s1
  proof (cases "get_thread tid s1")
    case None
    obtain st th k1 where gc: "mx_object_get_child K (p_handle (i_proc s1)) tid (i_k s1) = (st, th, k1)"
      by (metis prod_cases3)
    show ?thesis
    proof (cases "st = NO_ERROR")
      case True
      then have "th \<noteq> MX_HANDLE_INVALID" using mx_kernel.get_child_valid [OF assms(1)] gc by blast
      with False obtain t where new: "Thread_new K (p_next_oid (i_proc s1)) th tid = Some t"
        "t_oid t = p_next_oid (i_proc s1)" "t_id t = tid" by (simp add: Thread_new_def)
      note t = thread_ok_new [OF new(1)]
      let ?s = "s1\<lparr>i_proc := (i_proc s1)\<lparr>p_threads := AList.update tid t (p_threads (i_proc s1)),
        p_thread_map_stale := p_thread_map_stale (i_proc s1), p_next_oid := Suc (p_next_oid (i_proc s1))\<rparr>, i_k := k1\<rparr>"
      have eq: "put_thread tid t (s1\<lparr>i_k := k1, i_proc := (i_proc s1)\<lparr>p_next_oid := Suc (p_next_oid (i_proc s1))\<rparr>\<rparr>) = ?s"
        by (simp add: put_thread_def)
      have "thread_upd K s1 ?s"
        using assms(3) u False new t
        by (intro thread_updI) (auto simp: thread_upd_frame intro!: tmap_ok_update elim: tmap_ok_mono)
      moreover have "get_thread tid ?s = Some t" by (simp add: get_thread_def AList.update_conv')
      ultimately show ?thesis using None gc True new t eq by (simp add: Let_def)
    qed (simp add: None gc Let_def)
  qed simp
  show ?thesis
    unfolding Process_FindThreadById_def using assms(3) False
    by (auto intro!: run_bindI [OF fresh] run_mono [OF step] intro: thread_upd_trans)
qed

lemma PickOneThread_ok:
  assumes "mx_kernel K" and "proc_core K s"
  shows "run (\<lambda>(r, s'). thread_upd K s s' \<and>
      (case r of None \<Rightarrow> p_threads (i_proc s') = [] | Some i \<Rightarrow> \<exists>t. get_thread i s' = Some t))
    (Process_PickOneThread K s)"
proof -
  have "\<exists>t. get_thread (hd (um_order K (map fst (p_threads (i_proc s1))))) s1 = Some t"
    if "p_threads (i_proc s1) \<noteq> []" for s1 :: "('a, 'b) inferior_scheme"
  proof -
    have "um_order K (map fst (p_threads (i_proc s1))) \<noteq> []"
      using that mx_kernel.um_order_Nil [OF assms(1)] by simp
    then have "hd (um_order K (map fst (p_threads (i_proc s1)))) \<in> fst ` set (p_threads (i_proc s1))"
      using mx_kernel.um_order_set [OF assms(1)] hd_in_set by (metis image_set)
    then show ?thesis by (cases "get_thread (hd (um_order K (map fst (p_threads (i_proc s1))))) s1")
      (auto simp: get_thread_def map_of_eq_None_iff)
  qed
  then show ?thesis
    unfolding Process_PickOneThread_def
    by (auto intro!: run_bindI [OF EnsureThreadMapFresh_ok [OF assms]])
qed

section \<open>The life cycle\<close>

text \<open>\<open>released K s s'\<close>: from \<open>s\<close> the process was given up, and nothing of it is left.\<close>

definition released :: "'k mx \<Rightarrow> ('k, 'm) inferior_scheme \<Rightarrow> ('k, 'm) inferior_scheme \<Rightarrow> bool" where
  "released K s s' \<longleftrightarrow> proc_ok K s' \<and> p_state (i_proc s') = prc_kGone \<and> proc_clean (i_proc s')
     \<and> p_threads (i_proc s') = [] \<and> p_dsos (i_proc s') = [] \<and> p_id (i_proc s') = MX_KOID_INVALID
     \<and> \<not> p_attached_running (i_proc s') \<and> p_next_oid (i_proc s') = p_next_oid (i_proc s)
     \<and> p_argv (i_proc s') = p_argv (i_proc s)
     \<and> inferior.more s' = inferior.more s \<and> (eport_open (i_eport s') \<longleftrightarrow> eport_open (i_eport s))
     \<and> eport_bound (i_eport s') = (if p_eport_key (i_proc s) = 0 then eport_bound (i_eport s)
         else (eport_bound (i_eport s))(p_eport_key (i_proc s) := None))"

lemma Clear_ok:
  assumes "mx_kernel K" and "eport_ok (i_eport s)" and "threads_ok K (i_proc s)"
    and "p_handle (i_proc s) = MX_HANDLE_INVALID" and "p_eport_key (i_proc s) = 0"
  shows "run (released K s) (Process_Clear K s)"
  unfolding Process_Clear_def using assms(2-)
  by (auto intro!: run_bindI [OF destroy_threads_total [OF assms(1) um_threads_ok [OF assms(3)]]]
      simp: Process_IsAttached_def Process_set_state_def released_def proc_ok_def proc_core_def
        proc_clean_def Process_IsLive_def)

lemma UnbindExceptionPort_ok:
  assumes "p_eport_key (i_proc s) \<noteq> 0" and "eport_ok (i_eport s)"
  shows "run (\<lambda>s'. \<exists>ep k. s' = s\<lparr>i_proc := (i_proc s)\<lparr>p_eport_key := 0\<rparr>, i_eport := ep, i_k := k\<rparr>
      \<and> eport_ok ep \<and> (eport_open ep \<longleftrightarrow> eport_open (i_eport s))
      \<and> eport_bound ep = (eport_bound (i_eport s))(p_eport_key (i_proc s) := None))
    (Process_UnbindExceptionPort K s)"
proof -
  obtain b ep k where u: "ExceptionPort_Unbind K (p_eport_key (i_proc s)) (i_eport s) (i_k s) = (b, ep, k)"
    by (metis prod_cases3)
  with assms registry.unbind_ok [OF assms(2) u] registry.unbind_bound [OF assms(2) u] show ?thesis
    by (auto simp: Process_UnbindExceptionPort_def)
qed

lemma Detach_ok:
  assumes "mx_kernel K" and "proc_core K s"
  shows "run (\<lambda>(ok, s'). (ok \<longleftrightarrow> p_handle (i_proc s) \<noteq> MX_HANDLE_INVALID)
      \<and> (if ok then released K s s' else s' = s)) (Process_Detach K s)"
proof (cases "p_handle (i_proc s) = MX_HANDLE_INVALID")
  case True
  with IsAttached_core [OF assms(2)] show ?thesis by (simp add: Process_Detach_def)
next
  case False
  then have key: "p_eport_key (i_proc s) \<noteq> 0" and ep: "eport_ok (i_eport s)" and th: "threads_ok K (i_proc s)"
    using assms(2) unfolding proc_core_def by blast+
  have c: "run (released K s) (Process_Clear K (Process_CloseDebugHandle K
      (s\<lparr>i_proc := (i_proc s)\<lparr>p_eport_key := 0\<rparr>, i_eport := ep, i_k := k\<rparr>)))"
    if "eport_ok ep" "eport_open ep \<longleftrightarrow> eport_open (i_eport s)"
      "eport_bound ep = (eport_bound (i_eport s))(p_eport_key (i_proc s) := None)" for ep k
    using that key th
    by (intro run_mono [OF Clear_ok [OF assms(1)]])
      (auto simp: Process_CloseDebugHandle_def released_def)
  show ?thesis
    unfolding Process_Detach_def Process_RawDetach_def using False IsAttached_core [OF assms(2)]
    by (auto intro!: run_mono [OF UnbindExceptionPort_ok [OF key ep]] c simp: run_bind)
qed

lemma Kill_ok:
  assumes "mx_kernel K" and "proc_ok K s"
  shows "run (\<lambda>(ok, s'). if \<not> Process_IsLive (i_proc s) then ok \<and> s' = s
      else if ok then released K s s' else \<exists>k. s' = s\<lparr>i_k := k\<rparr>) (Process_Kill K s)"
proof (cases "Process_IsLive (i_proc s)")
  case False
  then show ?thesis by (auto simp: Process_Kill_def Process_IsLive_def)
next
  case True
  then have h: "p_handle (i_proc s) \<noteq> MX_HANDLE_INVALID" and key: "p_eport_key (i_proc s) \<noteq> 0"
    and ep: "eport_ok (i_eport s)" and th: "threads_ok K (i_proc s)"
    using assms(2) unfolding proc_ok_def proc_core_def by blast+
  have c: "run (released K s) (Process_Clear K (Process_CloseDebugHandle K
      (s\<lparr>i_proc := (i_proc s)\<lparr>p_eport_key := 0\<rparr>, i_eport := ep, i_k := k\<rparr>)))"
    if "eport_ok ep" "eport_open ep \<longleftrightarrow> eport_open (i_eport s)"
      "eport_bound ep = (eport_bound (i_eport s))(p_eport_key (i_proc s) := None)" for ep k
    using that key th
    by (intro run_mono [OF Clear_ok [OF assms(1)]])
      (auto simp: Process_CloseDebugHandle_def released_def)
  obtain st k1 where kill: "mx_task_kill K (p_handle (i_proc s)) (i_k s) = (st, k1)" by fastforce
  have u: "run (\<lambda>s'. \<exists>ep k. s' = s\<lparr>i_proc := (i_proc s)\<lparr>p_eport_key := 0\<rparr>, i_eport := ep, i_k := k\<rparr>
      \<and> eport_ok ep \<and> (eport_open ep \<longleftrightarrow> eport_open (i_eport s))
      \<and> eport_bound ep = (eport_bound (i_eport s))(p_eport_key (i_proc s) := None))
    (Process_UnbindExceptionPort K (s\<lparr>i_k := k1\<rparr>))"
    using UnbindExceptionPort_ok [of "s\<lparr>i_k := k1\<rparr>" K] key ep by (auto elim: run_mono)
  show ?thesis
    unfolding Process_Kill_def using True h kill mx_kernel.wait_terminated [OF assms(1)]
    by (auto simp: Process_IsLive_def run_bind intro!: run_mono [OF u] c split: prod.split)
qed

text \<open>\<open>kept s s'\<close>: what the life-cycle operations below leave alone.\<close>

definition kept :: "('k, 'm) inferior_scheme \<Rightarrow> ('k, 'm) inferior_scheme \<Rightarrow> bool" where
  "kept s s' \<longleftrightarrow> inferior.more s' = inferior.more s \<and> (eport_open (i_eport s') \<longleftrightarrow> eport_open (i_eport s))
     \<and> p_threads (i_proc s') = p_threads (i_proc s) \<and> p_next_oid (i_proc s') = p_next_oid (i_proc s)
     \<and> p_argv (i_proc s') = p_argv (i_proc s)"

lemma Renew_iff: "Process_Renew p = Some p' \<longleftrightarrow>
    proc_clean p \<and> \<not> Process_IsLive p \<and> p' = p\<lparr>p_state := prc_kNew\<rparr>"
  by (auto simp: Process_Renew_def proc_clean_def Process_IsLive_def Process_set_state_def
      split: ProcessState.splits)

lemma SetupLaunchpad_ok:
  assumes "mx_kernel K" and "argv \<noteq> []"
  shows "run (\<lambda>(lp, k'). lp \<noteq> Some 0) (SetupLaunchpad K argv k)"
  using assms(2) mx_kernel.launchpad_create_valid [OF assms(1)]
  by (auto simp: SetupLaunchpad_def Let_def split: prod.split)

lemma LoadBinary_ok:
  assumes "lp \<noteq> 0"
  shows "run (\<lambda>(ok, k'). ok \<longrightarrow> (\<exists>k0. launchpad_load_vdso K lp k0 = (NO_ERROR, k'))) (LoadBinary K lp f k)"
  using assms by (auto simp: LoadBinary_def split: prod.split)

lemma GetProcessId_ok:
  assumes "mx_kernel K" and "lp \<noteq> 0" and "launchpad_load_vdso K lp k0 = (NO_ERROR, k)"
  shows "run (\<lambda>pid. pid \<noteq> 0) (GetProcessId K lp k)"
  using mx_kernel.launchpad_process [OF assms] assms(2) by (auto simp: GetProcessId_def)

definition initialized :: "'k mx \<Rightarrow> ('k, 'm) inferior_scheme \<Rightarrow> bool \<times> ('k, 'm) inferior_scheme \<Rightarrow> bool" where
  "initialized K s = (\<lambda>(ok, s'). proc_ok K s' \<and> kept s s' \<and> p_state (i_proc s') = prc_kNew
     \<and> p_handle (i_proc s') = MX_HANDLE_INVALID \<and> i_eport s' = i_eport s
     \<and> \<not> p_attached_running (i_proc s') \<and> (ok \<longleftrightarrow> p_launchpad (i_proc s') \<noteq> 0)
     \<and> (ok \<longrightarrow> p_id (i_proc s') \<noteq> MX_KOID_INVALID))"

lemma initialized_intro:
  assumes "proc_ok K s" and "proc_clean (i_proc s)" and "p_state p' = prc_kNew"
    and "p_handle p' = p_handle (i_proc s)" and "p_eport_key p' = p_eport_key (i_proc s)"
    and "p_threads p' = p_threads (i_proc s)" and "p_next_oid p' = p_next_oid (i_proc s)"
    and "p_thread_map_stale p' = p_thread_map_stale (i_proc s)" and "p_argv p' = p_argv (i_proc s)"
    and "\<not> p_attached_running p'" and "ok \<longleftrightarrow> p_launchpad p' \<noteq> 0" and "ok \<longrightarrow> p_id p' \<noteq> 0"
  shows "initialized K s (ok, s\<lparr>i_proc := p', i_k := k\<rparr>)"
  using assms unfolding initialized_def proc_ok_def proc_core_def proc_clean_def kept_def Process_IsLive_def
  by simp

lemma Initialize_load_ok:
  assumes "mx_kernel K" and "proc_ok K s" and "proc_clean (i_proc s)" and "lp \<noteq> 0"
    and "p = (i_proc s)\<lparr>p_state := prc_kNew, p_attached_running := False\<rparr>"
  shows "run (initialized K s) (Initialize_load K lp p k s)"
proof -
  note int = initialized_intro [OF assms(2,3)]
  have fail: "initialized K s (Initialize_fail K lp p k s)"
    "initialized K s (Initialize_fail K lp (p\<lparr>p_base_address := base\<rparr>) k s)" for base k
    unfolding Initialize_fail_def assms(5) by (rule int; simp)+
  have success: "initialized K s (True, s\<lparr>i_proc := p\<lparr>p_id := pid, p_base_address := base,
      p_entry_address := entry, p_launchpad := lp\<rparr>, i_k := k\<rparr>)" if "pid \<noteq> 0" for pid base entry k
    unfolding assms(5) using assms(4) that by (intro int) simp_all
  show ?thesis
    unfolding Initialize_load_def using assms(4)
    by (auto intro!: run_bindI [OF LoadBinary_ok] run_bindI [OF GetProcessId_ok [OF assms(1)]] fail success
        split: prod.split)
qed

lemma Initialize_ok:
  assumes "mx_kernel K" and "proc_ok K s" and "proc_clean (i_proc s)" and "\<not> Process_IsLive (i_proc s)"
  shows "run (initialized K s) (Process_Initialize K s)"
proof -
  let ?p = "(i_proc s)\<lparr>p_state := prc_kNew, p_attached_running := False\<rparr>"
  have r: "Process_Renew (i_proc s) = Some ((i_proc s)\<lparr>p_state := prc_kNew\<rparr>)"
    using assms(3,4) by (simp add: Renew_iff)
  have early: "initialized K s (False, s\<lparr>i_proc := ?p, i_k := k\<rparr>)" for k
    using assms(3) by (intro initialized_intro [OF assms(2,3)]) (simp_all add: proc_clean_def)
  from early [of "i_k s"] have early': "initialized K s (False, s\<lparr>i_proc := ?p\<rparr>)" by simp
  show ?thesis
    unfolding Process_Initialize_def
    using r early early'
    by (auto intro!: run_bindI [OF SetupLaunchpad_ok [OF assms(1)]] Initialize_load_ok [OF assms(1-3) _ refl]
        split: option.split)
qed

lemma Initialize_pid_ok:
  assumes "proc_ok K s" and "proc_clean (i_proc s)" and "\<not> Process_IsLive (i_proc s)"
  shows "run (\<lambda>(ok, s'). ok \<and> proc_ok K s' \<and> kept s s' \<and> p_state (i_proc s') = prc_kNew
      \<and> p_handle (i_proc s') = MX_HANDLE_INVALID \<and> p_launchpad (i_proc s') = 0
      \<and> p_attached_running (i_proc s') \<and> p_id (i_proc s') = pid \<and> i_eport s' = i_eport s)
    (Process_Initialize_pid pid s)"
proof -
  have r: "Process_Renew (i_proc s) = Some ((i_proc s)\<lparr>p_state := prc_kNew\<rparr>)"
    using assms(2,3) by (simp add: Renew_iff)
  show ?thesis
    using assms unfolding Process_Initialize_pid_def r proc_ok_def proc_core_def proc_clean_def kept_def
      Process_IsLive_def by simp
qed

lemma Attach_ok:
  assumes "mx_kernel K" and "proc_ok K s" and "eport_open (i_eport s)" and "p_state (i_proc s) = prc_kNew"
    and "p_handle (i_proc s) = MX_HANDLE_INVALID" and "p_attached_running (i_proc s) \<longrightarrow> p_launchpad (i_proc s) = 0"
  shows "run (\<lambda>(ok, s'). proc_ok K s' \<and> kept s s' \<and> p_launchpad (i_proc s') = p_launchpad (i_proc s)
      \<and> p_id (i_proc s') = p_id (i_proc s) \<and> p_attached_running (i_proc s') = p_attached_running (i_proc s)
      \<and> (ok \<longleftrightarrow> p_handle (i_proc s') \<noteq> MX_HANDLE_INVALID)
      \<and> p_state (i_proc s') = (if ok \<and> p_attached_running (i_proc s) then prc_kRunning else prc_kNew))
    (Process_Attach K s)"
proof -
  let ?p = "i_proc s"
  have core: "proc_core K s" and ep: "eport_ok (i_eport s)" and key: "p_eport_key ?p = 0"
    and empty: "p_threads ?p = []" "\<not> p_thread_map_stale ?p"
    using assms(2,5) unfolding proc_ok_def proc_core_def by blast+
  obtain st h k1 where gc: "mx_object_get_child K MX_HANDLE_INVALID (p_id ?p) (i_k s) = (st, h, k1)"
    by (metis prod_cases3)
  have att: "Process_IsAttached ?p = Some False" using key assms(5) by (simp add: Process_IsAttached_def)
  show ?thesis
  proof (cases "st = NO_ERROR")
    case False
    with gc att assms empty key show ?thesis
      by (simp add: Process_Attach_def Process_AllocDebugHandle_def GetProcessDebugHandle_def
          proc_ok_def proc_core_def kept_def Process_IsLive_def)
  next
    case True
    then have h: "h \<noteq> MX_HANDLE_INVALID" using mx_kernel.get_child_valid [OF assms(1)] gc by blast
    from registry.bind_total [OF ep assms(3) h, of K k1] obtain key' ep' k2 where
      b: "ExceptionPort_Bind K h (i_eport s) k1 = Some (key', ep', k2)" by auto
    note b' = registry.bind_ok [OF ep b] registry.bind_bound [OF ep b] registry.bind_fail [of K h "i_eport s" k1 ep' k2]
    from gc True h att b b' assms empty key show ?thesis
      by (cases "key' = 0")
        (auto simp: Process_Attach_def Process_AllocDebugHandle_def GetProcessDebugHandle_def
          Process_BindExceptionPort_def Process_CloseDebugHandle_def Process_set_state_def
          proc_ok_def proc_core_def kept_def Process_IsLive_def)
  qed
qed

lemma Start_ok:
  assumes "proc_ok K s" and "p_launchpad (i_proc s) \<noteq> 0" and "p_handle (i_proc s) \<noteq> MX_HANDLE_INVALID"
  shows "run (\<lambda>(ok, s'). proc_ok K s' \<and> kept s s' \<and> p_launchpad (i_proc s') = 0 \<and> i_eport s' = i_eport s
      \<and> p_handle (i_proc s') = p_handle (i_proc s) \<and> p_id (i_proc s') = p_id (i_proc s)
      \<and> p_state (i_proc s') = (if ok then prc_kStarting else prc_kNew)) (Process_Start K s)"
proof -
  have st: "p_state (i_proc s) = prc_kNew"
    using assms(1,2) unfolding proc_ok_def proc_core_def Process_IsLive_def proc_clean_def by blast
  obtain d k where "launchpad_start K (p_launchpad (i_proc s)) (i_k s) = (d, k)" by fastforce
  with st assms show ?thesis
    by (auto simp: Process_Start_def Process_set_state_def proc_ok_def proc_core_def kept_def
        Process_IsLive_def proc_clean_def Let_def)
qed

section \<open>Exceptions\<close>

text \<open>\<open>quiet K s s'\<close>: threads and shared objects may have changed, the life cycle has not.\<close>

definition quiet :: "'k mx \<Rightarrow> ('k, 'm) inferior_scheme \<Rightarrow> ('k, 'm) inferior_scheme \<Rightarrow> bool" where
  "quiet K s s' \<longleftrightarrow> (proc_core K s \<longrightarrow> proc_core K s') \<and> inferior.more s' = inferior.more s
     \<and> i_eport s' = i_eport s \<and> p_handle (i_proc s') = p_handle (i_proc s)
     \<and> p_eport_key (i_proc s') = p_eport_key (i_proc s) \<and> p_state (i_proc s') = p_state (i_proc s)
     \<and> p_id (i_proc s') = p_id (i_proc s) \<and> p_launchpad (i_proc s') = p_launchpad (i_proc s)"

lemma quiet_refl [simp, intro]: "quiet K s s"
  by (simp add: quiet_def)

lemma quiet_trans: "quiet K s s' \<Longrightarrow> quiet K s' s'' \<Longrightarrow> quiet K s s''"
  by (simp add: quiet_def)

lemma thread_upd_quiet: "thread_upd K s s' \<Longrightarrow> quiet K s s'"
  by (auto simp: quiet_def thread_upd_frame thread_upd_core)

lemma quiet_ok: "quiet K s s' \<Longrightarrow> proc_ok K s \<Longrightarrow> proc_ok K s'"
  by (auto simp: quiet_def proc_ok_def proc_clean_def)

lemma quiet_dsos:
  "quiet K s (s\<lparr>i_proc := (i_proc s)\<lparr>p_dsos := d, p_dsos_build_failed := b\<rparr>\<rparr>)"
  by (auto simp: quiet_def proc_core_def Process_IsLive_def)

lemma thread_refresh_run:
  assumes "mx_kernel K" and "thread_ok K t"
  shows "run (\<lambda>(ok, t'). thread_ok K t' \<and> (\<exists>g. t' = t\<lparr>t_gregs := g\<rparr>)) (Thread_RefreshGeneralRegisters K t k)"
proof -
  have len: "length (t_gregs t) = mx_sizeof_gregs K" using assms(2) by (simp add: thread_ok_def)
  from Thread_refresh [OF assms(1) len, of k] obtain ok g where
    "Thread_RefreshGeneralRegisters K t k = Some (ok, t\<lparr>t_gregs := g\<rparr>)" "length g = mx_sizeof_gregs K"
    by blast
  with assms(2) show ?thesis by (auto simp: thread_ok_def)
qed

text \<open>Reading registers changes the state of no thread.\<close>

definition same_states :: "('k, 'm) inferior_scheme \<Rightarrow> ('k, 'm) inferior_scheme \<Rightarrow> bool" where
  "same_states s s' \<longleftrightarrow> (\<forall>i. map_option t_state (get_thread i s') = map_option t_state (get_thread i s))"

lemma same_states_refl [simp, intro]: "same_states s s"
  by (simp add: same_states_def)

lemma same_states_dsos [simp]:
  "same_states s (s'\<lparr>i_proc := (i_proc s')\<lparr>p_dsos := d, p_dsos_build_failed := b\<rparr>\<rparr>) \<longleftrightarrow> same_states s s'"
  by (simp add: same_states_def get_thread_def)

lemma at_ldso_bkpt_post:
  assumes "mx_kernel K" and "proc_core K s"
  shows "post (\<lambda>(r, s'). thread_upd K s s' \<and> same_states s s') (at_ldso_bkpt K tid brk s)"
proof -
  have "post (\<lambda>(r, t', k'). thread_ok K t' \<and> t_id t' = t_id t \<and> t_oid t' = t_oid t
      \<and> map_option t_state (get_thread tid s) = Some (t_state t'))
      (do { (success, t) \<leftarrow> Thread_RefreshGeneralRegisters K t k; dcheck success;
            pc \<leftarrow> GetPC (mx_arch K) (t_gregs t); Some (pc - 1 = brk, t, k) })"
    if "get_thread tid s = Some t" "thread_ok K t" for t k
    by (rule post_bindI [OF run_post [OF thread_refresh_run [OF assms(1) that(2)]]])
      (use that(1) in \<open>auto simp: post_def bind_eq_Some_conv\<close>)
  then show ?thesis unfolding at_ldso_bkpt_def
    by (intro post_mono [OF on_thread_post [OF assms(2),
          where Q = "\<lambda>_ t'. map_option t_state (get_thread tid s) = Some (t_state t')"]])
      (auto simp: same_states_def, metis option.simps(9))
qed

lemma TryBuildLoadedDsosList_post:
  assumes "mx_kernel K" and "proc_core K s"
  shows "post (\<lambda>s'. quiet K s s' \<and> same_states s s') (Process_TryBuildLoadedDsosList K A th c s)"
    (is "post ?P _")
proof -
  have dsos: "post ?P (do {
      dsos \<leftarrow> dso_fetch_list A (\<lambda>a n. Process_ReadMemory K a n s') m n;
      Some (s'\<lparr>i_proc := (i_proc s')\<lparr>p_dsos := dsos, p_dsos_build_failed := (dsos = [])\<rparr>\<rparr>) })"
    if "thread_upd K s s'" "same_states s s'" for s' m n
    using quiet_trans [OF thread_upd_quiet [OF that(1)] quiet_dsos] that(2)
    by (auto simp: post_def bind_eq_Some_conv)
  have step: "post ?P (x \<bind> f)" if "\<And>y. post ?P (f y)" for x :: "'c option" and f
    using that by (cases x) simp_all
  show ?thesis
    unfolding Process_TryBuildLoadedDsosList_def
    by (cases th; cases c) (auto intro!: step [of _ "Process_ReadMemory K _ _ s"] dsos thread_upd_quiet
        post_bindI [OF at_ldso_bkpt_post [OF assms]] split: prod.split option.split)
qed

lemma thread_exception_post:
  assumes "mx_kernel K" and "proc_core K s"
    and "\<And>t. get_thread tid s = Some t \<Longrightarrow> t_state t \<noteq> thr_kGone"
  shows "post (\<lambda>s'. thread_upd K s s' \<and> (\<exists>t. get_thread tid s' = Some t \<and> t_state t = thr_kStopped
      \<and> t_exc t = Some cx)) (thread_exception K tid ty cx s)"
proof -
  have "post (\<lambda>(r, t', k'). thread_ok K t' \<and> t_id t' = t_id t \<and> t_oid t' = t_oid t
      \<and> (t_state t' = thr_kStopped \<and> t_exc t' = Some cx))
      (map_option (Pair ()) (Thread_OnException K ty cx t k))"
    if "get_thread tid s = Some t" "thread_ok K t" for t k
    using thread_ok_OnException [OF assms(1) that(2) assms(3) [OF that(1)], of ty cx k] by auto
  then show ?thesis unfolding thread_exception_def
    by (auto intro!: post_mono [OF on_thread_post [OF assms(2),
        where Q = "\<lambda>_ t'. t_state t' = thr_kStopped \<and> t_exc t' = Some cx"]])
qed

section \<open>The contract of a delegate\<close>

text \<open>
  \<open>inv\<close> is the delegate's own invariant; it depends on what the delegate adds to the inferior only.
  The call-backs keep it and the invariant of the process; \<^verbatim>\<open>OnProcessExit\<close>, which is
  called while a process that is gone is still attached, leaves the process alone.
\<close>

definition service_ok :: "'k mx \<Rightarrow> ('k, 'm) inferior_scheme \<Rightarrow> bool" where
  "service_ok K s \<longleftrightarrow> proc_ok K s \<and> eport_open (i_eport s)"

lemma quiet_service: "quiet K s s' \<Longrightarrow> service_ok K s \<Longrightarrow> service_ok K s'"
  using quiet_ok [of K s s'] by (simp add: service_ok_def quiet_def)

lemma released_service: "released K s s' \<Longrightarrow> eport_open (i_eport s) \<Longrightarrow> service_ok K s'"
  by (simp add: service_ok_def released_def)

lemma service_core: "service_ok K s \<Longrightarrow> proc_core K s"
  by (simp add: service_ok_def proc_ok_def)

definition live_thread :: "u64 option \<Rightarrow> ('k, 'm) inferior_scheme \<Rightarrow> bool" where
  "live_thread r s \<longleftrightarrow> (case r of None \<Rightarrow> True
     | Some i \<Rightarrow> \<exists>t. get_thread i s = Some t \<and> t_state t \<noteq> thr_kGone)"

locale process_delegate =
  fixes K :: "'k mx" and D :: "('k, 'm) inferior_scheme delegate"
    and inv :: "('k, 'm) inferior_scheme \<Rightarrow> bool"
  assumes kernel: "mx_kernel K"
    and inv_frame: "inferior.more s' = inferior.more s \<Longrightarrow> inv s' \<longleftrightarrow> inv s"
    and starting: "service_ok K s \<Longrightarrow> inv s \<Longrightarrow>
      post (\<lambda>s'. service_ok K s' \<and> inv s') (OnThreadStarting D tid cx s)"
    and exiting: "service_ok K s \<Longrightarrow> inv s \<Longrightarrow>
      post (\<lambda>s'. service_ok K s' \<and> inv s') (OnThreadExiting D tid ty cx s)"
    and architectural: "service_ok K s \<Longrightarrow> inv s \<Longrightarrow>
      post (\<lambda>s'. service_ok K s' \<and> inv s') (OnArchitecturalException D tid ty cx s)"
    and process_exit: "inv s \<Longrightarrow>
      post (\<lambda>s'. i_proc s' = i_proc s \<and> i_eport s' = i_eport s \<and> inv s') (OnProcessExit D ty cx s)"
begin

lemma gone_inv:
  assumes "service_ok K s" and "inv s"
  shows "post (\<lambda>s'. service_ok K s' \<and> inv s') (OnException_gone K D ty cx s)"
proof -
  let ?s = "s\<lparr>i_proc := (i_proc s)\<lparr>p_state := prc_kGone\<rparr>\<rparr>"
  have inv: "inv ?s" using assms(2) inv_frame [of ?s s] by simp
  have end_inv: "post (\<lambda>s'. service_ok K s' \<and> inv s') (do {
      (ok, s) \<leftarrow> Process_Detach K s2; if \<not> ok then Process_Clear K s else Some s })"
    if s2: "i_proc s2 = i_proc ?s" "i_eport s2 = i_eport ?s" "inv s2" for s2
  proof -
    have core: "proc_core K s2"
      using service_core [OF assms(1)] s2 by (auto simp: proc_core_def Process_IsLive_def)
    have op: "eport_open (i_eport s2)" using assms(1) s2(2) by (simp add: service_ok_def)
    have rel: "service_ok K s' \<and> inv s'" if "released K s2 s'" for s'
      using released_service [OF that op] that s2(3) inv_frame [of s' s2] by (simp add: released_def)
    have clear: "run (released K s2) (Process_Clear K s2)" if "p_handle (i_proc s2) = MX_HANDLE_INVALID"
      using core that by (intro Clear_ok [OF kernel]) (auto simp: proc_core_def)
    show ?thesis
      by (rule post_bindI [OF run_post [OF Detach_ok [OF kernel core]]])
        (auto intro!: rel post_mono [OF run_post [OF clear]])
  qed
  show ?thesis
    unfolding OnException_gone_def using end_inv
    by (auto simp: Process_set_state_def intro!: post_bindI [OF process_exit [OF inv]])
qed

abbreviation guarded :: "('k, 'm) inferior_scheme \<Rightarrow> bool" where
  "guarded s \<equiv> service_ok K s \<and> inv s"

lemma quiet_guarded: "quiet K s1 s2 \<Longrightarrow> guarded s1 \<Longrightarrow> guarded s2"
  using quiet_service [of K s1 s2] inv_frame [of s2 s1] by (simp add: quiet_def)

lemma find_guarded:
  assumes "guarded s"
  shows "post (\<lambda>(r, s'). guarded s' \<and> live_thread r s')
    (if tid \<noteq> MX_KOID_INVALID then Process_FindThreadById K tid s else Some (None, s))"
proof (cases "p_handle (i_proc s) = MX_HANDLE_INVALID")
  case False
  have "post (\<lambda>(r, s'). guarded s' \<and> live_thread r s') (Process_FindThreadById K tid s)"
    by (rule post_mono [OF run_post [OF FindThreadById_ok [OF kernel service_core [OF conjunct1 [OF assms]] False]]])
      (auto dest: quiet_guarded [OF thread_upd_quiet assms] simp: live_thread_def split: option.splits)
  with assms show ?thesis by (simp add: live_thread_def)
qed (use assms in \<open>simp add: Process_FindThreadById_def live_thread_def\<close>)

lemma build_guarded:
  assumes "guarded s" and "live_thread r s"
  shows "post (\<lambda>s'. guarded s' \<and> live_thread r s') (Process_TryBuildLoadedDsosList K A r b s)"
  using assms
  by (intro post_mono [OF TryBuildLoadedDsosList_post [OF kernel service_core]] conjI)
    (auto dest: quiet_guarded [OF _ assms(1)] simp: same_states_def live_thread_def split: option.splits,
      metis map_option_eq_Some)

lemma exception_guarded:
  assumes "guarded s" and "live_thread (Some tid) s"
  shows "post guarded (thread_exception K tid ty cx s)"
  using assms
  by (intro post_mono [OF thread_exception_post [OF kernel service_core]])
    (auto dest: quiet_guarded [OF thread_upd_quiet assms(1)] simp: live_thread_def)

lemma OnException_thread_inv:
  "guarded s \<Longrightarrow> post (\<lambda>(r, s'). guarded s' \<and> live_thread r s') (OnException_thread K A ty cx s)"
  unfolding OnException_thread_def
  by (rule post_bindI [OF find_guarded]) (auto intro!: post_mono [OF build_guarded])

lemma OnException_dispatch_inv:
  assumes "guarded s" and "live_thread r s"
  shows "post guarded (OnException_dispatch K D ty cx r s)"
proof (cases r)
  case None
  then show ?thesis using assms gone_inv
    by (auto simp: OnException_dispatch_def split: mx_excp_type.split)
next
  case (Some tid)
  note exc = post_bindI [OF exception_guarded [OF assms [unfolded Some]]]
  show ?thesis
    unfolding OnException_dispatch_def Some using assms(1)
    by (auto split: mx_excp_type.split intro!: exc architectural exiting gone_inv
        post_mono [OF starting] simp: post_bind [where x = "get_thread _ _"] post_def [where x = "get_thread _ _"])
qed

lemma OnException_inv:
  "guarded s \<Longrightarrow> post guarded (Process_OnException K A D ty cx s)"
  unfolding Process_OnException_def
  by (rule post_bindI [OF OnException_thread_inv]) (auto intro: OnException_dispatch_inv)

end

section \<open>Properties\<close>

lemma not_clean_aborts: "\<not> proc_clean (i_proc s) \<Longrightarrow> Process_Initialize K s = None"
  using Renew_iff [of "i_proc s"] by (cases "Process_Renew (i_proc s)") (auto simp: Process_Initialize_def)

text \<open>
  C27: giving an inferior up cannot fail an assertion.  \<^verbatim>\<open>Detach\<close> succeeds exactly when attached,
  \<^verbatim>\<open>Kill\<close> is a no-op on a process that is not live, and after either has succeeded on a live
  process nothing of it is left: no handle, no thread, no launchpad, its key unbound from
  the exception port, and every other key of the port as before.
\<close>

theorem Process_release:
  assumes "mx_kernel K" and "proc_ok K s"
  shows "(\<exists>ok s'. Process_Detach K s = Some (ok, s') \<and> (ok \<longleftrightarrow> p_handle (i_proc s) \<noteq> MX_HANDLE_INVALID)
      \<and> (if ok then released K s s' else s' = s))
    \<and> (\<exists>ok s'. Process_Kill K s = Some (ok, s') \<and>
      (if Process_IsLive (i_proc s) then (if ok then released K s s' else i_proc s' = i_proc s)
       else ok \<and> s' = s))"
proof -
  have "proc_core K s" using assms(2) by (simp add: proc_ok_def)
  from Detach_ok [OF assms(1) this] Kill_ok [OF assms] show ?thesis
    by (fastforce simp: run_def split: if_splits)
qed

text \<open>
  C26: starting a program.  From a process that holds nothing and is not live, \<^verbatim>\<open>Initialize\<close>,
  \<^verbatim>\<open>Attach\<close> and \<^verbatim>\<open>Start\<close>, each called when the one before has succeeded, fail no
  assertion, keep the invariant and end with an attached process that is starting.  If \<^verbatim>\<open>Attach\<close> or
  \<^verbatim>\<open>Start\<close> fails, what the earlier calls acquired is still held, and the next \<^verbatim>\<open>Initialize\<close>
  fails its assertions.
\<close>

theorem Process_start_sequence:
  assumes "mx_kernel K" and "service_ok K s" and "proc_clean (i_proc s)" and "\<not> Process_IsLive (i_proc s)"
  shows "\<exists>ok s1. Process_Initialize K s = Some (ok, s1) \<and> service_ok K s1 \<and> (ok \<longrightarrow>
    (\<exists>ok s2. Process_Attach K s1 = Some (ok, s2) \<and> service_ok K s2 \<and>
      (if \<not> ok then Process_Initialize K s2 = None
       else \<exists>ok s3. Process_Start K s2 = Some (ok, s3) \<and> service_ok K s3
         \<and> p_handle (i_proc s3) \<noteq> MX_HANDLE_INVALID
         \<and> (if ok then p_state (i_proc s3) = prc_kStarting else Process_Initialize K s3 = None))))"
proof -
  have ok: "proc_ok K s" "eport_open (i_eport s)" using assms(2) by (simp_all add: service_ok_def)
  from Initialize_ok [OF assms(1) ok(1) assms(3,4)] obtain b s1 where
    i: "Process_Initialize K s = Some (b, s1)" "initialized K s (b, s1)" by (auto simp: run_def)
  then have s1: "service_ok K s1" using ok(2) by (simp add: initialized_def service_ok_def)
  have "\<exists>ok s2. Process_Attach K s1 = Some (ok, s2) \<and> service_ok K s2 \<and>
      (if \<not> ok then Process_Initialize K s2 = None
       else \<exists>ok s3. Process_Start K s2 = Some (ok, s3) \<and> service_ok K s3
         \<and> p_handle (i_proc s3) \<noteq> MX_HANDLE_INVALID
         \<and> (if ok then p_state (i_proc s3) = prc_kStarting else Process_Initialize K s3 = None))" if b
  proof -
    have pre: "proc_ok K s1" "eport_open (i_eport s1)" "p_state (i_proc s1) = prc_kNew"
      "p_handle (i_proc s1) = MX_HANDLE_INVALID" "p_attached_running (i_proc s1) \<longrightarrow> p_launchpad (i_proc s1) = 0"
      "p_launchpad (i_proc s1) \<noteq> 0"
      using i(2) s1 that by (simp_all add: initialized_def service_ok_def)
    from Attach_ok [OF assms(1) pre(1-5)] obtain c s2 where
      a: "Process_Attach K s1 = Some (c, s2)" "proc_ok K s2" "kept s1 s2"
        "p_launchpad (i_proc s2) \<noteq> 0" "c \<longleftrightarrow> p_handle (i_proc s2) \<noteq> MX_HANDLE_INVALID"
      using pre(6) by (auto simp: run_def)
    then have s2: "service_ok K s2" using pre(2) by (simp add: service_ok_def kept_def)
    have "\<exists>ok s3. Process_Start K s2 = Some (ok, s3) \<and> service_ok K s3
         \<and> p_handle (i_proc s3) \<noteq> MX_HANDLE_INVALID
         \<and> (if ok then p_state (i_proc s3) = prc_kStarting else Process_Initialize K s3 = None)" if c
      using Start_ok [OF a(2,4)] a(5) that s2
      by (fastforce simp: run_def service_ok_def kept_def proc_clean_def intro!: not_clean_aborts)
    moreover have "Process_Initialize K s2 = None" if "\<not> c"
      by (rule not_clean_aborts) (use a(4) in \<open>simp add: proc_clean_def\<close>)
    ultimately show ?thesis using a(1) s2 by auto
  qed
  with i(1) s1 show ?thesis by blast
qed

definition demo_inferior :: "ref_kernel inferior" where
  "demo_inferior = \<lparr>i_proc = Process_new\<lparr>p_argv := [''/boot/app'']\<rparr>,
     i_eport = \<lparr>ep_handle = 1, ep_keep_running = True, ep_callbacks = [], ep_key_counter = 0\<rparr>,
     i_k = demo_kernel\<rparr>"

lemma demo_inferior_ok: "service_ok ref_mx demo_inferior" "proc_clean (i_proc demo_inferior)"
  "\<not> Process_IsLive (i_proc demo_inferior)"
  by (simp_all add: demo_inferior_def service_ok_def proc_ok_def proc_core_def proc_clean_def
      Process_new_def Process_IsLive_def eport_ok_def eport_open_def)

theorem Process_release_witness:
  "proc_ok ref_mx demo_inferior \<and> Process_Kill ref_mx demo_inferior = Some (True, demo_inferior)"
proof -
  have "proc_ok ref_mx demo_inferior" using demo_inferior_ok(1) by (simp add: service_ok_def)
  with Process_release [OF ref_mx.mx_kernel_axioms this] demo_inferior_ok(3) show ?thesis by auto
qed

theorem Process_start_sequence_witness:
  "\<exists>ok s1. Process_Initialize ref_mx demo_inferior = Some (ok, s1) \<and> service_ok ref_mx s1"
  using Process_start_sequence [OF ref_mx.mx_kernel_axioms demo_inferior_ok] by blast

end
