(* ===== verification/Rsp_Util.thy ===== *)
theory Rsp_Util
  imports Util
begin

text \<open>
  The packet level of the remote serial protocol: \<^verbatim>\<open>bin/debugserver/util.h\<close> and
  \<^verbatim>\<open>bin/debugserver/util.cc\<close>.  A result \<open>None\<close> of a function into an \<open>option\<close> of an
  \<open>option\<close> is a failed assertion or a read of an uninitialised variable; \<open>Some None\<close> is the
  source's \<^verbatim>\<open>return false\<close>.
\<close>

section \<open>Definitions\<close>

definition kEscapeChar :: char where
  "kEscapeChar = CHR ''}''"

datatype ErrorCode = PERM | NOENT | INTR | BADF | ACCES | FAULT | BUSY | EXIST | NODEV | NOTDIR
  | ISDIR | INVAL | NFILE | MFILE | FBIG | NOSPC | SPIPE | ROFS | NAMETOOLONG | UNKNOWN

fun error_value :: "ErrorCode \<Rightarrow> int" where
  "error_value PERM = 1"
| "error_value NOENT = 2"
| "error_value INTR = 4"
| "error_value BADF = 9"
| "error_value ACCES = 13"
| "error_value FAULT = 14"
| "error_value BUSY = 16"
| "error_value EXIST = 17"
| "error_value NODEV = 19"
| "error_value NOTDIR = 20"
| "error_value ISDIR = 21"
| "error_value INVAL = 22"
| "error_value NFILE = 23"
| "error_value MFILE = 24"
| "error_value FBIG = 27"
| "error_value NOSPC = 28"
| "error_value SPIPE = 29"
| "error_value ROFS = 30"
| "error_value NAMETOOLONG = 91"
| "error_value UNKNOWN = 9999"

definition BuildErrorPacket :: "ftl \<Rightarrow> ErrorCode \<Rightarrow> string" where
  "BuildErrorPacket F error_code =
     (let errstr = NumberToString F UInt32 10 (error_value error_code);
          errstr = (if length errstr = 1 then ''0'' @ errstr else errstr)
      in ''E'' @ errstr)"

text \<open>
  \<open>ParseThreadId\<close> returns \<open>(pid, tid)\<close>, where \<open>pid\<close> is \<open>None\<close> when \<^verbatim>\<open>*out_has_pid\<close> is false.
  When the text starts with \<^verbatim>\<open>p\<close> and has no dot, the source computes
  \<^verbatim>\<open>bytes.substr(1, dot - 1)\<close> from the uninitialised variable \<^verbatim>\<open>dot\<close>: that is the outer
  \<open>None\<close>.
\<close>

definition ParseThreadId :: "ftl \<Rightarrow> string \<Rightarrow> (int option \<times> int) option option" where
  "ParseThreadId F bytes =
     (if bytes = [] then Some None
      else if hd bytes \<noteq> CHR ''p'' then
        Some (map_option (\<lambda>tid. (None, tid)) (StringToNumberWithError F Int64 16 bytes))
      else
        (case sv_find (CHR ''.'') bytes 1 of
           None \<Rightarrow> None
         | Some dot \<Rightarrow>
             (case StringToNumberWithError F Int64 16 (substr bytes 1 (dot - 1)) of
                None \<Rightarrow> Some None
              | Some pid \<Rightarrow>
                  Some (map_option (\<lambda>tid. (Some pid, tid))
                    (StringToNumberWithError F Int64 16 (substr_from bytes (dot + 1)))))))"

definition EncodeThreadId :: "ftl \<Rightarrow> u64 \<Rightarrow> u64 \<Rightarrow> string" where
  "EncodeThreadId F pid tid =
     (let pid_string = NumberToString F UInt64 16 (uint pid);
          tid_string = NumberToString F UInt64 16 (uint tid)
      in ''p'' @ pid_string @ ''.'' @ tid_string)"

text \<open>The scan of \<^verbatim>\<open>FindUnescapedChar\<close>: the flag is \<^verbatim>\<open>in_escape\<close>, the result the index.\<close>

fun find_unescaped :: "char \<Rightarrow> bool \<Rightarrow> string \<Rightarrow> nat option" where
  "find_unescaped val in_escape [] = None"
| "find_unescaped val in_escape (c # packet) =
     (if in_escape then map_option Suc (find_unescaped val False packet)
      else if c = kEscapeChar then map_option Suc (find_unescaped val True packet)
      else if c = val then Some 0
      else map_option Suc (find_unescaped val False packet))"

definition FindUnescapedChar :: "char \<Rightarrow> string \<Rightarrow> nat option" where
  "FindUnescapedChar val packet = find_unescaped val False packet"

definition checksum :: "string \<Rightarrow> u8" where
  "checksum packet_data = foldl (\<lambda>local_checksum byte. local_checksum + byte_of byte) 0 packet_data"

definition VerifyPacket :: "string \<Rightarrow> string option" where
  "VerifyPacket packet =
     (if packet = [] then None
      else case FindUnescapedChar (CHR ''$'') packet of
        None \<Rightarrow> None
      | Some dollar_sign \<Rightarrow>
          (let packet = drop dollar_sign packet in
           if length packet < 4 then None
           else case FindUnescapedChar (CHR ''#'') packet of
             None \<Rightarrow> None
           | Some pound \<Rightarrow>
               (let packet_data = substr packet 1 (pound - 1) in
                if length packet - length packet_data \<noteq> 4 then None
                else case DecodeByteString (packet ! (pound + 1)) (packet ! (pound + 2)) of
                  None \<Rightarrow> None
                | Some received_checksum \<Rightarrow>
                    if checksum packet_data \<noteq> received_checksum then None
                    else Some packet_data)))"

definition ExtractParameters :: "string \<Rightarrow> (string \<times> string) option" where
  "ExtractParameters packet =
     (if packet = [] then None
      else let colon = (case find_char (CHR '':'') packet of None \<Rightarrow> length packet | Some i \<Rightarrow> i) in
        Some (substr packet 0 colon,
          substr packet (colon + 1)
            (if length packet = colon then 0 else length packet - colon - 1)))"

section \<open>Error packets and thread identifiers\<close>

lemma error_value_bounds: "0 < error_value e \<and> error_value e < 10000"
  by (cases e) simp_all

lemma error_value_in_range: "in_range UInt32 (error_value e)"
  by (cases e) simp_all

lemma error_value_inject: "error_value a = error_value b \<longleftrightarrow> a = b"
  by (cases a; cases b) simp_all

lemma BuildErrorPacket_nonempty [simp]: "BuildErrorPacket F e \<noteq> []"
  by (simp add: BuildErrorPacket_def Let_def)

text \<open>
  An error reply is \<^verbatim>\<open>E\<close> followed by the decimal error number, padded to two digits;
  it has three characters for every code but \<^verbatim>\<open>UNKNOWN\<close>, which gives \<^verbatim>\<open>E9999\<close>.
\<close>

lemma BuildErrorPacket_shape:
  assumes "ftl_conversions F"
  shows "BuildErrorPacket F e = ''E'' @
      (if error_value e < 10 then ''0'' else '''') @ number_string 10 (error_value e)
    \<and> length (BuildErrorPacket F e) = (if e = UNKNOWN then 5 else 3)"
proof -
  let ?v = "nat (error_value e)"
  have p: "NumberToString F UInt32 10 (error_value e) = nat_string 10 ?v"
    using ftl_conversions.print_number [OF assms error_value_in_range] error_value_bounds [of e]
    by (simp add: number_string_def)
  have n: "number_string 10 (error_value e) = nat_string 10 ?v"
    using error_value_bounds [of e] by (simp add: number_string_def)
  consider "e = UNKNOWN" | "error_value e < 10" "e \<noteq> UNKNOWN"
    | "10 \<le> error_value e" "error_value e < 100" "e \<noteq> UNKNOWN"
    by (cases e) auto
  then show ?thesis
  proof cases
    case 1
    have "length (nat_string 10 9999) = 4" by (simp add: nat_string.simps)
    with 1 show ?thesis unfolding BuildErrorPacket_def p n by simp
  next
    case 2
    then have "length (nat_string 10 ?v) = Suc 0" by (intro length_nat_string_1) simp
    with 2 show ?thesis unfolding BuildErrorPacket_def p n by simp
  next
    case 3
    then have "length (nat_string 10 ?v) = 2" by (intro length_nat_string_2) simp_all
    with 3 show ?thesis unfolding BuildErrorPacket_def p n by simp
  qed
qed

lemma BuildErrorPacket_shape_example:
  "BuildErrorPacket ftl_ref PERM = ''E01'' \<and> length (BuildErrorPacket ftl_ref UNKNOWN) = 5"
proof -
  have n: "number_string 10 1 = ''1''" by (simp add: number_string_def nat_string.simps digit_char_def char_of_def bit_0)
  have "BuildErrorPacket ftl_ref PERM = ''E01''"
    using BuildErrorPacket_shape [OF ftl_ref.ftl_conversions_axioms, of PERM] by (simp add: n)
  moreover have "length (BuildErrorPacket ftl_ref UNKNOWN) = 5"
    using BuildErrorPacket_shape [OF ftl_ref.ftl_conversions_axioms, of UNKNOWN, THEN conjunct2]
    by (simp only: if_True simp_thms)
  ultimately show ?thesis ..
qed

lemma dot_notin_hex: "set s \<subseteq> hex_alphabet \<Longrightarrow> CHR ''.'' \<notin> set s"
  by (auto simp: hex_alphabet_def)

lemma koid_in_range: "in_range UInt64 (uint (k :: u64))"
  using uint_bounded [of k] by simp

lemma koid_in_range_signed: "k < (2 :: u64) ^ 63 \<Longrightarrow> in_range Int64 (uint k)"
  using order_trans [of "- (2 ^ 63)" 0 "uint k"] by (simp add: word_less_def)

lemma EncodeThreadId_nonempty [simp]: "EncodeThreadId F p t \<noteq> []"
  by (simp add: EncodeThreadId_def)

lemma set_EncodeThreadId:
  assumes "ftl_conversions F"
  shows "set (EncodeThreadId F a b) \<subseteq> {CHR ''p'', CHR ''.''} \<union> hex_alphabet"
  using ftl_conversions.print_hex_alphabet [OF assms koid_in_range, of a]
    ftl_conversions.print_hex_alphabet [OF assms koid_in_range, of b]
  by (auto simp: EncodeThreadId_def Let_def)

lemma EncodeThreadId_parses:
  assumes F: "ftl_conversions F" and "pid < 2 ^ 63" and "tid < 2 ^ 63"
  shows "ParseThreadId F (EncodeThreadId F pid tid) = Some (Some (Some (uint pid), uint tid))"
proof -
  let ?p = "NumberToString F UInt64 16 (uint pid)" and ?t = "NumberToString F UInt64 16 (uint tid)"
  have dot: "CHR ''.'' \<notin> set ?p"
    by (rule dot_notin_hex, rule ftl_conversions.print_hex_alphabet [OF F koid_in_range]) simp
  then have "find_char (CHR ''.'') (?p @ CHR ''.'' # ?t) = Some (length ?p)"
    by (simp add: find_char_append)
  then have "sv_find (CHR ''.'') (CHR ''p'' # ?p @ CHR ''.'' # ?t) 1 = Some (Suc (length ?p))"
    by (simp add: sv_find_def)
  moreover have "StringToNumberWithError F Int64 16 ?p = Some (uint pid)"
    "StringToNumberWithError F Int64 16 ?t = Some (uint tid)"
    using assms(2,3) by (simp_all add: ftl_conversions.hex_roundtrip [OF F] koid_in_range
        koid_in_range_signed del: in_range.simps)
  ultimately show ?thesis
    by (simp add: ParseThreadId_def EncodeThreadId_def substr_def substr_from_def)
qed

text \<open>
  The identifier the server prints for a thread parses back to the same process and
  thread, for all object identifiers that fit the signed type the parser uses.
\<close>

lemma ParseThreadId_EncodeThreadId:
  assumes "ftl_conversions F" and "pid < 2 ^ 63" and "tid < 2 ^ 63"
  shows "ParseThreadId F (EncodeThreadId F pid tid) = Some (Some (Some (uint pid), uint tid))"
  using assms by (rule EncodeThreadId_parses)

lemma ParseThreadId_EncodeThreadId_example:
  "ParseThreadId ftl_ref (EncodeThreadId ftl_ref 12345 6789) = Some (Some (Some 12345, 6789))"
  using ParseThreadId_EncodeThreadId [OF ftl_ref.ftl_conversions_axioms, of 12345 6789] by simp

section \<open>Framing\<close>

text \<open>
  \<open>escape_state e s\<close> is the value of \<^verbatim>\<open>in_escape\<close> after the scan has passed over \<open>s\<close>.
\<close>

fun escape_state :: "bool \<Rightarrow> string \<Rightarrow> bool" where
  "escape_state e [] = e"
| "escape_state e (c # s) = escape_state (\<not> e \<and> c = kEscapeChar) s"

lemma find_unescaped_Cons:
  "find_unescaped v e (c # s) =
     (if \<not> e \<and> c \<noteq> kEscapeChar \<and> c = v then Some 0
      else map_option Suc (find_unescaped v (\<not> e \<and> c = kEscapeChar) s))"
  by simp

lemmas find_unescaped_ind = find_unescaped.simps(1) find_unescaped_Cons escape_state.simps

lemma find_unescaped_append_None:
  "find_unescaped v e s = None \<Longrightarrow>
    find_unescaped v e (s @ t) =
      map_option (\<lambda>i. length s + i) (find_unescaped v (escape_state e s) t)"
proof (induction s arbitrary: e)
  case Nil
  then show ?case by (cases "find_unescaped v e t") simp_all
next
  case (Cons c s)
  let ?e = "\<not> e \<and> c = kEscapeChar"
  from Cons.prems have "find_unescaped v ?e s = None" and c: "\<not> (\<not> e \<and> c \<noteq> kEscapeChar \<and> c = v)"
    by (auto simp: find_unescaped_ind simp del: find_unescaped.simps(2) split: if_splits)
  from Cons.IH [OF this(1)] c show ?case
    unfolding append_Cons find_unescaped_Cons escape_state.simps
    by (cases "find_unescaped v (escape_state ?e s) t") simp_all
qed

lemma find_unescaped_Some:
  "find_unescaped v e s = Some i \<longleftrightarrow>
     i < length s \<and> s ! i = v \<and> v \<noteq> kEscapeChar \<and> find_unescaped v e (take i s) = None
     \<and> \<not> escape_state e (take i s)"
proof (induction s arbitrary: e i)
  case (Cons c s)
  then show ?case
    by (cases i) (auto simp: find_unescaped_ind simp del: find_unescaped.simps(2))
qed simp

lemma find_unescaped_None:
  "find_unescaped v e t = None \<longleftrightarrow>
     v = kEscapeChar \<or> (\<nexists>j. j < length t \<and> t ! j = v \<and> \<not> escape_state e (take j t))"
proof (induction t arbitrary: e)
  case (Cons c t)
  have "(\<exists>j < length (c # t). (c # t) ! j = v \<and> \<not> escape_state e (take j (c # t))) \<longleftrightarrow>
      (c = v \<and> \<not> e) \<or> (\<exists>j < length t. t ! j = v
        \<and> \<not> escape_state (\<not> e \<and> c = kEscapeChar) (take j t))"
    by (simp add: Ex_less_Suc2)
  with Cons show ?case
    unfolding find_unescaped_Cons by simp blast
qed simp

lemma find_unescaped_notin: "v \<notin> set s \<Longrightarrow> find_unescaped v e s = None"
  by (induction s arbitrary: e) (auto simp: find_unescaped_ind simp del: find_unescaped.simps(2))

text \<open>
  \<^verbatim>\<open>FindUnescapedChar\<close> returns exactly the first position that holds the character and is
  not inside an escape sequence.
\<close>

lemma FindUnescapedChar_first:
  "FindUnescapedChar v s = Some i \<longleftrightarrow>
     v \<noteq> kEscapeChar \<and> i < length s \<and> s ! i = v \<and> \<not> escape_state False (take i s)
     \<and> (\<nexists>j. j < i \<and> s ! j = v \<and> \<not> escape_state False (take j s))"
  unfolding FindUnescapedChar_def find_unescaped_Some find_unescaped_None
  by (auto simp: min_def)

lemma drop_FindUnescapedChar:
  "FindUnescapedChar v s = Some i \<Longrightarrow>
     \<exists>pre rest. s = pre @ v # rest \<and> length pre = i \<and> FindUnescapedChar v pre = None"
  unfolding FindUnescapedChar_def find_unescaped_Some
  by (rule exI [of _ "take i s"], rule exI [of _ "drop (Suc i) s"])
    (auto simp: id_take_nth_drop)

definition frameable :: "string \<Rightarrow> bool" where
  "frameable data \<longleftrightarrow> find_unescaped (CHR ''#'') False data = None \<and> \<not> escape_state False data"

lemma escape_state_notin: "kEscapeChar \<notin> set s \<Longrightarrow> \<not> escape_state False s"
proof (induction s)
  case (Cons c s)
  then have "c \<noteq> kEscapeChar" by auto
  with Cons show ?case by simp
qed simp

lemma frameable_plain: "CHR ''#'' \<notin> set s \<Longrightarrow> kEscapeChar \<notin> set s \<Longrightarrow> frameable s"
  by (simp add: frameable_def find_unescaped_notin escape_state_notin)

lemma find_pound_framed:
  "frameable data \<Longrightarrow>
    FindUnescapedChar (CHR ''#'') (CHR ''$'' # data @ CHR ''#'' # ck) = Some (Suc (length data))"
  by (simp add: FindUnescapedChar_def frameable_def find_unescaped_append_None kEscapeChar_def)

lemma VerifyPacket_noise_frame:
  assumes "frameable data" and "find_unescaped (CHR ''$'') False noise = None"
    and "\<not> escape_state False noise"
  shows "VerifyPacket (noise @ ''$'' @ data @ ''#'' @ EncodeByteString (checksum data)) = Some data"
proof -
  obtain h0 h1 where h: "EncodeByteString (checksum data) = [h0, h1]"
    by (simp add: EncodeByteString_def)
  let ?p = "CHR ''$'' # data @ CHR ''#'' # [h0, h1]"
  have "FindUnescapedChar (CHR ''$'') (noise @ ?p) = Some (length noise)"
    using assms(2,3) by (simp add: FindUnescapedChar_def find_unescaped_append_None kEscapeChar_def)
  moreover have "substr ?p 1 (length data) = data" by (simp add: substr_def)
  moreover have "?p ! (length data + 2) = h0" "?p ! (length data + 3) = h1"
    by (simp_all add: nth_append)
  ultimately show ?thesis
    using find_pound_framed [OF assms(1), of "[h0, h1]"] DecodeByteString_EncodeByteString [OF h]
    by (simp add: VerifyPacket_def Let_def h)
qed

lemma VerifyPacket_frame:
  "frameable data \<Longrightarrow>
    VerifyPacket (''$'' @ data @ ''#'' @ EncodeByteString (checksum data)) = Some data"
  using VerifyPacket_noise_frame [of data "[]"] by simp

text \<open>
  A packet \<^verbatim>\<open>$data#cc\<close> whose checksum digits encode the byte sum of the data is
  accepted, after any noise that has no unescaped dollar sign, and the data is
  returned unchanged.
\<close>

lemma VerifyPacket_framed:
  assumes "frameable data" and "find_unescaped (CHR ''$'') False noise = None"
    and "\<not> escape_state False noise"
  shows "VerifyPacket (noise @ ''$'' @ data @ ''#'' @ EncodeByteString (checksum data)) = Some data"
  using assms by (rule VerifyPacket_noise_frame)

lemma VerifyPacket_framed_example: "VerifyPacket ''+$qC#b4'' = Some ''qC''"
proof -
  have "frameable ''qC''" "find_unescaped (CHR ''$'') False ''+'' = None" "\<not> escape_state False ''+''"
    by (simp_all add: frameable_def kEscapeChar_def)
  from VerifyPacket_framed [OF this]
  have "VerifyPacket (''+$qC#'' @ EncodeByteString (checksum ''qC'')) = Some ''qC''" by simp
  moreover have "EncodeByteString (checksum ''qC'') = ''b4''" by code_simp
  ultimately show ?thesis by simp
qed

text \<open>
  C35: whatever \<^verbatim>\<open>VerifyPacket\<close> accepts is, after a prefix without an unescaped dollar sign,
  exactly \<^verbatim>\<open>$data#cc\<close> with nothing behind it, no unescaped pound sign in the data, and the two
  digits equal to the checksum of the returned data.
\<close>

theorem VerifyPacket_sound:
  assumes "VerifyPacket packet = Some data"
  shows "\<exists>noise h0 h1. packet = noise @ ''$'' @ data @ ''#'' @ [h0, h1]
    \<and> FindUnescapedChar (CHR ''$'') noise = None
    \<and> FindUnescapedChar (CHR ''#'') data = None
    \<and> DecodeByteString h0 h1 = Some (checksum data)"
proof -
  from assms obtain d where d: "FindUnescapedChar (CHR ''$'') packet = Some d"
    by (auto simp: VerifyPacket_def split: if_splits option.splits)
  from drop_FindUnescapedChar [OF d] obtain noise rest where
    noise: "packet = noise @ CHR ''$'' # rest" "length noise = d"
      "FindUnescapedChar (CHR ''$'') noise = None" by blast
  let ?p = "CHR ''$'' # rest"
  from assms d noise(1,2) obtain k where k: "FindUnescapedChar (CHR ''#'') ?p = Some k"
    by (auto simp: VerifyPacket_def Let_def split: if_splits option.splits)
  from drop_FindUnescapedChar [OF k] obtain pre tail where
    pre: "?p = pre @ CHR ''#'' # tail" "length pre = k" "FindUnescapedChar (CHR ''#'') pre = None"
    by blast
  from pre(1) obtain body where body: "pre = CHR ''$'' # body" by (cases pre) auto
  with pre have p: "rest = body @ CHR ''#'' # tail" "k = Suc (length body)" by simp_all
  have none: "FindUnescapedChar (CHR ''#'') body = None"
    using pre(3) by (simp add: body FindUnescapedChar_def kEscapeChar_def)
  have sub: "substr ?p 1 (k - 1) = body" using p by (simp add: substr_def)
  have facts: "length ?p - length body = 4"
    "DecodeByteString (?p ! (k + 1)) (?p ! (k + 2)) = Some (checksum body)" "data = body"
    using assms d noise(1,2) k sub
    by (auto simp: VerifyPacket_def Let_def split: if_splits option.splits)
  from facts(1) p obtain h0 h1 where t: "tail = [h0, h1]"
    by (cases tail; cases "tl tail") auto
  have "?p ! (k + 1) = h0" "?p ! (k + 2) = h1" using p t by (simp_all add: nth_append)
  with facts t p noise none show ?thesis by auto
qed

theorem VerifyPacket_sound_witness:
  "\<exists>noise h0 h1. ''+$qC#b4'' = noise @ ''$'' @ ''qC'' @ ''#'' @ [h0, h1]
    \<and> FindUnescapedChar (CHR ''$'') noise = None
    \<and> FindUnescapedChar (CHR ''#'') ''qC'' = None
    \<and> DecodeByteString h0 h1 = Some (checksum ''qC'')"
proof -
  have "VerifyPacket ''+$qC#b4'' = Some ''qC''" by code_simp
  then show ?thesis by (rule VerifyPacket_sound)
qed

text \<open>
  \<^verbatim>\<open>ExtractParameters\<close> cuts a packet at its first colon: with a colon the two parts and the
  colon are the packet, without one the prefix is the whole packet and there are no
  parameters.
\<close>

lemma ExtractParameters_split:
  assumes "ExtractParameters packet = Some (pre, params)"
  shows "CHR '':'' \<notin> set pre
    \<and> (if CHR '':'' \<in> set packet then packet = pre @ CHR '':'' # params
       else packet = pre \<and> params = [])"
proof (cases "find_char (CHR '':'') packet")
  case None
  then have "CHR '':'' \<notin> set packet" by (simp add: find_char_None)
  with None assms show ?thesis
    by (simp add: ExtractParameters_def substr_def Let_def split: if_splits)
next
  case (Some i)
  then have i: "i < length packet" "packet ! i = CHR '':''" "CHR '':'' \<notin> set (take i packet)"
    by (simp_all add: find_char_Some)
  from Some assms have "pre = take i packet" "params = drop (Suc i) packet"
    by (auto simp: ExtractParameters_def substr_def Let_def split: if_splits)
  with i id_take_nth_drop [of i packet] nth_mem [OF i(1)] show ?thesis by simp
qed

lemma ExtractParameters_split_example:
  "ExtractParameters ''Supported:a+;b'' = Some (''Supported'', ''a+;b'')
    \<and> CHR '':'' \<notin> set ''Supported''"
proof -
  have v: "ExtractParameters ''Supported:a+;b'' = Some (''Supported'', ''a+;b'')" by code_simp
  from ExtractParameters_split [OF v] have "CHR '':'' \<notin> set ''Supported''" by blast
  with v show ?thesis by blast
qed

end
