(* ===== verification/Stop_Reply.thy ===== *)
theory Stop_Reply
  imports Rsp_Util
begin

text \<open>
  Stop-reply packets: \<^verbatim>\<open>bin/debugserver/stop-reply-packet.{h,cc}\<close>.  The class is a record,
  each setter a function on it; a setter whose assertion on the packet type fails is \<open>None\<close>.
  The invariant \<open>srp_wf\<close> is what the assertions of the setters guarantee to \<open>Build\<close>.
\<close>

section \<open>Definitions\<close>

datatype srp_type = kReceivedSignal | kProcessExited | kProcessTerminatedWithSignal | kThreadExited

record StopReplyPacket =
  srp_type :: srp_type
  srp_signo :: u8
  srp_tid_string :: string
  srp_register_values :: "string list"
  srp_stop_reason :: string

definition StopReplyPacket_new :: "srp_type \<Rightarrow> StopReplyPacket" where
  "StopReplyPacket_new type =
     \<lparr>srp_type = type, srp_signo = 0, srp_tid_string = [], srp_register_values = [],
      srp_stop_reason = []\<rparr>"

definition SetSignalNumber :: "u8 \<Rightarrow> StopReplyPacket \<Rightarrow> StopReplyPacket" where
  "SetSignalNumber signal_number p = p\<lparr>srp_signo := signal_number\<rparr>"

definition SetThreadId :: "ftl \<Rightarrow> u64 \<Rightarrow> u64 \<Rightarrow> StopReplyPacket \<Rightarrow> StopReplyPacket option" where
  "SetThreadId F process_id thread_id p =
     do {
       dcheck (srp_type p = kReceivedSignal \<or> srp_type p = kThreadExited);
       Some (p\<lparr>srp_tid_string := EncodeThreadId F process_id thread_id\<rparr>)
     }"

definition AddRegisterValue :: "u8 \<Rightarrow> string \<Rightarrow> StopReplyPacket \<Rightarrow> StopReplyPacket option" where
  "AddRegisterValue register_number value p =
     do {
       dcheck (srp_type p = kReceivedSignal);
       dcheck (value \<noteq> []);
       Some (p\<lparr>srp_register_values :=
         srp_register_values p @ [EncodeByteString register_number @ '':'' @ value]\<rparr>)
     }"

definition SetStopReason :: "string \<Rightarrow> StopReplyPacket \<Rightarrow> StopReplyPacket option" where
  "SetStopReason reason p =
     do {
       dcheck (srp_type p = kReceivedSignal);
       Some (p\<lparr>srp_stop_reason := reason @ '':''\<rparr>)
     }"

definition HasParameters :: "StopReplyPacket \<Rightarrow> bool option" where
  "HasParameters p =
     do {
       dcheck (srp_type p = kReceivedSignal);
       Some (srp_tid_string p \<noteq> [] \<or> srp_register_values p \<noteq> [] \<or> srp_stop_reason p \<noteq> [])
     }"

definition srp_type_char :: "StopReplyPacket \<Rightarrow> char option" where
  "srp_type_char p =
     (case srp_type p of
        kReceivedSignal \<Rightarrow>
          do {
            dcheck (srp_signo p \<noteq> 0);
            has \<leftarrow> HasParameters p;
            Some (if has then CHR ''T'' else CHR ''S'')
          }
      | kProcessTerminatedWithSignal \<Rightarrow> Some (CHR ''X'')
      | kProcessExited \<Rightarrow> Some (CHR ''W'')
      | kThreadExited \<Rightarrow> Some (CHR ''w''))"

definition srp_thread_field :: "StopReplyPacket \<Rightarrow> string option" where
  "srp_thread_field p =
     (if srp_tid_string p = [] then Some []
      else case srp_type p of
        kThreadExited \<Rightarrow> Some ('';'' @ srp_tid_string p)
      | kReceivedSignal \<Rightarrow> Some (''thread:'' @ srp_tid_string p @ '';'')
      | _ \<Rightarrow> None)"

definition srp_signo_sent :: "StopReplyPacket \<Rightarrow> u8" where
  "srp_signo_sent p = (if srp_stop_reason p = [] then srp_signo p else 5)"

definition StopReplyPacket_Build :: "StopReplyPacket \<Rightarrow> string option" where
  "StopReplyPacket_Build p =
     do {
       type \<leftarrow> srp_type_char p;
       thread \<leftarrow> srp_thread_field p;
       Some ([type] @ EncodeByteString (srp_signo_sent p)
         @ concat (map (\<lambda>regval. regval @ '';'') (srp_register_values p))
         @ thread
         @ (if srp_stop_reason p = [] then [] else srp_stop_reason p @ '';''))
     }"

section \<open>The packet invariant\<close>

definition srp_wf :: "StopReplyPacket \<Rightarrow> bool" where
  "srp_wf p \<longleftrightarrow>
     (srp_type p \<noteq> kReceivedSignal \<longrightarrow> srp_register_values p = [] \<and> srp_stop_reason p = [])
     \<and> (srp_type p \<in> {kProcessExited, kProcessTerminatedWithSignal} \<longrightarrow> srp_tid_string p = [])"

lemma srp_wf_new: "srp_wf (StopReplyPacket_new t)"
  by (simp add: srp_wf_def StopReplyPacket_new_def)

lemma srp_wf_SetSignalNumber: "srp_wf p \<Longrightarrow> srp_wf (SetSignalNumber n p)"
  by (simp add: srp_wf_def SetSignalNumber_def)

lemma srp_wf_SetThreadId: "srp_wf p \<Longrightarrow> SetThreadId F a b p = Some q \<Longrightarrow> srp_wf q"
  by (auto simp: srp_wf_def SetThreadId_def)

lemma srp_wf_AddRegisterValue: "srp_wf p \<Longrightarrow> AddRegisterValue n v p = Some q \<Longrightarrow> srp_wf q"
  by (auto simp: srp_wf_def AddRegisterValue_def)

lemma srp_wf_SetStopReason: "srp_wf p \<Longrightarrow> SetStopReason r p = Some q \<Longrightarrow> srp_wf q"
  by (auto simp: srp_wf_def SetStopReason_def)

lemmas srp_wf_ops = srp_wf_new srp_wf_SetSignalNumber srp_wf_SetThreadId srp_wf_AddRegisterValue
  srp_wf_SetStopReason

text \<open>The setter calls of a client, as data, so that every sequence of them is covered.\<close>

datatype srp_setter =
  CallSignal u8 | CallThread u64 u64 | CallRegister u8 string | CallReason string

fun srp_call :: "ftl \<Rightarrow> srp_setter \<Rightarrow> StopReplyPacket \<Rightarrow> StopReplyPacket option" where
  "srp_call F (CallSignal n) p = Some (SetSignalNumber n p)"
| "srp_call F (CallThread a b) p = SetThreadId F a b p"
| "srp_call F (CallRegister n v) p = AddRegisterValue n v p"
| "srp_call F (CallReason r) p = SetStopReason r p"

fun srp_calls :: "ftl \<Rightarrow> srp_setter list \<Rightarrow> StopReplyPacket \<Rightarrow> StopReplyPacket option" where
  "srp_calls F [] p = Some p"
| "srp_calls F (c # cs) p = do { q \<leftarrow> srp_call F c p; srp_calls F cs q }"

lemma srp_wf_call: "srp_wf p \<Longrightarrow> srp_call F c p = Some q \<Longrightarrow> srp_wf q"
  by (cases c) (auto intro: srp_wf_ops)

lemma srp_wf_calls: "srp_wf p \<Longrightarrow> srp_calls F cs p = Some q \<Longrightarrow> srp_wf q"
  by (induction cs arbitrary: p) (auto simp: bind_eq_Some_conv intro: srp_wf_call)

lemma Build_defined:
  assumes "srp_wf p" and "srp_type p = kReceivedSignal \<longrightarrow> srp_signo p \<noteq> 0"
  shows "\<exists>s. StopReplyPacket_Build p = Some s"
  using assms
  by (cases "srp_type p")
    (simp_all add: StopReplyPacket_Build_def srp_type_char_def srp_thread_field_def HasParameters_def
      srp_wf_def)

text \<open>
  No sequence of setter calls that the assertions allow can make \<^verbatim>\<open>Build\<close> fail,
  except that a \<open>kReceivedSignal\<close> packet needs a non-zero signal number.
\<close>

lemma StopReplyPacket_Build_total:
  assumes "srp_calls F cs (StopReplyPacket_new t) = Some p"
    and "srp_type p = kReceivedSignal \<longrightarrow> srp_signo p \<noteq> 0"
  shows "\<exists>s. StopReplyPacket_Build p = Some s"
  using assms srp_wf_calls [OF srp_wf_new] by (intro Build_defined)

lemma StopReplyPacket_Build_total_example:
  "\<exists>p s. srp_calls ftl_ref [CallSignal 5, CallRegister 16 ''00ff'', CallReason ''swbreak'']
      (StopReplyPacket_new kReceivedSignal) = Some p \<and> StopReplyPacket_Build p = Some s"
proof -
  let ?p = "\<lparr>srp_type = kReceivedSignal, srp_signo = 5, srp_tid_string = [],
    srp_register_values = [EncodeByteString 16 @ '':'' @ ''00ff''], srp_stop_reason = ''swbreak:''\<rparr>"
  have "srp_calls ftl_ref [CallSignal 5, CallRegister 16 ''00ff'', CallReason ''swbreak'']
      (StopReplyPacket_new kReceivedSignal) = Some ?p"
    by (simp add: StopReplyPacket_new_def SetSignalNumber_def AddRegisterValue_def SetStopReason_def)
  moreover from StopReplyPacket_Build_total [OF this]
  have "\<exists>s. StopReplyPacket_Build ?p = Some s" by simp
  ultimately show ?thesis by blast
qed

section \<open>What a packet says\<close>

text \<open>
  The reply carries the signal: its second and third character decode to the
  signal number, or to the trap signal 5 when a stop reason is given, and its first
  character is \<^verbatim>\<open>S\<close> exactly when a signal packet carries nothing else.
\<close>

lemma StopReplyPacket_Build_signal:
  assumes "StopReplyPacket_Build p = Some s"
  shows "DecodeByteString (s ! 1) (s ! 2) =
      Some (if srp_stop_reason p = [] then srp_signo p else 5)
    \<and> (hd s = CHR ''S'' \<longleftrightarrow> srp_type p = kReceivedSignal \<and> srp_tid_string p = []
        \<and> srp_register_values p = [] \<and> srp_stop_reason p = [])
    \<and> (hd s = CHR ''S'' \<longrightarrow> length s = 3)"
proof -
  obtain h0 h1 where h: "EncodeByteString (srp_signo_sent p) = [h0, h1]"
    by (simp add: EncodeByteString_def)
  from assms obtain type thread where ty: "srp_type_char p = Some type"
    and th: "srp_thread_field p = Some thread"
    and s: "s = [type, h0, h1] @ concat (map (\<lambda>regval. regval @ '';'') (srp_register_values p))
      @ thread @ (if srp_stop_reason p = [] then [] else srp_stop_reason p @ '';'')"
    by (auto simp: StopReplyPacket_Build_def bind_eq_Some_conv h)
  have S: "type = CHR ''S'' \<longleftrightarrow> srp_type p = kReceivedSignal \<and> srp_tid_string p = []
        \<and> srp_register_values p = [] \<and> srp_stop_reason p = []"
    using ty by (auto simp: srp_type_char_def HasParameters_def split: srp_type.splits if_splits)
  have "thread = []" if "type = CHR ''S''"
    using that S th by (simp add: srp_thread_field_def)
  with S DecodeByteString_EncodeByteString [OF h] show ?thesis
    unfolding s srp_signo_sent_def by auto
qed

lemma StopReplyPacket_Build_signal_example:
  "StopReplyPacket_Build (SetSignalNumber 9 (StopReplyPacket_new kReceivedSignal)) = Some ''S09''
    \<and> DecodeByteString (CHR ''0'') (CHR ''9'') = Some 9"
proof -
  let ?p = "SetSignalNumber 9 (StopReplyPacket_new kReceivedSignal)"
  have b: "StopReplyPacket_Build ?p = Some ''S09''" by code_simp
  have "srp_stop_reason ?p = []" "srp_signo ?p = 9"
    by (simp_all add: SetSignalNumber_def StopReplyPacket_new_def)
  with StopReplyPacket_Build_signal [OF b] b show ?thesis by simp
qed

lemma hex_lower_not_special: "CHR ''#'' \<notin> hex_lower" "kEscapeChar \<notin> hex_lower"
  by (simp_all add: hex_lower_def kEscapeChar_def byte_of_def)

lemma special_notin_EncodeByteString [simp]:
  "CHR ''#'' \<notin> set (EncodeByteString b)" "kEscapeChar \<notin> set (EncodeByteString b)"
  using EncodeByteString_alphabet [of b] hex_lower_not_special by blast+

lemma special_notin_EncodeThreadId:
  assumes "ftl_conversions F"
  shows "CHR ''#'' \<notin> set (EncodeThreadId F a b)" "kEscapeChar \<notin> set (EncodeThreadId F a b)"
  using set_EncodeThreadId [OF assms, of a b] by (auto simp: hex_alphabet_def kEscapeChar_def)

definition plain :: "string \<Rightarrow> bool" where
  "plain s \<longleftrightarrow> CHR ''#'' \<notin> set s \<and> kEscapeChar \<notin> set s"

lemma plain_simps [simp]:
  "plain []" "plain (c # s) \<longleftrightarrow> c \<noteq> CHR ''#'' \<and> c \<noteq> kEscapeChar \<and> plain s"
  "plain (s @ t) \<longleftrightarrow> plain s \<and> plain t" "plain (EncodeByteString b)"
  by (auto simp: plain_def)

lemma plain_concat: "plain (concat ss) \<longleftrightarrow> (\<forall>s \<in> set ss. plain s)"
  by (induction ss) simp_all

lemma plain_frameable: "plain s \<Longrightarrow> frameable s"
  by (simp add: plain_def frameable_plain)

lemma plain_EncodeThreadId: "ftl_conversions F \<Longrightarrow> plain (EncodeThreadId F a b)"
  by (simp add: plain_def special_notin_EncodeThreadId)

definition srp_plain :: "StopReplyPacket \<Rightarrow> bool" where
  "srp_plain p \<longleftrightarrow> plain (srp_tid_string p) \<and> plain (srp_stop_reason p)
     \<and> (\<forall>v \<in> set (srp_register_values p). plain v)"

fun plain_call :: "srp_setter \<Rightarrow> bool" where
  "plain_call (CallRegister n v) \<longleftrightarrow> plain v"
| "plain_call (CallReason r) \<longleftrightarrow> plain r"
| "plain_call _ \<longleftrightarrow> True"

lemma srp_plain_call:
  "ftl_conversions F \<Longrightarrow> plain_call c \<Longrightarrow> srp_plain p \<Longrightarrow> srp_call F c p = Some q \<Longrightarrow> srp_plain q"
  by (cases c) (auto simp: srp_plain_def SetSignalNumber_def SetThreadId_def AddRegisterValue_def
      SetStopReason_def plain_EncodeThreadId kEscapeChar_def)

lemma srp_plain_calls:
  "ftl_conversions F \<Longrightarrow> \<forall>c \<in> set cs. plain_call c \<Longrightarrow> srp_plain p \<Longrightarrow> srp_calls F cs p = Some q
    \<Longrightarrow> srp_plain q"
  by (induction cs arbitrary: p) (auto simp: bind_eq_Some_conv intro: srp_plain_call)

lemma Build_plain: "srp_plain p \<Longrightarrow> StopReplyPacket_Build p = Some s \<Longrightarrow> plain s"
  by (auto simp: StopReplyPacket_Build_def bind_eq_Some_conv srp_plain_def srp_type_char_def
      srp_thread_field_def plain_concat HasParameters_def kEscapeChar_def
      split: srp_type.splits if_splits)

text \<open>
  A stop reply whose register values and reason contain neither the frame's pound
  sign nor the escape character survives the wire: framed with its checksum, it is
  verified and returned unchanged.
\<close>

lemma StopReplyPacket_frameable:
  assumes "ftl_conversions F" and "\<forall>c \<in> set cs. plain_call c"
    and "srp_calls F cs (StopReplyPacket_new t) = Some p" and "StopReplyPacket_Build p = Some s"
  shows "VerifyPacket (''$'' @ s @ ''#'' @ EncodeByteString (checksum s)) = Some s"
proof -
  have "srp_plain (StopReplyPacket_new t)" by (simp add: srp_plain_def StopReplyPacket_new_def)
  with assms have "frameable s"
    by (blast intro: plain_frameable Build_plain srp_plain_calls)
  then show ?thesis by (rule VerifyPacket_frame)
qed

lemma StopReplyPacket_frameable_example:
  "VerifyPacket (''$'' @ ''S09'' @ ''#'' @ EncodeByteString (checksum ''S09'')) = Some ''S09''"
proof -
  have "srp_calls ftl_ref [CallSignal 9] (StopReplyPacket_new kReceivedSignal)
      = Some (SetSignalNumber 9 (StopReplyPacket_new kReceivedSignal))" by simp
  moreover have
    "StopReplyPacket_Build (SetSignalNumber 9 (StopReplyPacket_new kReceivedSignal)) = Some ''S09''"
    by code_simp
  moreover have "\<forall>c \<in> set [CallSignal 9]. plain_call c" by simp
  ultimately show ?thesis
    by (intro StopReplyPacket_frameable [OF ftl_ref.ftl_conversions_axioms])
qed

end
