(* ===== verification/Server.thy ===== *)
theory Server
  imports Process_Inv Stop_Reply
begin

text \<open>
  The server without its commands: the base class \<^verbatim>\<open>lib/inferior-control/server.{h,cc}\<close> and
  \<^verbatim>\<open>bin/debugserver/server.{h,cc}\<close>.  \<open>rsp_server\<close> extends the record of the inferior by the members
  of \<^verbatim>\<open>Server\<close>, \<^verbatim>\<open>RspServer\<close> and \<^verbatim>\<open>CommandHandler\<close>; the inferior itself is
  \<^verbatim>\<open>current_process_\<close>, which \<^verbatim>\<open>main\<close> sets before the server runs and which is never null.

  The main message loop is the queue \<open>srv_tasks\<close> of posted closures, each a value of \<open>task\<close>, and
  the delayed closures \<open>srv_timers\<close>.  What is handed to the write thread is appended to
  \<open>srv_written\<close>.  \<^verbatim>\<open>current_thread_\<close> is a weak pointer: the number of the thread object.  The
  time-out closure captures the address of a notification; \<open>en_addr E n\<close> is the address of the
  \<open>n\<close>th one allocated.  \<open>en_new_ok E n\<close> says whether \<^verbatim>\<open>new char[n]\<close> succeeds for a length a
  client chose; it ends the program where it does not.
\<close>

section \<open>Definitions\<close>

record 'k env =
  en_ftl :: ftl
  en_mx :: "'k mx"
  en_dso :: dso_env
  en_addr :: "nat \<Rightarrow> u64"
  en_GetMinLogLevel :: "int \<Rightarrow> int"
  en_new_ok :: "u64 \<Rightarrow> bool"

record notification =
  nt_name :: string
  nt_event :: string
  nt_timeout :: int
  nt_addr :: u64

datatype task = WriteTask bool string | ReadTask string | ExceptionTask port_packet
  | DisconnectTask | ErrorTask | QuitTask

record 'k rsp_server = "'k inferior" +
  srv_current_thread :: "nat option"
  srv_run_status :: bool
  srv_io_loop :: bool
  srv_min_log_level :: int
  srv_in_thread_info_sequence :: bool
  srv_notify_queue :: "notification list"
  srv_pending :: "notification option"
  srv_allocated :: nat
  srv_tasks :: "task list"
  srv_timers :: "(u64 \<times> int) list"
  srv_written :: "string list"
  srv_quit :: bool

definition kStopNotification :: string where
  "kStopNotification = ''Stop''"

definition kStopAck :: string where
  "kStopAck = ''vStopped''"

definition kMaxBufferSize :: nat where
  "kMaxBufferSize = 4096"

definition kDefaultTimeoutSeconds :: int where
  "kDefaultTimeoutSeconds = 30"

definition Server_SetCurrentThread :: "u64 option \<Rightarrow> 'k rsp_server \<Rightarrow> 'k rsp_server" where
  "Server_SetCurrentThread thread s =
     (case thread of
        None \<Rightarrow> s\<lparr>srv_current_thread := None\<rparr>
      | Some tid \<Rightarrow> s\<lparr>srv_current_thread := map_option t_oid (get_thread tid s)\<rparr>)"

definition Server_current_thread :: "'k rsp_server \<Rightarrow> u64 option" where
  "Server_current_thread s =
     (case srv_current_thread s of
        None \<Rightarrow> None
      | Some oid \<Rightarrow> map_option fst (find (\<lambda>(i, t). t_oid t = oid) (p_threads (i_proc s))))"

definition Server_QuitMessageLoop :: "bool \<Rightarrow> 'k rsp_server \<Rightarrow> 'k rsp_server" where
  "Server_QuitMessageLoop status s = s\<lparr>srv_run_status := status, srv_quit := True\<rparr>"

definition Server_PostQuitMessageLoop :: "bool \<Rightarrow> 'k rsp_server \<Rightarrow> 'k rsp_server" where
  "Server_PostQuitMessageLoop status s =
     s\<lparr>srv_run_status := status, srv_tasks := srv_tasks s @ [QuitTask]\<rparr>"

definition PendingNotification :: "string \<Rightarrow> string \<Rightarrow> int \<Rightarrow> u64 \<Rightarrow> notification" where
  "PendingNotification name event timeout address =
     \<lparr>nt_name = name, nt_event = event, nt_timeout = timeout, nt_addr = address\<rparr>"

definition IOLoop_PostWriteTask :: "string \<Rightarrow> 'k rsp_server \<Rightarrow> 'k rsp_server" where
  "IOLoop_PostWriteTask bytes s = s\<lparr>srv_written := srv_written s @ [bytes]\<rparr>"

definition SendAck :: "bool \<Rightarrow> 'k rsp_server \<Rightarrow> 'k rsp_server option" where
  "SendAck ack s =
     do {
       dcheck (srv_io_loop s);
       let payload = (if ack then CHR ''+'' else CHR ''-'');
       Some (IOLoop_PostWriteTask [payload] s)
     }"

definition PostWriteTask :: "bool \<Rightarrow> string \<Rightarrow> 'k rsp_server \<Rightarrow> 'k rsp_server option" where
  "PostWriteTask notify data s =
     do {
       dcheck (srv_io_loop s);
       dcheck (length data + 4 < kMaxBufferSize);
       Some (s\<lparr>srv_tasks := srv_tasks s @ [WriteTask notify data]\<rparr>)
     }"

text \<open>The closure \<^verbatim>\<open>PostWriteTask\<close> posts, on the buffer \<open>out\<close> of \<open>kMaxBufferSize\<close> characters.\<close>

definition write_packet :: "bool \<Rightarrow> string \<Rightarrow> char list \<Rightarrow> (nat \<times> char list) option" where
  "write_packet notify data out =
     do {
       let index = 0;
       dcheck (index < length out);
       let out = out[index := (if notify then CHR ''%'' else CHR ''$'')];
       let index = index + 1;
       dcheck (index + length data \<le> length out);
       let out = memcpy_at out index data;
       let index = index + length data;
       dcheck (index < length out);
       let out = out[index := CHR ''#''];
       let index = index + 1;
       dcheck (index + 2 \<le> length out);
       let out = memcpy_at out index (EncodeByteString (checksum data));
       Some (index + 2, out)
     }"

definition run_WriteTask :: "bool \<Rightarrow> string \<Rightarrow> 'k rsp_server \<Rightarrow> 'k rsp_server option" where
  "run_WriteTask notify data s =
     do {
       (index, out) \<leftarrow> write_packet notify data (replicate kMaxBufferSize (CHR 0x00));
       Some (IOLoop_PostWriteTask (take index out) s)
     }"

definition PostPacketWriteTask :: "string \<Rightarrow> 'k rsp_server \<Rightarrow> 'k rsp_server option" where
  "PostPacketWriteTask data s = PostWriteTask False data s"

definition PostPendingNotificationWriteTask :: "'k rsp_server \<Rightarrow> 'k rsp_server option" where
  "PostPendingNotificationWriteTask s =
     do {
       n \<leftarrow> srv_pending s;
       PostWriteTask True (nt_name n @ '':'' @ nt_event n) s
     }"

definition PostNotificationTimeoutHandler :: "'k rsp_server \<Rightarrow> 'k rsp_server option" where
  "PostNotificationTimeoutHandler s =
     do {
       n \<leftarrow> srv_pending s;
       Some (s\<lparr>srv_timers := srv_timers s @ [(nt_addr n, nt_timeout n)]\<rparr>)
     }"

text \<open>The closure \<^verbatim>\<open>PostNotificationTimeoutHandler\<close> posts; \<open>pending\<close> is the address it captured.\<close>

definition run_timeout :: "u64 \<Rightarrow> 'k rsp_server \<Rightarrow> 'k rsp_server option" where
  "run_timeout pending s =
     (if map_option nt_addr (srv_pending s) \<noteq> Some pending then Some s
      else do {
        s \<leftarrow> PostPendingNotificationWriteTask s;
        PostNotificationTimeoutHandler s
      })"

definition TryPostNextNotification :: "'k rsp_server \<Rightarrow> (bool \<times> 'k rsp_server) option" where
  "TryPostNextNotification s =
     (if srv_pending s \<noteq> None \<or> srv_notify_queue s = [] then Some (False, s)
      else do {
        let s = s\<lparr>srv_pending := Some (hd (srv_notify_queue s)), srv_notify_queue := tl (srv_notify_queue s)\<rparr>;
        s \<leftarrow> PostPendingNotificationWriteTask s;
        s \<leftarrow> PostNotificationTimeoutHandler s;
        Some (True, s)
      })"

definition QueueNotification ::
  "'k env \<Rightarrow> string \<Rightarrow> string \<Rightarrow> int \<Rightarrow> 'k rsp_server \<Rightarrow> 'k rsp_server option" where
  "QueueNotification E name event timeout s =
     do {
       dcheck (name = kStopNotification);
       let n = PendingNotification name event timeout (en_addr E (srv_allocated s));
       let s = s\<lparr>srv_notify_queue := srv_notify_queue s @ [n], srv_allocated := Suc (srv_allocated s)\<rparr>;
       map_option snd (TryPostNextNotification s)
     }"

definition QueueStopNotification :: "'k env \<Rightarrow> string \<Rightarrow> int \<Rightarrow> 'k rsp_server \<Rightarrow> 'k rsp_server option" where
  "QueueStopNotification E event timeout s = QueueNotification E kStopNotification event timeout s"

definition SetParameter :: "'k env \<Rightarrow> string \<Rightarrow> string \<Rightarrow> 'k rsp_server \<Rightarrow> bool \<times> 'k rsp_server" where
  "SetParameter E parameter value s =
     (if parameter = ''verbosity'' then
        (case StringToNumberWithError (en_ftl E) Int32 10 value of
           None \<Rightarrow> (False, s)
         | Some verbosity \<Rightarrow>
             if verbosity \<ge> LOG_NUM_SEVERITIES (en_ftl E) then (False, s)
             else (True, s\<lparr>srv_min_log_level := verbosity\<rparr>))
      else (False, s))"

definition GetParameter :: "'k env \<Rightarrow> string \<Rightarrow> 'k rsp_server \<Rightarrow> string option" where
  "GetParameter E parameter s =
     (if parameter = ''verbosity'' then
        Some (NumberToString (en_ftl E) Int32 10 (en_GetMinLogLevel E (srv_min_log_level s)))
      else None)"

definition RspServer_OnDisconnected :: "'k rsp_server \<Rightarrow> 'k rsp_server" where
  "RspServer_OnDisconnected s = Server_QuitMessageLoop True s"

definition RspServer_OnIOError :: "'k rsp_server \<Rightarrow> 'k rsp_server" where
  "RspServer_OnIOError s = Server_QuitMessageLoop False s"

definition RspServer_OnThreadStarting ::
  "'k env \<Rightarrow> u64 \<Rightarrow> mx_exception_context \<Rightarrow> 'k rsp_server \<Rightarrow> 'k rsp_server option" where
  "RspServer_OnThreadStarting E thread context s =
     do {
       let stop_reply = SetSignalNumber 5 (StopReplyPacket_new kReceivedSignal);
       stop_reply \<leftarrow> SetThreadId (en_ftl E) (p_id (i_proc s)) (ctx_tid context) stop_reply;
       stop_reply \<leftarrow> SetStopReason ''create'' stop_reply;
       packet \<leftarrow> StopReplyPacket_Build stop_reply;
       (case p_state (i_proc s) of
          prc_kStarting \<Rightarrow>
            do {
              s \<leftarrow> PostPacketWriteTask packet s;
              p \<leftarrow> Process_set_state prc_kRunning (i_proc s);
              Some (s\<lparr>i_proc := p\<rparr>)
            }
        | prc_kRunning \<Rightarrow> QueueStopNotification E packet kDefaultTimeoutSeconds s
        | _ \<Rightarrow> None)
     }"

definition RspServer_OnThreadExiting ::
  "'k env \<Rightarrow> u64 \<Rightarrow> mx_excp_type \<Rightarrow> mx_exception_context \<Rightarrow> 'k rsp_server \<Rightarrow> 'k rsp_server option" where
  "RspServer_OnThreadExiting E thread type context s =
     do {
       t \<leftarrow> get_thread thread s;
       let stop_reply = SetSignalNumber 0 (StopReplyPacket_new kThreadExited);
       stop_reply \<leftarrow> SetThreadId (en_ftl E) (p_id (i_proc s)) (t_id t) stop_reply;
       packet \<leftarrow> StopReplyPacket_Build stop_reply;
       s \<leftarrow> QueueStopNotification E packet kDefaultTimeoutSeconds s;
       map_option snd
         (on_thread thread (\<lambda>t k. map_option (Pair ()) (Thread_ResumeForExit (en_mx E) t k)) s)
     }"

definition RspServer_OnProcessExit ::
  "'k env \<Rightarrow> mx_excp_type \<Rightarrow> mx_exception_context \<Rightarrow> 'k rsp_server \<Rightarrow> 'k rsp_server option" where
  "RspServer_OnProcessExit E type context s =
     do {
       let s = Server_SetCurrentThread None s;
       exit_code \<leftarrow> Process_ExitCode (en_mx E) s;
       let stop_reply = SetSignalNumber (word_of_int exit_code) (StopReplyPacket_new kProcessExited);
       packet \<leftarrow> StopReplyPacket_Build stop_reply;
       QueueStopNotification E packet kDefaultTimeoutSeconds s
     }"

fun add_registers ::
  "arch_kind \<Rightarrow> u8 list \<Rightarrow> int list \<Rightarrow> StopReplyPacket \<Rightarrow> StopReplyPacket option" where
  "add_registers A gregs [] stop_reply = Some stop_reply"
| "add_registers A gregs (regno # regnos) stop_reply =
     do {
       dcheck (regno < 255 \<and> regno \<ge> 0);
       regval \<leftarrow> GetRegisterAsString A gregs regno;
       stop_reply \<leftarrow> AddRegisterValue (word_of_int regno) regval stop_reply;
       add_registers A gregs regnos stop_reply
     }"

text \<open>The stop reply for a thread and the signal it received, from its registers where they can be read.\<close>

definition exception_reply ::
  "'k env \<Rightarrow> u64 \<Rightarrow> int \<Rightarrow> mx_exception_context \<Rightarrow> thread \<Rightarrow> 'k
    \<Rightarrow> (string \<times> thread \<times> 'k) option" where
  "exception_reply E pid isigval context t k =
     do {
       let A = mx_arch (en_mx E);
       let stop_reply = SetSignalNumber (word_of_int isigval) (StopReplyPacket_new kReceivedSignal);
       stop_reply \<leftarrow> SetThreadId (en_ftl E) pid (ctx_tid context) stop_reply;
       (ok, t) \<leftarrow> Thread_RefreshGeneralRegisters (en_mx E) t k;
       stop_reply \<leftarrow>
         (if ok then
            add_registers A (t_gregs t)
              [GetFPRegisterNumber A, GetSPRegisterNumber A, GetPCRegisterNumber A] stop_reply
          else Some stop_reply);
       packet \<leftarrow> StopReplyPacket_Build stop_reply;
       Some (packet, t, k)
     }"

definition RspServer_OnArchitecturalException ::
  "'k env \<Rightarrow> u64 \<Rightarrow> mx_excp_type \<Rightarrow> mx_exception_context \<Rightarrow> 'k rsp_server \<Rightarrow> 'k rsp_server option" where
  "RspServer_OnArchitecturalException E thread type context s =
     do {
       t \<leftarrow> get_thread thread s;
       sigval \<leftarrow> Thread_GetGdbSignal (mx_arch (en_mx E)) t;
       if sigval = sig_kUnsupported then Some s
       else do {
         let isigval = signal_value sigval;
         dcheck (isigval < 255);
         (packet, s) \<leftarrow> on_thread thread (exception_reply E (p_id (i_proc s)) isigval context) s;
         QueueStopNotification E packet kDefaultTimeoutSeconds s
       }
     }"

definition rsp_delegate :: "'k env \<Rightarrow> 'k rsp_server delegate" where
  "rsp_delegate E =
     \<lparr>OnThreadStarting = RspServer_OnThreadStarting E,
      OnThreadExiting = RspServer_OnThreadExiting E,
      OnProcessExit = RspServer_OnProcessExit E,
      OnArchitecturalException = RspServer_OnArchitecturalException E\<rparr>"

end
