(* ===== verification/Thread_Actions.thy ===== *)
theory Thread_Actions
  imports Rsp_Util
begin

text \<open>
  The action list of a \<^verbatim>\<open>vCont\<close> packet: \<^verbatim>\<open>bin/debugserver/thread-action-list.{h,cc}\<close>.  The
  constructor's loop over \<^verbatim>\<open>str\<close> from index \<^verbatim>\<open>s\<close> is \<open>tal_loop\<close> on the rest of the text from
  \<^verbatim>\<open>s\<close>; an early \<^verbatim>\<open>return\<close> leaves \<^verbatim>\<open>valid_\<close> false, a failed assertion is \<open>None\<close>.
\<close>

section \<open>Definitions\<close>

datatype Action = kNone | kContinue | kStep

record tal_entry =
  ent_action :: Action
  ent_pid :: u64
  ent_tid :: u64

definition kAll :: u64 where
  "kAll = NOT 0"

definition Entry :: "Action \<Rightarrow> u64 \<Rightarrow> u64 \<Rightarrow> tal_entry option" where
  "Entry action pid tid =
     do {
       dcheck (pid \<noteq> 0);
       Some \<lparr>ent_action = action, ent_pid = pid, ent_tid = tid\<rparr>
     }"

definition set_picked_tid :: "u64 \<Rightarrow> tal_entry \<Rightarrow> tal_entry option" where
  "set_picked_tid tid e =
     do {
       dcheck (tid \<noteq> 0);
       dcheck (ent_tid e = 0);
       Some (e\<lparr>ent_tid := tid\<rparr>)
     }"

definition Entry_Contains :: "u64 \<Rightarrow> u64 \<Rightarrow> tal_entry \<Rightarrow> bool option" where
  "Entry_Contains pid tid e =
     do {
       dcheck (pid \<noteq> 0 \<and> pid \<noteq> kAll);
       dcheck (tid \<noteq> 0 \<and> tid \<noteq> kAll);
       dcheck (ent_pid e \<noteq> 0);
       Some (if pid \<noteq> ent_pid e \<and> ent_pid e \<noteq> kAll then False
             else if tid \<noteq> ent_tid e \<and> ent_tid e \<noteq> kAll then False
             else True)
     }"

definition DecodeAction :: "char \<Rightarrow> Action option" where
  "DecodeAction c =
     (if c = CHR ''c'' then Some kContinue else if c = CHR ''s'' then Some kStep else None)"

fun ActionToString :: "Action \<Rightarrow> string" where
  "ActionToString kNone = ''Action::kNone''"
| "ActionToString kContinue = ''Action::kContinue''"
| "ActionToString kStep = ''Action::kStep''"

record action_list =
  tal_valid :: bool
  tal_pick_ones_resolved :: bool
  tal_default_action :: Action
  tal_actions :: "tal_entry list"

definition tal_invalid :: "tal_entry list \<Rightarrow> action_list" where
  "tal_invalid actions =
     \<lparr>tal_valid = False, tal_pick_ones_resolved = False, tal_default_action = kNone,
      tal_actions = actions\<rparr>"

text \<open>The entry for a parsed thread id; \<open>Some None\<close> is an error return of the constructor.\<close>

definition tal_entry_for :: "u64 \<Rightarrow> Action \<Rightarrow> int option \<times> int \<Rightarrow> tal_entry option option" where
  "tal_entry_for cur_proc action tid_parts =
     (case tid_parts of (pid_opt, tid) \<Rightarrow>
        if (pid_opt \<noteq> None \<and> the pid_opt \<le> -2) \<or> tid \<le> -2 then Some None
        else
          let pid = (if pid_opt = None \<or> the pid_opt = 0 then sint cur_proc else the pid_opt) in
          if pid = -1 \<and> tid \<noteq> -1 then Some None
          else map_option Some
            (Entry action (if pid = -1 then kAll else word_of_int pid)
              (if tid = -1 then kAll else word_of_int tid)))"

text \<open>
  One round of the loop on the \<^verbatim>\<open>n\<close> characters \<^verbatim>\<open>item\<close> before the next semicolon: the new
  default action and entries, \<open>Some None\<close> for an error return.
\<close>

definition tal_item ::
  "ftl \<Rightarrow> u64 \<Rightarrow> string \<Rightarrow> Action \<Rightarrow> tal_entry list \<Rightarrow> (Action \<times> tal_entry list) option option" where
  "tal_item F cur_proc item default_action actions =
     (if length item = 0 then Some None
      else case DecodeAction (item ! 0) of
        None \<Rightarrow> Some None
      | Some action \<Rightarrow>
          if length item = 1 then
            (if default_action \<noteq> kNone then Some None else Some (Some (action, actions)))
          else if item ! 1 = CHR '':'' then
            (case ParseThreadId F (substr item 2 (length item - 2)) of
               None \<Rightarrow> None
             | Some None \<Rightarrow> Some None
             | Some (Some tid_parts) \<Rightarrow>
                 map_option (map_option (\<lambda>e. (default_action, actions @ [e])))
                   (tal_entry_for cur_proc action tid_parts))
          else Some None)"

function tal_loop ::
  "ftl \<Rightarrow> u64 \<Rightarrow> string \<Rightarrow> Action \<Rightarrow> tal_entry list \<Rightarrow> action_list option" where
  "tal_loop F cur_proc rest default_action actions =
     (if rest = [] then
        Some \<lparr>tal_valid = True, tal_pick_ones_resolved = False,
              tal_default_action = default_action, tal_actions = actions\<rparr>
      else
        let semi = find_char (CHR '';'') rest;
            n = (case semi of None \<Rightarrow> length rest | Some i \<Rightarrow> i);
            next = (case semi of None \<Rightarrow> [] | Some i \<Rightarrow> drop (i + 1) rest)
        in case tal_item F cur_proc (take n rest) default_action actions of
             None \<Rightarrow> None
           | Some None \<Rightarrow> Some (tal_invalid actions)
           | Some (Some (default_action', actions')) \<Rightarrow>
               tal_loop F cur_proc next default_action' actions')"
  by pat_completeness auto
termination
  by (relation "measure (\<lambda>(_, _, rest, _, _). length rest)") (auto split: option.splits)

declare tal_loop.simps [simp del]

definition ThreadActionList :: "ftl \<Rightarrow> string \<Rightarrow> u64 \<Rightarrow> action_list option" where
  "ThreadActionList F str cur_proc =
     (if length str = 0 then Some (tal_invalid [])
      else tal_loop F cur_proc str kNone [])"

definition MarkPickOnesResolved :: "action_list \<Rightarrow> action_list" where
  "MarkPickOnesResolved t = t\<lparr>tal_pick_ones_resolved := True\<rparr>"

fun first_action :: "u64 \<Rightarrow> u64 \<Rightarrow> tal_entry list \<Rightarrow> Action option option" where
  "first_action pid tid [] = Some None"
| "first_action pid tid (e # es) =
     do {
       c \<leftarrow> Entry_Contains pid tid e;
       if c then Some (Some (ent_action e)) else first_action pid tid es
     }"

definition GetAction :: "u64 \<Rightarrow> u64 \<Rightarrow> action_list \<Rightarrow> Action option" where
  "GetAction pid tid t =
     do {
       dcheck (tal_pick_ones_resolved t);
       found \<leftarrow> first_action pid tid (tal_actions t);
       Some (case found of Some a \<Rightarrow> a | None \<Rightarrow> tal_default_action t)
     }"

section \<open>What the constructor guarantees\<close>

definition entry_ok :: "tal_entry \<Rightarrow> bool" where
  "entry_ok e \<longleftrightarrow> ent_action e \<noteq> kNone \<and> ent_pid e \<noteq> 0 \<and> (ent_pid e = kAll \<longrightarrow> ent_tid e = kAll)"

lemma DecodeAction_not_None: "DecodeAction c = Some a \<Longrightarrow> a \<noteq> kNone"
  by (auto simp: DecodeAction_def split: if_splits)

lemma word_of_int_kAll:
  assumes "in_range Int64 i" shows "(word_of_int i :: u64) = kAll \<longleftrightarrow> i = -1"
proof
  assume eq: "(word_of_int i :: u64) = kAll"
  then have m: "i mod 18446744073709551616 = 18446744073709551615"
    using uint_word_of_int [of i, where ?'a = 64] by (simp add: kAll_def unsigned_minus_1_eq_mask mask_eq_exp_minus_1)
  show "i = -1"
  proof (cases "0 \<le> i")
    case True
    with assms m show ?thesis by simp
  next
    case False
    with assms have "(i + 18446744073709551616) mod 18446744073709551616 = i + 18446744073709551616"
      by (intro mod_pos_pos_trivial) simp_all
    with m show ?thesis by simp
  qed
qed (simp add: kAll_def)

lemma sint_in_range: "in_range Int64 (sint (w :: u64))"
  using sint_greater_eq [of w] sint_less [of w] by simp

lemma tal_entry_for_ok:
  assumes "tal_entry_for cur a (p, t) = Some (Some e)" and "a \<noteq> kNone"
    and "case p of None \<Rightarrow> True | Some i \<Rightarrow> in_range Int64 i"
  shows "entry_ok e"
proof -
  define pid where "pid = (if p = None \<or> the p = 0 then sint cur else the p)"
  have r: "in_range Int64 pid"
    using assms(3) sint_in_range [of cur] unfolding pid_def
    by (cases p) (simp_all del: in_range.simps)
  have e: "\<not> (pid = -1 \<and> t \<noteq> -1)"
    "Entry a (if pid = -1 then kAll else word_of_int pid) (if t = -1 then kAll else word_of_int t)
      = Some e"
    using assms(1) unfolding tal_entry_for_def Let_def prod.case pid_def [symmetric]
    by (simp_all split: if_splits)
  show ?thesis
    using e word_of_int_kAll [OF r] assms(2)
    by (auto simp: Entry_def entry_ok_def simp del: in_range.simps split: if_splits)
qed

lemma ParseThreadId_in_range:
  "ftl_conversions F \<Longrightarrow> ParseThreadId F s = Some (Some (p, t)) \<Longrightarrow>
    case p of None \<Rightarrow> True | Some i \<Rightarrow> in_range Int64 i"
  by (auto simp: ParseThreadId_def simp del: in_range.simps
      dest: ftl_conversions.parse_in_range split: if_splits option.splits)

lemma tal_item_entries:
  assumes "ftl_conversions F" and "\<forall>e \<in> set acts. entry_ok e"
    and "tal_item F cur item d acts = Some (Some (d', acts'))"
  shows "\<forall>e \<in> set acts'. entry_ok e"
  using assms
  by (auto simp: tal_item_def dest!: DecodeAction_not_None
      dest: tal_entry_for_ok [OF _ _ ParseThreadId_in_range] split: if_splits option.splits)

lemma tal_loop_entries:
  "ftl_conversions F \<Longrightarrow> \<forall>e \<in> set acts. entry_ok e \<Longrightarrow> tal_loop F cur rest d acts = Some t \<Longrightarrow>
    \<forall>e \<in> set (tal_actions t). entry_ok e"
proof (induction F cur rest d acts rule: tal_loop.induct)
  case (1 F cur rest d acts)
  note step = "1.prems"(3) [unfolded tal_loop.simps [of F cur rest] Let_def]
  show ?case
  proof (cases "rest = []")
    case True
    with step "1.prems"(2) show ?thesis by auto
  next
    case False
    let ?item = "take (case find_char (CHR '';'') rest of None \<Rightarrow> length rest | Some i \<Rightarrow> i) rest"
    from False step obtain r where r: "tal_item F cur ?item d acts = Some r"
      by (auto split: option.splits)
    show ?thesis
    proof (cases r)
      case None
      with False step r "1.prems"(2) show ?thesis by (auto simp: tal_invalid_def)
    next
      case (Some p)
      obtain d' acts' where p: "p = (d', acts')" by (cases p)
      note item = r [unfolded Some p]
      from False step item "1.prems"(1) tal_item_entries [OF "1.prems"(1,2) item] show ?thesis
        by (intro "1.IH" [OF False refl refl refl item refl refl]) simp_all
    qed
  qed
qed

text \<open>
  C36: every entry of a constructed action list names a real action and a real process,
  and an entry for all processes is an entry for all their threads.
\<close>

theorem ThreadActionList_entries:
  assumes "ftl_conversions F" and "ThreadActionList F str cur_proc = Some t"
    and "e \<in> set (tal_actions t)"
  shows "ent_action e \<noteq> kNone \<and> ent_pid e \<noteq> 0 \<and> (ent_pid e = kAll \<longrightarrow> ent_tid e = kAll)"
  using assms tal_loop_entries [OF assms(1), of "[]" cur_proc str kNone t]
  by (auto simp: ThreadActionList_def tal_invalid_def entry_ok_def split: if_splits)

theorem ThreadActionList_entries_witness:
  "\<exists>t e. ThreadActionList ftl_ref ''s:p1.2;c'' 1 = Some t \<and> e \<in> set (tal_actions t)
    \<and> ent_action e \<noteq> kNone \<and> ent_pid e \<noteq> 0"
proof -
  let ?e = "\<lparr>ent_action = kStep, ent_pid = 1, ent_tid = 2\<rparr>"
  let ?t = "\<lparr>tal_valid = True, tal_pick_ones_resolved = False, tal_default_action = kContinue,
    tal_actions = [?e]\<rparr>"
  have t: "ThreadActionList ftl_ref ''s:p1.2;c'' 1 = Some ?t" by code_simp
  have "?e \<in> set (tal_actions ?t)" by simp
  with ThreadActionList_entries [OF ftl_ref.ftl_conversions_axioms t this] t show ?thesis by blast
qed

section \<open>Which action a thread gets\<close>

definition entry_matches :: "u64 \<Rightarrow> u64 \<Rightarrow> tal_entry \<Rightarrow> bool" where
  "entry_matches pid tid e \<longleftrightarrow>
     (ent_pid e = pid \<or> ent_pid e = kAll) \<and> (ent_tid e = tid \<or> ent_tid e = kAll)"

definition real_koid :: "u64 \<Rightarrow> bool" where
  "real_koid k \<longleftrightarrow> k \<noteq> 0 \<and> k \<noteq> kAll"

lemma Entry_Contains_matches:
  "real_koid pid \<Longrightarrow> real_koid tid \<Longrightarrow> ent_pid e \<noteq> 0 \<Longrightarrow>
    Entry_Contains pid tid e = Some (entry_matches pid tid e)"
  by (auto simp: Entry_Contains_def entry_matches_def real_koid_def)

lemma first_action_find:
  "real_koid pid \<Longrightarrow> real_koid tid \<Longrightarrow> \<forall>e \<in> set es. ent_pid e \<noteq> 0 \<Longrightarrow>
    first_action pid tid es = Some (map_option ent_action (find (entry_matches pid tid) es))"
  by (induction es) (simp_all add: Entry_Contains_matches)

lemma GetAction_find:
  assumes "real_koid pid" "real_koid tid" "\<forall>e \<in> set (tal_actions t). ent_pid e \<noteq> 0"
    "tal_pick_ones_resolved t"
  shows "GetAction pid tid t =
    Some (case find (entry_matches pid tid) (tal_actions t) of
      Some e \<Rightarrow> ent_action e | None \<Rightarrow> tal_default_action t)"
  using assms by (simp add: GetAction_def first_action_find split: option.splits)

text \<open>
  For a parsed list whose \<open>pick one\<close> entries are marked resolved, looking up the action of
  a real thread never fails an assertion, and gives the action of the first entry that
  matches the thread, or the default action when no entry does.
\<close>

lemma GetAction_first_match:
  assumes "ftl_conversions F" and "ThreadActionList F str cur_proc = Some t"
    and "real_koid pid" and "real_koid tid"
  shows "GetAction pid tid (MarkPickOnesResolved t) =
    Some (case find (entry_matches pid tid) (tal_actions t) of
      Some e \<Rightarrow> ent_action e | None \<Rightarrow> tal_default_action t)"
proof -
  have "\<forall>e \<in> set (tal_actions t). entry_ok e"
    using assms(1,2) tal_loop_entries [OF assms(1), of "[]" cur_proc str kNone t]
    by (auto simp: ThreadActionList_def tal_invalid_def split: if_splits)
  with assms(3,4) show ?thesis
    unfolding MarkPickOnesResolved_def by (subst GetAction_find) (auto simp: entry_ok_def split: option.split)
qed

lemma GetAction_first_match_example:
  "\<exists>t. ThreadActionList ftl_ref ''s:p1.2;c'' 1 = Some t
    \<and> GetAction 1 2 (MarkPickOnesResolved t) = Some kStep
    \<and> GetAction 1 3 (MarkPickOnesResolved t) = Some kContinue"
proof -
  let ?t = "\<lparr>tal_valid = True, tal_pick_ones_resolved = False, tal_default_action = kContinue,
    tal_actions = [\<lparr>ent_action = kStep, ent_pid = 1, ent_tid = 2\<rparr>]\<rparr>"
  have t: "ThreadActionList ftl_ref ''s:p1.2;c'' 1 = Some ?t" by code_simp
  have k: "real_koid 1" "real_koid 2" "real_koid 3" by (simp_all add: real_koid_def kAll_def)
  note g = GetAction_first_match [OF ftl_ref.ftl_conversions_axioms t]
  have "GetAction 1 2 (MarkPickOnesResolved ?t) = Some kStep"
    unfolding g [OF k(1,2)] by (simp add: entry_matches_def)
  moreover have "GetAction 1 3 (MarkPickOnesResolved ?t) = Some kContinue"
    unfolding g [OF k(1,3)] by (simp add: entry_matches_def kAll_def)
  ultimately show ?thesis using t by blast
qed

section \<open>The texts a debugger sends\<close>

text \<open>The printed form of an action list, one item per action.\<close>

datatype vcont_item = Default Action | For Action u64 u64

fun action_char :: "Action \<Rightarrow> char" where
  "action_char kStep = CHR ''s''"
| "action_char _ = CHR ''c''"

fun item_text :: "ftl \<Rightarrow> vcont_item \<Rightarrow> string" where
  "item_text F (Default a) = [action_char a]"
| "item_text F (For a p t) = action_char a # CHR '':'' # EncodeThreadId F p t"

fun item_ok :: "vcont_item \<Rightarrow> bool" where
  "item_ok (Default a) \<longleftrightarrow> a \<noteq> kNone"
| "item_ok (For a p t) \<longleftrightarrow> a \<noteq> kNone \<and> p \<noteq> 0 \<and> p < 2 ^ 63 \<and> t < 2 ^ 63"

fun items_default :: "Action \<Rightarrow> vcont_item list \<Rightarrow> Action" where
  "items_default d [] = d"
| "items_default d (Default a # is) = items_default a is"
| "items_default d (For a p t # is) = items_default d is"

fun items_entries :: "vcont_item list \<Rightarrow> tal_entry list" where
  "items_entries [] = []"
| "items_entries (Default a # is) = items_entries is"
| "items_entries (For a p t # is) =
     \<lparr>ent_action = a, ent_pid = p, ent_tid = t\<rparr> # items_entries is"

fun one_default :: "bool \<Rightarrow> vcont_item list \<Rightarrow> bool" where
  "one_default seen [] \<longleftrightarrow> True"
| "one_default seen (Default a # is) \<longleftrightarrow> \<not> seen \<and> one_default True is"
| "one_default seen (For a p t # is) \<longleftrightarrow> one_default seen is"

lemma DecodeAction_action_char [simp]: "a \<noteq> kNone \<Longrightarrow> DecodeAction (action_char a) = Some a"
  by (cases a) (simp_all add: DecodeAction_def)

lemma tal_entry_for_koids:
  assumes "p \<noteq> 0" "p < 2 ^ 63" "t < 2 ^ 63"
  shows "tal_entry_for cur a (Some (uint p), uint t) =
    Some (Some \<lparr>ent_action = a, ent_pid = p, ent_tid = t\<rparr>)"
proof -
  have "0 \<le> uint p" "0 \<le> uint t" by simp_all
  then have "\<not> uint p \<le> -2" "\<not> uint t \<le> -2" "uint p \<noteq> -1" "uint t \<noteq> -1" by linarith+
  moreover have "uint p \<noteq> 0" using assms(1) by (simp add: uint_0_iff)
  ultimately show ?thesis using assms(1) by (simp add: tal_entry_for_def Entry_def)
qed

lemma item_text_no_semicolon:
  assumes "ftl_conversions F" shows "CHR '';'' \<notin> set (item_text F i)"
proof (cases i)
  case (Default a)
  then show ?thesis by (cases a) simp_all
next
  case (For a p t)
  have "set (EncodeThreadId F p t) \<subseteq> {CHR ''p'', CHR ''.''} \<union> hex_alphabet"
    by (rule set_EncodeThreadId [OF assms])
  then have "CHR '';'' \<notin> set (EncodeThreadId F p t)" by (auto simp: hex_alphabet_def)
  with For show ?thesis by (cases a) simp_all
qed

lemma tal_item_text:
  assumes "ftl_conversions F" and "item_ok i" and "one_default (d \<noteq> kNone) [i]"
  shows "tal_item F cur (item_text F i) d acts =
    Some (Some (items_default d [i], acts @ items_entries [i]))"
proof (cases i)
  case (Default a)
  with assms show ?thesis by (simp add: tal_item_def)
next
  case (For a p t)
  then have "p \<noteq> 0" and r: "p < 2 ^ 63" "t < 2 ^ 63" and a: "a \<noteq> kNone" using assms(2) by simp_all
  have "substr (item_text F i) 2 (length (item_text F i) - 2) = EncodeThreadId F p t"
    using For by (simp add: substr_def)
  with For assms r a \<open>p \<noteq> 0\<close> show ?thesis
    by (simp add: tal_item_def EncodeThreadId_parses tal_entry_for_koids)
qed

lemma tal_loop_text:
  assumes F: "ftl_conversions F"
  shows "\<forall>i \<in> set is. item_ok i \<Longrightarrow> one_default (d \<noteq> kNone) is \<Longrightarrow>
    tal_loop F cur (join (CHR '';'') (map (item_text F) is)) d acts =
      Some \<lparr>tal_valid = True, tal_pick_ones_resolved = False,
        tal_default_action = items_default d is, tal_actions = acts @ items_entries is\<rparr>"
proof (induction "is" arbitrary: d acts)
  case Nil
  then show ?case by (simp add: tal_loop.simps)
next
  case (Cons i "is")
  let ?x = "item_text F i" and ?d = "items_default d [i]" and ?acts = "acts @ items_entries [i]"
  have ok: "item_ok i" "one_default (d \<noteq> kNone) [i]" using Cons.prems by (cases i; simp)+
  have d: "one_default (?d \<noteq> kNone) is" using Cons.prems by (cases i) simp_all
  have ne: "?x \<noteq> []" by (cases i) simp_all
  note no = item_text_no_semicolon [OF F, of i]
  note item = tal_item_text [OF F ok]
  have shape: "items_default d (i # is) = items_default ?d is"
    "items_entries (i # is) = items_entries [i] @ items_entries is" by (cases i; simp)+
  note IH = Cons.IH [OF _ d, where acts = ?acts]
  show ?case
  proof (cases "is")
    case Nil
    with ne no item show ?thesis
      by (subst tal_loop.simps) (simp add: find_char_None [THEN iffD2] tal_loop.simps)
  next
    case (Cons i' is')
    then have j: "join (CHR '';'') (map (item_text F) (i # is)) =
        ?x @ CHR '';'' # join (CHR '';'') (map (item_text F) is)" by simp
    from no have "find_char (CHR '';'') (?x @ CHR '';'' # s) = Some (length ?x)" for s
      by (simp add: find_char_append)
    with ne item IH Cons.prems show ?thesis
      unfolding j shape by (subst tal_loop.simps) simp
  qed
qed

text \<open>
  The list a debugger sends is the list the server acts on: parsing the printed items
  of an action list, each for a concrete process and thread and at most one of them a
  default, gives back exactly these entries in order and that default.
\<close>

lemma ThreadActionList_roundtrip:
  assumes "ftl_conversions F" and "is \<noteq> []" and "\<forall>i \<in> set is. item_ok i" and "one_default False is"
  shows "ThreadActionList F (join (CHR '';'') (map (item_text F) is)) cur_proc =
    Some \<lparr>tal_valid = True, tal_pick_ones_resolved = False,
      tal_default_action = items_default kNone is, tal_actions = items_entries is\<rparr>"
proof -
  obtain i is' where i: "is = i # is'" using assms(2) by (cases "is") auto
  have "item_text F i \<noteq> []" by (cases i) simp_all
  then have "join (CHR '';'') (map (item_text F) is) \<noteq> []" by (cases is') (simp_all add: i)
  with assms tal_loop_text [OF assms(1,3), of kNone cur_proc "[]"] show ?thesis
    by (simp add: ThreadActionList_def)
qed

lemma ThreadActionList_roundtrip_example:
  "ThreadActionList ftl_ref
      (join (CHR '';'') (map (item_text ftl_ref) [For kStep 12 34, Default kContinue])) 12 =
    Some \<lparr>tal_valid = True, tal_pick_ones_resolved = False, tal_default_action = kContinue,
      tal_actions = [\<lparr>ent_action = kStep, ent_pid = 12, ent_tid = 34\<rparr>]\<rparr>"
  using ThreadActionList_roundtrip [OF ftl_ref.ftl_conversions_axioms,
      of "[For kStep 12 34, Default kContinue]" 12]
  by simp

end
