(* ===== verification/Cmd_Handler.thy ===== *)
theory Cmd_Handler
  imports Server Thread_Actions
begin

text \<open>
  The commands of the remote protocol: \<^verbatim>\<open>bin/debugserver/cmd-handler.{h,cc}\<close>.  A handler takes the
  text behind the letters that selected it and the server, and returns whether the command was
  handled, with the new server.  The response callback, which the handlers get from
  \<^verbatim>\<open>RspServer::OnBytesRead\<close>, is \<open>PostPacketWriteTask\<close>.  The tests for a missing process are not
  written out: \<^verbatim>\<open>main\<close> sets the current process before the server runs.
\<close>

section \<open>Definitions\<close>

definition kSupportedFeatures :: string where
  "kSupportedFeatures = ''QNonStop+;qXfer:auxv:read+''"

definition kAttached :: string where "kAttached = ''Attached''"
definition kCurrentThreadId :: string where "kCurrentThreadId = ''C''"
definition kFirstThreadInfo :: string where "kFirstThreadInfo = ''fThreadInfo''"
definition kNonStop :: string where "kNonStop = ''NonStop''"
definition kRcmd :: string where "kRcmd = ''Rcmd,''"
definition kSubsequentThreadInfo :: string where "kSubsequentThreadInfo = ''sThreadInfo''"
definition kSupported :: string where "kSupported = ''Supported''"
definition kXfer :: string where "kXfer = ''Xfer''"
definition kAttach :: string where "kAttach = ''Attach;''"
definition kCont :: string where "kCont = ''Cont;''"
definition kKill :: string where "kKill = ''Kill;''"
definition kRun :: string where "kRun = ''Run;''"
definition kExit :: string where "kExit = ''exit''"
definition kHelp :: string where "kHelp = ''help''"
definition kQuit :: string where "kQuit = ''quit''"
definition kSet :: string where "kSet = ''set''"
definition kShow :: string where "kShow = ''show''"

type_synonym 'k handled = "(bool \<times> 'k rsp_server) option"

definition reply :: "string \<Rightarrow> 'k rsp_server \<Rightarrow> 'k handled" where
  "reply rsp s = map_option (Pair True) (PostPacketWriteTask rsp s)"

definition ReplyOK :: "'k rsp_server \<Rightarrow> 'k handled" where
  "ReplyOK s = reply ''OK'' s"

definition ReplyWithError :: "'k env \<Rightarrow> ErrorCode \<Rightarrow> 'k rsp_server \<Rightarrow> 'k handled" where
  "ReplyWithError E error_code s = reply (BuildErrorPacket (en_ftl E) error_code) s"

definition StartsWith :: "string \<Rightarrow> string \<Rightarrow> bool" where
  "StartsWith str pre \<longleftrightarrow> substr str 0 (length pre) = pre"

function BuildArgvFor_vRun :: "string \<Rightarrow> string list" where
  "BuildArgvFor_vRun packet =
     (if packet = [] then []
      else
        let semi = find_char (CHR '';'') packet;
            n = (case semi of None \<Rightarrow> length packet | Some i \<Rightarrow> i);
            rest = (case semi of None \<Rightarrow> [] | Some i \<Rightarrow> drop (i + 1) packet)
        in map char_of_byte (DecodeByteArrayString (substr packet 0 n)) # BuildArgvFor_vRun rest)"
  by pat_completeness auto
termination
  by (relation "measure length") (auto split: option.splits)

declare BuildArgvFor_vRun.simps [simp del]

definition HandleQuestionMark :: "'k rsp_server \<Rightarrow> 'k handled" where
  "HandleQuestionMark s = ReplyOK s"

text \<open>The steps with which \<open>Handle_c\<close> and \<open>Handle_C\<close> set the program counter of the current thread.\<close>

definition set_thread_pc :: "'k env \<Rightarrow> u64 \<Rightarrow> u64 \<Rightarrow> 'k rsp_server \<Rightarrow> 'k handled" where
  "set_thread_pc E tid addr s =
     on_thread tid (\<lambda>t k.
       do {
         let A = mx_arch (en_mx E);
         (ok, t) \<leftarrow> Thread_RefreshGeneralRegisters (en_mx E) t k;
         if \<not> ok then Some (False, t, k)
         else case SetRegister A (t_gregs t) (GetPCRegisterNumber A) (le_bytes 8 addr) of
           None \<Rightarrow> Some (False, t, k)
         | Some gregs \<Rightarrow>
             (case WriteGeneralRegisters (en_mx E) (t_handle t) gregs k of
                (ok, k) \<Rightarrow> Some (ok, t\<lparr>t_gregs := gregs\<rparr>, k))
       }) s"

definition resume_thread :: "'k env \<Rightarrow> u64 \<Rightarrow> 'k rsp_server \<Rightarrow> 'k handled" where
  "resume_thread E tid s = on_thread tid (\<lambda>t k. Some (Thread_Resume (en_mx E) t k)) s"

text \<open>\<open>Handle_c\<close> behind the treatment of the address.\<close>

definition Handle_c_continue :: "'k env \<Rightarrow> u64 option \<Rightarrow> 'k rsp_server \<Rightarrow> 'k handled" where
  "Handle_c_continue E current_thread s =
     (case current_thread of
        Some tid \<Rightarrow>
          do {
            (ok, s) \<leftarrow> resume_thread E tid s;
            if \<not> ok then ReplyWithError E PERM s else ReplyOK s
          }
      | None \<Rightarrow>
          do {
            dcheck (\<not> Process_IsLive (i_proc s));
            (ok, s) \<leftarrow> Process_Start (en_mx E) s;
            if \<not> ok then ReplyWithError E PERM s
            else do {
              (thread, s) \<leftarrow> Process_PickOneThread (en_mx E) s;
              ReplyOK (if thread \<noteq> None then Server_SetCurrentThread thread s else s)
            }
          })"

definition Handle_c :: "'k env \<Rightarrow> string \<Rightarrow> 'k rsp_server \<Rightarrow> 'k handled" where
  "Handle_c E packet s =
     do {
       attached \<leftarrow> Process_IsAttached (i_proc s);
       if \<not> attached then ReplyWithError E PERM s
       else
         let current_thread = Server_current_thread s in
         if packet \<noteq> [] then
           (case StringToNumberWithError (en_ftl E) UInt64 16 packet of
              None \<Rightarrow> ReplyWithError E INVAL s
            | Some addr \<Rightarrow>
                (case current_thread of
                   None \<Rightarrow>
                     do {
                       dcheck (\<not> Process_IsLive (i_proc s));
                       ReplyWithError E PERM s
                     }
                 | Some tid \<Rightarrow>
                     do {
                       (ok, s) \<leftarrow> set_thread_pc E tid (word_of_int addr) s;
                       if \<not> ok then ReplyWithError E PERM s
                       else Handle_c_continue E current_thread s
                     }))
         else Handle_c_continue E current_thread s
     }"

text \<open>\<open>Handle_C\<close> behind the comparison of the signals; \<open>addr_param\<close> starts with the semicolon.\<close>

definition Handle_C_continue :: "'k env \<Rightarrow> string \<Rightarrow> u64 \<Rightarrow> 'k rsp_server \<Rightarrow> 'k handled" where
  "Handle_C_continue E addr_param tid s =
     do {
       let resume = (\<lambda>s.
         do {
           (ok, s) \<leftarrow> resume_thread E tid s;
           if \<not> ok then ReplyWithError E PERM s else ReplyOK s
         });
       if addr_param \<noteq> [] then
         (case StringToNumberWithError (en_ftl E) UInt64 16 addr_param of
            None \<Rightarrow> ReplyWithError E INVAL s
          | Some addr \<Rightarrow>
              do {
                (ok, s) \<leftarrow> set_thread_pc E tid (word_of_int addr) s;
                if \<not> ok then ReplyWithError E PERM s else resume s
              })
       else resume s
     }"

definition Handle_C :: "'k env \<Rightarrow> string \<Rightarrow> 'k rsp_server \<Rightarrow> 'k handled" where
  "Handle_C E packet s =
     do {
       attached \<leftarrow> Process_IsAttached (i_proc s);
       if \<not> attached then ReplyWithError E PERM s
       else case Server_current_thread s of
         None \<Rightarrow> ReplyWithError E PERM s
       | Some tid \<Rightarrow>
           let semicolon = (case find_char (CHR '';'') packet of None \<Rightarrow> length packet | Some i \<Rightarrow> i) in
           (case StringToNumberWithError (en_ftl E) Int32 16 (substr packet 0 semicolon) of
              None \<Rightarrow> ReplyWithError E INVAL s
            | Some signo \<Rightarrow>
                do {
                  t \<leftarrow> get_thread tid s;
                  thread_signo \<leftarrow> Thread_GetGdbSignal (mx_arch (en_mx E)) t;
                  if thread_signo = sig_kUnsupported then ReplyWithError E PERM s
                  else if signal_value thread_signo \<noteq> signo then ReplyWithError E PERM s
                  else Handle_C_continue E (substr_from packet semicolon) tid s
                })
     }"

text \<open>
  \<^verbatim>\<open>packet[0]\<close> of an empty packet reads the character behind it, which is the \<^verbatim>\<open>#\<close> that
  ends the frame the packet was cut from.
\<close>

definition Handle_D :: "'k env \<Rightarrow> string \<Rightarrow> 'k rsp_server \<Rightarrow> 'k handled" where
  "Handle_D E packet s =
     (let detach =
        do {
          attached \<leftarrow> Process_IsAttached (i_proc s);
          if \<not> attached then ReplyWithError E NOENT s
          else do {
            (ok, s) \<leftarrow> Process_Detach (en_mx E) s;
            if \<not> ok then ReplyWithError E PERM s else ReplyOK s
          }
        };
        packet_0 = (if packet = [] then CHR ''#'' else packet ! 0)
      in if packet_0 = CHR '';'' then
           (case StringToNumberWithError (en_ftl E) UInt64 16 (substr_from packet 1) of
              None \<Rightarrow> ReplyWithError E INVAL s
            | Some pid \<Rightarrow>
                if word_of_int pid \<noteq> p_id (i_proc s) then ReplyWithError E INVAL s else detach)
         else if packet \<noteq> [] then ReplyWithError E INVAL s
         else detach)"

definition Handle_g :: "'k env \<Rightarrow> 'k rsp_server \<Rightarrow> 'k handled" where
  "Handle_g E s =
     do {
       attached \<leftarrow> Process_IsAttached (i_proc s);
       if \<not> attached then ReplyWithError E NOENT s
       else do {
         result \<leftarrow>
           (case Server_current_thread s of
              None \<Rightarrow> Some (GetUninitializedGeneralRegistersAsString (en_mx E))
            | Some tid \<Rightarrow>
                do {
                  t \<leftarrow> get_thread tid s;
                  GetGeneralRegistersAsString (en_mx E) (t_gregs t) (i_k s)
                });
         if result = [] then ReplyWithError E PERM s else reply result s
       }
     }"

text \<open>The calls of \<open>Handle_G\<close> on the registers of the current thread.\<close>

definition set_thread_registers :: "'k env \<Rightarrow> string \<Rightarrow> u64 \<Rightarrow> 'k rsp_server \<Rightarrow> 'k handled" where
  "set_thread_registers E packet tid s =
     on_thread tid (\<lambda>t k.
       (case SetGeneralRegistersFromString (en_mx E) packet (t_gregs t) of
          None \<Rightarrow> Some (False, t, k)
        | Some gregs \<Rightarrow>
            (case WriteGeneralRegisters (en_mx E) (t_handle t) gregs k of
               (ok, k) \<Rightarrow> Some (ok, t\<lparr>t_gregs := gregs\<rparr>, k)))) s"

definition Handle_G :: "'k env \<Rightarrow> string \<Rightarrow> 'k rsp_server \<Rightarrow> 'k handled" where
  "Handle_G E packet s =
     do {
       attached \<leftarrow> Process_IsAttached (i_proc s);
       if \<not> attached then ReplyWithError E NOENT s
       else case Server_current_thread s of
         None \<Rightarrow> ReplyWithError E NOENT s
       | Some tid \<Rightarrow>
           do {
             (ok, s) \<leftarrow> set_thread_registers E packet tid s;
             if \<not> ok then ReplyWithError E PERM s else ReplyOK s
           }
     }"

definition Handle_H :: "'k env \<Rightarrow> string \<Rightarrow> 'k rsp_server \<Rightarrow> 'k handled" where
  "Handle_H E packet s =
     (if length packet < 2 then ReplyWithError E INVAL s
      else if packet ! 0 = CHR ''c'' \<or> packet ! 0 = CHR ''g'' then
        (case ParseThreadId (en_ftl E) (substr_from packet 1) of
           None \<Rightarrow> None
         | Some None \<Rightarrow> ReplyWithError E INVAL s
         | Some (Some (pid, tid)) \<Rightarrow>
             if pid \<noteq> None then Some (False, s)
             else if tid < 0 then ReplyWithError E INVAL s
             else if \<not> Process_IsLive (i_proc s) then ReplyOK (Server_SetCurrentThread None s)
             else do {
               s \<leftarrow> Process_EnsureThreadMapFresh (en_mx E) s;
               (thread, s) \<leftarrow>
                 (if tid = 0 then Process_PickOneThread (en_mx E) s
                  else Process_FindThreadById (en_mx E) (word_of_int tid) s);
               if thread = None then ReplyWithError E PERM s
               else ReplyOK (Server_SetCurrentThread thread s)
             })
      else Some (False, s))"

definition Handle_m :: "'k env \<Rightarrow> string \<Rightarrow> 'k rsp_server \<Rightarrow> 'k handled" where
  "Handle_m E packet s =
     do {
       attached \<leftarrow> Process_IsAttached (i_proc s);
       if \<not> attached then ReplyWithError E NOENT s
       else
         let F = en_ftl E; params = SplitString F packet '','' False True in
         if length params \<noteq> 2 then ReplyWithError E INVAL s
         else case (StringToNumberWithError F UInt64 16 (params ! 0),
                    StringToNumberWithError F UInt64 16 (params ! 1)) of
           (Some addr, Some len) \<Rightarrow>
             do {
               dcheck (en_new_ok E (word_of_int len));
               r \<leftarrow> Process_ReadMemory (en_mx E) (word_of_int addr) (nat len) s;
               (case r of
                  None \<Rightarrow> ReplyWithError E PERM s
                | Some buffer \<Rightarrow> reply (EncodeByteArrayString buffer) s)
             }
         | _ \<Rightarrow> ReplyWithError E NOENT s
     }"

definition Handle_M :: "'k env \<Rightarrow> string \<Rightarrow> 'k rsp_server \<Rightarrow> 'k handled" where
  "Handle_M E packet s =
     do {
       attached \<leftarrow> Process_IsAttached (i_proc s);
       if \<not> attached then ReplyWithError E NOENT s
       else
         let F = en_ftl E; params = SplitString F packet '':'' False False in
         if length params \<noteq> 2 then ReplyWithError E INVAL s
         else
           let data = params ! 1; params = SplitString F (params ! 0) '','' False True in
           if length params \<noteq> 2 then ReplyWithError E INVAL s
           else case (StringToNumberWithError F UInt64 16 (params ! 0),
                      StringToNumberWithError F UInt64 16 (params ! 1)) of
             (Some addr, Some len) \<Rightarrow>
               let data_bytes = DecodeByteArrayString data in
               if int (length data_bytes) \<noteq> len then ReplyWithError E INVAL s
               else if len = 0 then ReplyOK s
               else do {
                 (ok, s) \<leftarrow> Process_WriteMemory (en_mx E) (word_of_int addr) data_bytes s;
                 if \<not> ok then ReplyWithError E PERM s else ReplyOK s
               }
           | _ \<Rightarrow> ReplyWithError E INVAL s
     }"

definition HandleQueryAttached :: "'k env \<Rightarrow> string \<Rightarrow> 'k rsp_server \<Rightarrow> 'k handled" where
  "HandleQueryAttached E params s =
     (if params \<noteq> [] then ReplyWithError E INVAL s else reply ''0'' s)"

definition HandleQueryCurrentThreadId :: "'k env \<Rightarrow> string \<Rightarrow> 'k rsp_server \<Rightarrow> 'k handled" where
  "HandleQueryCurrentThreadId E params s =
     (if params \<noteq> [] then ReplyWithError E INVAL s
      else
        let answer = (\<lambda>tid s.
          do {
            t \<leftarrow> get_thread tid s;
            reply (''QC'' @ NumberToString (en_ftl E) UInt64 16 (uint (t_id t))) s
          })
        in case Server_current_thread s of
             Some tid \<Rightarrow> answer tid s
           | None \<Rightarrow>
               if \<not> Process_IsLive (i_proc s) then ReplyWithError E PERM s
               else do {
                 (thread, s) \<leftarrow> Process_PickOneThread (en_mx E) s;
                 (case thread of
                    None \<Rightarrow> ReplyWithError E PERM s
                  | Some tid \<Rightarrow> answer tid s)
               })"

definition kHelpText :: string where
  "kHelpText =
     ''help - print this help text'' @ [CHR 0x0A]
     @ ''exit - quit debugserver'' @ [CHR 0x0A]
     @ ''quit - quit debugserver'' @ [CHR 0x0A]
     @ ''set <parameter> <value>'' @ [CHR 0x0A]
     @ ''show <parameter>'' @ [CHR 0x0A]
     @ [CHR 0x0A]
     @ ''Parameters:'' @ [CHR 0x0A]
     @ ''  verbosity - useful range is -2 to 3 (-2 is most verbose)'' @ [CHR 0x0A]"

definition HandleQueryRcmd :: "'k env \<Rightarrow> string \<Rightarrow> 'k rsp_server \<Rightarrow> 'k handled" where
  "HandleQueryRcmd E command s =
     (let cmd_string = DecodeString command;
          argv = SplitString (en_ftl E) cmd_string '' '' True True;
          bad_command = (\<lambda>s. reply (EncodeString (''Invalid command'' @ [CHR 0x0A])) s)
      in if length argv = 0 then ReplyOK s
         else
           let cmd = argv ! 0 in
           if cmd = kQuit \<or> cmd = kExit then
             (if length argv \<noteq> 1 then bad_command s
              else do {
                (handled, s) \<leftarrow> ReplyOK s;
                Some (True, Server_PostQuitMessageLoop True s)
              })
           else if cmd = kHelp then
             (if length argv \<noteq> 1 then bad_command s else reply (EncodeString kHelpText) s)
           else if cmd = kSet then
             (if length argv \<noteq> 3 then bad_command s
              else case SetParameter E (argv ! 1) (argv ! 2) s of
                (ok, s) \<Rightarrow> if \<not> ok then bad_command s else ReplyOK s)
           else if cmd = kShow then
             (if length argv \<noteq> 2 then bad_command s
              else case GetParameter E (argv ! 1) s of
                None \<Rightarrow> bad_command s
              | Some value \<Rightarrow> reply (EncodeString (''Value is '' @ value @ [CHR 0x0A])) s)
           else reply (EncodeString (''Invalid monitor command'' @ [CHR 0x0A])) s)"

definition HandleQuerySupported :: "string \<Rightarrow> 'k rsp_server \<Rightarrow> 'k handled" where
  "HandleQuerySupported params s = reply kSupportedFeatures s"

definition HandleSetNonStop :: "'k env \<Rightarrow> string \<Rightarrow> 'k rsp_server \<Rightarrow> 'k handled" where
  "HandleSetNonStop E params s =
     (if length params \<noteq> 1 then ReplyWithError E INVAL s
      else if params ! 0 = CHR ''1'' then ReplyOK s
      else if params ! 0 = CHR ''0'' then ReplyWithError E PERM s
      else ReplyWithError E INVAL s)"

definition collect_thread_id ::
  "ftl \<Rightarrow> u64 \<Rightarrow> string list \<times> nat \<Rightarrow> 'k rsp_server \<Rightarrow> ((string list \<times> nat) \<times> 'k rsp_server) option"
where
  "collect_thread_id F tid = (\<lambda>(thread_ids, buf_size) s.
     do {
       t \<leftarrow> get_thread tid s;
       let thread_id = NumberToString F UInt64 16 (uint (t_id t));
       Some ((thread_ids @ [thread_id], buf_size + length thread_id), s)
     })"

text \<open>The buffer \<^verbatim>\<open>new char[buf_size]\<close> is uninitialised.\<close>

definition HandleQueryThreadInfo :: "'k env \<Rightarrow> bool \<Rightarrow> 'k rsp_server \<Rightarrow> 'k handled" where
  "HandleQueryThreadInfo E is_first s =
     (if \<not> is_first then
        (if \<not> srv_in_thread_info_sequence s then ReplyWithError E PERM s
         else reply ''l'' (s\<lparr>srv_in_thread_info_sequence := False\<rparr>))
      else if srv_in_thread_info_sequence s then ReplyWithError E PERM s
      else do {
        s \<leftarrow> Process_EnsureThreadMapFresh (en_mx E) s;
        ((thread_ids, buf_size), s) \<leftarrow>
          Process_ForEachLiveThread (en_mx E) (collect_thread_id (en_ftl E)) ([], 0) s;
        if thread_ids = [] then reply ''l'' s
        else do {
          let s = s\<lparr>srv_in_thread_info_sequence := True\<rparr>;
          let buf_size = buf_size + length thread_ids;
          let buffer = map char_of_byte (stack_bytes (en_mx E) buf_size (i_k s));
          (index, joined) \<leftarrow> JoinStrings thread_ids (CHR '','') (drop 1 buffer);
          reply (CHR ''m'' # joined) s
        }
      })"

definition AT_NULL :: u64 where "AT_NULL = 0"
definition AT_PHDR :: u64 where "AT_PHDR = 3"
definition AT_PHENT :: u64 where "AT_PHENT = 4"
definition AT_PHNUM :: u64 where "AT_PHNUM = 5"
definition AT_BASE :: u64 where "AT_BASE = 7"
definition AT_ENTRY :: u64 where "AT_ENTRY = 9"

definition kMaxAuxvEntries :: nat where "kMaxAuxvEntries = 10"

definition auxv_entries :: "process \<Rightarrow> (u64 \<times> u64) list" where
  "auxv_entries p =
     [(AT_BASE, p_base_address p)]
     @ (if p_dsos p \<noteq> [] then
          (case Process_GetExecDso p of
             None \<Rightarrow> []
           | Some exec \<Rightarrow>
               [(AT_ENTRY, dso_entry exec), (AT_PHDR, dso_phdr exec),
                (AT_PHENT, dso_phentsize exec), (AT_PHNUM, dso_phnum exec)])
        else [])
     @ [(AT_NULL, 0)]"

text \<open>The array \<^verbatim>\<open>auxv\<close> in memory: the entries, and what the stack held behind them.\<close>

definition auxv_image :: "'k env \<Rightarrow> 'k rsp_server \<Rightarrow> u8 list" where
  "auxv_image E s =
     (let bytes = concat (map (\<lambda>(key, value). le_bytes 8 key @ le_bytes 8 value) (auxv_entries (i_proc s)))
      in bytes @ drop (length bytes) (stack_bytes (en_mx E) (kMaxAuxvEntries * 16) (i_k s)))"

text \<open>
  \<open>end - offset\<close> is computed in 64 bits, and \<^verbatim>\<open>auxv + offset\<close> advances by array elements of 16
  bytes; a copy from outside the array is undefined.
\<close>

definition HandleQueryXfer :: "'k env \<Rightarrow> string \<Rightarrow> 'k rsp_server \<Rightarrow> 'k handled" where
  "HandleQueryXfer E params s =
     (let F = en_ftl E; auxv_read = ''auxv:read::'' in
      if \<not> StartsWith params auxv_read then Some (False, s)
      else
        let args = SplitString F (substr_from params (length auxv_read)) '','' False True in
        if length args \<noteq> 2 then ReplyWithError E INVAL s
        else case (StringToNumberWithError F UInt64 16 (args ! 0),
                   StringToNumberWithError F UInt64 16 (args ! 1)) of
          (Some offset, Some len) \<Rightarrow>
            do {
              let n = length (auxv_entries (i_proc s));
              dcheck (n \<le> kMaxAuxvEntries);
              let sizeof_auxv = kMaxAuxvEntries * 16;
              if offset > int sizeof_auxv then ReplyWithError E INVAL s
              else do {
                let rsp_len = min (of_nat (n * 16) - word_of_int offset :: u64) (word_of_int len);
                dcheck (nat offset * 16 + unat rsp_len \<le> sizeof_auxv);
                let data = substr (auxv_image E s) (nat offset * 16) (unat rsp_len);
                reply (CHR ''l'' # map char_of_byte data) s
              }
            }
        | _ \<Rightarrow> ReplyWithError E INVAL s)"

definition Handle_q :: "'k env \<Rightarrow> string \<Rightarrow> string \<Rightarrow> 'k rsp_server \<Rightarrow> 'k handled" where
  "Handle_q E pre params s =
     (if pre = kAttached then HandleQueryAttached E params s
      else if pre = kCurrentThreadId then HandleQueryCurrentThreadId E params s
      else if pre = kFirstThreadInfo then HandleQueryThreadInfo E True s
      else if StartsWith pre kRcmd then HandleQueryRcmd E (substr_from pre (length kRcmd)) s
      else if pre = kSubsequentThreadInfo then HandleQueryThreadInfo E False s
      else if pre = kSupported then HandleQuerySupported params s
      else if pre = kXfer then HandleQueryXfer E params s
      else Some (False, s))"

definition Handle_Q :: "'k env \<Rightarrow> string \<Rightarrow> string \<Rightarrow> 'k rsp_server \<Rightarrow> 'k handled" where
  "Handle_Q E pre params s =
     (if pre = kNonStop then HandleSetNonStop E params s else Some (False, s))"

definition Handle_T :: "'k env \<Rightarrow> string \<Rightarrow> 'k rsp_server \<Rightarrow> 'k handled" where
  "Handle_T E packet s =
     do {
       attached \<leftarrow> Process_IsAttached (i_proc s);
       if \<not> attached then ReplyWithError E NOENT s
       else case StringToNumberWithError (en_ftl E) UInt64 16 packet of
         None \<Rightarrow> ReplyWithError E INVAL s
       | Some tid \<Rightarrow>
           do {
             (thread, s) \<leftarrow> Process_FindThreadById (en_mx E) (word_of_int tid) s;
             (case thread of
                None \<Rightarrow> ReplyWithError E NOENT s
              | Some tid \<Rightarrow>
                  do {
                    t \<leftarrow> get_thread tid s;
                    if \<not> Thread_IsLive t then ReplyWithError E NOENT s else ReplyOK s
                  })
           }
     }"

definition attached_is :: "bool \<Rightarrow> 'k rsp_server \<Rightarrow> unit option" where
  "attached_is b s = do { attached \<leftarrow> Process_IsAttached (i_proc s); dcheck (attached = b) }"

definition Handle_vAttach :: "'k env \<Rightarrow> string \<Rightarrow> 'k rsp_server \<Rightarrow> 'k handled" where
  "Handle_vAttach E packet s =
     (case StringToNumberWithError (en_ftl E) UInt64 16 packet of
        None \<Rightarrow> ReplyWithError E INVAL s
      | Some pid \<Rightarrow>
          if p_state (i_proc s) \<notin> {prc_kNew, prc_kGone} then ReplyWithError E PERM s
          else do {
            (ok, s) \<leftarrow> Process_Initialize_pid (word_of_int pid) s;
            if \<not> ok then ReplyWithError E PERM s
            else do {
              attached_is False s;
              (ok, s) \<leftarrow> Process_Attach (en_mx E) s;
              if \<not> ok then ReplyWithError E PERM s
              else do {
                attached_is True s;
                dcheck (Process_IsLive (i_proc s));
                ReplyOK s
              }
            }
          })"

text \<open>
  \<open>vCont_resolve\<close>: the loop works on copies of the entries, so the thread it picks for an entry is
  not recorded in the list.
\<close>

fun vCont_resolve :: "'k env \<Rightarrow> tal_entry list \<Rightarrow> 'k rsp_server \<Rightarrow> 'k rsp_server option" where
  "vCont_resolve E [] s = Some s"
| "vCont_resolve E (e # es) s =
     (if ent_tid e = 0 then
        do {
          dcheck (ent_pid e > 0);
          dcheck (p_id (i_proc s) = ent_pid e \<or> ent_pid e = kAll);
          (thread, s) \<leftarrow> Process_PickOneThread (en_mx E) s;
          (case thread of
             None \<Rightarrow> vCont_resolve E es s
           | Some tid \<Rightarrow>
               do {
                 t \<leftarrow> get_thread tid s;
                 e \<leftarrow> set_picked_tid (t_id t) e;
                 vCont_resolve E es s
               })
        }
      else vCont_resolve E es s)"

definition vCont_check ::
  "action_list \<Rightarrow> u64 \<Rightarrow> bool \<Rightarrow> 'k rsp_server \<Rightarrow> (bool \<times> 'k rsp_server) option" where
  "vCont_check actions thread ok s =
     do {
       t \<leftarrow> get_thread thread s;
       action \<leftarrow> GetAction (p_id (i_proc s)) (t_id t) actions;
       Some (if action = kStep \<and> t_state t = thr_kNew then False else ok, s)
     }"

text \<open>The case for \<^verbatim>\<open>kContinue\<close> has no \<^verbatim>\<open>break\<close> and runs on into the one for \<^verbatim>\<open>kStep\<close>.\<close>

definition vCont_run ::
  "'k env \<Rightarrow> action_list \<Rightarrow> u64 \<Rightarrow> unit \<Rightarrow> 'k rsp_server \<Rightarrow> (unit \<times> 'k rsp_server) option" where
  "vCont_run E actions thread u s =
     do {
       t \<leftarrow> get_thread thread s;
       action \<leftarrow> GetAction (p_id (i_proc s)) (t_id t) actions;
       s \<leftarrow>
         (if action = kContinue \<and> t_state t \<in> {thr_kNew, thr_kStopped} then
            map_option snd (resume_thread E thread s)
          else Some s);
       t \<leftarrow> get_thread thread s;
       if action \<in> {kContinue, kStep} \<and> t_state t = thr_kStopped then
         map_option (Pair () \<circ> snd) (on_thread thread (Thread_Step (en_mx E)) s)
       else Some ((), s)
     }"

definition Handle_vCont :: "'k env \<Rightarrow> string \<Rightarrow> 'k rsp_server \<Rightarrow> 'k handled" where
  "Handle_vCont E packet s =
     do {
       actions \<leftarrow> ThreadActionList (en_ftl E) packet (p_id (i_proc s));
       if \<not> tal_valid actions then ReplyWithError E INVAL s
       else do {
         dcheck (Process_IsLive (i_proc s));
         attached_is True s;
         s \<leftarrow> vCont_resolve E (tal_actions actions) s;
         let actions = MarkPickOnesResolved actions;
         (action_list_ok, s) \<leftarrow> Process_ForEachLiveThread (en_mx E) (vCont_check actions) True s;
         if \<not> action_list_ok then ReplyWithError E INVAL s
         else do {
           (u, s) \<leftarrow> Process_ForEachLiveThread (en_mx E) (vCont_run E actions) () s;
           ReplyOK s
         }
       }
     }"

definition Handle_vKill :: "'k env \<Rightarrow> string \<Rightarrow> 'k rsp_server \<Rightarrow> 'k handled" where
  "Handle_vKill E packet s =
     (case StringToNumberWithError (en_ftl E) UInt64 16 packet of
        None \<Rightarrow> ReplyWithError E INVAL s
      | Some pid \<Rightarrow>
          if word_of_int pid \<noteq> p_id (i_proc s) then ReplyWithError E INVAL s
          else if p_state (i_proc s) \<in> {prc_kNew, prc_kGone} then ReplyWithError E PERM s
          else do {
            (ok, s) \<leftarrow> Process_Kill (en_mx E) s;
            if \<not> ok then ReplyWithError E PERM s else ReplyOK s
          })"

text \<open>\<open>vRun_start\<close>: \<open>Handle_vRun\<close> behind the tests of the state; on success nothing is replied.\<close>

definition vRun_start :: "'k env \<Rightarrow> 'k rsp_server \<Rightarrow> 'k handled" where
  "vRun_start E s =
     do {
       (ok, s) \<leftarrow> Process_Initialize (en_mx E) s;
       if \<not> ok then ReplyWithError E PERM s
       else do {
         attached_is False s;
         (ok, s) \<leftarrow> Process_Attach (en_mx E) s;
         if \<not> ok then ReplyWithError E PERM s
         else do {
           attached_is True s;
           (ok, s) \<leftarrow> Process_Start (en_mx E) s;
           if \<not> ok then ReplyWithError E PERM s
           else do {
             dcheck (Process_IsLive (i_proc s));
             Some (True, s)
           }
         }
       }
     }"

definition Handle_vRun :: "'k env \<Rightarrow> string \<Rightarrow> 'k rsp_server \<Rightarrow> 'k handled" where
  "Handle_vRun E packet s =
     (let s = (if packet \<noteq> [] then s\<lparr>i_proc := (i_proc s)\<lparr>p_argv := BuildArgvFor_vRun packet\<rparr>\<rparr> else s)
      in if p_state (i_proc s) \<notin> {prc_kNew, prc_kGone} then ReplyWithError E PERM s
         else vRun_start E s)"

definition Handle_v :: "'k env \<Rightarrow> string \<Rightarrow> 'k rsp_server \<Rightarrow> 'k handled" where
  "Handle_v E packet s =
     (if StartsWith packet kAttach then Handle_vAttach E (substr_from packet (length kAttach)) s
      else if StartsWith packet kCont then Handle_vCont E (substr_from packet (length kCont)) s
      else if StartsWith packet kKill then Handle_vKill E (substr_from packet (length kKill)) s
      else if StartsWith packet kRun then Handle_vRun E (substr_from packet (length kRun)) s
      else Some (False, s))"

definition Handle_zZ :: "bool \<Rightarrow> string \<Rightarrow> 'k rsp_server \<Rightarrow> 'k handled" where
  "Handle_zZ ins packet s = Some (False, s)"

definition CommandHandler_InsertSoftwareBreakpoint ::
  "'k env \<Rightarrow> u64 \<Rightarrow> nat \<Rightarrow> string \<Rightarrow> 'k rsp_server \<Rightarrow> 'k handled" where
  "CommandHandler_InsertSoftwareBreakpoint E addr kind optional_params s =
     do {
       (ok, bset, k) \<leftarrow>
         InsertSoftwareBreakpoint (en_mx E) (p_handle (i_proc s)) addr kind (p_breakpoints (i_proc s)) (i_k s);
       let s = s\<lparr>i_proc := (i_proc s)\<lparr>p_breakpoints := bset\<rparr>, i_k := k\<rparr>;
       if \<not> ok then ReplyWithError E PERM s else ReplyOK s
     }"

definition CommandHandler_RemoveSoftwareBreakpoint ::
  "'k env \<Rightarrow> u64 \<Rightarrow> nat \<Rightarrow> 'k rsp_server \<Rightarrow> 'k handled" where
  "CommandHandler_RemoveSoftwareBreakpoint E addr kind s =
     do {
       (ok, bset, k) \<leftarrow>
         RemoveSoftwareBreakpoint (en_mx E) (p_handle (i_proc s)) addr (p_breakpoints (i_proc s)) (i_k s);
       let s = s\<lparr>i_proc := (i_proc s)\<lparr>p_breakpoints := bset\<rparr>, i_k := k\<rparr>;
       if \<not> ok then ReplyWithError E PERM s else ReplyOK s
     }"

definition HandleCommand :: "'k env \<Rightarrow> string \<Rightarrow> 'k rsp_server \<Rightarrow> 'k handled" where
  "HandleCommand E packet s =
     (if packet = [] then Some (False, s)
      else
        let c = packet ! 0; rest = substr_from packet 1 in
        if c = CHR ''?'' then (if length packet > 1 then Some (False, s) else HandleQuestionMark s)
        else if c = CHR ''c'' then Handle_c E rest s
        else if c = CHR ''C'' then Handle_C E rest s
        else if c = CHR ''D'' then Handle_D E rest s
        else if c = CHR ''g'' then (if length packet > 1 then Some (False, s) else Handle_g E s)
        else if c = CHR ''G'' then Handle_G E rest s
        else if c = CHR ''H'' then Handle_H E rest s
        else if c = CHR ''m'' then Handle_m E rest s
        else if c = CHR ''M'' then Handle_M E rest s
        else if c = CHR ''q'' \<or> c = CHR ''Q'' then
          do {
            (pre, params) \<leftarrow> ExtractParameters rest;
            if c = CHR ''q'' then Handle_q E pre params s else Handle_Q E pre params s
          }
        else if c = CHR ''T'' then Handle_T E rest s
        else if c = CHR ''v'' then Handle_v E rest s
        else if c = CHR ''z'' \<or> c = CHR ''Z'' then Handle_zZ (c = CHR ''Z'') rest s
        else Some (False, s))"

end
