(* ===== verification/Server_Inv.thy ===== *)
theory Server_Inv
  imports Server
begin

text \<open>
  What the server keeps true of its notifications and posted tasks, and that its call-backs meet the
  contract of a process delegate: \<open>rsp_inv\<close> is the invariant, \<open>rsp_env\<close> collects what is assumed of
  the kernel and of the string library.
\<close>

section \<open>The invariant\<close>

locale rsp_env =
  fixes E :: "'k env"
  assumes kernel: "mx_kernel (en_mx E)"
    and conversions: "ftl_conversions (en_ftl E)"

definition notifications :: "'k rsp_server \<Rightarrow> notification set" where
  "notifications s = set_option (srv_pending s) \<union> set (srv_notify_queue s)"

definition rsp_inv :: "'k rsp_server \<Rightarrow> bool" where
  "rsp_inv s \<longleftrightarrow> srv_io_loop s
     \<and> (srv_pending s = None \<longrightarrow> srv_notify_queue s = [])
     \<and> (\<forall>n. srv_pending s = Some n \<longrightarrow> (nt_addr n, nt_timeout n) \<in> set (srv_timers s))
     \<and> (\<forall>n \<in> notifications s. nt_name n = kStopNotification \<and> length (nt_event n) \<le> 128)
     \<and> (\<forall>b d. WriteTask b d \<in> set (srv_tasks s) \<longrightarrow> length d + 4 < kMaxBufferSize)"

lemma rsp_more_eq:
  fixes s s' :: "'k rsp_server"
  assumes "inferior.more s' = inferior.more s"
  shows "srv_current_thread s' = srv_current_thread s" "srv_run_status s' = srv_run_status s"
    "srv_io_loop s' = srv_io_loop s" "srv_min_log_level s' = srv_min_log_level s"
    "srv_in_thread_info_sequence s' = srv_in_thread_info_sequence s"
    "srv_notify_queue s' = srv_notify_queue s" "srv_pending s' = srv_pending s"
    "srv_allocated s' = srv_allocated s" "srv_tasks s' = srv_tasks s" "srv_timers s' = srv_timers s"
    "srv_written s' = srv_written s" "srv_quit s' = srv_quit s"
  using assms by (cases s; cases s'; simp)+

lemma rsp_inv_frame:
  fixes s s' :: "'k rsp_server"
  assumes "inferior.more s' = inferior.more s" shows "rsp_inv s' \<longleftrightarrow> rsp_inv s"
  by (simp add: rsp_inv_def notifications_def rsp_more_eq [OF assms])

lemma service_ok_proc:
  "i_proc s' = i_proc s \<Longrightarrow> i_eport s' = i_eport s \<Longrightarrow> service_ok K s' \<longleftrightarrow> service_ok K s"
  by (simp add: service_ok_def proc_ok_def proc_core_def)

section \<open>Writing\<close>

lemma PostWriteTask_eq:
  "srv_io_loop s \<Longrightarrow> length d + 4 < kMaxBufferSize \<Longrightarrow>
    PostWriteTask b d s = Some (s\<lparr>srv_tasks := srv_tasks s @ [WriteTask b d]\<rparr>)"
  by (simp add: PostWriteTask_def)

lemma PostWriteTask_inv:
  "rsp_inv s \<Longrightarrow> post (\<lambda>s'. rsp_inv s' \<and> s' = s\<lparr>srv_tasks := srv_tasks s @ [WriteTask b d]\<rparr>) (PostWriteTask b d s)"
  by (auto simp: PostWriteTask_def rsp_inv_def notifications_def)

lemma write_packet_eq:
  assumes "length d + 4 < length out"
  shows "\<exists>out'. write_packet b d out = Some (length d + 4, out') \<and> length out' = length out \<and>
    take (length d + 4) out' = (if b then CHR ''%'' else CHR ''$'') # d @ ''#'' @ EncodeByteString (checksum d)"
proof -
  let ?c = "if b then CHR ''%'' else CHR ''$''" and ?e = "EncodeByteString (checksum d)"
  let ?rest = "drop (length d + 4) out"
  obtain x xs where out: "out = x # xs" using assms by (cases out) auto
  have 1: "memcpy_at (?c # xs) (Suc 0) d = (?c # d) @ drop (length d) xs"
    using memcpy_at_append [of "[?c]" "Suc 0" xs d] by simp
  obtain y ys where y: "drop (length d) xs = y # ys" using assms out
    by (cases "drop (length d) xs") auto
  have 2: "((?c # d) @ y # ys)[Suc (length d) := CHR ''#''] = (?c # d @ ''#'') @ ys"
    by (simp add: list_update_append)
  have 3: "memcpy_at ((?c # d @ ''#'') @ ys) (Suc (Suc (length d))) ?e
      = (?c # d @ ''#'') @ ?e @ drop 2 ys"
    by (rule memcpy_at_append [of _ _ ys ?e, simplified length_EncodeByteString]) simp
  have 4: "take (length d + 4) (c # d @ z # ?e @ r) = c # d @ z # ?e" for c z r
    by (simp add: numeral_eq_Suc)
  have "length xs = length d + Suc (length ys)" using arg_cong [OF y, of length] assms out by simp
  then show ?thesis using assms out
    by (auto simp: write_packet_def 1 y 2 3 [simplified] 4)
qed

lemma run_WriteTask_eq:
  assumes "length d + 4 < kMaxBufferSize"
  shows "run_WriteTask b d s =
    Some (s\<lparr>srv_written := srv_written s @
      [(if b then CHR ''%'' else CHR ''$'') # d @ ''#'' @ EncodeByteString (checksum d)]\<rparr>)"
  using write_packet_eq [of d "replicate kMaxBufferSize (CHR 0x00)" b] assms
  by (auto simp: run_WriteTask_def IOLoop_PostWriteTask_def)

section \<open>Notifications\<close>

lemma fits_event: "length (nt_event n) \<le> 128 \<Longrightarrow> length (kStopNotification @ '':'' @ nt_event n) + 4 < kMaxBufferSize"
  "length e \<le> 128 \<Longrightarrow> length e + 4 < kMaxBufferSize"
  by (simp_all add: kStopNotification_def kMaxBufferSize_def)

lemma QueueStopNotification_eq:
  assumes "rsp_inv s" and "length event \<le> 128"
  shows "QueueStopNotification E event timeout s = Some
    (let n = PendingNotification kStopNotification event timeout (en_addr E (srv_allocated s));
         s1 = s\<lparr>srv_allocated := Suc (srv_allocated s)\<rparr>
     in if srv_pending s = None
        then s1\<lparr>srv_pending := Some n, srv_tasks := srv_tasks s @ [WriteTask True (''Stop:'' @ event)],
                srv_timers := srv_timers s @ [(nt_addr n, timeout)]\<rparr>
        else s1\<lparr>srv_notify_queue := srv_notify_queue s @ [n]\<rparr>)"
  using assms
  by (auto simp: QueueStopNotification_def QueueNotification_def TryPostNextNotification_def
      PostPendingNotificationWriteTask_def PostNotificationTimeoutHandler_def PostWriteTask_def
      PendingNotification_def rsp_inv_def Let_def kStopNotification_def kMaxBufferSize_def)

lemma QueueStopNotification_inv:
  assumes "rsp_inv s" and "length event \<le> 128"
  shows "run (\<lambda>s'. rsp_inv s' \<and> i_proc s' = i_proc s \<and> i_eport s' = i_eport s \<and> i_k s' = i_k s)
    (QueueStopNotification E event timeout s)"
  unfolding QueueStopNotification_eq [OF assms] using assms
  by (auto simp: Let_def rsp_inv_def notifications_def PendingNotification_def kStopNotification_def
      kMaxBufferSize_def)

lemma timeout_inv:
  assumes "rsp_inv s" and "srv_timers s = ts @ (a, d) # ts'"
  shows "run (\<lambda>s'. rsp_inv s' \<and> i_proc s' = i_proc s \<and> i_eport s' = i_eport s)
    (run_timeout a (s\<lparr>srv_timers := ts @ ts'\<rparr>))"
proof (cases "map_option nt_addr (srv_pending s) = Some a")
  case True
  then obtain n where n: "srv_pending s = Some n" "nt_addr n = a" by auto
  then have "nt_name n = kStopNotification" "length (nt_event n) \<le> 128" "srv_io_loop s"
    using assms(1) by (auto simp: rsp_inv_def notifications_def)
  then have "run_timeout a (s\<lparr>srv_timers := ts @ ts'\<rparr>) =
      Some (s\<lparr>srv_tasks := srv_tasks s @ [WriteTask True (kStopNotification @ '':'' @ nt_event n)],
        srv_timers := ts @ ts' @ [(a, nt_timeout n)]\<rparr>)"
    using n by (simp add: run_timeout_def PostPendingNotificationWriteTask_def PostWriteTask_def
      PostNotificationTimeoutHandler_def kStopNotification_def kMaxBufferSize_def)
  with assms n show ?thesis
    by (auto simp: rsp_inv_def notifications_def kStopNotification_def kMaxBufferSize_def)
next
  case False
  with assms show ?thesis by (auto simp: run_timeout_def rsp_inv_def notifications_def)
qed

section \<open>The size of a stop reply\<close>

lemma length_nat_string: "n < b ^ m \<Longrightarrow> 0 < m \<Longrightarrow> 2 \<le> b \<Longrightarrow> length (nat_string b n) \<le> m"
proof (induction m arbitrary: n)
  case (Suc m)
  show ?case
  proof (cases "n < b")
    case True
    then show ?thesis by (simp add: length_nat_string_1)
  next
    case False
    then have m: "0 < m" using Suc.prems by (cases m) auto
    have "n div b < b ^ m" using Suc.prems by (simp add: less_mult_imp_div_less mult.commute)
    with Suc.IH [of "n div b"] m Suc.prems(3) False show ?thesis by (subst nat_string.simps) simp
  qed
qed simp

lemma length_koid_text:
  assumes "ftl_conversions F"
  shows "length (NumberToString F UInt64 16 (uint (x :: u64))) \<le> 16"
proof -
  have "nat (uint x) < 16 ^ 16" using unsigned_less [of x, where ?'a = nat] by simp
  from length_nat_string [OF this] show ?thesis
    using ftl_conversions.print_number [OF assms koid_in_range, of 16 x]
    by (simp add: number_string_def)
qed

lemma length_EncodeThreadId:
  "ftl_conversions F \<Longrightarrow> length (EncodeThreadId F p t) \<le> 34"
  using length_koid_text [of F p] length_koid_text [of F t] by (simp add: EncodeThreadId_def)

abbreviation registers_text :: "StopReplyPacket \<Rightarrow> string" where
  "registers_text p \<equiv> concat (map (\<lambda>regval. regval @ '';'') (srp_register_values p))"

lemma Build_length:
  "post (\<lambda>text. length text \<le> 12 + length (registers_text p) + length (srp_tid_string p)
    + length (srp_stop_reason p)) (StopReplyPacket_Build p)"
  by (auto simp: post_def StopReplyPacket_Build_def bind_eq_Some_conv srp_thread_field_def
      split: if_splits srp_type.splits)

lemma GetRegisterAsString_length: "post (\<lambda>text. length text \<le> 16) (GetRegisterAsString A g r)"
  by (auto simp: GetRegisterAsString_def GetRegisterAsString_amd64_def GetRegisterAsStringHelper_def
      GetRegisterAsString_arm64_def length_substr split: arch_kind.split)

lemma add_registers_length:
  "post (\<lambda>q. srp_tid_string q = srp_tid_string p \<and> srp_stop_reason q = srp_stop_reason p
    \<and> length (registers_text q) \<le> length (registers_text p) + 20 * length regnos) (add_registers A g regnos p)"
proof (induction regnos arbitrary: p)
  case (Cons r rs)
  show ?case
    by (auto simp: AddRegisterValue_def intro!: post_bindI [OF GetRegisterAsString_length]
        post_mono [OF Cons.IH])
qed simp

section \<open>The call-backs\<close>

context rsp_env
begin

lemma exception_reply_post:
  assumes "thread_ok (en_mx E) t"
  shows "post (\<lambda>(packet, t', k'). thread_ok (en_mx E) t' \<and> t_id t' = t_id t \<and> t_oid t' = t_oid t
      \<and> length packet \<le> 128) (exception_reply E pid sig cx t k)"
proof -
  have tid: "post (\<lambda>q. srp_register_values q = [] \<and> srp_stop_reason q = [] \<and> length (srp_tid_string q) \<le> 34)
      (SetThreadId (en_ftl E) pid (ctx_tid cx) (SetSignalNumber n (StopReplyPacket_new kReceivedSignal)))" for n
    using length_EncodeThreadId [OF conversions]
    by (simp add: SetThreadId_def SetSignalNumber_def StopReplyPacket_new_def)
  have regs: "post (\<lambda>q. srp_stop_reason q = [] \<and> length (srp_tid_string q) \<le> 34 \<and> length (registers_text q) \<le> 60)
      (if ok then add_registers A g [a, b, c] p else Some p)"
    if "srp_register_values p = []" "srp_stop_reason p = []" "length (srp_tid_string p) \<le> 34" for ok A g a b c p
    using that by (auto simp del: add_registers.simps intro!: post_mono [OF add_registers_length])
  show ?thesis
    unfolding exception_reply_def Let_def
    by (auto simp del: add_registers.simps simp: thread_ok_def
        intro!: post_bindI [OF tid] post_bindI [OF run_post [OF thread_refresh_run [OF kernel assms]]]
        post_bindI [OF regs] post_bindI [OF Build_length])
qed

abbreviation good :: "'k rsp_server \<Rightarrow> bool" where
  "good s \<equiv> service_ok (en_mx E) s \<and> rsp_inv s"

lemma queue_good:
  assumes "good s" and "length event \<le> 128"
  shows "post good (QueueStopNotification E event d s)"
  using assms service_ok_proc [of _ s "en_mx E"]
  by (auto intro!: post_mono [OF run_post [OF QueueStopNotification_inv]])

lemma on_thread_good:
  assumes "good s" and "\<And>t k. get_thread tid s = Some t \<Longrightarrow> thread_ok (en_mx E) t \<Longrightarrow>
    post (\<lambda>(r, t', k'). thread_ok (en_mx E) t' \<and> t_id t' = t_id t \<and> t_oid t' = t_oid t \<and> Q r t') (f t k)"
  shows "post (\<lambda>(r, s'). good s' \<and> inferior.more s' = inferior.more s \<and> (\<exists>t'. get_thread tid s' = Some t' \<and> Q r t'))
    (on_thread tid f s)"
proof -
  have frame: "good s' \<and> inferior.more s' = inferior.more s" if "thread_upd (en_mx E) s s'" for s'
    using quiet_service [OF thread_upd_quiet [OF that]] rsp_inv_frame [OF thread_upd_frame(1) [OF that]]
      thread_upd_frame(1) [OF that] assms(1) by simp
  show ?thesis
    by (rule post_mono [OF on_thread_post [OF service_core [OF conjunct1 [OF assms(1)]] assms(2)]])
      (auto dest: frame)
qed

lemma started_good:
  assumes "good s" and "p_state (i_proc s) = prc_kStarting"
  shows "post good (do {
    s \<leftarrow> PostPacketWriteTask packet s;
    p \<leftarrow> Process_set_state prc_kRunning (i_proc s);
    Some (s\<lparr>i_proc := p\<rparr>) })"
proof -
  let ?s1 = "s\<lparr>srv_tasks := srv_tasks s @ [WriteTask False packet]\<rparr>"
  let ?s2 = "?s1\<lparr>i_proc := (i_proc s)\<lparr>p_state := prc_kRunning\<rparr>\<rparr>"
  have "service_ok (en_mx E) ?s2"
    using assms by (auto simp: service_ok_def proc_ok_def proc_core_def Process_IsLive_def)
  moreover have "rsp_inv ?s2 \<longleftrightarrow> rsp_inv ?s1" by (rule rsp_inv_frame) simp
  ultimately show ?thesis using assms(1)
    by (auto simp: PostPacketWriteTask_def Process_set_state_def intro!: post_bindI [OF PostWriteTask_inv])
qed

lemma starting_good:
  assumes "good s"
  shows "post good (RspServer_OnThreadStarting E tid cx s)"
proof -
  have thread: "post (\<lambda>q. srp_register_values q = [] \<and> length (srp_tid_string q) \<le> 34)
      (SetThreadId (en_ftl E) pid i (SetSignalNumber n (StopReplyPacket_new kReceivedSignal)))" for pid i n
    using length_EncodeThreadId [OF conversions]
    by (simp add: SetThreadId_def SetSignalNumber_def StopReplyPacket_new_def)
  have reason: "post (\<lambda>q. srp_register_values q = [] \<and> length (srp_tid_string q) \<le> 34
      \<and> srp_stop_reason q = ''create:'') (SetStopReason ''create'' p)"
    if "srp_register_values p = []" "length (srp_tid_string p) \<le> 34" for p
    using that by (simp add: SetStopReason_def)
  show ?thesis
    unfolding RspServer_OnThreadStarting_def Let_def
    using assms
    by (auto intro!: post_bindI [OF thread] post_bindI [OF reason] post_bindI [OF Build_length]
        queue_good started_good split: ProcessState.split)
qed

lemma exiting_good:
  assumes "good s"
  shows "post good (RspServer_OnThreadExiting E tid ty cx s)"
proof -
  have thread: "post (\<lambda>q. srp_register_values q = [] \<and> srp_stop_reason q = [] \<and> length (srp_tid_string q) \<le> 34)
      (SetThreadId (en_ftl E) pid i (SetSignalNumber n (StopReplyPacket_new kThreadExited)))" for pid i n
    using length_EncodeThreadId [OF conversions]
    by (simp add: SetThreadId_def SetSignalNumber_def StopReplyPacket_new_def)
  have exit: "post good (map_option snd (on_thread tid
      (\<lambda>t k. map_option (Pair ()) (Thread_ResumeForExit (en_mx E) t k)) s'))" if "good s'" for s'
    unfolding post_simps
    by (rule post_mono [OF on_thread_good [OF that, where Q = "\<lambda>_ _. True"]])
      (auto simp: post_def dest: thread_ok_ResumeForExit)
  show ?thesis
    unfolding RspServer_OnThreadExiting_def Let_def using assms
    by (cases "get_thread tid s")
      (auto intro!: post_bindI [OF thread] post_bindI [OF Build_length] post_bindI [OF queue_good] exit
        simp del: post_simps(5))
qed

lemma architectural_good:
  assumes "good s"
  shows "post good (RspServer_OnArchitecturalException E tid ty cx s)"
proof -
  have reply: "post (\<lambda>(r, s'). good s' \<and> length r \<le> 128) (on_thread tid (exception_reply E pid sig cx) s)"
    for pid sig
    by (rule post_mono [OF on_thread_good [OF assms, where Q = "\<lambda>r _. length r \<le> 128"]])
      (auto intro!: post_mono [OF exception_reply_post])
  show ?thesis
    unfolding RspServer_OnArchitecturalException_def Let_def
    by (rule post_bindI [where Q = "\<lambda>_. True"], simp, rule post_bindI [where Q = "\<lambda>_. True"], simp)
      (use assms in \<open>auto intro!: post_bindI [OF reply] queue_good\<close>)
qed

lemma process_exit_good:
  assumes "rsp_inv s"
  shows "post (\<lambda>s'. i_proc s' = i_proc s \<and> i_eport s' = i_eport s \<and> rsp_inv s')
    (RspServer_OnProcessExit E ty cx s)"
proof -
  have "rsp_inv (s\<lparr>srv_current_thread := None\<rparr>)" using assms by (simp add: rsp_inv_def notifications_def)
  note queue = run_post [OF QueueStopNotification_inv [OF this]]
  show ?thesis
    unfolding RspServer_OnProcessExit_def Let_def Server_SetCurrentThread_def
    by (rule post_bindI [where Q = "\<lambda>_. True"], simp)
      (auto intro!: post_bindI [OF Build_length] post_mono [OF queue]
        simp: SetSignalNumber_def StopReplyPacket_new_def)
qed

end

sublocale rsp_env \<subseteq> delegate: process_delegate "en_mx E" "rsp_delegate E" rsp_inv
proof (rule process_delegate.intro)
  show "mx_kernel (en_mx E)" by (rule kernel)
  show "rsp_inv s' = rsp_inv s" if "inferior.more s' = inferior.more s" for s s' :: "'k rsp_server"
    using that by (rule rsp_inv_frame)
qed (simp_all add: rsp_delegate_def starting_good exiting_good architectural_good process_exit_good)

section \<open>A server to evaluate with\<close>

definition demo_env :: "ref_kernel env" where
  "demo_env =
     \<lparr>en_ftl = ftl_ref, en_mx = ref_mx, en_dso = test_env (\<lambda>_. 0), en_addr = of_nat,
      en_GetMinLogLevel = (\<lambda>v. min v 3), en_new_ok = (\<lambda>n. n < 0x10000)\<rparr>"

lemma demo_env_sel [simp]: "en_ftl demo_env = ftl_ref" "en_mx demo_env = ref_mx"
  "en_addr demo_env = of_nat" "en_new_ok demo_env n = (n < 0x10000)"
  by (simp_all add: demo_env_def)

interpretation demo: rsp_env demo_env
  by (rule rsp_env.intro) (simp_all add: ref_mx.mx_kernel_axioms ftl_ref.ftl_conversions_axioms)

definition demo_thread :: "nat \<Rightarrow> u64 \<Rightarrow> thread" where
  "demo_thread oid tid =
     \<lparr>t_oid = oid, t_handle = uint tid + 1, t_id = tid, t_state = thr_kStopped,
      t_gregs = replicate 144 0, t_ss = None, t_exc = None, t_ipt_buffer = None\<rparr>"

definition demo_server :: "ref_kernel rsp_server" where
  "demo_server =
     \<lparr>i_proc = Process_new\<lparr>p_handle := 2, p_eport_key := 1, p_state := prc_kRunning, p_id := 1,
        p_threads := [(3, demo_thread 0 3), (4, demo_thread 1 4)], p_next_oid := 2\<rparr>,
      i_eport = \<lparr>ep_handle = 1, ep_keep_running = True, ep_callbacks = [(1, 2)], ep_key_counter = 1\<rparr>,
      i_k = demo_kernel, srv_current_thread = Some 0, srv_run_status = True, srv_io_loop = True,
      srv_min_log_level = 0, srv_in_thread_info_sequence = False, srv_notify_queue = [],
      srv_pending = None, srv_allocated = 0, srv_tasks = [], srv_timers = [], srv_written = [],
      srv_quit = False\<rparr>"

lemma demo_server_ok: "service_ok ref_mx demo_server" "rsp_inv demo_server"
  "p_handle (i_proc demo_server) = 2" "p_state (i_proc demo_server) = prc_kRunning" "srv_tasks demo_server = []"
  by (simp_all add: demo_server_def service_ok_def proc_ok_def proc_core_def Process_new_def Process_IsLive_def
      eport_ok_def eport_open_def eport_bound_def tmap_ok_def thread_ok_def demo_thread_def rsp_inv_def
      notifications_def)

end
