(* ===== verification/Cmd_Inv.thy ===== *)
theory Cmd_Inv
  imports Cmd_Handler Server_Inv
begin

text \<open>
  The contract of the command handlers: \<open>serves E s r\<close> says that the result \<open>r\<close> of a handler called
  in \<open>s\<close>, when there is one, keeps the invariants of the server and has answered as it should:
  exactly one packet is posted if the command was handled and none if not.  A successful \<^verbatim>\<open>vRun\<close>,
  which leaves the process starting, is the one command whose answer is deferred.
\<close>

section \<open>The contract\<close>

definition io_same :: "'k rsp_server \<Rightarrow> 'k rsp_server \<Rightarrow> bool" where
  "io_same s s' \<longleftrightarrow> srv_notify_queue s' = srv_notify_queue s \<and> srv_pending s' = srv_pending s
     \<and> srv_timers s' = srv_timers s \<and> srv_written s' = srv_written s \<and> srv_quit s' = srv_quit s
     \<and> srv_io_loop s' = srv_io_loop s \<and> srv_allocated s' = srv_allocated s"

definition answered :: "'k rsp_server \<Rightarrow> bool \<Rightarrow> 'k rsp_server \<Rightarrow> bool" where
  "answered s handled s' \<longleftrightarrow> io_same s s' \<and> (\<exists>ts. srv_tasks s' = srv_tasks s @ ts \<and>
     (if handled then (\<exists>d. ts = [WriteTask False d] \<or> ts = [WriteTask False d, QuitTask])
        \<or> ts = [] \<and> p_state (i_proc s') = prc_kStarting
      else ts = []))"

definition prepared :: "'k env \<Rightarrow> 'k rsp_server \<Rightarrow> 'k rsp_server \<Rightarrow> bool" where
  "prepared E s0 s \<longleftrightarrow> service_ok (en_mx E) s \<and> rsp_inv s \<and> io_same s0 s \<and> srv_tasks s = srv_tasks s0"

definition serves :: "'k env \<Rightarrow> 'k rsp_server \<Rightarrow> 'k handled \<Rightarrow> bool" where
  "serves E s r \<longleftrightarrow>
     post (\<lambda>(handled, s'). service_ok (en_mx E) s' \<and> rsp_inv s' \<and> answered s handled s') r"

lemma prepared_refl: "service_ok (en_mx E) s \<Longrightarrow> rsp_inv s \<Longrightarrow> prepared E s s"
  by (simp add: prepared_def io_same_def)

lemma serves_bindI: "post Q x \<Longrightarrow> (\<And>y. Q y \<Longrightarrow> serves E s (f y)) \<Longrightarrow> serves E s (x \<bind> f)"
  unfolding serves_def by (rule post_bindI)

lemma serves_bind_any: "(\<And>y. x = Some y \<Longrightarrow> serves E s (f y)) \<Longrightarrow> serves E s (x \<bind> f)"
  by (cases x) (simp_all add: serves_def)

lemma serves_dcheck [simp]: "serves E s (dcheck b \<bind> f) \<longleftrightarrow> (b \<longrightarrow> serves E s (f ()))"
  by (simp add: serves_def)

lemma serves_None [simp]: "serves E s None"
  by (simp add: serves_def)

lemma serves_reply: "prepared E s0 s \<Longrightarrow> serves E s0 (reply d s)"
  unfolding serves_def reply_def PostPacketWriteTask_def post_simps
  using PostWriteTask_inv [of s False d] service_ok_proc [of "s\<lparr>srv_tasks := srv_tasks s @ [WriteTask False d]\<rparr>" s]
  by (auto elim!: post_mono simp: prepared_def answered_def io_same_def)

lemma serves_replies:
  assumes "prepared E s0 s"
  shows "serves E s0 (ReplyOK s)" "serves E s0 (ReplyWithError E e s)"
  using serves_reply [OF assms] by (simp_all add: ReplyOK_def ReplyWithError_def)

lemma serves_unhandled: "prepared E s0 s \<Longrightarrow> serves E s0 (Some (False, s))"
  by (simp add: serves_def prepared_def answered_def)

lemma prepared_attached:
  "prepared E s0 s \<Longrightarrow> Process_IsAttached (i_proc s) = Some (p_handle (i_proc s) \<noteq> MX_HANDLE_INVALID)"
  by (auto simp: prepared_def intro: IsAttached_core dest: service_core)

lemma prepared_more:
  assumes "prepared E s0 s" and "inferior.more s' = inferior.more s" and "service_ok (en_mx E) s'"
  shows "prepared E s0 s'"
  using assms(1,3) rsp_inv_frame [OF assms(2)]
  by (simp add: prepared_def io_same_def rsp_more_eq [OF assms(2)])

lemma prepared_quiet:
  assumes "prepared E s0 s" and "quiet (en_mx E) s s'"
  shows "prepared E s0 s'"
proof (rule prepared_more [OF assms(1)])
  show "inferior.more s' = inferior.more s" using assms(2) by (simp add: quiet_def)
  show "service_ok (en_mx E) s'" using quiet_service [OF assms(2)] assms(1) by (simp add: prepared_def)
qed

lemmas prepared_upd = prepared_quiet [OF _ thread_upd_quiet]

lemma prepared_kernel: "prepared E s0 s \<Longrightarrow> prepared E s0 (s\<lparr>i_k := k\<rparr>)"
  by (rule prepared_upd [OF _ thread_upd_kernel])

lemma server_fields:
  "rsp_inv (s\<lparr>srv_in_thread_info_sequence := b\<rparr>) = rsp_inv s" "rsp_inv (s\<lparr>srv_min_log_level := v\<rparr>) = rsp_inv s"
  "rsp_inv (s\<lparr>srv_current_thread := c\<rparr>) = rsp_inv s"
  "service_ok K (s\<lparr>srv_in_thread_info_sequence := b\<rparr>) = service_ok K s"
  "service_ok K (s\<lparr>srv_min_log_level := v\<rparr>) = service_ok K s"
  "service_ok K (s\<lparr>srv_current_thread := c\<rparr>) = service_ok K s"
  by (simp_all add: rsp_inv_def notifications_def service_ok_def proc_ok_def proc_core_def)

lemma prepared_fields:
  assumes "prepared E s0 s"
  shows "prepared E s0 (s\<lparr>srv_in_thread_info_sequence := b\<rparr>)" "prepared E s0 (s\<lparr>srv_min_log_level := v\<rparr>)"
    "prepared E s0 (s\<lparr>srv_current_thread := c\<rparr>)"
  using assms by (simp_all add: prepared_def io_same_def server_fields)

lemma prepared_SetCurrentThread: "prepared E s0 s \<Longrightarrow> prepared E s0 (Server_SetCurrentThread t s)"
  by (cases t) (simp_all add: Server_SetCurrentThread_def prepared_fields)

lemma prepared_core: "prepared E s0 s \<Longrightarrow> proc_core (en_mx E) s"
  by (simp add: prepared_def service_core)

lemma prepared_proc_ok: "prepared E s0 s \<Longrightarrow> proc_ok (en_mx E) s \<and> eport_open (i_eport s)"
  by (simp add: prepared_def service_ok_def)

lemma prepared_kept: "prepared E s0 s \<Longrightarrow> kept s s' \<Longrightarrow> proc_ok (en_mx E) s' \<Longrightarrow> prepared E s0 s'"
  by (rule prepared_more [of E s0 s]) (auto simp: kept_def service_ok_def prepared_def)

lemma prepared_released: "prepared E s0 s \<Longrightarrow> released (en_mx E) s s' \<Longrightarrow> prepared E s0 s'"
  by (rule prepared_more [of E s0 s])
    (auto dest: prepared_proc_ok simp: released_def service_ok_def)

lemma for_threads_post:
  assumes "\<And>tid a s. P s \<Longrightarrow> post (\<lambda>(a, s'). P s') (callback tid a s)"
  shows "P s \<Longrightarrow> post (\<lambda>(a, s'). P s') (for_threads callback tids a s)"
proof (induction tids arbitrary: a s)
  case (Cons tid tids)
  then show ?case by (auto intro!: post_bindI [OF assms])
qed simp

section \<open>The operations the handlers call\<close>

definition unattached :: "'k rsp_server \<Rightarrow> bool" where
  "unattached s \<longleftrightarrow> p_state (i_proc s) = prc_kNew \<and> p_handle (i_proc s) = MX_HANDLE_INVALID
     \<and> (p_attached_running (i_proc s) \<longrightarrow> p_launchpad (i_proc s) = 0)"

context rsp_env
begin

lemma on_thread_prepared:
  assumes "prepared E s0 s" and "\<And>t k. thread_ok (en_mx E) t \<Longrightarrow>
    post (\<lambda>(r, t', k'). thread_ok (en_mx E) t' \<and> t_id t' = t_id t \<and> t_oid t' = t_oid t) (f t k)"
  shows "post (\<lambda>(r, s'). prepared E s0 s') (on_thread tid f s)"
  by (rule post_mono [OF on_thread_post [OF prepared_core [OF assms(1)], where Q = "\<lambda>_ _. True"]])
    (use assms(2) in \<open>auto intro: prepared_upd [OF assms(1)]\<close>)

lemma resume_prepared:
  "prepared E s0 s \<Longrightarrow> post (\<lambda>(ok, s'). prepared E s0 s') (resume_thread E tid s)"
  unfolding resume_thread_def
  by (rule on_thread_prepared) (auto dest: thread_ok_Resume)

lemma step_prepared:
  "prepared E s0 s \<Longrightarrow> post (\<lambda>(ok, s'). prepared E s0 s') (on_thread tid (Thread_Step (en_mx E)) s)"
proof (rule on_thread_prepared)
  fix t k
  assume "thread_ok (en_mx E) t"
  from thread_ok_Step [OF kernel this, of k] show "post (\<lambda>(ok, t', k'). thread_ok (en_mx E) t'
      \<and> t_id t' = t_id t \<and> t_oid t' = t_oid t) (Thread_Step (en_mx E) t k)"
    by auto
qed

lemma thread_ok_gregs: "thread_ok K t \<Longrightarrow> length g = mx_sizeof_gregs K \<Longrightarrow> thread_ok K (t\<lparr>t_gregs := g\<rparr>)"
  by (simp add: thread_ok_def)

lemma thread_ok_length: "thread_ok K t \<Longrightarrow> length (t_gregs t) = mx_sizeof_gregs K"
  by (simp add: thread_ok_def)

lemma set_register_length:
  assumes "length g = mx_sizeof_gregs (en_mx E)" and "SetRegister (mx_arch (en_mx E)) g r v = Some g'"
  shows "length g' = length g"
  using assms mx_kernel.layout(1) [OF kernel] amd64.set_length [of g r v g'] arm64.set_length [of g r v g']
  by (auto simp: SetRegister_def split: arch_kind.splits)

lemma set_pc_prepared:
  "prepared E s0 s \<Longrightarrow> post (\<lambda>(ok, s'). prepared E s0 s') (set_thread_pc E tid addr s)"
  unfolding set_thread_pc_def Let_def
proof (rule on_thread_prepared)
  fix t k
  assume t: "thread_ok (en_mx E) t"
  have set: "thread_ok (en_mx E) (t'\<lparr>t_gregs := g\<rparr>)"
    if "thread_ok (en_mx E) t'" "SetRegister (mx_arch (en_mx E)) (t_gregs t') r v = Some g" for t' r v g
    using that set_register_length [OF thread_ok_length that(2)]
    by (auto intro: thread_ok_gregs simp: thread_ok_length)
  show "post (\<lambda>(ok, t', k'). thread_ok (en_mx E) t' \<and> t_id t' = t_id t \<and> t_oid t' = t_oid t)
    (do {
      (ok, t) \<leftarrow> Thread_RefreshGeneralRegisters (en_mx E) t k;
      if \<not> ok then Some (False, t, k)
      else case SetRegister (mx_arch (en_mx E)) (t_gregs t) (GetPCRegisterNumber (mx_arch (en_mx E))) (le_bytes 8 addr) of
        None \<Rightarrow> Some (False, t, k)
      | Some gregs \<Rightarrow> (case WriteGeneralRegisters (en_mx E) (t_handle t) gregs k of
          (ok, k) \<Rightarrow> Some (ok, t\<lparr>t_gregs := gregs\<rparr>, k)) })"
    by (rule post_bindI [OF run_post [OF thread_refresh_run [OF kernel t]]])
      (use set in \<open>auto split: option.split prod.split\<close>)
qed

lemma from_string_length:
  assumes "length g = mx_sizeof_gregs (en_mx E)" and "SetGeneralRegistersFromString (en_mx E) v g = Some g'"
  shows "length g' = mx_sizeof_gregs (en_mx E)"
proof -
  have "length (TranslateFromRsp r g) = 272" if "length r = 268" "length g = 272" for r
    using that by (simp add: TranslateFromRsp_def Let_def length_substr)
  with assms mx_kernel.layout(1) [OF kernel] show ?thesis
    by (auto simp: SetGeneralRegistersFromString_def SetRegsetFromStringHelper_def Let_def sizeof_rsp_arm64_def
        split: arch_kind.splits if_splits option.splits)
qed

lemma set_registers_prepared:
  "prepared E s0 s \<Longrightarrow> post (\<lambda>(ok, s'). prepared E s0 s') (set_thread_registers E packet tid s)"
  unfolding set_thread_registers_def
  by (rule on_thread_prepared)
    (auto split: option.split prod.split intro: thread_ok_gregs dest: from_string_length [OF thread_ok_length])

lemma fresh_prepared:
  "prepared E s0 s \<Longrightarrow> post (prepared E s0) (Process_EnsureThreadMapFresh (en_mx E) s)"
  by (rule post_mono [OF run_post [OF EnsureThreadMapFresh_ok [OF kernel prepared_core]]])
    (auto intro: prepared_upd)

lemma pick_prepared:
  "prepared E s0 s \<Longrightarrow> post (\<lambda>(r, s'). prepared E s0 s') (Process_PickOneThread (en_mx E) s)"
  by (rule post_mono [OF run_post [OF PickOneThread_ok [OF kernel prepared_core]]])
    (auto intro: prepared_upd)

lemma find_prepared:
  assumes "prepared E s0 s"
  shows "post (\<lambda>(r, s'). prepared E s0 s') (Process_FindThreadById (en_mx E) tid s)"
proof (cases "p_handle (i_proc s) = MX_HANDLE_INVALID")
  case False
  then show ?thesis
    by (intro post_mono [OF run_post [OF FindThreadById_ok [OF kernel prepared_core [OF assms]]]])
      (auto intro: prepared_upd [OF assms])
qed (simp add: Process_FindThreadById_def)

lemma each_live_prepared:
  assumes "prepared E s0 s"
    and "\<And>tid a s. prepared E s0 s \<Longrightarrow> post (\<lambda>(a, s'). prepared E s0 s') (callback tid a s)"
  shows "post (\<lambda>(a, s'). prepared E s0 s') (Process_ForEachLiveThread (en_mx E) callback a s)"
proof -
  have "post (\<lambda>(a, s'). prepared E s0 s') (live_callback callback tid a s)" if "prepared E s0 s" for tid a s
    using assms(2) [OF that] that by (auto simp: live_callback_def post_bind intro: post_def [THEN iffD2])
  from for_threads_post [OF this] show ?thesis
    unfolding Process_ForEachLiveThread_def by (intro post_bindI [OF fresh_prepared [OF assms(1)]])
qed

lemma detach_prepared:
  "prepared E s0 s \<Longrightarrow> post (\<lambda>(ok, s'). prepared E s0 s') (Process_Detach (en_mx E) s)"
  by (rule post_mono [OF run_post [OF Detach_ok [OF kernel prepared_core]]])
    (auto intro: prepared_released split: if_splits)

lemma kill_prepared:
  assumes "prepared E s0 s"
  shows "post (\<lambda>(ok, s'). prepared E s0 s') (Process_Kill (en_mx E) s)"
  by (rule post_mono [OF run_post [OF Kill_ok [OF kernel conjunct1 [OF prepared_proc_ok [OF assms]]]]])
    (auto intro: prepared_released [OF assms] prepared_kernel [OF assms] assms split: if_splits)

lemma start_prepared:
  assumes "prepared E s0 s" and "p_handle (i_proc s) \<noteq> MX_HANDLE_INVALID"
  shows "post (\<lambda>(ok, s'). prepared E s0 s' \<and> (ok \<longrightarrow> p_state (i_proc s') = prc_kStarting))
    (Process_Start (en_mx E) s)"
proof (cases "p_launchpad (i_proc s) = 0")
  case False
  note ok = conjunct1 [OF prepared_proc_ok [OF assms(1)]]
  show ?thesis
    by (rule post_mono [OF run_post [OF Start_ok [OF ok False assms(2)]]])
      (auto intro: prepared_kept [OF assms(1)])
qed (simp add: Process_Start_def)

lemma initialize_prepared:
  assumes "prepared E s0 s"
  shows "post (\<lambda>(ok, s'). prepared E s0 s' \<and> unattached s') (Process_Initialize (en_mx E) s)"
proof (cases "proc_clean (i_proc s) \<and> \<not> Process_IsLive (i_proc s)")
  case True
  note ok = conjunct1 [OF prepared_proc_ok [OF assms]]
  show ?thesis
    by (rule post_mono [OF run_post [OF Initialize_ok [OF kernel ok]]])
      (use True in \<open>auto intro: prepared_kept [OF assms] simp: initialized_def unattached_def\<close>)
next
  case False
  then have "Process_Renew (i_proc s) = None" using Renew_iff [of "i_proc s"] by (cases "Process_Renew (i_proc s)") auto
  then show ?thesis by (simp add: Process_Initialize_def)
qed

lemma initialize_pid_prepared:
  assumes "prepared E s0 s"
  shows "post (\<lambda>(ok, s'). prepared E s0 s' \<and> unattached s') (Process_Initialize_pid pid s)"
proof (cases "proc_clean (i_proc s) \<and> \<not> Process_IsLive (i_proc s)")
  case True
  note ok = conjunct1 [OF prepared_proc_ok [OF assms]]
  show ?thesis
    by (rule post_mono [OF run_post [OF Initialize_pid_ok [OF ok]]])
      (use True in \<open>auto intro: prepared_kept [OF assms] simp: unattached_def\<close>)
next
  case False
  then have "Process_Renew (i_proc s) = None" using Renew_iff [of "i_proc s"] by (cases "Process_Renew (i_proc s)") auto
  then show ?thesis by (simp add: Process_Initialize_pid_def)
qed

lemma attach_prepared:
  assumes "prepared E s0 s" and "unattached s"
  shows "post (\<lambda>(ok, s'). prepared E s0 s' \<and> (ok \<longrightarrow> p_handle (i_proc s') \<noteq> MX_HANDLE_INVALID))
    (Process_Attach (en_mx E) s)"
  using assms prepared_proc_ok [OF assms(1)]
  by (intro post_mono [OF run_post [OF Attach_ok [OF kernel]]])
    (auto intro: prepared_kept [OF assms(1)] simp: unattached_def)

section \<open>The handlers\<close>

lemma prepared_ops:
  assumes "prepared E s0 s"
  shows "set_thread_registers E packet tid s = Some (ok, s') \<Longrightarrow> prepared E s0 s'"
    "resume_thread E tid s = Some (ok, s') \<Longrightarrow> prepared E s0 s'"
    "on_thread tid (Thread_Step (en_mx E)) s = Some (ok, s') \<Longrightarrow> prepared E s0 s'"
    "Process_EnsureThreadMapFresh (en_mx E) s = Some s' \<Longrightarrow> prepared E s0 s'"
    "Process_FindThreadById (en_mx E) tid s = Some (r, s') \<Longrightarrow> prepared E s0 s'"
    "Process_PickOneThread (en_mx E) s = Some (r, s') \<Longrightarrow> prepared E s0 s'"
  using set_registers_prepared [OF assms, of packet tid] resume_prepared [OF assms, of tid]
    step_prepared [OF assms, of tid] fresh_prepared [OF assms] find_prepared [OF assms, of tid]
    pick_prepared [OF assms]
  by (simp_all add: post_def)

lemmas preparedD = prepared_ops [rotated]

lemmas served = serves_replies serves_reply serves_unhandled

lemma Handle_c_serves:
  assumes "prepared E s0 s"
  shows "serves E s0 (Handle_c E packet s)"
proof -
  have cont: "serves E s0 (Handle_c_continue E th s')"
    if "prepared E s0 s'" "p_handle (i_proc s') \<noteq> MX_HANDLE_INVALID \<or> th \<noteq> None" for th s'
    using that unfolding Handle_c_continue_def
    by (auto split: option.split intro!: serves_bindI [OF resume_prepared] served
        serves_bindI [OF start_prepared] serves_bindI [OF pick_prepared] prepared_SetCurrentThread)
  show ?thesis
    unfolding Handle_c_def prepared_attached [OF assms] Let_def using assms
    by (auto split: option.split intro!: served cont serves_bindI [OF set_pc_prepared])
qed

lemma Handle_C_serves:
  assumes "prepared E s0 s"
  shows "serves E s0 (Handle_C E packet s)"
proof -
  have cont: "serves E s0 (Handle_C_continue E a tid s')" if "prepared E s0 s'" for a tid s'
    using that unfolding Handle_C_continue_def Let_def
    by (auto split: option.split intro!: serves_bindI [OF resume_prepared] served serves_bindI [OF set_pc_prepared])
  show ?thesis
    unfolding Handle_C_def prepared_attached [OF assms] Let_def using assms
    by (auto split: option.split intro!: served cont serves_bind_any)
qed

lemma Handle_D_serves: "prepared E s0 s \<Longrightarrow> serves E s0 (Handle_D E packet s)"
  unfolding Handle_D_def Let_def
  by (auto split: option.split simp: prepared_attached intro!: served serves_bindI [OF detach_prepared])

lemma Handle_gG_serves:
  assumes "prepared E s0 s"
  shows "serves E s0 (Handle_g E s)" "serves E s0 (Handle_G E packet s)"
  unfolding Handle_g_def Handle_G_def prepared_attached [OF assms] using assms
  by (auto split: option.split intro!: served serves_bind_any dest!: preparedD)

lemma Handle_H_serves: "prepared E s0 s \<Longrightarrow> serves E s0 (Handle_H E packet s)"
  unfolding Handle_H_def
  by (auto split: option.split intro!: served serves_bindI [OF fresh_prepared] serves_bindI [OF pick_prepared]
      serves_bindI [OF find_prepared] prepared_SetCurrentThread)

lemma Handle_mM_serves:
  assumes "prepared E s0 s"
  shows "serves E s0 (Handle_m E packet s)" "serves E s0 (Handle_M E packet s)"
  unfolding Handle_m_def Handle_M_def prepared_attached [OF assms] Let_def Process_WriteMemory_def using assms
  by (auto split: option.split intro!: served serves_bind_any prepared_kernel simp: bind_eq_Some_conv)

lemma Handle_T_serves:
  assumes "prepared E s0 s"
  shows "serves E s0 (Handle_T E packet s)"
  unfolding Handle_T_def prepared_attached [OF assms] using assms
  by (auto split: option.split intro!: served serves_bind_any dest!: preparedD)

lemma HandleQueryCurrentThreadId_serves:
  "prepared E s0 s \<Longrightarrow> serves E s0 (HandleQueryCurrentThreadId E params s)"
  unfolding HandleQueryCurrentThreadId_def Let_def
  by (auto split: option.split intro!: served serves_bind_any dest!: preparedD)

lemma collect_prepared: "prepared E s0 s \<Longrightarrow> post (\<lambda>(a, s'). prepared E s0 s') (collect_thread_id F tid a s)"
  by (cases a) (auto simp: collect_thread_id_def post_def bind_eq_Some_conv Let_def)

lemma each_liveD:
  assumes "Process_ForEachLiveThread (en_mx E) callback a s = Some (a', s')" and "prepared E s0 s"
    and "\<And>tid a s. prepared E s0 s \<Longrightarrow> post (\<lambda>(a, s'). prepared E s0 s') (callback tid a s)"
  shows "prepared E s0 s'"
  using postD [OF each_live_prepared [OF assms(2,3)] assms(1)] by simp

lemma HandleQueryThreadInfo_serves:
  "prepared E s0 s \<Longrightarrow> serves E s0 (HandleQueryThreadInfo E b s)"
  unfolding HandleQueryThreadInfo_def Let_def
  by (auto intro!: served serves_bind_any prepared_fields
      dest!: preparedD(4) each_liveD [OF _ _ collect_prepared])

lemma HandleQueryRcmd_serves:
  assumes "prepared E s0 s"
  shows "serves E s0 (HandleQueryRcmd E command s)"
proof -
  let ?q = "s\<lparr>srv_tasks := srv_tasks s @ [WriteTask False ''OK'', QuitTask], srv_run_status := True\<rparr>"
  have "rsp_inv s" "service_ok (en_mx E) s" using assms by (simp_all add: prepared_def)
  then have inv: "rsp_inv ?q" "service_ok (en_mx E) ?q" and io: "srv_io_loop s"
    using service_ok_proc [of ?q s]
    by (auto simp: rsp_inv_def notifications_def kMaxBufferSize_def)
  have "(do { (handled, s) \<leftarrow> ReplyOK s; Some (True, Server_PostQuitMessageLoop True s) }) = Some (True, ?q)"
    using io by (simp add: ReplyOK_def reply_def PostPacketWriteTask_def PostWriteTask_def
        Server_PostQuitMessageLoop_def kMaxBufferSize_def)
  with inv assms have quit:
    "serves E s0 (do { (handled, s) \<leftarrow> ReplyOK s; Some (True, Server_PostQuitMessageLoop True s) })"
    by (simp add: serves_def prepared_def answered_def io_same_def)
  have set: "serves E s0 (case SetParameter E p v s of (ok, s) \<Rightarrow> if \<not> ok then reply d s else ReplyOK s)" for p v d
    using assms by (auto simp: SetParameter_def intro!: served prepared_fields split: option.split)
  show ?thesis
    unfolding HandleQueryRcmd_def Let_def using quit set served [OF assms]
    by (simp split: option.split)
qed

lemma HandleQueryXfer_serves: "prepared E s0 s \<Longrightarrow> serves E s0 (HandleQueryXfer E params s)"
  unfolding HandleQueryXfer_def Let_def by (auto split: option.split intro: served)

lemma Handle_q_serves:
  assumes "prepared E s0 s"
  shows "serves E s0 (Handle_q E pre params s)" "serves E s0 (Handle_Q E pre params s)"
  using assms
  by (auto simp: Handle_q_def Handle_Q_def HandleQueryAttached_def HandleQuerySupported_def HandleSetNonStop_def
      intro: served HandleQueryCurrentThreadId_serves HandleQueryThreadInfo_serves HandleQueryRcmd_serves
        HandleQueryXfer_serves)

lemma serves_attached:
  "prepared E s0 s \<Longrightarrow> ((p_handle (i_proc s) \<noteq> MX_HANDLE_INVALID) = b \<Longrightarrow> serves E s0 (f ())) \<Longrightarrow>
    serves E s0 (attached_is b s \<bind> f)"
  by (simp add: attached_is_def prepared_attached)

lemma Handle_vAttach_serves: "prepared E s0 s \<Longrightarrow> serves E s0 (Handle_vAttach E packet s)"
  unfolding Handle_vAttach_def
  by (auto split: option.split intro!: served serves_attached serves_bindI [OF initialize_pid_prepared]
      serves_bindI [OF attach_prepared])

lemma resolve_prepared: "prepared E s0 s \<Longrightarrow> post (prepared E s0) (vCont_resolve E es s)"
proof (induction es arbitrary: s)
  case (Cons e es)
  have "post (prepared E s0) (get_thread t s' \<bind> (\<lambda>t. set_picked_tid (t_id t) e \<bind> (\<lambda>e. vCont_resolve E es s')))"
    if "prepared E s0 s'" for t s'
    using Cons.IH [OF that] by (auto simp: post_def bind_eq_Some_conv)
  with Cons show ?case
    by (auto intro!: post_bindI [OF pick_prepared] split: option.split)
qed simp

lemma check_prepared: "prepared E s0 s \<Longrightarrow> post (\<lambda>(a, s'). prepared E s0 s') (vCont_check al tid ok s)"
  by (auto simp: vCont_check_def post_def bind_eq_Some_conv)

lemma run_prepared: "prepared E s0 s \<Longrightarrow> post (\<lambda>(a, s'). prepared E s0 s') (vCont_run E al tid u s)"
  unfolding vCont_run_def
  by (auto simp: post_def bind_eq_Some_conv dest!: preparedD
      split: if_splits)

lemma Handle_vCont_serves: "prepared E s0 s \<Longrightarrow> serves E s0 (Handle_vCont E packet s)"
  unfolding Handle_vCont_def Let_def
  by (auto intro!: served serves_bind_any dest!: postD [OF resolve_prepared, rotated]
      each_liveD [OF _ _ check_prepared] each_liveD [OF _ _ run_prepared])

lemma Handle_vKill_serves: "prepared E s0 s \<Longrightarrow> serves E s0 (Handle_vKill E packet s)"
  unfolding Handle_vKill_def
  by (auto split: option.split intro!: served serves_bindI [OF kill_prepared])

lemma serves_started:
  "prepared E s0 s \<Longrightarrow> p_state (i_proc s) = prc_kStarting \<Longrightarrow> serves E s0 (Some (True, s))"
  by (simp add: serves_def prepared_def answered_def)

lemma Handle_vRun_serves:
  assumes "prepared E s0 s"
  shows "serves E s0 (Handle_vRun E packet s)"
proof -
  have argv: "prepared E s0 (s\<lparr>i_proc := (i_proc s)\<lparr>p_argv := a\<rparr>\<rparr>)" for a
    by (rule prepared_quiet [OF assms]) (auto simp: quiet_def proc_core_def Process_IsLive_def)
  have "serves E s0 (vRun_start E s')" if "prepared E s0 s'" for s'
    using that unfolding vRun_start_def
    by (auto intro!: served serves_attached serves_started serves_bindI [OF initialize_prepared]
        serves_bindI [OF attach_prepared] serves_bindI [OF start_prepared])
  with assms argv show ?thesis
    unfolding Handle_vRun_def Let_def by (auto intro: served)
qed

lemma HandleCommand_serves:
  assumes "prepared E s0 s"
  shows "serves E s0 (HandleCommand E packet s)"
proof -
  have v: "serves E s0 (Handle_v E p s)" for p
    using assms by (auto simp: Handle_v_def intro: served Handle_vAttach_serves Handle_vCont_serves
        Handle_vKill_serves Handle_vRun_serves)
  have q: "serves E s0 (do { (pre, params) \<leftarrow> ExtractParameters p;
      if b then Handle_q E pre params s else Handle_Q E pre params s })" for p b
    using assms by (auto intro!: serves_bind_any intro: Handle_q_serves)
  show ?thesis
    unfolding HandleCommand_def Let_def HandleQuestionMark_def Handle_zZ_def
    using assms v q [of _ True, simplified] q [of _ False, simplified]
    by (simp add: served Handle_c_serves Handle_C_serves Handle_D_serves Handle_gG_serves Handle_H_serves
        Handle_mM_serves Handle_T_serves q)
qed

end

end
