(* ===== verification/Cmd_Props.thy ===== *)
theory Cmd_Props
  imports Cmd_Inv
begin

text \<open>
  What single commands do: memory, the list of threads, the auxiliary vector, starting programs and
  continuing threads.
\<close>

section \<open>Memory\<close>

text \<open>The arguments of \<^verbatim>\<open>m\<close> and \<^verbatim>\<open>M\<close> as a debugger writes them.\<close>

definition memory_args :: "u64 \<Rightarrow> nat \<Rightarrow> string" where
  "memory_args addr n = number_string 16 (uint addr) @ '','' @ number_string 16 (int n)"

lemma number_string_hex: "0 \<le> v \<Longrightarrow> number_string 16 v \<noteq> [] \<and> set (number_string 16 v) \<subseteq> hex_alphabet"
  using nat_string_hex by (simp add: number_string_def)

lemma separators_not_hex: "CHR '','' \<notin> hex_alphabet" "CHR '':'' \<notin> hex_alphabet"
  by (simp_all add: hex_alphabet_def)

lemma separator_notin_number:
  "0 \<le> v \<Longrightarrow> CHR '','' \<notin> set (number_string 16 v)" "0 \<le> v \<Longrightarrow> CHR '':'' \<notin> set (number_string 16 v)"
  using number_string_hex separators_not_hex by blast+

lemma split_memory_args:
  assumes "ftl_conversions F"
  shows "SplitString F (memory_args a n) '','' False True = [number_string 16 (uint a), number_string 16 (int n)]"
  unfolding memory_args_def
  using ftl_conversions.split_two [OF assms, of "CHR '',''" "number_string 16 (uint a)" "number_string 16 (int n)"]
    separator_notin_number number_string_hex by simp

lemma colon_notin_data: "CHR '':'' \<notin> set (EncodeByteArrayString bs)"
  using EncodeByteArrayString_alphabet [of bs] by (auto simp: hex_lower_def byte_of_def)

lemma split_M:
  assumes "ftl_conversions F"
  shows "SplitString F (memory_args a n @ '':'' @ EncodeByteArrayString bs) '':'' False False
    = [memory_args a n, EncodeByteArrayString bs]"
  using ftl_conversions.split_all_two [OF assms, of "CHR '':''" "memory_args a n" "EncodeByteArrayString bs"]
    separator_notin_number colon_notin_data by (simp add: memory_args_def)

lemma DecodeByteArrayString_Encode: "DecodeByteArrayString (EncodeByteArrayString bs) = bs"
  by (simp add: DecodeByteArrayString_def decode_loop_encode)

lemma parse_hex: "ftl_conversions F \<Longrightarrow> in_range UInt64 v \<Longrightarrow>
    StringToNumberWithError F UInt64 16 (number_string 16 v) = Some v"
  by (simp add: ftl_conversions.parse_number)

lemma BuildErrorPacket_not_OK: "BuildErrorPacket F e \<noteq> ''OK''"
  by (simp add: BuildErrorPacket_def Let_def)

lemma length_BuildErrorPacket:
  assumes "ftl_conversions F"
  shows "length (BuildErrorPacket F e) \<le> 5"
proof -
  have "length (nat_string 10 (nat (error_value e))) \<le> 4"
    using error_value_bounds [of e] by (intro length_nat_string) auto
  then show ?thesis
    using ftl_conversions.print_number [OF assms error_value_in_range, of 10 e] error_value_bounds [of e]
    by (simp add: BuildErrorPacket_def Let_def number_string_def)
qed

lemma reply_eq:
  "srv_io_loop s \<Longrightarrow> length d + 4 < kMaxBufferSize \<Longrightarrow>
    reply d s = Some (True, s\<lparr>srv_tasks := srv_tasks s @ [WriteTask False d]\<rparr>)"
  by (simp add: reply_def PostPacketWriteTask_def PostWriteTask_eq)

lemma replies_eq:
  assumes "ftl_conversions (en_ftl E)" and "srv_io_loop s"
  shows "ReplyOK s = Some (True, s\<lparr>srv_tasks := srv_tasks s @ [WriteTask False ''OK'']\<rparr>)"
    "ReplyWithError E e s =
      Some (True, s\<lparr>srv_tasks := srv_tasks s @ [WriteTask False (BuildErrorPacket (en_ftl E) e)]\<rparr>)"
  using assms length_BuildErrorPacket [OF assms(1), of e]
  by (simp_all add: ReplyOK_def ReplyWithError_def reply_eq kMaxBufferSize_def)

text \<open>
  C6: memory written with \<^verbatim>\<open>M\<close> reads back with \<^verbatim>\<open>m\<close>.  On an attached process the \<^verbatim>\<open>M\<close> command
  always answers with one packet, and when that is \<^verbatim>\<open>OK\<close>, an \<^verbatim>\<open>m\<close> command for the same range right
  after it answers with exactly the bytes written, as long as they fit the output buffer.
\<close>

theorem Handle_M_then_m:
  assumes "rsp_env E" and "service_ok (en_mx E) s" and "rsp_inv s"
    and "p_handle (i_proc s) \<noteq> MX_HANDLE_INVALID" and "bytes \<noteq> []"
    and "2 * length bytes + 4 < kMaxBufferSize" and "en_new_ok E (of_nat (length bytes))"
  shows "\<exists>d s1. Handle_M E (memory_args addr (length bytes) @ '':'' @ EncodeByteArrayString bytes) s = Some (True, s1)
    \<and> srv_tasks s1 = srv_tasks s @ [WriteTask False d]
    \<and> (d = ''OK'' \<longrightarrow> Handle_m E (memory_args addr (length bytes)) s1 =
        Some (True, s1\<lparr>srv_tasks := srv_tasks s1 @ [WriteTask False (EncodeByteArrayString bytes)]\<rparr>))"
proof -
  note K = rsp_env.kernel [OF assms(1)] and F = rsp_env.conversions [OF assms(1)]
  let ?h = "p_handle (i_proc s)"
  have mem: "byte_block (ProcessMemory_Read (en_mx E) ?h) (ProcessMemory_Write (en_mx E) ?h)"
    using K assms(4) by (intro mx_process.memory_byte_block) (simp add: mx_process_def mx_process_axioms_def)
  have io: "srv_io_loop s" using assms(3) by (simp add: rsp_inv_def)
  have att: "Process_IsAttached (i_proc s) = Some True"
    using IsAttached_core [OF service_core [OF assms(2)]] assms(4) by simp
  have rng: "in_range UInt64 (uint addr)" "in_range UInt64 (int (length bytes))"
    using assms(6) koid_in_range [of addr] by (simp_all add: kMaxBufferSize_def)
  have parse: "StringToNumberWithError (en_ftl E) UInt64 16 (number_string 16 (uint addr)) = Some (uint addr)"
    "StringToNumberWithError (en_ftl E) UInt64 16 (number_string 16 (int (length bytes))) = Some (int (length bytes))"
    using parse_hex [OF F] rng by blast+
  obtain ok k' where w: "ProcessMemory_Write (en_mx E) ?h addr bytes (i_k s) = Some (ok, k')"
    using byte_block.write_total [OF mem] by fastforce
  define d where "d = (if ok then ''OK'' else BuildErrorPacket (en_ftl E) PERM)"
  let ?s1 = "s\<lparr>i_k := k', srv_tasks := srv_tasks s @ [WriteTask False d]\<rparr>"
  have M: "Handle_M E (memory_args addr (length bytes) @ '':'' @ EncodeByteArrayString bytes) s = Some (True, ?s1)"
    using io assms(5) replies_eq [OF F, of "s\<lparr>i_k := k'\<rparr>"]
    by (simp add: Handle_M_def att Let_def split_M [OF F, simplified] split_memory_args [OF F] parse
        DecodeByteArrayString_Encode Process_WriteMemory_def w d_def)
  have m: "Handle_m E (memory_args addr (length bytes)) ?s1 =
      Some (True, ?s1\<lparr>srv_tasks := srv_tasks ?s1 @ [WriteTask False (EncodeByteArrayString bytes)]\<rparr>)"
    if "d = ''OK''"
  proof -
    have "ok" using that BuildErrorPacket_not_OK by (auto simp: d_def split: if_splits)
    with w byte_block.write_read [OF mem assms(5)]
    have "ProcessMemory_Read (en_mx E) ?h addr (length bytes) k' = Some (Some bytes)" by simp
    then show ?thesis
      using io assms(6,7) reply_eq [of ?s1 "EncodeByteArrayString bytes"]
      by (simp add: Handle_m_def att Let_def split_memory_args [OF F] parse Process_ReadMemory_def)
  qed
  from M m show ?thesis by (intro exI [of _ d] exI [of _ ?s1]) simp
qed

theorem Handle_M_then_m_witness:
  "\<exists>d s1. Handle_M demo_env (memory_args 0x1000 2 @ '':'' @ EncodeByteArrayString [0xab, 0xcd]) demo_server
      = Some (True, s1) \<and> srv_tasks s1 = [WriteTask False d]"
proof -
  have "2 * length [0xab, 0xcd :: u8] + 4 < kMaxBufferSize" "en_new_ok demo_env (of_nat (length [0xab, 0xcd :: u8]))"
    "p_handle (i_proc demo_server) \<noteq> MX_HANDLE_INVALID" "[0xab, 0xcd :: u8] \<noteq> []"
    by (simp_all add: kMaxBufferSize_def demo_server_ok)
  from Handle_M_then_m [OF demo.rsp_env_axioms _ demo_server_ok(2) this(3,4,1,2), where addr = "0x1000"] show ?thesis
    by (simp add: demo_server_ok numeral_2_eq_2) blast
qed

section \<open>The list of threads\<close>

definition thread_texts :: "ftl \<Rightarrow> thread list \<Rightarrow> string list" where
  "thread_texts F ts =
     map (\<lambda>t. NumberToString F UInt64 16 (uint (t_id t))) (filter (\<lambda>t. t_state t \<noteq> thr_kGone) ts)"

definition live_thread_texts :: "'k env \<Rightarrow> 'k rsp_server \<Rightarrow> string list" where
  "live_thread_texts E s = thread_texts (en_ftl E) (um_threads (en_mx E) (p_threads (i_proc s)))"

lemma collect_loop:
  assumes "\<forall>i \<in> set tids. get_thread i s \<noteq> None"
  shows "for_threads (live_callback (collect_thread_id F)) tids (ids, n) s =
    (let new = thread_texts F (List.map_filter (\<lambda>i. get_thread i s) tids)
     in Some ((ids @ new, n + sum_list (map length new)), s))"
  using assms
proof (induction tids arbitrary: ids n)
  case (Cons i tids)
  then obtain t where "get_thread i s = Some t" by auto
  with Cons show ?case
    by (simp add: live_callback_def collect_thread_id_def Let_def thread_texts_def map_filter_def)
qed (simp add: thread_texts_def map_filter_def)

lemma collect_all:
  assumes "mx_kernel K" and "\<not> p_thread_map_stale (i_proc s)"
  shows "Process_ForEachLiveThread K (collect_thread_id F) ([], 0) s =
    (let new = thread_texts F (um_threads K (p_threads (i_proc s))) in Some ((new, sum_list (map length new)), s))"
proof -
  have "get_thread i s \<noteq> None" if "i \<in> set (um_order K (map fst (p_threads (i_proc s))))" for i
    using that mx_kernel.um_order_set [OF assms(1)] by (auto simp: get_thread_def map_of_eq_None_iff)
  then show ?thesis using assms(2)
    by (simp add: Process_ForEachLiveThread_def Process_EnsureThreadMapFresh_def collect_loop um_threads_def
        get_thread_def [abs_def])
qed



section \<open>The auxiliary vector\<close>

definition auxv_bytes :: "process \<Rightarrow> u8 list" where
  "auxv_bytes p = concat (map (\<lambda>(key, value). le_bytes 8 key @ le_bytes 8 value) (auxv_entries p))"

definition xfer_args :: "int \<Rightarrow> int \<Rightarrow> string" where
  "xfer_args offset len = ''auxv:read::'' @ number_string 16 offset @ '','' @ number_string 16 len"

lemma auxv_count: "length (auxv_entries p) = 2 \<or> length (auxv_entries p) = 6"
  by (simp add: auxv_entries_def split: option.split)

lemma length_auxv_bytes: "length (auxv_bytes p) = 16 * length (auxv_entries p)"
proof -
  have "length (concat (map (\<lambda>(key, value). le_bytes 8 key @ le_bytes 8 value) xs)) = 16 * length xs"
    for xs :: "(u64 \<times> u64) list" by (induction xs) auto
  then show ?thesis by (simp add: auxv_bytes_def)
qed

lemma auxv_image_bytes:
  "auxv_image E s = auxv_bytes (i_proc s) @
     drop (length (auxv_bytes (i_proc s))) (stack_bytes (en_mx E) (kMaxAuxvEntries * 16) (i_k s))"
  by (simp add: auxv_image_def auxv_bytes_def Let_def)

lemma HandleQueryXfer_parsed:
  assumes "ftl_conversions (en_ftl E)" and "in_range UInt64 offset" and "in_range UInt64 len"
  shows "HandleQueryXfer E (xfer_args offset len) s =
    (if offset > 160 then ReplyWithError E INVAL s
     else do {
       let rsp_len = min (of_nat (length (auxv_bytes (i_proc s))) - word_of_int offset :: u64) (word_of_int len);
       dcheck (nat offset * 16 + unat rsp_len \<le> 160);
       reply (CHR ''l'' # map char_of_byte (substr (auxv_image E s) (nat offset * 16) (unat rsp_len))) s
     })"
proof -
  have nn: "0 \<le> offset" "0 \<le> len" using assms(2,3) by simp_all
  have split: "SplitString (en_ftl E) (number_string 16 offset @ '','' @ number_string 16 len) '','' False True
      = [number_string 16 offset, number_string 16 len]"
    using ftl_conversions.split_two [OF assms(1), of "CHR '',''" "number_string 16 offset" "number_string 16 len"]
      separator_notin_number [OF nn(1)] separator_notin_number [OF nn(2)] number_string_hex [OF nn(1)]
      number_string_hex [OF nn(2)] by simp
  have "StartsWith (xfer_args offset len) ''auxv:read::''" by (simp add: StartsWith_def xfer_args_def)
  moreover have "substr_from (xfer_args offset len) (length ''auxv:read::'') =
      number_string 16 offset @ '','' @ number_string 16 len" by (simp add: xfer_args_def substr_from_def)
  ultimately show ?thesis
    using auxv_count [of "i_proc s"]
    by (auto simp: HandleQueryXfer_def Let_def split [simplified] parse_hex [OF assms(1,2)] parse_hex [OF assms(1,3)]
        kMaxAuxvEntries_def length_auxv_bytes mult.commute)
qed

text \<open>
  C10: reading the auxiliary vector.  A read from offset 0 is answered with the vector, cut to the
  length asked for, and nothing of the uninitialised rest of the array is sent.  An offset beyond
  the size of the array is refused.  Every offset from 11 to the size of the array is undefined
  behaviour, because the code advances by entries where it means bytes.
\<close>

theorem HandleQueryXfer_auxv:
  assumes "rsp_env E" and "in_range UInt64 offset" and "in_range UInt64 len"
  shows "(offset = 0 \<longrightarrow> HandleQueryXfer E (xfer_args offset len) s =
      reply (CHR ''l'' # map char_of_byte (take (nat len) (auxv_bytes (i_proc s)))) s)
    \<and> (160 < offset \<longrightarrow> HandleQueryXfer E (xfer_args offset len) s = ReplyWithError E INVAL s)
    \<and> (11 \<le> offset \<and> offset \<le> 160 \<longrightarrow> HandleQueryXfer E (xfer_args offset len) s = None)"
proof -
  note parsed = HandleQueryXfer_parsed [OF rsp_env.conversions [OF assms(1)] assms(2,3)]
  let ?b = "auxv_bytes (i_proc s)"
  have b: "length ?b = 32 \<or> length ?b = 96" using auxv_count [of "i_proc s"] by (auto simp: length_auxv_bytes)
  have "uint (word_of_int len :: u64) = len" using assms(3) by (simp add: uint_word_of_int)
  then have len: "unat (word_of_int len :: u64) = nat len" by (simp only: unat_eq_nat_uint)
  have n: "unat (of_nat (length ?b) :: u64) = length ?b" using b by auto
  have "unat (min (of_nat (length ?b) :: u64) (word_of_int len)) = min (length ?b) (nat len)"
    unfolding min_def word_le_nat_alt n len by (simp only: if_distrib [of unat] n len)
  moreover have "substr (auxv_image E s) 0 (min (length ?b) (nat len)) = take (nat len) ?b"
    by (simp add: auxv_image_bytes min_def)
  ultimately show ?thesis unfolding parsed Let_def using b by (auto simp: min_le_iff_disj)
qed

theorem HandleQueryXfer_auxv_witness:
  "HandleQueryXfer demo_env (xfer_args 32 1) demo_server = None"
  using HandleQueryXfer_auxv [OF demo.rsp_env_axioms, of 32 1 demo_server] by simp

section \<open>Starting a program\<close>

lemma semicolon_notin_text: "CHR '';'' \<notin> set (EncodeString a)"
  using EncodeByteArrayString_alphabet [of "map byte_of a"]
  by (auto simp: EncodeString_def hex_lower_def byte_of_def)

lemma decode_text: "map char_of_byte (DecodeByteArrayString (EncodeString a)) = a"
  unfolding EncodeString_def DecodeByteArrayString_Encode by (rule map_char_of_byte_of)

text \<open>
  A debugger that sends the arguments of a program as hexadecimal texts separated by semicolons
  starts it with exactly these arguments, empty ones in the middle included; only empty arguments
  at the end are lost.
\<close>

lemma BuildArgvFor_vRun_roundtrip:
  assumes "argv \<noteq> []" and "last argv \<noteq> []"
  shows "BuildArgvFor_vRun (join (CHR '';'') (map EncodeString argv)) = argv"
  using assms
proof (induction argv)
  case (Cons a argv)
  note IH = Cons.IH and prems = Cons.prems
  show ?case
  proof (cases argv)
    case Nil
    with Cons.prems have "EncodeString a \<noteq> []" by (cases a) (auto simp: EncodeString_def EncodeByteString_def)
    moreover have "find_char (CHR '';'') (EncodeString a) = None"
      by (simp add: find_char_None semicolon_notin_text)
    ultimately show ?thesis using Nil
      by (subst BuildArgvFor_vRun.simps) (simp add: decode_text Let_def, simp add: BuildArgvFor_vRun.simps)
  next
    case (Cons b bs)
    let ?rest = "join (CHR '';'') (map EncodeString argv)"
    have j: "join (CHR '';'') (map EncodeString (a # argv)) = EncodeString a @ CHR '';'' # ?rest"
      using Cons by simp
    have "find_char (CHR '';'') (EncodeString a @ CHR '';'' # ?rest) = Some (length (EncodeString a))"
      using find_char_append [OF semicolon_notin_text] by simp
    then show ?thesis unfolding j using IH prems Cons
      by (subst BuildArgvFor_vRun.simps) (simp add: Let_def decode_text)
  qed
qed simp

lemma BuildArgvFor_vRun_roundtrip_example:
  "BuildArgvFor_vRun (join (CHR '';'') (map EncodeString [''/boot/bin/sh'', [], ''-c''])) =
    [''/boot/bin/sh'', [], ''-c'']"
  by (rule BuildArgvFor_vRun_roundtrip) simp_all

section \<open>Continuing\<close>

definition continue_all :: action_list where
  "continue_all = \<lparr>tal_valid = True, tal_pick_ones_resolved = False, tal_default_action = kContinue, tal_actions = []\<rparr>"

lemma continue_all_sel: "tal_valid continue_all" "tal_actions continue_all = []"
  by (simp_all add: continue_all_def)

lemma ThreadActionList_c: "ThreadActionList F ''c'' pid = Some continue_all"
  by (simp add: ThreadActionList_def tal_loop.simps tal_item_def DecodeAction_def continue_all_def)

lemma GetAction_continue_all: "GetAction pid tid (MarkPickOnesResolved continue_all) = Some kContinue"
  by (simp add: GetAction_def MarkPickOnesResolved_def continue_all_def)

definition continued :: "thread \<Rightarrow> thread" where
  "continued t = (if t_state t \<in> {thr_kNew, thr_kStopped} then t\<lparr>t_state := thr_kRunning\<rparr> else t)"

lemma check_continue_all:
  "\<forall>i \<in> set tids. get_thread i s \<noteq> None \<Longrightarrow>
    for_threads (live_callback (vCont_check (MarkPickOnesResolved continue_all))) tids ok s = Some (ok, s)"
proof (induction tids)
  case (Cons i tids)
  then obtain t where "get_thread i s = Some t" by auto
  with Cons show ?case by (simp add: live_callback_def vCont_check_def GetAction_continue_all)
qed simp

lemma more_put_thread: "inferior.more (put_thread tid t (s\<lparr>i_k := k\<rparr>)) = inferior.more s"
  by (simp add: put_thread_def)

lemma run_continue_one:
  assumes "get_thread tid s = Some t"
    and "t_state t \<noteq> thr_kGone \<Longrightarrow> 0 \<le> fst (mx_task_resume (en_mx E) (t_handle t) (i_k s))"
  shows "run (\<lambda>(u, s'). inferior.more s' = inferior.more s \<and>
      (\<forall>j. get_thread j s' = (if j = tid then Some (continued t) else get_thread j s)))
    (live_callback (vCont_run E (MarkPickOnesResolved continue_all)) tid () s)"
proof (cases "t_state t \<in> {thr_kNew, thr_kStopped}")
  case True
  obtain st k where r: "mx_task_resume (en_mx E) (t_handle t) (i_k s) = (st, k)" by fastforce
  have "live_callback (vCont_run E (MarkPickOnesResolved continue_all)) tid () s =
      Some ((), put_thread tid (t\<lparr>t_state := thr_kRunning\<rparr>) (s\<lparr>i_k := k\<rparr>))"
    using True assms r
    by (auto simp: live_callback_def vCont_run_def GetAction_continue_all resume_thread_def on_thread_def
        Thread_Resume_def)
  with True assms(1) show ?thesis by (auto simp: continued_def more_put_thread)
next
  case False
  then have "live_callback (vCont_run E (MarkPickOnesResolved continue_all)) tid () s = Some ((), s)"
    using assms by (auto simp: live_callback_def vCont_run_def GetAction_continue_all)
  with False assms(1) show ?thesis by (simp add: continued_def)
qed

lemma run_continue_all:
  assumes "\<And>h k. h \<noteq> MX_HANDLE_INVALID \<Longrightarrow> 0 \<le> fst (mx_task_resume (en_mx E) h k)"
  shows "distinct tids \<Longrightarrow>
    \<forall>i \<in> set tids. \<exists>t. get_thread i s = Some t \<and> (t_state t \<noteq> thr_kGone \<longrightarrow> t_handle t \<noteq> MX_HANDLE_INVALID) \<Longrightarrow>
    run (\<lambda>(u, s'). inferior.more s' = inferior.more s \<and>
      (\<forall>j. get_thread j s' = (if j \<in> set tids then map_option continued (get_thread j s) else get_thread j s)))
    (for_threads (live_callback (vCont_run E (MarkPickOnesResolved continue_all))) tids () s)"
proof (induction tids arbitrary: s)
  case (Cons i tids)
  then obtain t where t: "get_thread i s = Some t" "t_state t \<noteq> thr_kGone \<Longrightarrow> t_handle t \<noteq> MX_HANDLE_INVALID" by auto
  show ?case
    unfolding for_threads.simps
    by (rule run_bindI [OF run_continue_one [OF t(1) assms [OF t(2)]]])
      (use Cons t in \<open>auto intro!: run_mono [OF Cons.IH]\<close>)
qed simp

text \<open>
  C7: \<^verbatim>\<open>vCont;c\<close>.  On a live process whose thread map is fresh, when the kernel resumes every thread
  it is asked to, the command is answered with \<^verbatim>\<open>OK\<close>, every thread that was new or stopped is
  running afterwards and nothing else of any thread has changed.
\<close>

theorem Handle_vCont_continues:
  assumes "rsp_env E" and "service_ok (en_mx E) s" and "rsp_inv s" and "Process_IsLive (i_proc s)"
    and "\<not> p_thread_map_stale (i_proc s)"
    and "\<And>h k. h \<noteq> MX_HANDLE_INVALID \<Longrightarrow> 0 \<le> fst (mx_task_resume (en_mx E) h k)"
  shows "\<exists>s'. Handle_vCont E ''c'' s = Some (True, s') \<and> srv_tasks s' = srv_tasks s @ [WriteTask False ''OK'']
    \<and> (\<forall>tid. get_thread tid s' = map_option continued (get_thread tid s))"
proof -
  note K = rsp_env.kernel [OF assms(1)] and core = service_core [OF assms(2)]
  let ?tids = "um_order (en_mx E) (map fst (p_threads (i_proc s)))"
  have h: "p_handle (i_proc s) \<noteq> MX_HANDLE_INVALID" using core assms(4) unfolding proc_core_def by blast
  have keys: "\<forall>i \<in> set ?tids. get_thread i s \<noteq> None" "distinct ?tids"
    "i \<notin> set ?tids \<longleftrightarrow> get_thread i s = None" for i
    using mx_kernel.um_order_set [OF K] mx_kernel.um_order_distinct [OF K] core
    by (auto simp: get_thread_def map_of_eq_None_iff proc_core_def tmap_ok_def)
  have handles: "\<forall>i \<in> set ?tids. \<exists>t. get_thread i s = Some t \<and> (t_state t \<noteq> thr_kGone \<longrightarrow> t_handle t \<noteq> MX_HANDLE_INVALID)"
    using keys(1) get_thread_ok [OF core] by (fastforce simp: thread_ok_def)
  obtain u s2 where r: "for_threads (live_callback (vCont_run E (MarkPickOnesResolved continue_all))) ?tids () s = Some (u, s2)"
    and more: "inferior.more s2 = inferior.more s"
    and th: "\<forall>j. get_thread j s2 = (if j \<in> set ?tids then map_option continued (get_thread j s) else get_thread j s)"
    using run_continue_all [OF assms(6) keys(2) handles] by (auto elim!: runE)
  have "Handle_vCont E ''c'' s = ReplyOK s2"
    using assms(4,5) h check_continue_all [OF keys(1)] r IsAttached_core [OF core]
    by (simp add: Handle_vCont_def ThreadActionList_c Let_def attached_is_def Process_ForEachLiveThread_def
        Process_EnsureThreadMapFresh_def continue_all_sel)
  moreover have "srv_io_loop s2" using assms(3) by (simp add: rsp_more_eq [OF more] rsp_inv_def)
  moreover have "get_thread j s2 = map_option continued (get_thread j s)" for j
    using th keys(3) [of j] by simp
  ultimately show ?thesis
    by (simp add: replies_eq(1) [OF rsp_env.conversions [OF assms(1)]] rsp_more_eq [OF more])
      (simp add: get_thread_def)
qed

theorem Handle_vCont_continues_witness:
  "\<exists>s'. Handle_vCont demo_env ''c'' demo_server = Some (True, s') \<and> srv_tasks s' = [WriteTask False ''OK'']
    \<and> map_option t_state (get_thread 3 s') = Some thr_kRunning"
proof -
  have res: "0 \<le> fst (mx_task_resume (en_mx demo_env) h k)" if "h \<noteq> MX_HANDLE_INVALID" for h k
    using that by simp
  have "Process_IsLive (i_proc demo_server)" "\<not> p_thread_map_stale (i_proc demo_server)"
    "get_thread 3 demo_server = Some (demo_thread 0 3)"
    by (simp_all add: demo_server_def Process_IsLive_def get_thread_def Process_new_def)
  with Handle_vCont_continues [OF demo.rsp_env_axioms _ demo_server_ok(2) this(1,2) res] demo_server_ok(1)
  show ?thesis by (auto simp: demo_server_ok continued_def demo_thread_def)
qed

text \<open>
  When the kernel refuses to resume a stopped thread, the missing \<^verbatim>\<open>break\<close> makes a continue action
  end in a single step of the thread.
\<close>

lemma vCont_continue_falls_through:
  assumes "get_thread tid s = Some t" and "t_state t = thr_kStopped"
    and "GetAction (p_id (i_proc s)) (t_id t) actions = Some kContinue"
    and "mx_task_resume (en_mx E) (t_handle t) (i_k s) = (status, k)" and "status < 0"
  shows "vCont_run E actions tid () s =
    map_option (Pair () \<circ> snd) (on_thread tid (Thread_Step (en_mx E)) (put_thread tid t (s\<lparr>i_k := k\<rparr>)))"
  using assms by (simp add: vCont_run_def resume_thread_def on_thread_def Thread_Resume_def)

end
