(* ===== verification/Rsp_Server.thy ===== *)
theory Rsp_Server
  imports Cmd_Inv
begin

text \<open>
  The server as a whole: what \<^verbatim>\<open>RspServer::OnBytesRead\<close> does with the bytes of a client, the tasks of
  the main loop, and how the program starts (\<^verbatim>\<open>RspServer::Run\<close>, \<^verbatim>\<open>main\<close>).  \<open>server_step\<close> is one
  step of the running program: the main loop runs its first task or a delayed one whose time has
  come, the read, write and exception threads post tasks, the kernel moves.  The result of
  \<^verbatim>\<open>Listen\<close>, which is in \<^verbatim>\<open>Io_Loop\<close>, and the command line parser are parameters.
\<close>

section \<open>Definitions\<close>

text \<open>The acknowledgement of a notification.\<close>

definition OnStopAck :: "'k rsp_server \<Rightarrow> 'k rsp_server option" where
  "OnStopAck s =
     (if srv_pending s \<noteq> None then
        (case srv_notify_queue s of
           notif # queue \<Rightarrow> PostPacketWriteTask (nt_event notif) (s\<lparr>srv_notify_queue := queue\<rparr>)
         | [] \<Rightarrow> PostPacketWriteTask ''OK'' (s\<lparr>srv_pending := None\<rparr>))
      else Some s)"

definition OnBytesRead :: "'k env \<Rightarrow> string \<Rightarrow> 'k rsp_server \<Rightarrow> 'k rsp_server option" where
  "OnBytesRead E bytes_read s =
     (if bytes_read = ''+'' then Some s
      else
        let packet_data = VerifyPacket bytes_read; verified = (packet_data \<noteq> None) in
        do {
          s \<leftarrow> SendAck verified s;
          if \<not> verified then Some s
          else if the packet_data = kStopAck then OnStopAck s
          else do {
            (handled, s) \<leftarrow> HandleCommand E (the packet_data) s;
            if handled then Some s else PostPacketWriteTask [] s
          }
        })"

text \<open>The i/o threads: a result of \<^verbatim>\<open>read\<close> and of \<^verbatim>\<open>write\<close>, and what is posted to the main loop.\<close>

datatype read_result = Read_closed | Read_error | Read_bytes string

definition RspIOLoop_OnReadTask :: "read_result \<Rightarrow> task" where
  "RspIOLoop_OnReadTask r =
     (case r of
        Read_closed \<Rightarrow> DisconnectTask
      | Read_error \<Rightarrow> ErrorTask
      | Read_bytes bytes_read \<Rightarrow> ReadTask bytes_read)"

definition IOLoop_write_done :: "string \<Rightarrow> int \<Rightarrow> task list" where
  "IOLoop_write_done bytes bytes_written = (if bytes_written \<noteq> int (length bytes) then [ErrorTask] else [])"

definition run_task :: "'k env \<Rightarrow> task \<Rightarrow> 'k rsp_server \<Rightarrow> 'k rsp_server option" where
  "run_task E t s =
     (case t of
        WriteTask notify data \<Rightarrow> run_WriteTask notify data s
      | ReadTask bytes_read \<Rightarrow> OnBytesRead E bytes_read s
      | ExceptionTask packet \<Rightarrow>
          Worker_task (Process_OnException (en_mx E) (en_dso E) (rsp_delegate E)) (i_eport s) packet s
      | DisconnectTask \<Rightarrow> Some (RspServer_OnDisconnected s)
      | ErrorTask \<Rightarrow> Some (RspServer_OnIOError s)
      | QuitTask \<Rightarrow> Some (s\<lparr>srv_quit := True\<rparr>))"

definition RspServer_new :: "u64 \<Rightarrow> int \<Rightarrow> 'k \<Rightarrow> 'k rsp_server" where
  "RspServer_new g_key_counter min_log_level k =
     \<lparr>i_proc = Process_new, i_eport = ExceptionPort_new g_key_counter, i_k = k,
      srv_current_thread = None, srv_run_status = True, srv_io_loop = False,
      srv_min_log_level = min_log_level, srv_in_thread_info_sequence = False, srv_notify_queue = [],
      srv_pending = None, srv_allocated = 0, srv_tasks = [], srv_timers = [], srv_written = [],
      srv_quit = False\<rparr>"

text \<open>\<open>RspServer_start\<close> is \<^verbatim>\<open>Run\<close> up to the main loop, \<open>RspServer_finish\<close> the rest of it.\<close>

definition start_attach :: "'k env \<Rightarrow> 'k rsp_server \<Rightarrow> 'k handled" where
  "start_attach E s =
     (if p_attached_running (i_proc s) then
        do {
          attached_is False s;
          (ok, s) \<leftarrow> Process_Attach (en_mx E) s;
          if \<not> ok then Some (False, s)
          else do {
            attached_is True s;
            dcheck (Process_IsLive (i_proc s));
            Some (True, s)
          }
        }
      else Some (True, s))"

definition RspServer_start :: "'k env \<Rightarrow> bool \<Rightarrow> 'k rsp_server \<Rightarrow> 'k handled" where
  "RspServer_start E listening s =
     do {
       dcheck (\<not> srv_io_loop s);
       (ok, ep, k) \<leftarrow> ExceptionPort_Run (en_mx E) (i_eport s) (i_k s);
       let s = s\<lparr>i_eport := ep, i_k := k\<rparr>;
       if \<not> ok then Some (False, s)
       else do {
         (ok, s) \<leftarrow> start_attach E s;
         if \<not> ok \<or> \<not> listening then
           do {
             ep \<leftarrow> ExceptionPort_Quit (i_eport s);
             Some (False, s\<lparr>i_eport := ep\<rparr>)
           }
         else Some (True, s\<lparr>srv_io_loop := True\<rparr>)
       }
     }"

definition RspServer_finish :: "'k rsp_server \<Rightarrow> 'k handled" where
  "RspServer_finish s =
     do {
       ep \<leftarrow> ExceptionPort_Quit (i_eport s);
       Some (srv_run_status s, s\<lparr>i_eport := ep\<rparr>)
     }"

text \<open>
  What the sources read of \<^verbatim>\<open>ftl::CommandLine\<close>; \<open>cl_log_level\<close> is \<open>None\<close> where
  \<^verbatim>\<open>SetLogSettingsFromCommandLine\<close> fails.  \<open>debugserver_main\<close> is \<^verbatim>\<open>main\<close> up to the call of \<^verbatim>\<open>Run\<close>:
  an exit status, or the server to run.
\<close>

record command_line =
  cl_help :: bool
  cl_positional_args :: "string list"
  cl_log_level :: "int option"
  cl_attach :: "string option"

definition EXIT_SUCCESS :: int where "EXIT_SUCCESS = 0"
definition EXIT_FAILURE :: int where "EXIT_FAILURE = 1"

definition debugserver_main ::
  "'k env \<Rightarrow> command_line \<Rightarrow> u64 \<Rightarrow> 'k \<Rightarrow> (int + 'k rsp_server) option" where
  "debugserver_main E cl g_key_counter k =
     (let F = en_ftl E; args = cl_positional_args cl;
          attach_pid = (case cl_attach cl of
            None \<Rightarrow> Some 0
          | Some text \<Rightarrow> StringToNumberWithError F UInt64 10 text)
      in if cl_help cl then Some (Inl EXIT_SUCCESS)
         else if length args < 1 then Some (Inl EXIT_FAILURE)
         else case cl_log_level cl of
           None \<Rightarrow> Some (Inl EXIT_FAILURE)
         | Some level \<Rightarrow>
             (case attach_pid of
                None \<Rightarrow> Some (Inl EXIT_FAILURE)
              | Some pid \<Rightarrow>
                  (case StringToNumberWithError F UInt16 10 (args ! 0) of
                     None \<Rightarrow> Some (Inl EXIT_FAILURE)
                   | Some port \<Rightarrow>
                       let s = RspServer_new g_key_counter level k in
                       if pid \<noteq> 0 \<and> tl args \<noteq> [] then Some (Inl EXIT_FAILURE)
                       else if pid \<noteq> 0 then
                         do {
                           (ok, s) \<leftarrow> Process_Initialize_pid (word_of_int pid) s;
                           Some (if \<not> ok then Inl EXIT_FAILURE else Inr s)
                         }
                       else Some (Inr (s\<lparr>i_proc := (i_proc s)\<lparr>p_argv := tl args\<rparr>\<rparr>)))))"

section \<open>The running program\<close>

inductive server_step :: "'k env \<Rightarrow> 'k rsp_server \<Rightarrow> 'k rsp_server \<Rightarrow> bool" for E where
  task: "\<not> srv_quit s \<Longrightarrow> srv_tasks s = t # ts \<Longrightarrow> run_task E t (s\<lparr>srv_tasks := ts\<rparr>) = Some s' \<Longrightarrow>
    server_step E s s'"
| timer: "\<not> srv_quit s \<Longrightarrow> srv_timers s = ts @ (a, d) # ts' \<Longrightarrow>
    run_timeout a (s\<lparr>srv_timers := ts @ ts'\<rparr>) = Some s' \<Longrightarrow> server_step E s s'"
| read: "server_step E s (s\<lparr>srv_tasks := srv_tasks s @ [RspIOLoop_OnReadTask r]\<rparr>)"
| written: "server_step E s (s\<lparr>srv_tasks := srv_tasks s @ IOLoop_write_done bytes n\<rparr>)"
| exception: "Worker rounds = Some packets \<Longrightarrow>
    server_step E s (s\<lparr>srv_tasks := srv_tasks s @ map ExceptionTask packets\<rparr>)"
| world: "server_step E s (s\<lparr>i_k := k\<rparr>)"

inductive server_reach :: "'k env \<Rightarrow> 'k rsp_server \<Rightarrow> bool" for E where
  start: "debugserver_main E cl g k = Some (Inr s) \<Longrightarrow> RspServer_start E listening s = Some (True, s') \<Longrightarrow>
    server_reach E s'"
| more: "server_reach E s \<Longrightarrow> server_step E s s' \<Longrightarrow> server_reach E s'"

section \<open>The invariant of the running program\<close>

lemma SendAck_eq:
  "rsp_inv s \<Longrightarrow> SendAck b s = Some (s\<lparr>srv_written := srv_written s @ [if b then ''+'' else ''-'']\<rparr>)"
  by (simp add: SendAck_def IOLoop_PostWriteTask_def rsp_inv_def)

lemma written_good:
  "rsp_inv (s\<lparr>srv_written := w\<rparr>) = rsp_inv s" "service_ok K (s\<lparr>srv_written := w\<rparr>) = service_ok K s"
  "service_ok K (s\<lparr>srv_tasks := ts\<rparr>) = service_ok K s" "service_ok K (s\<lparr>srv_timers := tm\<rparr>) = service_ok K s"
  by (simp_all add: rsp_inv_def notifications_def service_ok_def proc_ok_def proc_core_def)

lemma OnStopAck_eq:
  assumes "rsp_inv s"
  shows "OnStopAck s = Some (if srv_pending s = None then s
    else case srv_notify_queue s of
      n # ns \<Rightarrow> s\<lparr>srv_notify_queue := ns, srv_tasks := srv_tasks s @ [WriteTask False (nt_event n)]\<rparr>
    | [] \<Rightarrow> s\<lparr>srv_pending := None, srv_tasks := srv_tasks s @ [WriteTask False ''OK'']\<rparr>)"
proof -
  have io: "srv_io_loop s" and len: "\<And>n. n \<in> set (srv_notify_queue s) \<Longrightarrow> length (nt_event n) + 4 < kMaxBufferSize"
    using assms fits_event(2) by (auto simp: rsp_inv_def notifications_def)
  show ?thesis
  proof (cases "srv_notify_queue s")
    case Nil
    then show ?thesis
      using io by (simp add: OnStopAck_def PostPacketWriteTask_def PostWriteTask_eq kMaxBufferSize_def)
  next
    case (Cons n ns)
    then have "length (nt_event n) + 4 < kMaxBufferSize" using len by simp
    with Cons io show ?thesis by (simp add: OnStopAck_def PostPacketWriteTask_def PostWriteTask_eq)
  qed
qed

lemma OnStopAck_inv:
  assumes "rsp_inv s"
  shows "run (\<lambda>s'. rsp_inv s' \<and> i_proc s' = i_proc s \<and> i_eport s' = i_eport s) (OnStopAck s)"
proof (cases "srv_pending s = None")
  case True
  with assms show ?thesis unfolding OnStopAck_eq [OF assms] by simp
next
  case False
  note inv = assms [unfolded rsp_inv_def notifications_def]
  show ?thesis
  proof (cases "srv_notify_queue s")
    case Nil
    with inv show ?thesis unfolding OnStopAck_eq [OF assms]
      by (simp add: rsp_inv_def notifications_def kMaxBufferSize_def)
  next
    case (Cons n ns)
    then have "length (nt_event n) + 4 < kMaxBufferSize" using inv fits_event(2) by auto
    with Cons False inv show ?thesis unfolding OnStopAck_eq [OF assms]
      by (auto simp: rsp_inv_def notifications_def)
  qed
qed

lemma reply_empty_good:
  "rsp_inv s \<Longrightarrow> post (\<lambda>s'. rsp_inv s' \<and> s' = s\<lparr>srv_tasks := srv_tasks s @ [WriteTask False []]\<rparr>) (PostPacketWriteTask [] s)"
  unfolding PostPacketWriteTask_def by (rule PostWriteTask_inv)

lemma debugserver_main_new:
  assumes "debugserver_main E cl g k = Some (Inr s)"
  obtains p level where "s = (RspServer_new g level k)\<lparr>i_proc := p\<rparr>" "p_state p = prc_kNew"
    "p_handle p = MX_HANDLE_INVALID" "p_launchpad p = 0" "p_eport_key p = 0" "p_threads p = []"
    "\<not> p_thread_map_stale p"
proof -
  have new: "i_proc (RspServer_new g l k) = Process_new" for l by (simp add: RspServer_new_def)
  have renew: "Process_Renew Process_new = Some Process_new"
    by (simp add: Process_Renew_def Process_new_def Process_set_state_def)
  have sel: "p_state Process_new = prc_kNew" "p_handle Process_new = 0" "p_launchpad Process_new = 0"
    "p_eport_key Process_new = 0" "p_threads Process_new = []" "\<not> p_thread_map_stale Process_new"
    by (simp_all add: Process_new_def)
  have "\<exists>p level. s = (RspServer_new g level k)\<lparr>i_proc := p\<rparr> \<and> p_state p = prc_kNew
    \<and> p_handle p = MX_HANDLE_INVALID \<and> p_launchpad p = 0 \<and> p_eport_key p = 0 \<and> p_threads p = []
    \<and> \<not> p_thread_map_stale p"
    using assms unfolding debugserver_main_def Let_def Process_Initialize_pid_def
    by (auto simp: new renew sel split: if_splits option.splits)
  then show ?thesis using that by blast
qed

context rsp_env
begin

lemma OnBytesRead_post:
  assumes "good s"
  shows "post (\<lambda>s'. good s' \<and> (bytes = ''+'' \<longrightarrow> s' = s)
      \<and> (bytes \<noteq> ''+'' \<and> VerifyPacket bytes = None \<longrightarrow> s' = s\<lparr>srv_written := srv_written s @ [''-'']\<rparr>)
      \<and> (\<forall>p. bytes \<noteq> ''+'' \<and> VerifyPacket bytes = Some p \<and> p \<noteq> kStopAck \<longrightarrow>
          answered (s\<lparr>srv_written := srv_written s @ [''+'']\<rparr>) True s'))
    (OnBytesRead E bytes s)"
proof (cases "bytes = ''+'' \<or> VerifyPacket bytes = None")
  case True
  with assms show ?thesis by (auto simp: OnBytesRead_def SendAck_eq written_good)
next
  case False
  then obtain p where p: "bytes \<noteq> ''+''" "VerifyPacket bytes = Some p" by auto
  let ?s = "s\<lparr>srv_written := srv_written s @ [''+'']\<rparr>"
  have good: "good ?s" using assms by (simp add: written_good)
  have unfold: "OnBytesRead E bytes s = (if p = kStopAck then OnStopAck ?s else
      do { (handled, s) \<leftarrow> HandleCommand E p ?s; if handled then Some s else PostPacketWriteTask [] s })"
    using p assms by (simp add: OnBytesRead_def SendAck_eq)
  have command: "post (\<lambda>s'. good s' \<and> answered ?s True s')
      (do { (handled, s) \<leftarrow> HandleCommand E p ?s; if handled then Some s else PostPacketWriteTask [] s })"
    by (rule post_bindI [OF HandleCommand_serves [OF prepared_refl, unfolded serves_def]])
      (use good in \<open>auto simp: written_good answered_def io_same_def intro!: post_mono [OF reply_empty_good]\<close>)
  have ack: "post good (OnStopAck ?s)"
    using good service_ok_proc [of _ ?s "en_mx E"] by (auto intro!: post_mono [OF run_post [OF OnStopAck_inv]])
  show ?thesis
    unfolding unfold using p command ack by (auto elim: post_mono)
qed

lemma run_task_good:
  assumes "good s" and "\<And>b d. t = WriteTask b d \<Longrightarrow> length d + 4 < kMaxBufferSize"
  shows "post good (run_task E t s)"
proof (cases t)
  case (WriteTask b d)
  with assms show ?thesis by (simp add: run_task_def run_WriteTask_eq written_good)
next
  case (ReadTask bytes)
  then show ?thesis using post_mono [OF OnBytesRead_post [OF assms(1), of bytes]] by (simp add: run_task_def)
next
  case (ExceptionTask p)
  then show ?thesis using delegate.OnException_inv [OF assms(1)] assms(1)
    by (auto simp: run_task_def Worker_task_def split: option.split)
qed (use assms(1) in \<open>auto simp: run_task_def RspServer_OnDisconnected_def RspServer_OnIOError_def
    Server_QuitMessageLoop_def rsp_inv_def notifications_def service_ok_def proc_ok_def proc_core_def\<close>)

lemma step_good:
  assumes "server_step E s s'" and "good s"
  shows "good s'"
  using assms
proof (cases rule: server_step.cases)
  case (task t ts)
  have "good (s\<lparr>srv_tasks := ts\<rparr>)" "\<And>b d. t = WriteTask b d \<Longrightarrow> length d + 4 < kMaxBufferSize"
    using assms(2) task(2) by (auto simp: written_good rsp_inv_def notifications_def)
  from postD [OF run_task_good [OF this] task(3)] show ?thesis by blast
next
  case (timer ts a d ts')
  then show ?thesis using postD [OF run_post [OF timeout_inv]] assms(2) service_ok_proc [of s' s] by blast
next
  case (world k)
  then show ?thesis using assms(2) quiet_service [OF thread_upd_quiet [OF thread_upd_kernel [of "en_mx E" s k]]]
      rsp_inv_frame [of s' s] by simp
qed (use assms(2) in \<open>auto simp: written_good rsp_inv_def notifications_def RspIOLoop_OnReadTask_def
    IOLoop_write_done_def split: read_result.split\<close>)

lemma start_good:
  assumes "debugserver_main E cl g k = Some (Inr s)" and "RspServer_start E listening s = Some (True, s')"
  shows "good s'"
proof -
  obtain p level where s: "s = (RspServer_new g level k)\<lparr>i_proc := p\<rparr>" and p: "p_state p = prc_kNew"
    "p_handle p = MX_HANDLE_INVALID" "p_launchpad p = 0" "p_eport_key p = 0" "p_threads p = []"
    "\<not> p_thread_map_stale p" using debugserver_main_new [OF assms(1)] by metis
  from assms(2) obtain ep k' s1 where
    run: "ExceptionPort_Run (en_mx E) (i_eport s) (i_k s) = Some (True, ep, k')"
    and att: "start_attach E (s\<lparr>i_eport := ep, i_k := k'\<rparr>) = Some (True, s1)"
    and s': "s' = s1\<lparr>srv_io_loop := True\<rparr>"
    by (auto simp: RspServer_start_def bind_eq_Some_conv Let_def split: if_splits)
  let ?s = "s\<lparr>i_eport := ep, i_k := k'\<rparr>"
  have ep: "eport_ok ep" "eport_open ep" "ep_callbacks ep = []"
    using run by (auto simp: s RspServer_new_def ExceptionPort_Run_def ExceptionPort_new_def eport_ok_def
        eport_open_def split: prod.splits if_splits)
  have ok: "proc_ok (en_mx E) ?s"
    using p ep by (simp add: proc_ok_def proc_core_def s Process_IsLive_def)
  have "proc_ok (en_mx E) s1 \<and> kept ?s s1"
  proof (cases "p_attached_running p")
    case True
    then obtain r where "Process_Attach (en_mx E) ?s = Some (r, s1)"
      using att by (auto simp: start_attach_def s bind_eq_Some_conv split: if_splits)
    from postD [OF run_post [OF Attach_ok [OF kernel ok]] this] p ep True show ?thesis by (simp add: s)
  qed (use att ok in \<open>auto simp: start_attach_def s kept_def\<close>)
  then have "proc_ok (en_mx E) s1" "eport_open (i_eport s1)" and more: "inferior.more s1 = inferior.more s"
    using ep by (auto simp: kept_def)
  moreover have "rsp_inv (s1\<lparr>srv_io_loop := True\<rparr>)"
    by (simp add: rsp_inv_def notifications_def rsp_more_eq [OF more]) (simp add: s RspServer_new_def)
  ultimately show ?thesis using service_ok_proc [of s' s1] by (simp add: s' service_ok_def)
qed

lemma reach_good: "server_reach E s \<Longrightarrow> good s"
proof (induction rule: server_reach.induct)
  case (start cl g k s listening s')
  then show ?case by (rule start_good)
next
  case (more s s')
  show ?case by (rule step_good [OF more.hyps(2) more.IH])
qed

end

end
