(* ===== verification/Notify.thy ===== *)
theory Notify
  imports Rsp_Server
begin

text \<open>
  The protocol of stop notifications.  Its specification is a channel: idle, or one notification
  outstanding with the events that wait behind it.  The first event is announced by a notification
  packet; every acknowledgement fetches the next waiting event as an ordinary packet, and one more
  gets \<^verbatim>\<open>OK\<close> and makes the channel idle.  The locale \<open>stop_channel\<close> states that an implementation refines
  the channel, and derives that no event is lost, repeated or reordered; the server is such an
  implementation.
\<close>

section \<open>The channel\<close>

type_synonym channel = "string list option"

datatype delivery = Announce string | Next string | Finished

fun delivered :: "delivery list \<Rightarrow> string list" where
  "delivered [] = []"
| "delivered (Announce e # ds) = e # delivered ds"
| "delivered (Next e # ds) = e # delivered ds"
| "delivered (Finished # ds) = delivered ds"

fun write_of :: "delivery \<Rightarrow> task" where
  "write_of (Announce e) = WriteTask True (''Stop:'' @ e)"
| "write_of (Next e) = WriteTask False e"
| "write_of Finished = WriteTask False ''OK''"

fun channel_queue :: "string \<Rightarrow> channel \<Rightarrow> channel \<times> delivery list" where
  "channel_queue e None = (Some [], [Announce e])"
| "channel_queue e (Some q) = (Some (q @ [e]), [])"

fun channel_ack :: "channel \<Rightarrow> channel \<times> delivery list" where
  "channel_ack None = (None, [])"
| "channel_ack (Some []) = (None, [Finished])"
| "channel_ack (Some (e # q)) = (Some q, [Next e])"

definition waiting :: "channel \<Rightarrow> string list" where
  "waiting c = (case c of None \<Rightarrow> [] | Some q \<Rightarrow> q)"

datatype notify_op = Stop_event string | Stop_ack

fun events_of :: "notify_op list \<Rightarrow> string list" where
  "events_of [] = []"
| "events_of (Stop_event e # ops) = e # events_of ops"
| "events_of (Stop_ack # ops) = events_of ops"

fun channel_run :: "notify_op list \<Rightarrow> channel \<Rightarrow> channel \<times> delivery list" where
  "channel_run [] c = (c, [])"
| "channel_run (Stop_event e # ops) c =
     (case channel_queue e c of (c, ds) \<Rightarrow> case channel_run ops c of (c, ds') \<Rightarrow> (c, ds @ ds'))"
| "channel_run (Stop_ack # ops) c =
     (case channel_ack c of (c, ds) \<Rightarrow> case channel_run ops c of (c, ds') \<Rightarrow> (c, ds @ ds'))"

lemma delivered_append [simp]: "delivered (ds @ ds') = delivered ds @ delivered ds'"
  by (induction ds rule: delivered.induct) simp_all

lemma channel_queue_fifo:
  "channel_queue e c = (c', ds) \<Longrightarrow> delivered ds @ waiting c' = waiting c @ [e]"
  by (cases c) (auto simp: waiting_def)

lemma channel_ack_fifo: "channel_ack c = (c', ds) \<Longrightarrow> delivered ds @ waiting c' = waiting c"
  by (cases c rule: channel_ack.cases) (auto simp: waiting_def)

lemma channel_fifo:
  "channel_run ops c = (c', ds) \<Longrightarrow> delivered ds @ waiting c' = waiting c @ events_of ops"
proof (induction ops arbitrary: c c' ds)
  case (Cons op ops)
  show ?case
  proof (cases op)
    case (Stop_event e)
    obtain c1 ds1 where 1: "channel_queue e c = (c1, ds1)" by fastforce
    obtain ds2 where 2: "channel_run ops c1 = (c', ds2)" "ds = ds1 @ ds2"
      using Cons.prems 1 Stop_event by (auto split: prod.splits)
    have "delivered ds1 @ waiting c1 @ events_of ops = waiting c @ e # events_of ops"
      using arg_cong [OF channel_queue_fifo [OF 1], of "\<lambda>x. x @ events_of ops"] by simp
    with Cons.IH [OF 2(1)] 2(2) Stop_event show ?thesis by simp
  next
    case Stop_ack
    obtain c1 ds1 where 1: "channel_ack c = (c1, ds1)" by fastforce
    obtain ds2 where 2: "channel_run ops c1 = (c', ds2)" "ds = ds1 @ ds2"
      using Cons.prems 1 Stop_ack by (auto split: prod.splits)
    have "delivered ds1 @ waiting c1 @ events_of ops = waiting c @ events_of ops"
      using arg_cong [OF channel_ack_fifo [OF 1], of "\<lambda>x. x @ events_of ops"] by simp
    with Cons.IH [OF 2(1)] 2(2) Stop_ack show ?thesis by simp
  qed
qed simp

section \<open>Implementations\<close>

fun notify_run ::
  "(string \<Rightarrow> 's \<Rightarrow> 's option) \<Rightarrow> ('s \<Rightarrow> 's option) \<Rightarrow> notify_op list \<Rightarrow> 's \<Rightarrow> 's option" where
  "notify_run queue ack [] s = Some s"
| "notify_run queue ack (Stop_event e # ops) s = do { s \<leftarrow> queue e s; notify_run queue ack ops s }"
| "notify_run queue ack (Stop_ack # ops) s = do { s \<leftarrow> ack s; notify_run queue ack ops s }"

locale stop_channel =
  fixes inv :: "'s \<Rightarrow> bool"
    and abs :: "'s \<Rightarrow> channel"
    and sent :: "'s \<Rightarrow> task list"
    and fits :: "string \<Rightarrow> bool"
    and queue :: "string \<Rightarrow> 's \<Rightarrow> 's option"
    and ack :: "'s \<Rightarrow> 's option"
  assumes queue_refines: "inv s \<Longrightarrow> fits e \<Longrightarrow> channel_queue e (abs s) = (c, ds) \<Longrightarrow>
      run (\<lambda>s'. inv s' \<and> abs s' = c \<and> sent s' = sent s @ map write_of ds) (queue e s)"
    and ack_refines: "inv s \<Longrightarrow> channel_ack (abs s) = (c, ds) \<Longrightarrow>
      run (\<lambda>s'. inv s' \<and> abs s' = c \<and> sent s' = sent s @ map write_of ds) (ack s)"
begin

lemma run_refines:
  "inv s \<Longrightarrow> \<forall>e \<in> set (events_of ops). fits e \<Longrightarrow> channel_run ops (abs s) = (c, ds) \<Longrightarrow>
    run (\<lambda>s'. inv s' \<and> abs s' = c \<and> sent s' = sent s @ map write_of ds) (notify_run queue ack ops s)"
proof (induction ops arbitrary: s ds)
  case (Cons op ops)
  have fit: "\<forall>e \<in> set (events_of ops). fits e" using Cons.prems(2) by (cases op) auto
  have rest: "run (\<lambda>s'. inv s' \<and> abs s' = c \<and> sent s' = sent s @ map write_of (ds1 @ ds2))
      (do { s \<leftarrow> x; notify_run queue ack ops s })"
    if x: "run (\<lambda>s'. inv s' \<and> abs s' = c1 \<and> sent s' = sent s @ map write_of ds1) x"
      and ds2: "channel_run ops c1 = (c, ds2)" for x c1 ds1 ds2
  proof (rule run_bindI [OF x])
    fix s1
    assume s1: "inv s1 \<and> abs s1 = c1 \<and> sent s1 = sent s @ map write_of ds1"
    show "run (\<lambda>s'. inv s' \<and> abs s' = c \<and> sent s' = sent s @ map write_of (ds1 @ ds2)) (notify_run queue ack ops s1)"
      by (rule run_mono [OF Cons.IH [of s1 ds2]]) (use s1 ds2 fit in auto)
  qed
  show ?case
  proof (cases op)
    case (Stop_event e)
    obtain c1 ds1 where 1: "channel_queue e (abs s) = (c1, ds1)" by fastforce
    obtain ds2 where 2: "channel_run ops c1 = (c, ds2)" "ds = ds1 @ ds2"
      using Cons.prems(3) 1 Stop_event by (auto split: prod.splits)
    show ?thesis
      unfolding Stop_event notify_run.simps 2(2)
      by (rule rest [OF queue_refines [OF Cons.prems(1) _ 1] 2(1)]) (use Cons.prems(2) Stop_event in simp)
  next
    case Stop_ack
    obtain c1 ds1 where 1: "channel_ack (abs s) = (c1, ds1)" by fastforce
    obtain ds2 where 2: "channel_run ops c1 = (c, ds2)" "ds = ds1 @ ds2"
      using Cons.prems(3) 1 Stop_ack by (auto split: prod.splits)
    show ?thesis
      unfolding Stop_ack notify_run.simps 2(2) by (rule rest [OF ack_refines [OF Cons.prems(1) 1] 2(1)])
  qed
qed simp

lemma run_fifo:
  assumes "inv s" and "\<forall>e \<in> set (events_of ops). fits e"
  shows "run (\<lambda>s'. inv s' \<and> (\<exists>ds. sent s' = sent s @ map write_of ds
      \<and> delivered ds @ waiting (abs s') = waiting (abs s) @ events_of ops)) (notify_run queue ack ops s)"
proof -
  obtain c ds where c: "channel_run ops (abs s) = (c, ds)" by fastforce
  show ?thesis
    by (rule run_mono [OF run_refines [OF assms c]]) (use channel_fifo [OF c] in auto)
qed

end

section \<open>The server\<close>

definition notify_abs :: "'k rsp_server \<Rightarrow> channel" where
  "notify_abs s = map_option (\<lambda>_. map nt_event (srv_notify_queue s)) (srv_pending s)"

interpretation stops: stop_channel rsp_inv notify_abs srv_tasks "\<lambda>e. length e \<le> 128"
  "\<lambda>e. QueueStopNotification E e d" OnStopAck for E :: "'k env" and d :: int
proof
  fix s :: "'k rsp_server" and e :: string and c ds
  assume inv: "rsp_inv s"
  show "run (\<lambda>s'. rsp_inv s' \<and> notify_abs s' = c \<and> srv_tasks s' = srv_tasks s @ map write_of ds)
      (QueueStopNotification E e d s)"
    if e: "length e \<le> 128" and q: "channel_queue e (notify_abs s) = (c, ds)"
  proof -
    have "srv_pending s = None \<Longrightarrow> srv_notify_queue s = []" using inv by (simp add: rsp_inv_def)
    with QueueStopNotification_inv [OF inv e, of E d] q show ?thesis
      unfolding QueueStopNotification_eq [OF inv e]
      by (cases "srv_pending s") (auto simp: notify_abs_def Let_def PendingNotification_def)
  qed
  show "run (\<lambda>s'. rsp_inv s' \<and> notify_abs s' = c \<and> srv_tasks s' = srv_tasks s @ map write_of ds) (OnStopAck s)"
    if a: "channel_ack (notify_abs s) = (c, ds)"
    using OnStopAck_inv [OF inv] a unfolding OnStopAck_eq [OF inv]
    by (cases "srv_pending s"; cases "srv_notify_queue s") (auto simp: notify_abs_def)
qed



text \<open>
  A notification stays pending while the events behind it are fetched, so its time-out still sends
  it again although the client has acknowledged it.
\<close>

lemma acknowledged_notification_resent:
  assumes "rsp_inv s" and "srv_pending s = Some n" and "srv_notify_queue s = n' # ns" and "OnStopAck s = Some s'"
  shows "\<exists>s''. run_timeout (nt_addr n) s' = Some s''
    \<and> srv_tasks s'' = srv_tasks s' @ [WriteTask True (kStopNotification @ '':'' @ nt_event n)]"
proof -
  have s': "s' = s\<lparr>srv_notify_queue := ns, srv_tasks := srv_tasks s @ [WriteTask False (nt_event n')]\<rparr>"
    using assms OnStopAck_eq [OF assms(1)] by simp
  have "nt_name n = kStopNotification" "length (nt_event n) \<le> 128" "srv_io_loop s"
    using assms(1,2) by (auto simp: rsp_inv_def notifications_def)
  with assms(2) show ?thesis unfolding s'
    by (simp add: run_timeout_def PostPendingNotificationWriteTask_def PostWriteTask_def
        PostNotificationTimeoutHandler_def kStopNotification_def kMaxBufferSize_def)
qed

end
