(* ===== verification/Io_Loop.thy ===== *)
theory Io_Loop
  imports Rsp_Server
begin

text \<open>
  The connection to the client: the sockets of \<^verbatim>\<open>RspServer::Listen\<close> and the two threads of \<^verbatim>\<open>IOLoop\<close>
  (\<^verbatim>\<open>lib/inferior-control/io-loop.cc\<close>, \<^verbatim>\<open>bin/debugserver/io-loop.cc\<close>).  The socket calls are a parameter, whose laws are those
  of the locale \<open>socket_table\<close>.

  \<open>io_step\<close> is one step of the main thread, which posts what is to be written and calls \<^verbatim>\<open>Quit\<close>, of the read thread or of the
  write thread.  \<open>Quit\<close> is several steps of the main thread, because the other two run in between: \<open>io_origin\<close> says
  where in it the main thread is.  A thread that is in \<^verbatim>\<open>read\<close> or \<^verbatim>\<open>write\<close> is one whose first task has not
  been done yet.  Each message loop runs its tasks in order until it is told to quit.
\<close>

section \<open>Sockets\<close>

record 's sockets =
  sk_socket :: "'s \<Rightarrow> int \<times> 's"
  sk_bind :: "int \<Rightarrow> 16 word \<Rightarrow> 's \<Rightarrow> int \<times> 's"
  sk_listen :: "int \<Rightarrow> int \<Rightarrow> 's \<Rightarrow> int \<times> 's"
  sk_accept :: "int \<Rightarrow> 's \<Rightarrow> int \<times> 's"
  sk_close :: "int \<Rightarrow> 's \<Rightarrow> 's"

text \<open>
  \<^verbatim>\<open>server_sock_\<close> and \<^verbatim>\<open>client_sock_\<close>, which are valid when they are not negative.  A \<^verbatim>\<open>UniqueFD\<close> that goes out of scope
  closes its descriptor.
\<close>

type_synonym rsp_socks = "int \<times> int"

definition Listen :: "'s sockets \<Rightarrow> 16 word \<Rightarrow> rsp_socks \<Rightarrow> 's \<Rightarrow> (bool \<times> rsp_socks \<times> 's) option" where
  "Listen S port socks st =
     do {
       dcheck (fst socks < 0);
       dcheck (snd socks < 0);
       let (server_sock, st) = sk_socket S st;
       if server_sock < 0 then Some (False, socks, st)
       else let (rc, st) = sk_bind S server_sock port st
       in if rc < 0 then Some (False, socks, sk_close S server_sock st)
       else let (rc, st) = sk_listen S server_sock 1 st
       in if rc < 0 then Some (False, socks, sk_close S server_sock st)
       else let (client_sock, st) = sk_accept S server_sock st
       in if client_sock < 0 then Some (False, socks, sk_close S server_sock st)
       else Some (True, (server_sock, client_sock), st)
     }"

locale socket_table =
  fixes S :: "'s sockets"
    and opened :: "'s \<Rightarrow> int set"
  assumes socket_opens: "sk_socket S st = (fd, st') \<Longrightarrow>
      fd \<notin> opened st \<and> opened st' = (if fd < 0 then opened st else insert fd (opened st))"
    and accept_opens: "sk_accept S fd st = (fd', st') \<Longrightarrow>
      fd' \<notin> opened st \<and> opened st' = (if fd' < 0 then opened st else insert fd' (opened st))"
    and bind_keeps: "opened (snd (sk_bind S fd port st)) = opened st"
    and listen_keeps: "opened (snd (sk_listen S fd backlog st)) = opened st"
    and close_closes: "opened (sk_close S fd st) = opened st - {fd}"
begin

lemma Listen_descriptors:
  assumes "server_sock < 0" "client_sock < 0"
  shows "\<exists>ok socks st'. Listen S port (server_sock, client_sock) st = Some (ok, socks, st') \<and>
    (if ok then 0 \<le> fst socks \<and> 0 \<le> snd socks \<and> fst socks \<noteq> snd socks \<and> {fst socks, snd socks} \<inter> opened st = {}
         \<and> opened st' = opened st \<union> {fst socks, snd socks}
     else socks = (server_sock, client_sock) \<and> opened st' = opened st)"
proof -
  obtain fd st1 where 1: "sk_socket S st = (fd, st1)" by fastforce
  obtain rc st2 where 2: "sk_bind S fd port st1 = (rc, st2)" by fastforce
  obtain rc' st3 where 3: "sk_listen S fd 1 st2 = (rc', st3)" by fastforce
  obtain fd' st4 where 4: "sk_accept S fd st3 = (fd', st4)" by fastforce
  have o: "opened st2 = opened st1" "opened st3 = opened st2"
    using bind_keeps [of fd port st1] listen_keeps [of fd 1 st2] 2 3 by simp_all
  show ?thesis
    using socket_opens [OF 1] accept_opens [OF 4] o assms by (auto simp: Listen_def 1 2 3 4 close_closes)
qed

end

section \<open>The i/o loop\<close>

datatype io_task = OnReadTask | WriteBytes string | QuitNow

datatype io_thread = T_Running | T_Exited | T_Joined

datatype io_origin = O_Free | O_Quit_called | O_Read_told | O_Joining | O_Quit_done

record io_loop =
  io_fd :: int
  io_quit_called :: bool
  io_is_running :: bool
  io_read_tasks :: "io_task list"
  io_write_tasks :: "io_task list"
  io_read_thread :: io_thread
  io_write_thread :: io_thread
  io_origin :: io_origin
  io_posted :: "task list"
  io_reads :: "read_result list"
  io_submitted :: "string list"
  io_writes :: "(string \<times> int) list"

text \<open>
  The last four fields are histories: the tasks posted to the main loop, the results of \<^verbatim>\<open>read\<close>, what was to be written, and
  what was written with the results of \<^verbatim>\<open>write\<close>.
\<close>

definition IOLoop_new :: "int \<Rightarrow> io_loop option" where
  "IOLoop_new fd =
     do {
       dcheck (fd \<ge> 0);
       Some \<lparr>io_fd = fd, io_quit_called = False, io_is_running = False, io_read_tasks = [], io_write_tasks = [],
         io_read_thread = T_Joined, io_write_thread = T_Joined, io_origin = O_Free, io_posted = [], io_reads = [],
         io_submitted = [], io_writes = []\<rparr>
     }"

definition StartReadLoop :: "io_loop \<Rightarrow> io_loop" where
  "StartReadLoop l = l\<lparr>io_read_tasks := io_read_tasks l @ [OnReadTask]\<rparr>"

definition IOLoop_Run :: "io_loop \<Rightarrow> io_loop option" where
  "IOLoop_Run l =
     do {
       dcheck (\<not> io_is_running l);
       Some (StartReadLoop (l\<lparr>io_is_running := True, io_read_thread := T_Running, io_write_thread := T_Running\<rparr>))
     }"

definition post_write :: "string \<Rightarrow> io_loop \<Rightarrow> io_loop" where
  "post_write bytes l =
     l\<lparr>io_write_tasks := io_write_tasks l @ [WriteBytes bytes], io_submitted := io_submitted l @ [bytes]\<rparr>"

text \<open>The steps of \<^verbatim>\<open>Quit\<close>.\<close>

definition Quit_call :: "io_loop \<Rightarrow> io_loop option" where
  "Quit_call l =
     do {
       dcheck (io_is_running l);
       Some (l\<lparr>io_quit_called := True, io_origin := O_Quit_called\<rparr>)
     }"

definition Quit_tell_read :: "io_loop \<Rightarrow> io_loop" where
  "Quit_tell_read l = l\<lparr>io_read_tasks := io_read_tasks l @ [QuitNow], io_origin := O_Read_told\<rparr>"

definition Quit_tell_write :: "io_loop \<Rightarrow> io_loop" where
  "Quit_tell_write l = l\<lparr>io_write_tasks := io_write_tasks l @ [QuitNow], io_origin := O_Joining\<rparr>"

definition Quit_join :: "io_loop \<Rightarrow> io_loop" where
  "Quit_join l = l\<lparr>io_read_thread := T_Joined, io_write_thread := T_Joined, io_origin := O_Quit_done\<rparr>"

text \<open>What the read thread does with the result of \<^verbatim>\<open>read\<close>, and the write thread with that of \<^verbatim>\<open>write\<close>.\<close>

definition do_read :: "read_result \<Rightarrow> io_loop \<Rightarrow> io_loop" where
  "do_read r l =
     (let l = l\<lparr>io_reads := io_reads l @ [r], io_posted := io_posted l @ [RspIOLoop_OnReadTask r]\<rparr>
      in case r of
        Read_bytes bytes_read \<Rightarrow>
          if \<not> io_quit_called l then l\<lparr>io_read_tasks := io_read_tasks l @ [OnReadTask]\<rparr> else l
      | _ \<Rightarrow> l)"

definition do_write :: "string \<Rightarrow> int \<Rightarrow> io_loop \<Rightarrow> io_loop" where
  "do_write bytes n l =
     l\<lparr>io_writes := io_writes l @ [(bytes, n)], io_posted := io_posted l @ IOLoop_write_done bytes n\<rparr>"

inductive io_step :: "io_loop \<Rightarrow> io_loop \<Rightarrow> bool" where
  post: "io_origin l = O_Free \<Longrightarrow> io_step l (post_write bytes l)"
| quit_call: "io_origin l \<in> {O_Free, O_Quit_done} \<Longrightarrow> Quit_call l = Some l' \<Longrightarrow> io_step l l'"
| quit_read: "io_origin l = O_Quit_called \<Longrightarrow> io_step l (Quit_tell_read l)"
| quit_write: "io_origin l = O_Read_told \<Longrightarrow> io_step l (Quit_tell_write l)"
| join: "io_origin l = O_Joining \<Longrightarrow> io_read_thread l \<noteq> T_Running \<Longrightarrow> io_write_thread l \<noteq> T_Running \<Longrightarrow>
    io_step l (Quit_join l)"
| read_task: "io_read_thread l = T_Running \<Longrightarrow> io_read_tasks l = OnReadTask # ts \<Longrightarrow>
    io_step l (do_read r (l\<lparr>io_read_tasks := ts\<rparr>))"
| read_quit: "io_read_thread l = T_Running \<Longrightarrow> io_read_tasks l = QuitNow # ts \<Longrightarrow>
    io_step l (l\<lparr>io_read_tasks := ts, io_read_thread := T_Exited\<rparr>)"
| write_task: "io_write_thread l = T_Running \<Longrightarrow> io_write_tasks l = WriteBytes bytes # ts \<Longrightarrow>
    io_step l (do_write bytes n (l\<lparr>io_write_tasks := ts\<rparr>))"
| write_quit: "io_write_thread l = T_Running \<Longrightarrow> io_write_tasks l = QuitNow # ts \<Longrightarrow>
    io_step l (l\<lparr>io_write_tasks := ts, io_write_thread := T_Exited\<rparr>)"

inductive io_reach :: "io_loop \<Rightarrow> bool" where
  start: "IOLoop_new fd = Some l \<Longrightarrow> IOLoop_Run l = Some l' \<Longrightarrow> io_reach l'"
| more: "io_reach l \<Longrightarrow> io_step l l' \<Longrightarrow> io_reach l'"

section \<open>The invariant of the i/o loop\<close>

text \<open>The queue of the read thread, with \<open>n\<close> reads to do, and that of the write thread, with \<open>bs\<close> to write.\<close>

definition read_queue :: "io_loop \<Rightarrow> nat \<Rightarrow> nat \<Rightarrow> bool" where
  "read_queue l n m \<longleftrightarrow> io_read_tasks l = replicate n OnReadTask @ replicate m QuitNow \<and> n \<le> 1
     \<and> (io_read_thread l \<noteq> T_Running \<longrightarrow> n = 0 \<and> io_quit_called l) \<and> (m > 0 \<longrightarrow> io_quit_called l)
     \<and> (io_read_thread l = T_Running \<longrightarrow> io_origin l \<in> {O_Read_told, O_Joining} \<longrightarrow> m > 0)
     \<and> (io_origin l = O_Quit_done \<longrightarrow> io_read_thread l \<noteq> T_Running)"

definition write_queue :: "io_loop \<Rightarrow> string list \<Rightarrow> nat \<Rightarrow> bool" where
  "write_queue l bs m \<longleftrightarrow> io_write_tasks l = map WriteBytes bs @ replicate m QuitNow
     \<and> io_submitted l = map fst (io_writes l) @ bs
     \<and> (io_write_thread l \<noteq> T_Running \<longrightarrow> bs = [] \<and> io_quit_called l) \<and> (m > 0 \<longrightarrow> io_quit_called l)
     \<and> (io_write_thread l = T_Running \<longrightarrow> io_origin l = O_Joining \<longrightarrow> m > 0)
     \<and> (io_origin l = O_Quit_done \<longrightarrow> io_write_thread l \<noteq> T_Running)"

definition write_errors :: "io_loop \<Rightarrow> task list" where
  "write_errors l = concat (map (\<lambda>(bytes, n). IOLoop_write_done bytes n) (io_writes l))"

definition io_inv :: "io_loop \<Rightarrow> bool" where
  "io_inv l \<longleftrightarrow> io_is_running l \<and> (io_quit_called l \<longleftrightarrow> io_origin l \<noteq> O_Free)
     \<and> (\<exists>n m. read_queue l n m) \<and> (\<exists>bs m. write_queue l bs m)
     \<and> io_posted l \<in> shuffles (map RspIOLoop_OnReadTask (io_reads l)) (write_errors l)"

lemma shuffles_snoc: "zs \<in> shuffles xs ys \<Longrightarrow> zs @ [a] \<in> shuffles (xs @ [a]) ys"
proof (induction xs ys arbitrary: zs rule: shuffles.induct)
  case (1 ys)
  have "ys @ [a] \<in> shuffles [a] ys" by (induction ys) auto
  then show ?case using 1 by simp
next
  case (2 xs)
  then show ?case by simp
next
  case (3 x xs y ys)
  then show ?case by fastforce
qed

lemma shuffles_snoc_right: "zs \<in> shuffles xs ys \<Longrightarrow> zs @ [a] \<in> shuffles xs (ys @ [a])"
  using shuffles_snoc [of zs ys xs a] by (simp add: shuffles_commutes)

lemma shuffles_write_done: "zs \<in> shuffles xs ys \<Longrightarrow> zs @ IOLoop_write_done b n \<in> shuffles xs (ys @ IOLoop_write_done b n)"
  by (simp add: IOLoop_write_done_def shuffles_snoc_right)

lemma replicate_ConsD: "replicate n OnReadTask @ replicate m QuitNow = OnReadTask # ts \<Longrightarrow>
    ts = replicate (n - 1) OnReadTask @ replicate m QuitNow \<and> n > 0"
  "replicate n OnReadTask @ replicate m QuitNow = QuitNow # ts \<Longrightarrow> n = 0 \<and> m > 0 \<and> ts = replicate (m - 1) QuitNow"
  by (cases n; cases m; auto)+

lemma write_ConsD: "map WriteBytes bs @ replicate m QuitNow = WriteBytes b # ts \<Longrightarrow>
    \<exists>bs'. bs = b # bs' \<and> ts = map WriteBytes bs' @ replicate m QuitNow"
  "map WriteBytes bs @ replicate m QuitNow = QuitNow # ts \<Longrightarrow> bs = [] \<and> m > 0 \<and> ts = replicate (m - 1) QuitNow"
  by (cases bs; cases m; auto)+

text \<open>Each thread keeps its part of the invariant, and the main thread both.\<close>

lemma do_read_queue:
  assumes "io_read_thread l = T_Running" "io_read_tasks l = OnReadTask # ts" "read_queue l n m"
  shows "\<exists>n m. read_queue (do_read r (l\<lparr>io_read_tasks := ts\<rparr>)) n m"
proof -
  have n: "n = 1" "ts = replicate m QuitNow" using assms replicate_ConsD(1) [of n m ts] by (auto simp: read_queue_def)
  show ?thesis
  proof (cases "io_quit_called l")
    case True
    then have "read_queue (do_read r (l\<lparr>io_read_tasks := ts\<rparr>)) 0 m"
      using assms n by (auto simp: read_queue_def do_read_def Let_def split: read_result.splits)
    then show ?thesis by blast
  next
    case False
    then have "m = 0" using assms(3) by (simp add: read_queue_def)
    then have "read_queue (do_read r (l\<lparr>io_read_tasks := ts\<rparr>)) (case r of Read_bytes b \<Rightarrow> 1 | _ \<Rightarrow> 0) 0"
      using assms n False by (auto simp: read_queue_def do_read_def Let_def split: read_result.splits)
    then show ?thesis by blast
  qed
qed

lemma do_read_frame [simp]:
  "write_queue (do_read r (l\<lparr>io_read_tasks := ts\<rparr>)) bs m = write_queue l bs m"
  "io_is_running (do_read r l) = io_is_running l" "io_quit_called (do_read r l) = io_quit_called l"
  "io_origin (do_read r l) = io_origin l" "io_read_thread (do_read r l) = io_read_thread l"
  "io_write_thread (do_read r l) = io_write_thread l" "io_write_tasks (do_read r l) = io_write_tasks l"
  "write_errors (do_read r l) = write_errors l" "io_reads (do_read r l) = io_reads l @ [r]"
  "io_posted (do_read r l) = io_posted l @ [RspIOLoop_OnReadTask r]"
  "io_submitted (do_read r l) = io_submitted l" "io_writes (do_read r l) = io_writes l"
  by (auto simp: do_read_def Let_def write_queue_def write_errors_def split: read_result.splits)

lemma do_write_queue:
  assumes "io_write_thread l = T_Running" "io_write_tasks l = WriteBytes b # ts" "write_queue l bs m"
  shows "write_queue (do_write b n (l\<lparr>io_write_tasks := ts\<rparr>)) (tl bs) m"
proof -
  obtain bs' where "bs = b # bs'" "ts = map WriteBytes bs' @ replicate m QuitNow"
    using write_ConsD(1) [of bs m b ts] assms by (auto simp: write_queue_def)
  then show ?thesis using assms by (simp add: write_queue_def do_write_def)
qed

lemma do_write_frame [simp]:
  "read_queue (do_write b k (l\<lparr>io_write_tasks := ts\<rparr>)) n m = read_queue l n m"
  "io_is_running (do_write b k l) = io_is_running l" "io_quit_called (do_write b k l) = io_quit_called l"
  "io_origin (do_write b k l) = io_origin l" "io_reads (do_write b k l) = io_reads l"
  "write_errors (do_write b k l) = write_errors l @ IOLoop_write_done b k"
  "io_posted (do_write b k l) = io_posted l @ IOLoop_write_done b k"
  by (auto simp: do_write_def read_queue_def write_errors_def)

lemma io_step_read_queue:
  assumes "io_step l l'" "io_quit_called l \<longleftrightarrow> io_origin l \<noteq> O_Free" "read_queue l n m"
  shows "\<exists>n m. read_queue l' n m"
  using assms(1)
proof cases
  case (quit_read)
  then have "read_queue l' n (Suc m)"
    using assms by (auto simp: read_queue_def Quit_tell_read_def replicate_append_same)
  then show ?thesis by blast
next
  case (read_task ts r)
  then show ?thesis using do_read_queue assms(3) by blast
next
  case (read_quit ts)
  then have "read_queue l' 0 (m - 1)"
    using assms replicate_ConsD(2) [of n m ts] by (auto simp: read_queue_def)
  then show ?thesis by blast
next
  case (quit_call)
  then have "read_queue l' n m" using assms by (auto simp: read_queue_def Quit_call_def)
  then show ?thesis by blast
qed (intro exI [of _ n] exI [of _ m],
    use assms(3) in \<open>auto simp: read_queue_def post_write_def Quit_tell_write_def Quit_join_def do_write_def\<close>)+

lemma io_step_write_queue:
  assumes "io_step l l'" "io_quit_called l \<longleftrightarrow> io_origin l \<noteq> O_Free" "write_queue l bs m"
  shows "\<exists>bs m. write_queue l' bs m"
  using assms(1)
proof cases
  case (post b)
  then have "write_queue l' (bs @ [b]) m" using assms by (auto simp: write_queue_def post_write_def)
  then show ?thesis by blast
next
  case (quit_write)
  then have "write_queue l' bs (Suc m)"
    using assms by (auto simp: write_queue_def Quit_tell_write_def replicate_append_same)
  then show ?thesis by blast
next
  case (write_task b ts n)
  then show ?thesis using do_write_queue assms(3) by blast
next
  case (write_quit ts)
  then have "write_queue l' [] (m - 1)"
    using assms write_ConsD(2) [of bs m ts] by (auto simp: write_queue_def)
  then show ?thesis by blast
next
  case (quit_call)
  then have "write_queue l' bs m" using assms by (auto simp: write_queue_def Quit_call_def)
  then show ?thesis by blast
qed (intro exI [of _ bs] exI [of _ m], use assms(3) in \<open>auto simp: write_queue_def Quit_tell_read_def Quit_join_def\<close>)+

lemma io_step_inv:
  assumes "io_inv l" "io_step l l'"
  shows "io_inv l'"
proof -
  have "\<exists>n m. read_queue l' n m" "\<exists>bs m. write_queue l' bs m"
    using io_step_read_queue [OF assms(2)] io_step_write_queue [OF assms(2)] assms(1) by (auto simp: io_inv_def)
  moreover have "io_posted l' \<in> shuffles (map RspIOLoop_OnReadTask (io_reads l')) (write_errors l')"
    using assms(2,1)
    by cases (auto simp: io_inv_def post_write_def Quit_call_def Quit_tell_read_def Quit_tell_write_def Quit_join_def
        write_errors_def shuffles_snoc shuffles_write_done do_write_def)
  moreover have "io_is_running l' \<and> (io_quit_called l' \<longleftrightarrow> io_origin l' \<noteq> O_Free)"
    using assms(2,1)
    by cases (auto simp: io_inv_def post_write_def Quit_call_def Quit_tell_read_def Quit_tell_write_def Quit_join_def)
  ultimately show ?thesis by (simp add: io_inv_def)
qed

lemma io_reach_inv: "io_reach l \<Longrightarrow> io_inv l"
proof (induction rule: io_reach.induct)
  case (start fd l l')
  then have "read_queue l' 1 0" "write_queue l' [] 0"
    by (auto simp: IOLoop_new_def IOLoop_Run_def StartReadLoop_def read_queue_def write_queue_def)
  then show ?case using start
    by (auto simp: io_inv_def IOLoop_new_def IOLoop_Run_def StartReadLoop_def write_errors_def)
qed (rule io_step_inv)

section \<open>Order of delivery\<close>

text \<open>
  C11: whatever the three threads do, each result of \<^verbatim>\<open>read\<close> is posted to the main loop once and in order, mixed only with the
  errors of failed writes, which are posted in the order of these writes; the packets are written in the
  order in which they were posted; and when \<^verbatim>\<open>Quit\<close> has returned every one of them was handed to \<^verbatim>\<open>write\<close>.
\<close>

theorem IOLoop_delivers:
  assumes "io_reach l"
  shows "io_posted l \<in> shuffles (map RspIOLoop_OnReadTask (io_reads l)) (write_errors l)
    \<and> prefix (map fst (io_writes l)) (io_submitted l)
    \<and> (io_origin l = O_Quit_done \<longrightarrow> map fst (io_writes l) = io_submitted l)"
  using io_reach_inv [OF assms] by (auto simp: io_inv_def write_queue_def)

definition demo_loop :: io_loop where
  "demo_loop =
     \<lparr>io_fd = 4, io_quit_called = False, io_is_running = True, io_read_tasks = [OnReadTask], io_write_tasks = [],
      io_read_thread = T_Running, io_write_thread = T_Running, io_origin = O_Free, io_posted = [], io_reads = [],
      io_submitted = [], io_writes = []\<rparr>"

lemma demo_loop_reach: "io_reach demo_loop"
proof (rule io_reach.start)
  show "IOLoop_new 4 = Some (demo_loop\<lparr>io_is_running := False, io_read_tasks := [], io_read_thread := T_Joined,
      io_write_thread := T_Joined\<rparr>)"
    by (simp add: IOLoop_new_def demo_loop_def)
qed (simp add: IOLoop_Run_def StartReadLoop_def demo_loop_def)

lemma demo_write_reach: "io_reach (do_write ''+'' 1 ((post_write ''+'' demo_loop)\<lparr>io_write_tasks := []\<rparr>))"
proof (rule io_reach.more [OF io_reach.more [OF demo_loop_reach io_step.post [of _ "''+''"]]])
  show "io_step (post_write ''+'' demo_loop) (do_write ''+'' 1 ((post_write ''+'' demo_loop)\<lparr>io_write_tasks := []\<rparr>))"
    by (rule io_step.write_task) (simp_all add: post_write_def demo_loop_def)
qed (simp add: demo_loop_def)

theorem IOLoop_delivers_witness:
  "\<exists>l. io_reach l \<and> io_submitted l = [''+''] \<and> map fst (io_writes l) = [''+'']
     \<and> io_posted l \<in> shuffles (map RspIOLoop_OnReadTask (io_reads l)) (write_errors l)"
  using demo_write_reach IOLoop_delivers [OF demo_write_reach]
  by (intro exI [of _ "do_write ''+'' 1 ((post_write ''+'' demo_loop)\<lparr>io_write_tasks := []\<rparr>)"])
    (simp add: do_write_def post_write_def demo_loop_def)

section \<open>The end of the loop\<close>

text \<open>The number of reads that are still to be done.\<close>

definition reading :: "io_loop \<Rightarrow> nat" where
  "reading l = count_list (io_read_tasks l) OnReadTask"

lemma count_replicate: "count_list (replicate n x) y = (if x = y then n else 0)"
  by (induction n) auto

lemma reading_bound: "io_inv l \<Longrightarrow> reading l \<le> 1 \<and> (io_read_thread l \<noteq> T_Running \<longrightarrow> reading l = 0)"
  by (auto simp: io_inv_def read_queue_def reading_def count_replicate)

lemma Quit_done_threads: "io_inv l \<Longrightarrow> io_origin l = O_Quit_done \<Longrightarrow> io_read_thread l \<noteq> T_Running"
  by (auto simp: io_inv_def read_queue_def)

lemma io_step_reading:
  assumes "io_inv l" "io_quit_called l" "io_step l l'"
  shows "io_quit_called l' \<and> length (io_reads l') + reading l' = length (io_reads l) + reading l"
  using assms(3,1,2)
  by cases (auto simp: io_inv_def reading_def post_write_def Quit_call_def Quit_tell_read_def Quit_tell_write_def
      Quit_join_def do_read_def do_write_def Let_def split: read_result.splits)

lemma io_steps_reading:
  assumes "io_step\<^sup>*\<^sup>* l l'" "io_inv l" "io_quit_called l"
  shows "io_inv l' \<and> io_quit_called l' \<and> length (io_reads l') + reading l' = length (io_reads l) + reading l"
  using assms(1)
proof induction
  case base
  then show ?case using assms by simp
next
  case (step y z)
  then show ?case using io_step_inv [of y z] io_step_reading [of y z] by simp
qed

text \<open>Both threads come to their \<^verbatim>\<open>QuitNow\<close> when their system calls return.\<close>

lemma drain_read:
  assumes "read_queue l n m" "m > 0" "io_quit_called l" "io_read_thread l = T_Running"
  shows "\<exists>l'. io_step\<^sup>*\<^sup>* l l' \<and> io_read_thread l' = T_Exited \<and> io_write_thread l' = io_write_thread l
    \<and> io_write_tasks l' = io_write_tasks l \<and> io_origin l' = io_origin l"
proof -
  have quit: "\<exists>l'. io_step l l' \<and> io_read_thread l' = T_Exited \<and> io_write_thread l' = io_write_thread l
      \<and> io_write_tasks l' = io_write_tasks l \<and> io_origin l' = io_origin l"
    if "io_read_thread l = T_Running" "io_read_tasks l = QuitNow # ts" for l ts
    using io_step.read_quit [OF that] by (intro exI [of _ "l\<lparr>io_read_tasks := ts, io_read_thread := T_Exited\<rparr>"]) simp
  have m: "replicate m QuitNow = QuitNow # replicate (m - 1) QuitNow" using assms(2) by (cases m) auto
  show ?thesis
  proof (cases "n = 0")
    case True
    then have "io_read_tasks l = QuitNow # replicate (m - 1) QuitNow" using assms(1) m by (simp add: read_queue_def)
    from quit [OF assms(4) this] show ?thesis by blast
  next
    case False
    then have t: "io_read_tasks l = OnReadTask # replicate m QuitNow"
      using assms(1) by (cases n) (auto simp: read_queue_def)
    define l1 where "l1 = do_read Read_closed (l\<lparr>io_read_tasks := replicate m QuitNow\<rparr>)"
    have s: "io_step l l1" unfolding l1_def by (rule io_step.read_task [OF assms(4) t])
    have "io_read_tasks l1 = QuitNow # replicate (m - 1) QuitNow" by (simp add: l1_def do_read_def m)
    from quit [OF _ this] obtain l' where "io_step l1 l'" "io_read_thread l' = T_Exited" "io_write_thread l' = io_write_thread l1"
      "io_write_tasks l' = io_write_tasks l1" "io_origin l' = io_origin l1" using assms(4) by (auto simp: l1_def)
    then show ?thesis using s by (intro exI [of _ l']) (auto simp: l1_def intro: converse_rtranclp_into_rtranclp)
  qed
qed

lemma drain_write:
  assumes "io_write_tasks l = map WriteBytes bs @ QuitNow # ts" "io_write_thread l = T_Running"
  shows "\<exists>l'. io_step\<^sup>*\<^sup>* l l' \<and> io_write_thread l' = T_Exited \<and> io_read_thread l' = io_read_thread l
    \<and> io_origin l' = io_origin l"
  using assms
proof (induction bs arbitrary: l)
  case Nil
  then have "io_step l (l\<lparr>io_write_tasks := ts, io_write_thread := T_Exited\<rparr>)" by (intro io_step.write_quit) simp_all
  then show ?case by (intro exI [of _ "l\<lparr>io_write_tasks := ts, io_write_thread := T_Exited\<rparr>"]) auto
next
  case (Cons b bs)
  define l1 where "l1 = do_write b 0 (l\<lparr>io_write_tasks := map WriteBytes bs @ QuitNow # ts\<rparr>)"
  have s: "io_step l l1" unfolding l1_def using Cons.prems by (intro io_step.write_task) simp_all
  obtain l' where "io_step\<^sup>*\<^sup>* l1 l'" "io_write_thread l' = T_Exited" "io_read_thread l' = io_read_thread l1"
    "io_origin l' = io_origin l1"
    using Cons.IH [of l1] Cons.prems by (auto simp: l1_def do_write_def)
  then show ?case using s
    by (intro exI [of _ l']) (auto simp: l1_def do_write_def intro: converse_rtranclp_into_rtranclp)
qed

lemma read_exits:
  assumes "io_inv l" "io_origin l = O_Joining"
  shows "\<exists>l'. io_step\<^sup>*\<^sup>* l l' \<and> io_read_thread l' \<noteq> T_Running \<and> io_origin l' = O_Joining"
proof (cases "io_read_thread l = T_Running")
  case True
  obtain n m where "read_queue l n m" using assms by (auto simp: io_inv_def)
  then show ?thesis using drain_read [of l n m] True assms by (force simp: io_inv_def read_queue_def)
qed (use assms in blast)

lemma write_exits:
  assumes "io_inv l" "io_origin l = O_Joining"
  shows "\<exists>l'. io_step\<^sup>*\<^sup>* l l' \<and> io_write_thread l' \<noteq> T_Running \<and> io_read_thread l' = io_read_thread l \<and> io_origin l' = O_Joining"
proof (cases "io_write_thread l = T_Running")
  case True
  obtain bs m where "write_queue l bs m" using assms by (auto simp: io_inv_def)
  then have "io_write_tasks l = map WriteBytes bs @ QuitNow # replicate (m - 1) QuitNow"
    using True assms by (cases m) (auto simp: write_queue_def)
  from drain_write [OF this True] show ?thesis using assms(2) by force
qed (use assms in blast)


definition demo_joining :: io_loop where
  "demo_joining = demo_loop\<lparr>io_quit_called := True, io_origin := O_Joining, io_read_tasks := [OnReadTask, QuitNow],
     io_write_tasks := [QuitNow]\<rparr>"

lemma demo_joining_reach: "io_reach demo_joining"
proof -
  define l1 where "l1 = demo_loop\<lparr>io_quit_called := True, io_origin := O_Quit_called\<rparr>"
  have "io_step demo_loop l1" by (rule io_step.quit_call) (simp_all add: l1_def demo_loop_def Quit_call_def)
  moreover have "io_step l1 (Quit_tell_read l1)" by (rule io_step.quit_read) (simp add: l1_def)
  moreover have "io_step (Quit_tell_read l1) (Quit_tell_write (Quit_tell_read l1))"
    by (rule io_step.quit_write) (simp add: Quit_tell_read_def)
  moreover have "Quit_tell_write (Quit_tell_read l1) = demo_joining"
    by (simp add: Quit_tell_write_def Quit_tell_read_def l1_def demo_joining_def demo_loop_def)
  ultimately show ?thesis using demo_loop_reach io_reach.more by metis
qed


section \<open>The loop in the server\<close>

text \<open>What the threads post is what \<open>server_step\<close> lets them post, so that the invariant of the server covers the loop.\<close>

lemma io_step_server:
  assumes "io_step l l'"
  shows "\<exists>ts. io_posted l' = io_posted l @ ts \<and> (server_step E)\<^sup>*\<^sup>* s (s\<lparr>srv_tasks := srv_tasks s @ ts\<rparr>)"
  using assms
proof cases
  case (read_task ts r)
  then show ?thesis using server_step.read [of E s r] by (intro exI [of _ "[RspIOLoop_OnReadTask r]"]) auto
next
  case (write_task b ts n)
  then show ?thesis using server_step.written [of E s b n] by (intro exI [of _ "IOLoop_write_done b n"]) auto
qed (simp_all add: post_write_def Quit_call_def Quit_tell_read_def Quit_tell_write_def Quit_join_def; auto)+

section \<open>A table of sockets\<close>

record ref_net =
  net_open :: "int list"
  net_clients :: bool

definition net_new :: "ref_net \<Rightarrow> int" where
  "net_new st = 3 + sum_list (map abs (net_open st))"

definition ref_sockets :: "ref_net sockets" where
  "ref_sockets =
     \<lparr>sk_socket = (\<lambda>st. (net_new st, st\<lparr>net_open := net_new st # net_open st\<rparr>)),
      sk_bind = (\<lambda>fd port st. (if port = 0 then -1 else 0, st)),
      sk_listen = (\<lambda>fd n st. (0, st)),
      sk_accept = (\<lambda>fd st. if net_clients st then (net_new st, st\<lparr>net_open := net_new st # net_open st\<rparr>) else (-1, st)),
      sk_close = (\<lambda>fd st. st\<lparr>net_open := filter (\<lambda>f. f \<noteq> fd) (net_open st)\<rparr>)\<rparr>"

lemma sum_abs_bound: "0 \<le> sum_list (map abs xs) \<and> (\<forall>x \<in> set xs. x \<le> sum_list (map abs xs))" for xs :: "int list"
proof (induction xs)
  case (Cons y ys)
  then show ?case using abs_ge_self [of y] abs_ge_zero [of y] by (auto intro: order_trans)
qed simp

lemma net_new_fresh: "net_new st \<notin> set (net_open st) \<and> 0 \<le> net_new st"
  using sum_abs_bound [of "net_open st"] by (fastforce simp: net_new_def)

interpretation ref_table: socket_table ref_sockets "\<lambda>st. {fd \<in> set (net_open st). 0 \<le> fd}"
  using net_new_fresh by unfold_locales (auto simp: ref_sockets_def split: if_splits)

lemma Listen_example:
  "Listen ref_sockets 2345 (-1, -1) \<lparr>net_open = [], net_clients = True\<rparr> =
     Some (True, (3, 6), \<lparr>net_open = [6, 3], net_clients = True\<rparr>)"
  by (simp add: Listen_def ref_sockets_def net_new_def)

end
