(* ===== verification/Ipt_Config.thy ===== *)
theory Ipt_Config
  imports Util
begin

text \<open>
  The configuration of the tracer \<^verbatim>\<open>ipt\<close>: \<^verbatim>\<open>IptConfig\<close> of \<^verbatim>\<open>bin/ipt/server.{h,cc}\<close> and the parsing
  of its command line in \<^verbatim>\<open>bin/ipt/main.cc\<close>.  The bounds of the address ranges are \<open>None\<close> until they
  are given: the constructor leaves them uninitialised.  \<^verbatim>\<open>ftl::CommandLine\<close> is not part of the
  repository; the record \<open>ipt_command_line\<close> has what the program asks of it.
\<close>

section \<open>Definitions\<close>

datatype ipt_mode = IPT_MODE_CPUS | IPT_MODE_THREADS

datatype AddrFilter = af_kOff | af_kEnable | af_kStop

fun filter_value :: "AddrFilter \<Rightarrow> u64" where
  "filter_value af_kOff = 0"
| "filter_value af_kEnable = 1"
| "filter_value af_kStop = 2"

record AddrRange =
  ar_elf :: string
  ar_begin :: "u64 option"
  ar_end :: "u64 option"

record IptConfig =
  cfg_mode :: ipt_mode
  cfg_num_cpus :: u32
  cfg_max_threads :: u32
  cfg_num_buffers :: u64
  cfg_buffer_order :: u64
  cfg_is_circular :: bool
  cfg_addr0 :: AddrFilter
  cfg_addr1 :: AddrFilter
  cfg_addr_range0 :: AddrRange
  cfg_addr_range1 :: AddrRange
  cfg_branch :: bool
  cfg_cr3_match :: u64
  cfg_cr3_match_set :: bool
  cfg_cyc :: bool
  cfg_cyc_thresh :: u32
  cfg_mtc :: bool
  cfg_mtc_freq :: u32
  cfg_psb_freq :: u32
  cfg_os :: bool
  cfg_user :: bool
  cfg_retc :: bool
  cfg_tsc :: bool
  cfg_output_path_prefix :: string

definition kDefaultOutputPathPrefix :: string where
  "kDefaultOutputPathPrefix = ''/tmp/ptout''"

definition IptConfig_new :: "u32 \<Rightarrow> IptConfig" where
  "IptConfig_new num_cpus =
     (let range = \<lparr>ar_elf = [], ar_begin = None, ar_end = None\<rparr> in
      \<lparr>cfg_mode = IPT_MODE_CPUS, cfg_num_cpus = num_cpus, cfg_max_threads = 16, cfg_num_buffers = 16,
       cfg_buffer_order = 2, cfg_is_circular = False, cfg_addr0 = af_kOff, cfg_addr1 = af_kOff,
       cfg_addr_range0 = range, cfg_addr_range1 = range, cfg_branch = True, cfg_cr3_match = 0,
       cfg_cr3_match_set = False, cfg_cyc = False, cfg_cyc_thresh = 0, cfg_mtc = False, cfg_mtc_freq = 0,
       cfg_psb_freq = 0, cfg_os = True, cfg_user = True, cfg_retc = True, cfg_tsc = True,
       cfg_output_path_prefix = kDefaultOutputPathPrefix\<rparr>)"

definition CtlMsr :: "IptConfig \<Rightarrow> u64" where
  "CtlMsr c =
     (let msr = 0;
          msr = (if cfg_cyc c then msr OR push_bit 1 1 else msr);
          msr = (if cfg_os c then msr OR push_bit 2 1 else msr);
          msr = (if cfg_user c then msr OR push_bit 3 1 else msr);
          msr = (if cfg_cr3_match c \<noteq> 0 then msr OR push_bit 7 1 else msr);
          msr = (if cfg_mtc c then msr OR push_bit 9 1 else msr);
          msr = (if cfg_tsc c then msr OR push_bit 10 1 else msr);
          msr = (if \<not> cfg_retc c then msr OR push_bit 11 1 else msr);
          msr = (if cfg_branch c then msr OR push_bit 13 1 else msr);
          msr = msr OR ucast (push_bit 14 (cfg_mtc_freq c AND 15));
          msr = msr OR ucast (push_bit 19 (cfg_cyc_thresh c AND 15));
          msr = msr OR ucast (push_bit 24 (cfg_psb_freq c AND 15));
          msr = msr OR push_bit 32 (filter_value (cfg_addr0 c));
          msr = msr OR push_bit 36 (filter_value (cfg_addr1 c))
      in msr)"

definition AddrBegin :: "nat \<Rightarrow> IptConfig \<Rightarrow> u64 option" where
  "AddrBegin i c =
     do {
       dcheck (i < 2);
       ar_begin ([cfg_addr_range0 c, cfg_addr_range1 c] ! i)
     }"

definition AddrEnd :: "nat \<Rightarrow> IptConfig \<Rightarrow> u64 option" where
  "AddrEnd i c =
     do {
       dcheck (i < 2);
       ar_end ([cfg_addr_range0 c, cfg_addr_range1 c] ! i)
     }"

text \<open>
  The parsers of option values: \<open>None\<close> where the function returns false.  What is written to an out
  parameter before it does so is not observable, as the program exits then.
\<close>

definition kCr3MatchReservedMask :: u64 where
  "kCr3MatchReservedMask = 0x1f"

definition BeginsWith :: "string \<Rightarrow> string \<Rightarrow> string option" where
  "BeginsWith str pre =
     (if length str < length pre then None
      else if take (length pre) str \<noteq> pre then None
      else Some (drop (length pre) str))"

definition ParseFlag :: "string \<Rightarrow> bool option" where
  "ParseFlag arg = (if arg = ''on'' then Some True else if arg = ''off'' then Some False else None)"

definition ParseNumber :: "ftl \<Rightarrow> string \<Rightarrow> u64 option" where
  "ParseNumber F arg =
     map_option word_of_int
       (if length arg > 2 \<and> arg ! 0 = CHR ''0'' \<and> (arg ! 1 = CHR ''x'' \<or> arg ! 1 = CHR ''X'')
        then StringToNumberWithError F UInt64 16 (drop 2 arg)
        else StringToNumberWithError F UInt64 10 arg)"

definition ParseCr3Match :: "ftl \<Rightarrow> string \<Rightarrow> u64 option" where
  "ParseCr3Match F arg =
     (if arg = ''off'' then Some 0
      else case ParseNumber F arg of
        None \<Rightarrow> None
      | Some v \<Rightarrow> if v AND kCr3MatchReservedMask \<noteq> 0 then None else Some v)"

definition ParseAddrConfig :: "string \<Rightarrow> AddrFilter option" where
  "ParseAddrConfig arg =
     (if arg = ''off'' then Some af_kOff
      else if arg = ''enable'' then Some af_kEnable
      else if arg = ''stop'' then Some af_kStop
      else None)"

definition ParseAddrRange :: "ftl \<Rightarrow> string \<Rightarrow> AddrRange \<Rightarrow> AddrRange option" where
  "ParseAddrRange F arg v =
     (let range_strings = SplitString F arg '','' True True in
      if length range_strings \<noteq> 2 \<and> length range_strings \<noteq> 3 then None
      else
        let i = (if length range_strings = 3 then 1 else 0);
            v = (if length range_strings = 3 then v\<lparr>ar_elf := range_strings ! 0\<rparr> else v)
        in case (ParseNumber F (range_strings ! i), ParseNumber F (range_strings ! (i + 1))) of
             (Some b, Some e) \<Rightarrow> Some (v\<lparr>ar_begin := Some b, ar_end := Some e\<rparr>)
           | _ \<Rightarrow> None)"

definition ParseFreqValue :: "ftl \<Rightarrow> string \<Rightarrow> u32 option" where
  "ParseFreqValue F arg = map_option word_of_int (StringToNumberWithError F UInt32 10 arg)"

text \<open>
  One turn of the loop of \<^verbatim>\<open>ParseConfigOption\<close>: the chain of \<^verbatim>\<open>if ... else if\<close> is the list of its
  conditions and branches.
\<close>

fun else_if :: "(string option \<times> (string \<Rightarrow> 'a option)) list \<Rightarrow> 'a option" where
  "else_if [] = None"
| "else_if ((cond, branch) # rest) = (case cond of Some arg \<Rightarrow> branch arg | None \<Rightarrow> else_if rest)"

definition equals :: "string \<Rightarrow> string \<Rightarrow> string option" where
  "equals opt name = (if opt = name then Some [] else None)"

definition config_option :: "ftl \<Rightarrow> IptConfig \<Rightarrow> string \<Rightarrow> IptConfig option" where
  "config_option F c opt = else_if
     [(BeginsWith opt ''addr0='', \<lambda>arg. map_option (\<lambda>v. c\<lparr>cfg_addr0 := v\<rparr>) (ParseAddrConfig arg)),
      (BeginsWith opt ''addr0-range='', \<lambda>arg. map_option (\<lambda>v. c\<lparr>cfg_addr_range0 := v\<rparr>)
          (ParseAddrRange F arg (cfg_addr_range0 c))),
      (BeginsWith opt ''addr1='', \<lambda>arg. map_option (\<lambda>v. c\<lparr>cfg_addr1 := v\<rparr>) (ParseAddrConfig arg)),
      (BeginsWith opt ''addr1-range='', \<lambda>arg. map_option (\<lambda>v. c\<lparr>cfg_addr_range1 := v\<rparr>)
          (ParseAddrRange F arg (cfg_addr_range1 c))),
      (equals opt ''branch'', \<lambda>_. Some (c\<lparr>cfg_branch := True\<rparr>)),
      (BeginsWith opt ''branch='', \<lambda>arg. map_option (\<lambda>v. c\<lparr>cfg_branch := v\<rparr>) (ParseFlag arg)),
      (BeginsWith opt ''cr3-match='', \<lambda>arg. map_option (\<lambda>v. c\<lparr>cfg_cr3_match := v, cfg_cr3_match_set := True\<rparr>)
          (ParseCr3Match F arg)),
      (equals opt ''cyc'', \<lambda>_. Some (c\<lparr>cfg_cyc := True\<rparr>)),
      (BeginsWith opt ''cyc='', \<lambda>arg. map_option (\<lambda>v. c\<lparr>cfg_cyc := v\<rparr>) (ParseFlag arg)),
      (BeginsWith opt ''cyc-thresh='', \<lambda>arg. map_option (\<lambda>v. c\<lparr>cfg_cyc_thresh := v\<rparr>) (ParseFreqValue F arg)),
      (equals opt ''mtc'', \<lambda>_. Some (c\<lparr>cfg_mtc := True\<rparr>)),
      (BeginsWith opt ''mtc='', \<lambda>arg. map_option (\<lambda>v. c\<lparr>cfg_mtc := v\<rparr>) (ParseFlag arg)),
      (BeginsWith opt ''mtc-freq='', \<lambda>arg. map_option (\<lambda>v. c\<lparr>cfg_mtc_freq := v\<rparr>) (ParseFreqValue F arg)),
      (equals opt ''os'', \<lambda>_. Some (c\<lparr>cfg_os := True\<rparr>)),
      (BeginsWith opt ''os='', \<lambda>arg. map_option (\<lambda>v. c\<lparr>cfg_os := v\<rparr>) (ParseFlag arg)),
      (BeginsWith opt ''psb-freq='', \<lambda>arg. map_option (\<lambda>v. c\<lparr>cfg_psb_freq := v\<rparr>) (ParseFreqValue F arg)),
      (equals opt ''retc'', \<lambda>_. Some (c\<lparr>cfg_retc := True\<rparr>)),
      (BeginsWith opt ''retc='', \<lambda>arg. map_option (\<lambda>v. c\<lparr>cfg_retc := v\<rparr>) (ParseFlag arg)),
      (equals opt ''tsc'', \<lambda>_. Some (c\<lparr>cfg_tsc := True\<rparr>)),
      (BeginsWith opt ''tsc='', \<lambda>arg. map_option (\<lambda>v. c\<lparr>cfg_tsc := v\<rparr>) (ParseFlag arg)),
      (equals opt ''user'', \<lambda>_. Some (c\<lparr>cfg_user := True\<rparr>)),
      (BeginsWith opt ''user='', \<lambda>arg. map_option (\<lambda>v. c\<lparr>cfg_user := v\<rparr>) (ParseFlag arg))]"

fun config_options :: "ftl \<Rightarrow> IptConfig \<Rightarrow> string list \<Rightarrow> IptConfig option" where
  "config_options F c [] = Some c"
| "config_options F c (opt # opts) = do { c \<leftarrow> config_option F c opt; config_options F c opts }"

definition ParseConfigOption :: "ftl \<Rightarrow> IptConfig \<Rightarrow> string \<Rightarrow> IptConfig option" where
  "ParseConfigOption F c options_string =
     config_options F c (SplitString F options_string '';'' True True)"

record ipt_command_line =
  icl_log_settings :: bool
  icl_has :: "string \<Rightarrow> bool"
  icl_value :: "string \<Rightarrow> string option"
  icl_options :: "(string \<times> string) list"
  icl_args :: "string list"

text \<open>\<^verbatim>\<open>GetIptConfig\<close>; \<open>None\<close> where the program exits with \<^verbatim>\<open>EXIT_FAILURE\<close>.\<close>

definition number_option ::
  "ftl \<Rightarrow> ipt_command_line \<Rightarrow> string \<Rightarrow> (u64 \<Rightarrow> IptConfig \<Rightarrow> IptConfig) \<Rightarrow> IptConfig \<Rightarrow> IptConfig option" where
  "number_option F cl name upd c =
     (case icl_value cl name of
        None \<Rightarrow> Some c
      | Some arg \<Rightarrow> map_option (\<lambda>v. upd (word_of_int v) c) (StringToNumberWithError F UInt64 10 arg))"

definition mode_option :: "ipt_command_line \<Rightarrow> IptConfig \<Rightarrow> IptConfig option" where
  "mode_option cl c =
     (case icl_value cl ''mode'' of
        None \<Rightarrow> Some c
      | Some arg \<Rightarrow>
          if arg = ''cpu'' then Some (c\<lparr>cfg_mode := IPT_MODE_CPUS\<rparr>)
          else if arg = ''thread'' then Some (c\<lparr>cfg_mode := IPT_MODE_THREADS\<rparr>)
          else None)"

fun all_config_options :: "ftl \<Rightarrow> IptConfig \<Rightarrow> (string \<times> string) list \<Rightarrow> IptConfig option" where
  "all_config_options F c [] = Some c"
| "all_config_options F c ((name, v) # opts) =
     do {
       c \<leftarrow> (if name = ''config'' then ParseConfigOption F c v else Some c);
       all_config_options F c opts
     }"

definition GetIptConfig :: "ftl \<Rightarrow> u32 \<Rightarrow> ipt_command_line \<Rightarrow> IptConfig option" where
  "GetIptConfig F num_cpus cl =
     do {
       let c = IptConfig_new num_cpus;
       c \<leftarrow> number_option F cl ''buffer-order'' (\<lambda>v. cfg_buffer_order_update (\<lambda>_. v)) c;
       let c = (if icl_has cl ''circular'' then c\<lparr>cfg_is_circular := True\<rparr> else c);
       c \<leftarrow> mode_option cl c;
       c \<leftarrow> number_option F cl ''num-buffers'' (\<lambda>v. cfg_num_buffers_update (\<lambda>_. v)) c;
       c \<leftarrow> all_config_options F c (icl_options cl);
       Some (case icl_value cl ''output-path-prefix'' of
           None \<Rightarrow> c
         | Some path \<Rightarrow> c\<lparr>cfg_output_path_prefix := path\<rparr>)
     }"

section \<open>The control register\<close>

lemma filter_value_bit: "bit (filter_value f) n \<longleftrightarrow> n = 0 \<and> f = af_kEnable \<or> n = 1 \<and> f = af_kStop"
  by (cases f) (auto simp: bit_1_iff bit_numeral_rec split: nat.splits)

lemma bit_15: "bit (15 :: u32) j \<longleftrightarrow> j < 4"
proof -
  have m: "(mask 4 :: u32) = 15" by (simp add: mask_eq_exp_minus_1)
  show ?thesis using bit_mask_iff [of 4 j, where 'a = u32] unfolding m by auto
qed

lemma freq_bit:
  "n + 4 \<le> 32 \<Longrightarrow> bit (ucast (push_bit n (w AND 15 :: u32)) :: u64) i \<longleftrightarrow> n \<le> i \<and> i < n + 4 \<and> bit w (i - n)"
  by (simp only: bit_ucast_iff bit_push_bit_iff bit_and_iff bit_15 possible_bit_word) auto

text \<open>
  C18: the value for the control register has every field of the configuration in the place
  the processor wants it, no two fields overlap, frequency and threshold fields are cut to four
  bits, and no other bit is set; in particular bit 0, which turns tracing on, is left to the driver.
\<close>

theorem CtlMsr_fields:
  "bit (CtlMsr c) i \<longleftrightarrow>
     i = 1 \<and> cfg_cyc c \<or> i = 2 \<and> cfg_os c \<or> i = 3 \<and> cfg_user c \<or> i = 7 \<and> cfg_cr3_match c \<noteq> 0
   \<or> i = 9 \<and> cfg_mtc c \<or> i = 10 \<and> cfg_tsc c \<or> i = 11 \<and> \<not> cfg_retc c \<or> i = 13 \<and> cfg_branch c
   \<or> 14 \<le> i \<and> i < 18 \<and> bit (cfg_mtc_freq c) (i - 14)
   \<or> 19 \<le> i \<and> i < 23 \<and> bit (cfg_cyc_thresh c) (i - 19)
   \<or> 24 \<le> i \<and> i < 28 \<and> bit (cfg_psb_freq c) (i - 24)
   \<or> i = 32 \<and> cfg_addr0 c = af_kEnable \<or> i = 33 \<and> cfg_addr0 c = af_kStop
   \<or> i = 36 \<and> cfg_addr1 c = af_kEnable \<or> i = 37 \<and> cfg_addr1 c = af_kStop"
proof -
  have one: "bit (if b then x OR push_bit n 1 else x) i \<longleftrightarrow> bit x i \<or> i = n \<and> b" if "n < 64" for b n and x :: u64
    using that by (auto simp: bit_or_iff bit_exp_iff)
  have addr: "bit (push_bit n (filter_value f)) i \<longleftrightarrow> i = n \<and> f = af_kEnable \<or> i = n + 1 \<and> f = af_kStop"
    if "n + 1 < 64" for n f
    using that by (auto simp: bit_push_bit_iff filter_value_bit)
  have lt: "(1 :: nat) < 64" "(2 :: nat) < 64" "(3 :: nat) < 64" "(7 :: nat) < 64" "(9 :: nat) < 64"
      "(10 :: nat) < 64" "(11 :: nat) < 64" "(13 :: nat) < 64" "(32 :: nat) + 1 < 64" "(36 :: nat) + 1 < 64"
      "(14 :: nat) + 4 \<le> 32" "(19 :: nat) + 4 \<le> 32" "(24 :: nat) + 4 \<le> 32"
    by simp_all
  show ?thesis
    unfolding CtlMsr_def Let_def bit_or_iff one [OF lt(1)] one [OF lt(2)] one [OF lt(3)] one [OF lt(4)]
      one [OF lt(5)] one [OF lt(6)] one [OF lt(7)] one [OF lt(8)] addr [OF lt(9)] addr [OF lt(10)]
      freq_bit [OF lt(11)] freq_bit [OF lt(12)] freq_bit [OF lt(13)] bit_0_eq
    by (simp only: disj_assoc numeral_plus_numeral numeral_plus_one add_num_simps bot_apply bot_bool_def simp_thms)
qed

section \<open>Options that are printed and parsed again\<close>

text \<open>What the documentation promises besides of \<^verbatim>\<open>ftl::SplitString\<close>, for the way it is called here.\<close>

locale ftl_splitting = ftl_conversions +
  assumes split_join: "\<forall>x \<in> set xs. x \<noteq> [] \<and> (\<forall>c \<in> set x. c \<noteq> d \<and> \<not> isspace c) \<Longrightarrow>
    SplitString F (join d xs) [d] True True = xs"

lemma split_on_join:
  "xs \<noteq> [] \<Longrightarrow> \<forall>x \<in> set xs. d \<notin> set x \<Longrightarrow> split_on [d] [] (join d xs) = xs"
  by (induction d xs rule: join.induct) (simp_all add: split_on_no_delim split_on_delim)

lemma trim_view_id: "\<forall>c \<in> set x. \<not> isspace c \<Longrightarrow> trim_view x = x"
proof -
  assume *: "\<forall>c \<in> set x. \<not> isspace c"
  have "dropWhile isspace y = y" if "set y = set x" for y
    using * that by (cases y) auto
  then show ?thesis by (simp add: trim_view_def)
qed

interpretation ftl_ref_splitting: ftl_splitting ftl_ref
proof
  fix xs :: "string list" and d
  assume *: "\<forall>x \<in> set xs. x \<noteq> [] \<and> (\<forall>c \<in> set x. c \<noteq> d \<and> \<not> isspace c)"
  then have m: "map trim_view xs = xs" by (auto intro: map_idI trim_view_id)
  have f: "filter (\<lambda>p. p \<noteq> []) xs = xs" using * by (auto intro: filter_True)
  show "SplitString ftl_ref (join d xs) [d] True True = xs"
  proof (cases "xs = []")
    case True
    then show ?thesis by (simp add: ftl_ref_def ref_split_string_def trim_view_def)
  next
    case False
    with * have "split_on [d] [] (join d xs) = xs" by (intro split_on_join) auto
    with m f show ?thesis by (simp add: ftl_ref_def ref_split_string_def)
  qed
qed

definition dec_alphabet :: "char set" where
  "dec_alphabet = set ''0123456789''"

lemma nat_string_dec: "set (nat_string 10 n) \<subseteq> dec_alphabet"
proof (induction n rule: less_induct)
  case (less n)
  have d: "digit_char d \<in> dec_alphabet" if "d < 10" for d
  proof -
    have "d \<in> set [0..<10]" using that by simp
    moreover have "\<forall>d \<in> set [0..<10]. digit_char d \<in> dec_alphabet" unfolding dec_alphabet_def by code_simp
    ultimately show ?thesis by blast
  qed
  show ?case
    using less.IH [of "n div 10"] by (subst nat_string.simps) (simp add: d)
qed

lemma dec_alphabet_chars: "c \<in> dec_alphabet \<Longrightarrow> \<not> isspace c \<and> c \<noteq> CHR '';'' \<and> c \<noteq> CHR '','' \<and> c \<noteq> CHR ''x'' \<and> c \<noteq> CHR ''X''"
  by (auto simp: dec_alphabet_def isspace_def byte_of_def)

definition number_text :: "'a::len word \<Rightarrow> string" where
  "number_text w = nat_string 10 (unat w)"

lemma number_text_chars:
  "number_text w \<noteq> []" "c \<in> set (number_text w) \<Longrightarrow> \<not> isspace c \<and> c \<noteq> CHR '';'' \<and> c \<noteq> CHR '',''"
  using nat_string_dec dec_alphabet_chars by (auto simp: number_text_def)

context ftl_splitting
begin

lemma ParseNumber_text: "ParseNumber F (number_text w) = Some (w :: u64)"
proof -
  have "StringToNumberWithError F UInt64 10 (number_text w) = Some (uint w)"
    using parse_number [of UInt64 "uint w" 10] uint_lt2p [of w]
    by (simp add: number_text_def number_string_def)
  moreover have "number_text w ! 1 \<noteq> CHR ''x'' \<and> number_text w ! 1 \<noteq> CHR ''X''" if "length (number_text w) > 2"
  proof -
    have "number_text w ! 1 \<in> set (number_text w)" using that by (intro nth_mem) simp
    with nat_string_dec [of "unat w"] have "number_text w ! 1 \<in> dec_alphabet" unfolding number_text_def by blast
    then show ?thesis using dec_alphabet_chars by blast
  qed
  ultimately show ?thesis by (cases "length (number_text w) > 2") (simp_all add: ParseNumber_def)
qed

lemma ParseFreqValue_text: "ParseFreqValue F (number_text w) = Some (w :: u32)"
  using parse_number [of UInt32 "uint w" 10] uint_lt2p [of w]
  by (simp add: ParseFreqValue_def number_text_def number_string_def)

lemma ParseAddrRange_text:
  "ParseAddrRange F (number_text b @ CHR '','' # number_text e) v = Some (v\<lparr>ar_begin := Some b, ar_end := Some e\<rparr>)"
proof -
  have "SplitString F (join (CHR '','') [number_text b, number_text e]) '','' True True = [number_text b, number_text e]"
    by (intro split_join) (auto dest: number_text_chars(2) simp: number_text_chars(1))
  then show ?thesis by (simp add: ParseAddrRange_def ParseNumber_text)
qed

end

lemma BeginsWith_simps [simp]:
  "BeginsWith str [] = Some str"
  "BeginsWith [] (p # ps) = None"
  "BeginsWith (c # cs) (p # ps) = (if c = p then BeginsWith cs ps else None)"
  by (simp_all add: BeginsWith_def)

fun filter_text :: "AddrFilter \<Rightarrow> string" where
  "filter_text af_kOff = ''off''"
| "filter_text af_kEnable = ''enable''"
| "filter_text af_kStop = ''stop''"

definition flag_text :: "bool \<Rightarrow> string" where
  "flag_text b = (if b then ''on'' else ''off'')"

definition range_text :: "AddrRange \<Rightarrow> string" where
  "range_text r = number_text (the (ar_begin r)) @ CHR '','' # number_text (the (ar_end r))"

lemma ParseAddrConfig_text: "ParseAddrConfig (filter_text f) = Some f"
  by (cases f) (simp_all add: ParseAddrConfig_def)

lemma ParseFlag_text: "ParseFlag (flag_text b) = Some b"
  by (simp add: ParseFlag_def flag_text_def)

text \<open>The options that describe a configuration.\<close>

definition config_text :: "IptConfig \<Rightarrow> string list" where
  "config_text c =
     [''addr0='' @ filter_text (cfg_addr0 c), ''addr0-range='' @ range_text (cfg_addr_range0 c),
      ''addr1='' @ filter_text (cfg_addr1 c), ''addr1-range='' @ range_text (cfg_addr_range1 c),
      ''branch='' @ flag_text (cfg_branch c), ''cr3-match='' @ number_text (cfg_cr3_match c),
      ''cyc='' @ flag_text (cfg_cyc c), ''cyc-thresh='' @ number_text (cfg_cyc_thresh c),
      ''mtc='' @ flag_text (cfg_mtc c), ''mtc-freq='' @ number_text (cfg_mtc_freq c),
      ''os='' @ flag_text (cfg_os c), ''psb-freq='' @ number_text (cfg_psb_freq c),
      ''retc='' @ flag_text (cfg_retc c), ''tsc='' @ flag_text (cfg_tsc c), ''user='' @ flag_text (cfg_user c)]"

definition set_range :: "AddrRange \<Rightarrow> AddrRange \<Rightarrow> AddrRange" where
  "set_range r r0 = r0\<lparr>ar_begin := ar_begin r, ar_end := ar_end r\<rparr>"

definition set_trace_options :: "IptConfig \<Rightarrow> IptConfig \<Rightarrow> IptConfig" where
  "set_trace_options c c0 = c0\<lparr>cfg_addr0 := cfg_addr0 c, cfg_addr1 := cfg_addr1 c,
     cfg_addr_range0 := set_range (cfg_addr_range0 c) (cfg_addr_range0 c0),
     cfg_addr_range1 := set_range (cfg_addr_range1 c) (cfg_addr_range1 c0),
     cfg_branch := cfg_branch c, cfg_cr3_match := cfg_cr3_match c, cfg_cr3_match_set := True,
     cfg_cyc := cfg_cyc c, cfg_cyc_thresh := cfg_cyc_thresh c, cfg_mtc := cfg_mtc c,
     cfg_mtc_freq := cfg_mtc_freq c, cfg_os := cfg_os c, cfg_psb_freq := cfg_psb_freq c,
     cfg_retc := cfg_retc c, cfg_tsc := cfg_tsc c, cfg_user := cfg_user c\<rparr>"

definition range_given :: "AddrRange \<Rightarrow> bool" where
  "range_given r \<longleftrightarrow> ar_begin r \<noteq> None \<and> ar_end r \<noteq> None"

context ftl_splitting
begin

lemma ParseAddrRange_range:
  "range_given r \<Longrightarrow> ParseAddrRange F (range_text r) r0 = Some (set_range r r0)"
  by (auto simp: range_given_def range_text_def set_range_def ParseAddrRange_text)

lemma ParseCr3Match_text:
  "cr3 AND kCr3MatchReservedMask = 0 \<Longrightarrow> ParseCr3Match F (number_text cr3) = Some cr3"
proof -
  assume *: "cr3 AND kCr3MatchReservedMask = 0"
  have "number_text cr3 \<noteq> ''off''"
    using nat_string_dec [of "unat cr3"] by (auto simp: number_text_def dec_alphabet_def)
  with * show ?thesis by (simp add: ParseCr3Match_def ParseNumber_text)
qed

lemma config_text_parsed:
  assumes "range_given (cfg_addr_range0 c)" "range_given (cfg_addr_range1 c)"
    "cfg_cr3_match c AND kCr3MatchReservedMask = 0"
  shows "config_options F c0 (config_text c) = Some (set_trace_options c c0)"
  by (simp add: config_text_def config_option_def equals_def ParseAddrConfig_text ParseFlag_text ParseFreqValue_text
      ParseAddrRange_range assms ParseCr3Match_text set_trace_options_def)

lemma config_text_chars: "\<forall>x \<in> set (config_text c). x \<noteq> [] \<and> (\<forall>d \<in> set x. d \<noteq> CHR '';'' \<and> \<not> isspace d)"
proof -
  have n: "\<forall>d \<in> set (number_text w). d \<noteq> CHR '';'' \<and> \<not> isspace d" for w :: "'a::len word"
    using number_text_chars(2) by blast
  have f: "\<forall>d \<in> set (filter_text f). d \<noteq> CHR '';'' \<and> \<not> isspace d" for f
    by (cases f) (simp_all add: isspace_def byte_of_def)
  have b: "\<forall>d \<in> set (flag_text b). d \<noteq> CHR '';'' \<and> \<not> isspace d" for b
    by (simp add: flag_text_def isspace_def byte_of_def)
  have r: "\<forall>d \<in> set (range_text r). d \<noteq> CHR '';'' \<and> \<not> isspace d" for r
    using n by (auto simp: range_text_def isspace_def byte_of_def)
  have s: "list_all (\<lambda>d. d \<noteq> CHR '';'' \<and> \<not> isspace d) ''addrnge=01-baclhcymtkfoqsup3''"
    by (simp add: isspace_def byte_of_def)
  then show ?thesis
    unfolding config_text_def by (simp add: n f b r)
qed

lemma config_roundtrip:
  assumes "range_given (cfg_addr_range0 c)" "range_given (cfg_addr_range1 c)"
    "cfg_cr3_match c AND kCr3MatchReservedMask = 0"
  shows "ParseConfigOption F c0 (join (CHR '';'') (config_text c)) = Some (set_trace_options c c0)"
  unfolding ParseConfigOption_def split_join [OF config_text_chars] by (rule config_text_parsed [OF assms])

end

text \<open>
  C19: every configuration can be given on the command line: parsing the options that describe it
  (address ranges given, the reserved bits of the cr3 value clear) sets exactly the fields they
  name to its values, whatever they were before, and leaves the other fields alone.
\<close>

theorem ParseConfigOption_roundtrip:
  assumes "ftl_splitting F" and "range_given (cfg_addr_range0 c)" and "range_given (cfg_addr_range1 c)"
    and "cfg_cr3_match c AND kCr3MatchReservedMask = 0"
  shows "ParseConfigOption F c0 (join (CHR '';'') (config_text c)) = Some (set_trace_options c c0)"
  by (rule ftl_splitting.config_roundtrip [OF assms])

definition test_config :: IptConfig where
  "test_config = (IptConfig_new 4)\<lparr>cfg_addr_range0 := \<lparr>ar_elf = [], ar_begin = Some 0x1000, ar_end = Some 0x2000\<rparr>,
     cfg_addr_range1 := \<lparr>ar_elf = [], ar_begin = Some 0, ar_end = Some 0\<rparr>, cfg_addr0 := af_kEnable, cfg_cyc := True,
     cfg_cyc_thresh := 3, cfg_cr3_match := 0x20, cfg_user := False\<rparr>"

theorem ParseConfigOption_roundtrip_witness:
  "\<exists>c. ParseConfigOption ftl_ref (IptConfig_new 4) (join (CHR '';'') (config_text test_config)) = Some c
    \<and> cfg_cyc_thresh c = 3 \<and> \<not> cfg_user c \<and> cfg_addr0 c = af_kEnable"
proof -
  have "range_given (cfg_addr_range0 test_config)" "range_given (cfg_addr_range1 test_config)"
      "cfg_cr3_match test_config AND kCr3MatchReservedMask = 0"
    by (simp_all add: test_config_def range_given_def kCr3MatchReservedMask_def)
  from ParseConfigOption_roundtrip [OF ftl_ref_splitting.ftl_splitting_axioms this] show ?thesis
    by (simp add: set_trace_options_def test_config_def)
qed

text \<open>
  The usage text gives 0 to 15 as the values of a frequency or threshold; the parser takes every
  32-bit number, of which the control register gets the low four bits.
\<close>

lemma frequency_not_checked:
  "config_option ftl_ref c (''mtc-freq='' @ number_text (16 :: u32)) = Some (c\<lparr>cfg_mtc_freq := 16\<rparr>)
    \<and> CtlMsr (c\<lparr>cfg_mtc_freq := 16\<rparr>) = CtlMsr (c\<lparr>cfg_mtc_freq := 0\<rparr>)"
proof
  show "config_option ftl_ref c (''mtc-freq='' @ number_text (16 :: u32)) = Some (c\<lparr>cfg_mtc_freq := 16\<rparr>)"
    by (simp add: config_option_def equals_def ftl_ref_splitting.ParseFreqValue_text)
  show "CtlMsr (c\<lparr>cfg_mtc_freq := 16\<rparr>) = CtlMsr (c\<lparr>cfg_mtc_freq := 0\<rparr>)"
    by (simp add: CtlMsr_def)
qed

end
