(* ===== verification/X86.thy ===== *)
theory X86
  imports Ftl
begin

text \<open>
  What the \<^verbatim>\<open>cpuid\<close> instruction says about the processor:
  \<^verbatim>\<open>lib/debugger-utils/x86-cpuid.{h,cc}\<close> and \<^verbatim>\<open>lib/debugger-utils/x86-pt.{h,cc}\<close>.  The instruction
  is a parameter: \<open>C leaf subleaf\<close> are the registers it returns.  The static variables of the two
  files are the records \<open>x86_state\<close> and \<open>pt_state\<close>; they are filled on the first call and never
  change afterwards.  Accesses outside a static array are faults.
\<close>

section \<open>Definitions\<close>

datatype x86_vendor_list = X86_VENDOR_UNKNOWN | X86_VENDOR_INTEL | X86_VENDOR_AMD

record x86_model_info =
  mi_processor_type :: u8
  mi_family :: u8
  mi_model :: u8
  mi_stepping :: u8
  mi_display_family :: u16
  mi_display_model :: u8

definition MAX_SUPPORTED_CPUID :: u32 where
  "MAX_SUPPORTED_CPUID = 0x17"

definition MAX_SUPPORTED_CPUID_EXT :: u32 where
  "MAX_SUPPORTED_CPUID_EXT = 0x80000008"

record cpuid_leaf =
  leaf_a :: u32
  leaf_b :: u32
  leaf_c :: u32
  leaf_d :: u32

type_synonym cpu = "u32 \<Rightarrow> u32 \<Rightarrow> cpuid_leaf"

definition X86_CPUID_BASE :: u32 where
  "X86_CPUID_BASE = 0"

definition X86_CPUID_MODEL_FEATURES :: u32 where
  "X86_CPUID_MODEL_FEATURES = 0x1"

definition X86_CPUID_TOPOLOGY :: u32 where
  "X86_CPUID_TOPOLOGY = 0xb"

definition X86_CPUID_EXT_BASE :: u32 where
  "X86_CPUID_EXT_BASE = 0x80000000"

record x86_cpuid_bit =
  cb_leaf :: u32
  cb_word :: nat
  cb_bit :: nat

definition X86_CPUID_BIT :: "u32 \<Rightarrow> nat \<Rightarrow> nat \<Rightarrow> x86_cpuid_bit" where
  "X86_CPUID_BIT leaf w b = \<lparr>cb_leaf = leaf, cb_word = w, cb_bit = b\<rparr>"

definition X86_FEATURE_PT :: x86_cpuid_bit where
  "X86_FEATURE_PT = X86_CPUID_BIT 0x7 1 25"

record x86_state =
  xs_cpuid :: "cpuid_leaf list"
  xs_cpuid_ext :: "cpuid_leaf list"
  xs_max_cpuid :: u32
  xs_max_ext_cpuid :: u32
  xs_vendor :: x86_vendor_list
  xs_model :: x86_model_info
  xs_initialized :: bool

definition zero_leaf :: cpuid_leaf where
  "zero_leaf = \<lparr>leaf_a = 0, leaf_b = 0, leaf_c = 0, leaf_d = 0\<rparr>"

definition zero_model :: x86_model_info where
  "zero_model = \<lparr>mi_processor_type = 0, mi_family = 0, mi_model = 0, mi_stepping = 0,
     mi_display_family = 0, mi_display_model = 0\<rparr>"

definition x86_static :: x86_state where
  "x86_static =
     \<lparr>xs_cpuid = replicate (unat MAX_SUPPORTED_CPUID + 1) zero_leaf,
      xs_cpuid_ext = replicate (unat (MAX_SUPPORTED_CPUID_EXT - X86_CPUID_EXT_BASE) + 1) zero_leaf,
      xs_max_cpuid = 0, xs_max_ext_cpuid = 0, xs_vendor = X86_VENDOR_UNKNOWN,
      xs_model = zero_model, xs_initialized = False\<rparr>"

definition BITS_SHIFT :: "u32 \<Rightarrow> nat \<Rightarrow> nat \<Rightarrow> u32" where
  "BITS_SHIFT x high low = drop_bit low x AND (push_bit (high - low + 1) 1 - 1)"

definition vendor_of :: "cpuid_leaf \<Rightarrow> x86_vendor_list" where
  "vendor_of l =
     (let vendor_string = map char_of_byte
            (le_bytes 4 (ucast (leaf_b l)) @ le_bytes 4 (ucast (leaf_d l)) @ le_bytes 4 (ucast (leaf_c l)));
          vendor_string = takeWhile (\<lambda>c. c \<noteq> CHR 0x00) vendor_string
      in if vendor_string = ''GenuineIntel'' then X86_VENDOR_INTEL
         else if vendor_string = ''AuthenticAMD'' then X86_VENDOR_AMD
         else X86_VENDOR_UNKNOWN)"

text \<open>The two loops that fill the tables; \<open>base\<close> is the leaf of their first entry.\<close>

fun read_leaves :: "cpu \<Rightarrow> u32 \<Rightarrow> nat list \<Rightarrow> cpuid_leaf list \<Rightarrow> cpuid_leaf list option" where
  "read_leaves C base [] tbl = Some tbl"
| "read_leaves C base (i # is) tbl =
     do {
       dcheck (i < length tbl);
       read_leaves C base is (tbl[i := C (base + of_nat i) 0])
     }"

definition x86_get_cpuid_leaf_raw :: "u32 \<Rightarrow> x86_state \<Rightarrow> cpuid_leaf option option" where
  "x86_get_cpuid_leaf_raw leaf s =
     (if leaf < X86_CPUID_EXT_BASE then
        if leaf > xs_max_cpuid s then Some None
        else do {
          dcheck (unat leaf < length (xs_cpuid s));
          Some (Some (xs_cpuid s ! unat leaf))
        }
      else
        if leaf > xs_max_ext_cpuid s then Some None
        else do {
          dcheck (unat (leaf - X86_CPUID_EXT_BASE) < length (xs_cpuid_ext s));
          Some (Some (xs_cpuid_ext s ! unat (leaf - X86_CPUID_EXT_BASE)))
        })"

definition model_of :: "cpuid_leaf \<Rightarrow> x86_model_info" where
  "model_of l =
     (let a = leaf_a l; family = ucast (BITS_SHIFT a 11 8) :: u8; model = ucast (BITS_SHIFT a 7 4) :: u8 in
      \<lparr>mi_processor_type = ucast (BITS_SHIFT a 13 12), mi_family = family, mi_model = model,
       mi_stepping = ucast (BITS_SHIFT a 3 0),
       mi_display_family = ucast family + (if family = 0xf then ucast (BITS_SHIFT a 27 20) else 0),
       mi_display_model = model +
         (if family = 0xf \<or> family = 0x6 then ucast (push_bit 4 (BITS_SHIFT a 19 16)) else 0)\<rparr>)"

definition x86_feature_init :: "cpu \<Rightarrow> x86_state \<Rightarrow> x86_state option" where
  "x86_feature_init C s =
     (if xs_initialized s then Some s
      else do {
        let leaf0 = C 0 0;
        let cpuid = (xs_cpuid s)[0 := leaf0];
        let max_cpuid = (if leaf_a leaf0 > MAX_SUPPORTED_CPUID then MAX_SUPPORTED_CPUID else leaf_a leaf0);
        cpuid \<leftarrow> read_leaves C 0 [1..<unat max_cpuid + 1] cpuid;
        let ext0 = C X86_CPUID_EXT_BASE 0;
        let cpuid_ext = (xs_cpuid_ext s)[0 := ext0];
        let max_ext_cpuid =
          (if leaf_a ext0 > MAX_SUPPORTED_CPUID_EXT then MAX_SUPPORTED_CPUID_EXT else leaf_a ext0);
        cpuid_ext \<leftarrow> read_leaves C X86_CPUID_EXT_BASE
          [1..<unat max_ext_cpuid - unat X86_CPUID_EXT_BASE + 1] cpuid_ext;
        let s = s\<lparr>xs_cpuid := cpuid, xs_cpuid_ext := cpuid_ext, xs_max_cpuid := max_cpuid,
                  xs_max_ext_cpuid := max_ext_cpuid, xs_vendor := vendor_of leaf0\<rparr>;
        leaf \<leftarrow> x86_get_cpuid_leaf_raw X86_CPUID_MODEL_FEATURES s;
        Some (s\<lparr>xs_model := (case leaf of None \<Rightarrow> xs_model s | Some l \<Rightarrow> model_of l),
                xs_initialized := True\<rparr>)
      })"

definition x86_get_cpuid_subleaf ::
  "cpu \<Rightarrow> u32 \<Rightarrow> u32 \<Rightarrow> x86_state \<Rightarrow> (cpuid_leaf option \<times> x86_state) option" where
  "x86_get_cpuid_subleaf C num subleaf s =
     do {
       s \<leftarrow> x86_feature_init C s;
       if num < X86_CPUID_EXT_BASE then
         Some (if num > xs_max_cpuid s then None else Some (C num subleaf), s)
       else
         Some (if num > xs_max_ext_cpuid s then None else Some (C num subleaf), s)
     }"

definition x86_get_cpuid_leaf :: "cpu \<Rightarrow> u32 \<Rightarrow> x86_state \<Rightarrow> (cpuid_leaf option \<times> x86_state) option" where
  "x86_get_cpuid_leaf C leaf s =
     do {
       s \<leftarrow> x86_feature_init C s;
       l \<leftarrow> x86_get_cpuid_leaf_raw leaf s;
       Some (l, s)
     }"

definition leaf_word :: "cpuid_leaf \<Rightarrow> nat \<Rightarrow> u32" where
  "leaf_word l w = (if w = 0 then leaf_a l else if w = 1 then leaf_b l else if w = 2 then leaf_c l
     else if w = 3 then leaf_d l else 0)"

definition x86_feature_test :: "cpu \<Rightarrow> x86_cpuid_bit \<Rightarrow> x86_state \<Rightarrow> (bool \<times> x86_state) option" where
  "x86_feature_test C b s =
     do {
       dcheck (cb_word b \<le> 3 \<and> cb_bit b \<le> 31);
       if cb_word b > 3 \<or> cb_bit b > 31 then Some (False, s)
       else do {
         (leaf, s) \<leftarrow> x86_get_cpuid_leaf C (cb_leaf b) s;
         Some (case leaf of
             None \<Rightarrow> False
           | Some l \<Rightarrow> push_bit (cb_bit b) 1 AND leaf_word l (cb_word b) \<noteq> 0, s)
       }
     }"

record x86_topology_level =
  tl_right_shift :: u8
  tl_type :: u8

definition x86_topology_enumerate :: "cpu \<Rightarrow> u8 \<Rightarrow> x86_topology_level option" where
  "x86_topology_enumerate C level =
     (let l = C X86_CPUID_TOPOLOGY (ucast level); type = ucast (drop_bit 8 (leaf_c l) AND 0xff) :: u8 in
      if type = 0 then None
      else Some \<lparr>tl_right_shift = ucast (leaf_a l AND 0x1f), tl_type = type\<rparr>)"

definition x86_get_model :: "cpu \<Rightarrow> x86_state \<Rightarrow> (x86_model_info \<times> x86_state) option" where
  "x86_get_model C s = map_option (\<lambda>s. (xs_model s, s)) (x86_feature_init C s)"

text \<open>The table of \<^verbatim>\<open>x86_feature_debug\<close> and the text it prints.\<close>

definition x86_features :: "(x86_cpuid_bit \<times> string) list" where
  "x86_features =
     [(X86_CPUID_BIT 0x1 3 0, ''fpu''), (X86_CPUID_BIT 0x1 3 25, ''sse''),
      (X86_CPUID_BIT 0x1 3 26, ''sse2''), (X86_CPUID_BIT 0x1 2 0, ''sse3''),
      (X86_CPUID_BIT 0x1 2 9, ''ssse3''), (X86_CPUID_BIT 0x1 2 19, ''sse4.1''),
      (X86_CPUID_BIT 0x1 2 20, ''sse4.2''), (X86_CPUID_BIT 0x1 3 23, ''mmx''),
      (X86_CPUID_BIT 0x1 2 28, ''avx''), (X86_CPUID_BIT 0x7 1 5, ''avx2''),
      (X86_CPUID_BIT 0x1 3 24, ''fxsr''), (X86_CPUID_BIT 0x1 2 26, ''xsave''),
      (X86_CPUID_BIT 0x1 2 25, ''aesni''), (X86_CPUID_BIT 0x7 1 1, ''tsc_adj''),
      (X86_CPUID_BIT 0x7 1 7, ''smep''), (X86_CPUID_BIT 0x7 1 20, ''smap''),
      (X86_CPUID_BIT 0x1 2 30, ''rdrand''), (X86_CPUID_BIT 0x7 1 18, ''rdseed''),
      (X86_FEATURE_PT, ''pt''), (X86_CPUID_BIT 0x7 2 3, ''pku''),
      (X86_CPUID_BIT 0x80000001 3 11, ''syscall''), (X86_CPUID_BIT 0x80000001 3 20, ''nx''),
      (X86_CPUID_BIT 0x80000001 3 26, ''huge''), (X86_CPUID_BIT 0x80000001 3 27, ''rdtscp''),
      (X86_CPUID_BIT 0x80000007 3 8, ''invar_tsc''), (X86_CPUID_BIT 0x1 2 24, ''tsc_deadline'')]"

fun print_features ::
  "cpu \<Rightarrow> (x86_cpuid_bit \<times> string) list \<Rightarrow> nat \<Rightarrow> x86_state \<Rightarrow> (string \<times> x86_state) option" where
  "print_features C [] col s = Some (if col > 0 then ''\<newline>'' else [], s)"
| "print_features C ((b, name) # fs) col s =
     do {
       (present, s) \<leftarrow> x86_feature_test C b s;
       let text = (if present then '' '' @ name else []);
       let col = col + length text;
       (rest, s) \<leftarrow> print_features C fs (if col \<ge> 80 then 0 else col) s;
       Some (text @ (if col \<ge> 80 then ''\<newline>'' else []) @ rest, s)
     }"

definition x86_feature_debug :: "cpu \<Rightarrow> x86_state \<Rightarrow> (string \<times> x86_state) option" where
  "x86_feature_debug C s =
     do {
       s \<leftarrow> x86_feature_init C s;
       let vendor_string =
         (case xs_vendor s of X86_VENDOR_UNKNOWN \<Rightarrow> ''unknown'' | X86_VENDOR_INTEL \<Rightarrow> ''Intel''
          | X86_VENDOR_AMD \<Rightarrow> ''AMD'');
       (model, s) \<leftarrow> x86_get_model C s;
       let u = (\<lambda>n :: nat. nat_string 10 n @ ''\<newline>'');
       (features, s) \<leftarrow> print_features C x86_features 0 s;
       Some (''Vendor: '' @ vendor_string @ ''\<newline>'' @ ''Model:\<newline>''
         @ ''  processor: '' @ u (unat (mi_processor_type model))
         @ ''  base family: '' @ u (unat (mi_family model))
         @ ''  base model: '' @ u (unat (mi_model model))
         @ ''  family: '' @ u (unat (mi_display_family model))
         @ ''  model: '' @ u (unat (mi_display_model model))
         @ ''  stepping: '' @ u (unat (mi_stepping model))
         @ ''Features:\<newline>'' @ features, s)
     }"

record ProcessorTraceFeatures =
  have_pt :: bool
  cr3_filtering :: bool
  cycle_accurate_mode :: bool
  ip_filtering :: bool
  pt_mtc :: bool
  ptwrite :: bool
  power_events :: bool
  addr_cfg_max :: u32
  supports_filter_ranges :: bool
  supports_stop_ranges :: bool
  num_addr_ranges :: u32
  mtc_freq_mask :: u32
  cycle_thresh_mask :: u32
  psb_freq_mask :: u32
  to_pa :: bool
  multiple_to_pa_entries :: bool
  single_range :: bool
  trace_transport_output :: bool
  payloads_are_lip :: bool
  tsc_ratio_num :: u32
  tsc_ratio_den :: u32

definition zero_pt :: ProcessorTraceFeatures where
  "zero_pt = \<lparr>have_pt = False, cr3_filtering = False, cycle_accurate_mode = False, ip_filtering = False,
     pt_mtc = False, ptwrite = False, power_events = False, addr_cfg_max = 0, supports_filter_ranges = False,
     supports_stop_ranges = False, num_addr_ranges = 0, mtc_freq_mask = 0, cycle_thresh_mask = 0,
     psb_freq_mask = 0, to_pa = False, multiple_to_pa_entries = False, single_range = False,
     trace_transport_output = False, payloads_are_lip = False, tsc_ratio_num = 0, tsc_ratio_den = 0\<rparr>"

record pt_state =
  ps_x86 :: x86_state
  ps_features :: ProcessorTraceFeatures
  ps_initialized :: bool

definition pt_static :: pt_state where
  "pt_static = \<lparr>ps_x86 = x86_static, ps_features = zero_pt, ps_initialized = False\<rparr>"

definition read_pt_features :: "cpu \<Rightarrow> ProcessorTraceFeatures" where
  "read_pt_features C =
     (let BIT = (\<lambda>x n. x AND push_bit n 1 \<noteq> (0 :: u32));
          max_leaf = leaf_a (C 0 0); l = C 0x14 0; a = leaf_a l; b = leaf_b l; c = leaf_c l;
          pt = zero_pt\<lparr>have_pt := True\<rparr>;
          pt = (if BIT b 2 then pt\<lparr>addr_cfg_max := 2\<rparr> else pt);
          pt = (if BIT b 1 \<and> a \<ge> 1 then
                  let l1 = C 0x14 1 in
                  pt\<lparr>mtc_freq_mask := drop_bit 16 (leaf_a l1) AND 0xffff,
                     cycle_thresh_mask := leaf_b l1 AND 0xffff,
                     psb_freq_mask := drop_bit 16 (leaf_b l1) AND 0xffff,
                     num_addr_ranges := leaf_a l1 AND 0x3\<rparr>
                else pt);
          pt = pt\<lparr>cr3_filtering := BIT b 0, cycle_accurate_mode := BIT b 1, ip_filtering := BIT b 2,
                  pt_mtc := BIT b 3, ptwrite := BIT b 4, power_events := BIT b 5\<rparr>;
          pt = pt\<lparr>supports_filter_ranges := addr_cfg_max pt \<ge> 1, supports_stop_ranges := addr_cfg_max pt \<ge> 2\<rparr>;
          pt = pt\<lparr>to_pa := BIT c 0, multiple_to_pa_entries := BIT c 1, single_range := BIT c 2,
                  trace_transport_output := BIT c 3, payloads_are_lip := BIT c 31\<rparr>
      in if max_leaf \<ge> 0x15 then
           pt\<lparr>tsc_ratio_den := leaf_a (C 0x15 0), tsc_ratio_num := leaf_b (C 0x15 0)\<rparr>
         else pt)"

definition GetProcessorTraceFeatures :: "cpu \<Rightarrow> pt_state \<Rightarrow> (ProcessorTraceFeatures \<times> pt_state) option" where
  "GetProcessorTraceFeatures C s =
     (if ps_initialized s then Some (ps_features s, s)
      else do {
        let s = s\<lparr>ps_features := zero_pt, ps_initialized := True\<rparr>;
        (present, x) \<leftarrow> x86_feature_test C X86_FEATURE_PT (ps_x86 s);
        let s = s\<lparr>ps_x86 := x\<rparr>;
        if \<not> present then Some (ps_features s, s)
        else
          let pt = read_pt_features C in Some (pt, s\<lparr>ps_features := pt\<rparr>)
      })"

definition HaveProcessorTrace :: "cpu \<Rightarrow> pt_state \<Rightarrow> (bool \<times> pt_state) option" where
  "HaveProcessorTrace C s =
     do {
       (ptf, s) \<leftarrow> GetProcessorTraceFeatures C s;
       Some (have_pt ptf, s)
     }"

section \<open>The cached tables are what the instruction returns\<close>

lemma read_leaves_ok:
  assumes "\<forall>i \<in> set is. i < length tbl"
  shows "read_leaves C base is tbl =
    Some (map (\<lambda>j. if j \<in> set is then C (base + of_nat j) 0 else tbl ! j) [0..<length tbl])"
  using assms
proof (induction "is" arbitrary: tbl)
  case Nil
  then show ?case by (simp add: map_nth)
next
  case (Cons i "is")
  then show ?case by (auto intro!: nth_equalityI simp: nth_list_update)
qed

definition cpuid_max :: "cpu \<Rightarrow> u32" where
  "cpuid_max C = min (leaf_a (C 0 0)) MAX_SUPPORTED_CPUID"

definition cpuid_ext_max :: "cpu \<Rightarrow> u32" where
  "cpuid_ext_max C = min (leaf_a (C X86_CPUID_EXT_BASE 0)) MAX_SUPPORTED_CPUID_EXT"

definition cpuid_table :: "cpu \<Rightarrow> u32 \<Rightarrow> nat \<Rightarrow> nat \<Rightarrow> cpuid_leaf list" where
  "cpuid_table C base n len = map (\<lambda>j. if j = 0 \<or> j < n then C (base + of_nat j) 0 else zero_leaf) [0..<len]"

lemma read_leaves_table:
  assumes "n \<le> len" and "0 < len"
  shows "read_leaves C base [1..<n] ((replicate len zero_leaf)[0 := C base 0]) = Some (cpuid_table C base n len)"
proof -
  have "\<forall>i \<in> set [1..<n]. i < length ((replicate len zero_leaf)[0 := C base 0])" using assms by simp
  from read_leaves_ok [OF this, of C base] show ?thesis
    using assms by (auto simp: cpuid_table_def nth_list_update not_le intro!: nth_equalityI)
qed

lemma cpuid_max_bounds:
  "unat (cpuid_max C) \<le> 0x17" "unat (cpuid_ext_max C) \<le> 0x80000008"
proof -
  have "cpuid_max C \<le> 0x17" "cpuid_ext_max C \<le> 0x80000008"
    by (simp_all add: cpuid_max_def MAX_SUPPORTED_CPUID_def cpuid_ext_max_def MAX_SUPPORTED_CPUID_EXT_def)
  then show "unat (cpuid_max C) \<le> 0x17" "unat (cpuid_ext_max C) \<le> 0x80000008"
    by (simp_all add: word_le_nat_alt)
qed

definition x86_filled :: "cpu \<Rightarrow> x86_state \<Rightarrow> bool" where
  "x86_filled C s \<longleftrightarrow> xs_initialized s \<and> xs_max_cpuid s = cpuid_max C \<and> xs_max_ext_cpuid s = cpuid_ext_max C
     \<and> xs_cpuid s = cpuid_table C 0 (unat (cpuid_max C) + 1) 24
     \<and> xs_cpuid_ext s = cpuid_table C X86_CPUID_EXT_BASE (unat (cpuid_ext_max C) - 0x80000000 + 1) 9
     \<and> xs_vendor s = vendor_of (C 0 0)
     \<and> xs_model s = (if 1 \<le> cpuid_max C then model_of (C 1 0) else zero_model)"

text \<open>A state the static variables can have while the program runs.\<close>

definition x86_valid :: "cpu \<Rightarrow> x86_state \<Rightarrow> bool" where
  "x86_valid C s \<longleftrightarrow> s = x86_static \<or> x86_filled C s"

definition cpuid_leaf_ref :: "cpu \<Rightarrow> u32 \<Rightarrow> cpuid_leaf option" where
  "cpuid_leaf_ref C leaf =
     (if leaf \<le> (if leaf < X86_CPUID_EXT_BASE then cpuid_max C else cpuid_ext_max C) then Some (C leaf 0)
      else None)"

definition cpuid_bit_ref :: "cpu \<Rightarrow> x86_cpuid_bit \<Rightarrow> bool" where
  "cpuid_bit_ref C b \<longleftrightarrow> (case cpuid_leaf_ref C (cb_leaf b) of None \<Rightarrow> False
     | Some l \<Rightarrow> bit (leaf_word l (cb_word b)) (cb_bit b))"

lemma get_leaf_raw_filled:
  assumes "xs_max_cpuid s = cpuid_max C" "xs_max_ext_cpuid s = cpuid_ext_max C"
    "xs_cpuid s = cpuid_table C 0 (unat (cpuid_max C) + 1) 24"
    "xs_cpuid_ext s = cpuid_table C X86_CPUID_EXT_BASE (unat (cpuid_ext_max C) - 0x80000000 + 1) 9"
  shows "x86_get_cpuid_leaf_raw leaf s = Some (cpuid_leaf_ref C leaf)"
proof (cases "leaf < X86_CPUID_EXT_BASE")
  case True
  have "unat leaf < unat (cpuid_max C) + 1" "unat leaf < 24" if "leaf \<le> cpuid_max C"
    using that cpuid_max_bounds [of C] by (auto simp: word_le_nat_alt)
  with True assms show ?thesis
    by (auto simp: x86_get_cpuid_leaf_raw_def cpuid_leaf_ref_def cpuid_table_def not_le)
next
  case False
  let ?i = "leaf - X86_CPUID_EXT_BASE"
  have i: "unat ?i = unat leaf - 0x80000000"
    using False by (simp add: X86_CPUID_EXT_BASE_def not_less unat_sub)
  have "unat ?i < unat (cpuid_ext_max C) - 0x80000000 + 1" "unat ?i < 9" if "leaf \<le> cpuid_ext_max C"
    using that cpuid_max_bounds [of C] unfolding i word_le_nat_alt by simp_all
  with False assms show ?thesis
    by (auto simp: x86_get_cpuid_leaf_raw_def cpuid_leaf_ref_def cpuid_table_def not_le)
qed

lemma x86_feature_init_static: "run (x86_filled C) (x86_feature_init C x86_static)"
proof -
  have m: "(if leaf_a (C 0 0) > MAX_SUPPORTED_CPUID then MAX_SUPPORTED_CPUID else leaf_a (C 0 0)) = cpuid_max C"
    "(if leaf_a (C X86_CPUID_EXT_BASE 0) > MAX_SUPPORTED_CPUID_EXT then MAX_SUPPORTED_CPUID_EXT
      else leaf_a (C X86_CPUID_EXT_BASE 0)) = cpuid_ext_max C"
    by (auto simp: cpuid_max_def cpuid_ext_max_def)
  have n: "unat MAX_SUPPORTED_CPUID + 1 = 24" "unat (MAX_SUPPORTED_CPUID_EXT - X86_CPUID_EXT_BASE) + 1 = 9"
      "unat X86_CPUID_EXT_BASE = 0x80000000"
    by (simp_all add: MAX_SUPPORTED_CPUID_def MAX_SUPPORTED_CPUID_EXT_def X86_CPUID_EXT_BASE_def)
  have t: "read_leaves C 0 [1..<unat (cpuid_max C) + 1]
        ((replicate (unat MAX_SUPPORTED_CPUID + 1) zero_leaf)[0 := C 0 0])
      = Some (cpuid_table C 0 (unat (cpuid_max C) + 1) 24)"
    "read_leaves C X86_CPUID_EXT_BASE [1..<unat (cpuid_ext_max C) - 0x80000000 + 1]
        ((replicate (unat (MAX_SUPPORTED_CPUID_EXT - X86_CPUID_EXT_BASE) + 1) zero_leaf)[0 := C X86_CPUID_EXT_BASE 0])
      = Some (cpuid_table C X86_CPUID_EXT_BASE (unat (cpuid_ext_max C) - 0x80000000 + 1) 9)"
    unfolding n using cpuid_max_bounds [of C] by (intro read_leaves_table; simp)+
  have sel: "xs_initialized x86_static = False" "xs_model x86_static = zero_model"
      "xs_cpuid x86_static = replicate (unat MAX_SUPPORTED_CPUID + 1) zero_leaf"
      "xs_cpuid_ext x86_static = replicate (unat (MAX_SUPPORTED_CPUID_EXT - X86_CPUID_EXT_BASE) + 1) zero_leaf"
    by (simp_all only: x86_static_def x86_state.simps)
  have model: "cpuid_leaf_ref C X86_CPUID_MODEL_FEATURES = (if 1 \<le> cpuid_max C then Some (C 1 0) else None)"
    by (simp add: cpuid_leaf_ref_def X86_CPUID_MODEL_FEATURES_def X86_CPUID_EXT_BASE_def)
  show ?thesis
    unfolding x86_feature_init_def Let_def m sel n(3) t if_False bind.bind_lunit
    by (subst get_leaf_raw_filled [where C = C]) (simp_all add: model x86_filled_def sel)
qed

lemma x86_feature_init_filled: "x86_filled C s \<Longrightarrow> x86_feature_init C s = Some s"
  by (simp add: x86_filled_def x86_feature_init_def)

lemma x86_feature_init_valid: "x86_valid C s \<Longrightarrow> run (x86_filled C) (x86_feature_init C s)"
  using x86_feature_init_static [of C] x86_feature_init_filled [of C s] by (auto simp: x86_valid_def)

lemma x86_feature_test_ok:
  assumes "x86_valid C s" and "cb_word b \<le> 3" and "cb_bit b \<le> 31"
  shows "run (\<lambda>(r, s'). x86_filled C s' \<and> r = cpuid_bit_ref C b) (x86_feature_test C b s)"
proof -
  have bit: "2 ^ n AND w \<noteq> 0 \<longleftrightarrow> bit w n" for w :: u32 and n
    by (auto simp: bit_eq_iff [where 'a = u32] bit_and_iff bit_exp_iff dest: bit_imp_le_length)
  obtain s1 where s1: "x86_feature_init C s = Some s1" "x86_filled C s1"
    using x86_feature_init_valid [OF assms(1)] by (auto simp: run_def)
  have "x86_get_cpuid_leaf_raw (cb_leaf b) s1 = Some (cpuid_leaf_ref C (cb_leaf b))"
    using s1(2) by (intro get_leaf_raw_filled) (simp_all add: x86_filled_def)
  with s1 assms show ?thesis
    by (auto simp: x86_feature_test_def x86_get_cpuid_leaf_def cpuid_bit_ref_def bit [symmetric] split: option.splits)
qed

lemma print_features_ok:
  assumes "x86_filled C s" and "\<forall>(b, n) \<in> set fs. cb_word b \<le> 3 \<and> cb_bit b \<le> 31"
  shows "run (\<lambda>(t, s'). x86_filled C s') (print_features C fs col s)"
  using assms
proof (induction fs arbitrary: col s)
  case (Cons f fs)
  obtain b name where f: "f = (b, name)" by fastforce
  have rng: "\<forall>(b, n) \<in> set fs. cb_word b \<le> 3 \<and> cb_bit b \<le> 31" using Cons.prems(2) by simp
  have "run (\<lambda>(r, s'). x86_filled C s') (x86_feature_test C b s)"
    by (rule run_mono [OF x86_feature_test_ok]) (use Cons.prems f in \<open>auto simp: x86_valid_def\<close>)
  then show ?case unfolding f print_features.simps Let_def
    by (rule run_bindI) (auto intro!: run_bindI [OF Cons.IH [OF _ rng]])
qed simp

lemma x86_features_range: "\<forall>(b, n) \<in> set x86_features. cb_word b \<le> 3 \<and> cb_bit b \<le> 31"
  by (simp add: x86_features_def X86_CPUID_BIT_def X86_FEATURE_PT_def)

text \<open>
  C17: the cached view of the processor is the processor's.  Whatever was asked before, a feature test
  cannot fail an assertion or leave the tables, and its answer is the bit the instruction itself
  returns for that leaf, leaves beyond the advertised or the supported maximum having none; so is
  every leaf that is looked up afterwards, and the description of the processor can be printed.
\<close>

theorem x86_cache_equivalence:
  assumes "x86_valid C s" and "cb_word b \<le> 3" and "cb_bit b \<le> 31"
  shows "\<exists>s'. x86_feature_test C b s = Some (cpuid_bit_ref C b, s') \<and> x86_valid C s'
    \<and> (\<forall>leaf. x86_get_cpuid_leaf C leaf s' = Some (cpuid_leaf_ref C leaf, s'))
    \<and> x86_feature_debug C s' \<noteq> None"
proof -
  obtain s' where s': "x86_feature_test C b s = Some (cpuid_bit_ref C b, s')" "x86_filled C s'"
    using x86_feature_test_ok [OF assms] by (auto simp: run_def)
  have "x86_get_cpuid_leaf C leaf s' = Some (cpuid_leaf_ref C leaf, s')" for leaf
    using s'(2) get_leaf_raw_filled [of s' C leaf]
    by (simp add: x86_get_cpuid_leaf_def x86_feature_init_filled x86_filled_def x86_feature_init_def)
  moreover obtain r where "print_features C x86_features 0 s' = Some r"
    using print_features_ok [OF s'(2) x86_features_range, of 0] by (auto simp: run_def)
  then have "x86_feature_debug C s' \<noteq> None"
    by (cases r) (simp add: x86_feature_debug_def x86_get_model_def x86_feature_init_filled [OF s'(2)] Let_def)
  ultimately show ?thesis using s' by (auto simp: x86_valid_def)
qed

text \<open>A processor with leaves 0 to 7 of which leaf 7 has bit 25 of \<^verbatim>\<open>ebx\<close>.\<close>

definition test_cpu :: cpu where
  "test_cpu leaf sub = (if leaf = 0 then zero_leaf\<lparr>leaf_a := 0x16\<rparr>
     else if leaf = 7 then zero_leaf\<lparr>leaf_b := 0x2000000\<rparr>
     else if leaf = 0x14 then zero_leaf\<lparr>leaf_a := 1, leaf_b := 0x3e\<rparr> else zero_leaf)"

theorem x86_cache_equivalence_witness:
  "\<exists>s'. x86_feature_test test_cpu X86_FEATURE_PT x86_static = Some (True, s')
    \<and> x86_get_cpuid_leaf test_cpu 0x18 s' = Some (None, s')"
proof -
  have "x86_valid test_cpu x86_static" "cb_word X86_FEATURE_PT \<le> 3" "cb_bit X86_FEATURE_PT \<le> 31"
    by (simp_all add: x86_valid_def X86_FEATURE_PT_def X86_CPUID_BIT_def)
  from x86_cache_equivalence [OF this] show ?thesis
    by (auto simp: cpuid_bit_ref_def cpuid_leaf_ref_def X86_FEATURE_PT_def X86_CPUID_BIT_def test_cpu_def cpuid_max_def
        X86_CPUID_EXT_BASE_def MAX_SUPPORTED_CPUID_def leaf_word_def zero_leaf_def bit_numeral_rec)
qed

section \<open>Processor trace\<close>

lemma feature_pt_range: "cb_word X86_FEATURE_PT \<le> 3" "cb_bit X86_FEATURE_PT \<le> 31"
  by (simp_all add: X86_FEATURE_PT_def X86_CPUID_BIT_def)

definition pt_ref :: "cpu \<Rightarrow> ProcessorTraceFeatures" where
  "pt_ref C = (if cpuid_bit_ref C X86_FEATURE_PT then read_pt_features C else zero_pt)"

definition pt_valid :: "cpu \<Rightarrow> pt_state \<Rightarrow> bool" where
  "pt_valid C s \<longleftrightarrow> x86_valid C (ps_x86 s) \<and> (ps_initialized s \<longrightarrow> ps_features s = pt_ref C)"

text \<open>
  The features are read once; every call returns the same ones.  Without the processor trace bit
  they are all off; address ranges can stop a trace only where they can filter it.
\<close>

lemma GetProcessorTraceFeatures_ok:
  assumes "pt_valid C s"
  shows "\<exists>s'. GetProcessorTraceFeatures C s = Some (pt_ref C, s') \<and> pt_valid C s' \<and> ps_initialized s'"
proof (cases "ps_initialized s")
  case False
  obtain x where "x86_feature_test C X86_FEATURE_PT (ps_x86 s) = Some (cpuid_bit_ref C X86_FEATURE_PT, x)"
      "x86_filled C x"
    using x86_feature_test_ok [OF _ feature_pt_range] assms by (auto simp: run_def pt_valid_def)
  with False show ?thesis
    by (auto simp: GetProcessorTraceFeatures_def pt_valid_def x86_valid_def pt_ref_def Let_def)
qed (use assms in \<open>auto simp: GetProcessorTraceFeatures_def pt_valid_def\<close>)

lemma pt_ref_coherent:
  "supports_stop_ranges (pt_ref C) \<longleftrightarrow> supports_filter_ranges (pt_ref C)"
  "supports_filter_ranges (pt_ref C) \<longleftrightarrow> ip_filtering (pt_ref C)"
  "have_pt (pt_ref C) \<longleftrightarrow> cpuid_bit_ref C X86_FEATURE_PT"
  by (simp_all add: pt_ref_def read_pt_features_def zero_pt_def Let_def)

lemma HaveProcessorTrace_ok:
  "pt_valid C s \<Longrightarrow> \<exists>s'. HaveProcessorTrace C s = Some (cpuid_bit_ref C X86_FEATURE_PT, s') \<and> pt_valid C s'"
  using GetProcessorTraceFeatures_ok [of C s] by (auto simp: HaveProcessorTrace_def pt_ref_coherent)

lemma pt_valid_static: "pt_valid C pt_static"
  by (simp add: pt_valid_def pt_static_def x86_valid_def)

end
