(* ===== verification/Ipt_Control.thy ===== *)
theory Ipt_Control
  imports Ipt_Config X86 Thread
begin

text \<open>
  The operations of the tracer on the devices of the processor trace driver and of ktrace:
  \<^verbatim>\<open>bin/ipt/control.{h,cc}\<close>.  The devices, the files and the two system calls that are used here only
  are the record \<open>V\<close> of operations on the kernel state; an \<^verbatim>\<open>ioctl\<close> returns a negative number on failure.
  \<^verbatim>\<open>ftl::UniqueFD\<close> and \<^verbatim>\<open>mx::handle\<close> close what they hold at the end of their scope, which is
  written out.  \<^verbatim>\<open>fprintf\<close> to a file is one write of its text; its result is not looked at.
  \<^verbatim>\<open>(1 << order) * PAGE_SIZE\<close> is computed in 32-bit signed integers and is a fault where it overflows.
\<close>

section \<open>Definitions\<close>

record ipt_buffer_config =
  bc_num_buffers :: u32
  bc_buffer_order :: u32
  bc_is_circular :: bool
  bc_ctl :: u64
  bc_cr3_match :: u64
  bc_range0 :: "u64 \<times> u64"
  bc_range1 :: "u64 \<times> u64"

datatype ktrace_action = KTRACE_ACTION_START | KTRACE_ACTION_STOP

record 'k ipt_dev =
  dev_cpu :: cpu
  dev_open :: "string \<Rightarrow> 'k \<Rightarrow> int \<times> 'k"
  dev_close :: "int \<Rightarrow> 'k \<Rightarrow> 'k"
  ioctl_ktrace_get_handle :: "int \<Rightarrow> 'k \<Rightarrow> int \<times> handle \<times> 'k"
  ioctl_ipt_set_mode :: "int \<Rightarrow> ipt_mode \<Rightarrow> 'k \<Rightarrow> int \<times> 'k"
  ioctl_ipt_alloc_buffer :: "int \<Rightarrow> ipt_buffer_config \<Rightarrow> 'k \<Rightarrow> int \<times> u32 \<times> 'k"
  ioctl_ipt_cpu_mode_alloc :: "int \<Rightarrow> 'k \<Rightarrow> int \<times> 'k"
  ioctl_ipt_cpu_mode_start :: "int \<Rightarrow> 'k \<Rightarrow> int \<times> 'k"
  ioctl_ipt_cpu_mode_stop :: "int \<Rightarrow> 'k \<Rightarrow> int \<times> 'k"
  ioctl_ipt_cpu_mode_free :: "int \<Rightarrow> 'k \<Rightarrow> int \<times> 'k"
  ioctl_ipt_assign_buffer_thread :: "int \<Rightarrow> handle \<Rightarrow> u32 \<Rightarrow> 'k \<Rightarrow> int \<times> 'k"
  ioctl_ipt_release_buffer_thread :: "int \<Rightarrow> handle \<Rightarrow> u32 \<Rightarrow> 'k \<Rightarrow> int \<times> 'k"
  ioctl_ipt_free_buffer :: "int \<Rightarrow> u32 \<Rightarrow> 'k \<Rightarrow> int \<times> 'k"
  ioctl_ipt_get_buffer_config :: "int \<Rightarrow> u32 \<Rightarrow> 'k \<Rightarrow> int \<times> ipt_buffer_config"
  ioctl_ipt_get_capture_end :: "int \<Rightarrow> u32 \<Rightarrow> 'k \<Rightarrow> int \<times> u64"
  ioctl_ipt_get_buffer_handle :: "int \<Rightarrow> u32 \<Rightarrow> u32 \<Rightarrow> 'k \<Rightarrow> int \<times> handle \<times> 'k"
  mx_ktrace_control :: "handle \<Rightarrow> ktrace_action \<Rightarrow> u32 \<Rightarrow> 'k \<Rightarrow> status \<times> 'k"
  mx_handle_duplicate :: "handle \<Rightarrow> 'k \<Rightarrow> status \<times> handle \<times> 'k"
  vmo_read :: "handle \<Rightarrow> nat \<Rightarrow> nat \<Rightarrow> 'k \<Rightarrow> status \<times> u8 list"
  file_create :: "string \<Rightarrow> 'k \<Rightarrow> int \<times> 'k"
  fd_write :: "int \<Rightarrow> u8 list \<Rightarrow> 'k \<Rightarrow> int \<times> 'k"
  fd_read :: "int \<Rightarrow> nat \<Rightarrow> 'k \<Rightarrow> int \<times> u8 list \<times> 'k"
  dev_ERR_BAD_PATH :: status
  dev_ERR_IO :: status
  KTRACE_GRP_ARCH :: u32
  KTRACE_GRP_TASKS :: u32

definition ipt_device_path :: string where "ipt_device_path = ''/dev/misc/intel-pt''"
definition ktrace_device_path :: string where "ktrace_device_path = ''/dev/misc/ktrace''"
definition buffer_output_path_suffix :: string where "buffer_output_path_suffix = ''pt''"
definition ktrace_output_path_suffix :: string where "ktrace_output_path_suffix = ''ktrace''"
definition cpuid_output_path_suffix :: string where "cpuid_output_path_suffix = ''cpuid''"
definition pt_list_output_path_suffix :: string where "pt_list_output_path_suffix = ''ptlist''"

definition kKtraceGroupMask :: "'k ipt_dev \<Rightarrow> u32" where
  "kKtraceGroupMask V = KTRACE_GRP_ARCH V OR KTRACE_GRP_TASKS V"

definition UniqueFD_reset :: "'k ipt_dev \<Rightarrow> int \<Rightarrow> 'k \<Rightarrow> 'k" where
  "UniqueFD_reset V fd k = (if fd = -1 then k else dev_close V fd k)"

text \<open>The flags say which out parameters are not null; the results are the two descriptors and the handle.\<close>

definition OpenDevices ::
  "'k ipt_dev \<Rightarrow> bool \<Rightarrow> bool \<Rightarrow> bool \<Rightarrow> 'k \<Rightarrow> (int \<times> int \<times> handle) option \<times> 'k" where
  "OpenDevices V out_ipt_fd out_ktrace_fd out_ktrace_handle k =
     (let (ipt_fd, k) = (if out_ipt_fd then dev_open V ipt_device_path k else (-1, k)) in
      if out_ipt_fd \<and> ipt_fd < 0 then (None, k)
      else
        let (ktrace_fd, k) =
          (if out_ktrace_fd \<or> out_ktrace_handle then dev_open V ktrace_device_path k else (-1, k)) in
        if (out_ktrace_fd \<or> out_ktrace_handle) \<and> ktrace_fd < 0 then (None, dev_close V ipt_fd k)
        else
          let (ssize, ktrace_handle, k) =
            (if out_ktrace_handle then ioctl_ktrace_get_handle V ktrace_fd k else (4, MX_HANDLE_INVALID, k)) in
          if out_ktrace_handle \<and> ssize \<noteq> 4 then (None, dev_close V ktrace_fd (dev_close V ipt_fd k))
          else if out_ktrace_fd then (Some (ipt_fd, ktrace_fd, ktrace_handle), k)
          else if ktrace_fd \<noteq> -1 then (Some (ipt_fd, -1, ktrace_handle), dev_close V ktrace_fd k)
          else (Some (ipt_fd, -1, ktrace_handle), k))"

definition SetPerfMode :: "'k ipt_dev \<Rightarrow> IptConfig \<Rightarrow> 'k \<Rightarrow> bool \<times> 'k" where
  "SetPerfMode V config k =
     (case OpenDevices V True False False k of
        (None, k) \<Rightarrow> (False, k)
      | (Some (ipt_fd, _), k) \<Rightarrow>
          (let (ssize, k) = ioctl_ipt_set_mode V ipt_fd (cfg_mode config) k
           in (\<not> ssize < 0, UniqueFD_reset V ipt_fd k)))"

definition InitIptBufferConfig :: "IptConfig \<Rightarrow> ipt_buffer_config option" where
  "InitIptBufferConfig config =
     do {
       a0 \<leftarrow> AddrBegin 0 config;
       b0 \<leftarrow> AddrEnd 0 config;
       a1 \<leftarrow> AddrBegin 1 config;
       b1 \<leftarrow> AddrEnd 1 config;
       Some \<lparr>bc_num_buffers = ucast (cfg_num_buffers config), bc_buffer_order = ucast (cfg_buffer_order config),
             bc_is_circular = cfg_is_circular config, bc_ctl = CtlMsr config, bc_cr3_match = cfg_cr3_match config,
             bc_range0 = (a0, b0), bc_range1 = (a1, b1)\<rparr>
     }"

fun alloc_cpu_buffers :: "'k ipt_dev \<Rightarrow> IptConfig \<Rightarrow> int \<Rightarrow> nat \<Rightarrow> 'k \<Rightarrow> (bool \<times> 'k) option" where
  "alloc_cpu_buffers V config ipt_fd 0 k = Some (True, k)"
| "alloc_cpu_buffers V config ipt_fd (Suc n) k =
     do {
       ipt_config \<leftarrow> InitIptBufferConfig config;
       let (ssize, descriptor, k) = ioctl_ipt_alloc_buffer V ipt_fd ipt_config k;
       if ssize < 0 then Some (False, k) else alloc_cpu_buffers V config ipt_fd n k
     }"

definition InitCpuPerf :: "'k ipt_dev \<Rightarrow> IptConfig \<Rightarrow> 'k \<Rightarrow> (bool \<times> 'k) option" where
  "InitCpuPerf V config k =
     do {
       dcheck (cfg_mode config = IPT_MODE_CPUS);
       (case OpenDevices V True False False k of
          (None, k) \<Rightarrow> Some (False, k)
        | (Some (ipt_fd, _), k) \<Rightarrow>
            do {
              (ok, k) \<leftarrow> alloc_cpu_buffers V config ipt_fd (unat (cfg_num_cpus config)) k;
              if \<not> ok then Some (False, UniqueFD_reset V ipt_fd k)
              else
                let (ssize, k) = ioctl_ipt_cpu_mode_alloc V ipt_fd k
                in Some (\<not> ssize < 0, UniqueFD_reset V ipt_fd k)
            })
     }"

definition InitThreadPerf :: "'k ipt_dev \<Rightarrow> IptConfig \<Rightarrow> thread \<Rightarrow> 'k \<Rightarrow> (bool \<times> thread \<times> 'k) option" where
  "InitThreadPerf V config t k =
     do {
       dcheck (cfg_mode config = IPT_MODE_THREADS);
       (case OpenDevices V True False False k of
          (None, k) \<Rightarrow> Some (False, t, k)
        | (Some (ipt_fd, _), k) \<Rightarrow>
            do {
              ipt_config \<leftarrow> InitIptBufferConfig config;
              let (ssize, descriptor, k) = ioctl_ipt_alloc_buffer V ipt_fd ipt_config k;
              if ssize < 0 then Some (False, t, UniqueFD_reset V ipt_fd k)
              else Some (True, t\<lparr>t_ipt_buffer := Some (sint descriptor)\<rparr>, UniqueFD_reset V ipt_fd k)
            })
     }"

definition InitPerfPreProcess :: "'k mx \<Rightarrow> 'k ipt_dev \<Rightarrow> IptConfig \<Rightarrow> 'k \<Rightarrow> bool \<times> 'k" where
  "InitPerfPreProcess K V config k =
     (case OpenDevices V False False True k of
        (None, k) \<Rightarrow> (False, k)
      | (Some (_, _, ktrace_handle), k) \<Rightarrow>
          (let (status, k) = mx_ktrace_control V ktrace_handle KTRACE_ACTION_START (kKtraceGroupMask V) k in
           if status \<noteq> NO_ERROR then
             let (_, k) = mx_ktrace_control V ktrace_handle KTRACE_ACTION_STOP 0 k;
                 (_, k) = mx_ktrace_control V ktrace_handle KTRACE_ACTION_START (kKtraceGroupMask V) k
             in (False, mx_handle_close K ktrace_handle k)
           else (True, mx_handle_close K ktrace_handle k)))"

definition StartCpuPerf :: "'k ipt_dev \<Rightarrow> IptConfig \<Rightarrow> 'k \<Rightarrow> (bool \<times> 'k) option" where
  "StartCpuPerf V config k =
     do {
       dcheck (cfg_mode config = IPT_MODE_CPUS);
       Some (case OpenDevices V True False False k of
          (None, k) \<Rightarrow> (False, k)
        | (Some (ipt_fd, _), k) \<Rightarrow>
            (let (ssize, k) = ioctl_ipt_cpu_mode_start V ipt_fd k in
             if ssize < 0 then
               let (_, k) = ioctl_ipt_cpu_mode_free V ipt_fd k in (False, UniqueFD_reset V ipt_fd k)
             else (True, UniqueFD_reset V ipt_fd k)))
     }"

definition StartThreadPerf :: "'k ipt_dev \<Rightarrow> IptConfig \<Rightarrow> thread \<Rightarrow> 'k \<Rightarrow> (bool \<times> 'k) option" where
  "StartThreadPerf V config t k =
     do {
       dcheck (cfg_mode config = IPT_MODE_THREADS);
       ipt_buffer \<leftarrow> t_ipt_buffer t;
       if ipt_buffer < 0 then Some (True, k)
       else
         Some (case OpenDevices V True False False k of
            (None, k) \<Rightarrow> (False, k)
          | (Some (ipt_fd, _), k) \<Rightarrow>
              (let (status, thread, k) = mx_handle_duplicate V (t_handle t) k in
               if status \<noteq> NO_ERROR then (False, UniqueFD_reset V ipt_fd k)
               else
                 let (ssize, k) = ioctl_ipt_assign_buffer_thread V ipt_fd thread (word_of_int ipt_buffer) k
                 in (\<not> ssize < 0, UniqueFD_reset V ipt_fd k)))
     }"

definition StopCpuPerf :: "'k ipt_dev \<Rightarrow> IptConfig \<Rightarrow> 'k \<Rightarrow> 'k option" where
  "StopCpuPerf V config k =
     do {
       dcheck (cfg_mode config = IPT_MODE_CPUS);
       Some (case OpenDevices V True False False k of
          (None, k) \<Rightarrow> k
        | (Some (ipt_fd, _), k) \<Rightarrow>
            (let (_, k) = ioctl_ipt_cpu_mode_stop V ipt_fd k in UniqueFD_reset V ipt_fd k))
     }"

definition StopThreadPerf :: "'k ipt_dev \<Rightarrow> IptConfig \<Rightarrow> thread \<Rightarrow> 'k \<Rightarrow> 'k option" where
  "StopThreadPerf V config t k =
     do {
       dcheck (cfg_mode config = IPT_MODE_THREADS);
       ipt_buffer \<leftarrow> t_ipt_buffer t;
       if ipt_buffer < 0 then Some k
       else
         Some (case OpenDevices V True False False k of
            (None, k) \<Rightarrow> k
          | (Some (ipt_fd, _), k) \<Rightarrow>
              (let (status, thread, k) = mx_handle_duplicate V (t_handle t) k in
               if status \<noteq> NO_ERROR then UniqueFD_reset V ipt_fd k
               else
                 let (_, k) = ioctl_ipt_release_buffer_thread V ipt_fd thread (word_of_int ipt_buffer) k
                 in UniqueFD_reset V ipt_fd k))
     }"

definition StopPerf :: "'k mx \<Rightarrow> 'k ipt_dev \<Rightarrow> IptConfig \<Rightarrow> 'k \<Rightarrow> 'k" where
  "StopPerf K V config k =
     (case OpenDevices V False False True k of
        (None, k) \<Rightarrow> k
      | (Some (_, _, ktrace_handle), k) \<Rightarrow>
          (let (_, k) = mx_ktrace_control V ktrace_handle KTRACE_ACTION_STOP 0 k
           in mx_handle_close K ktrace_handle k))"

definition GetCpuPtFileName :: "string \<Rightarrow> nat \<Rightarrow> string" where
  "GetCpuPtFileName output_path_prefix n =
     output_path_prefix @ ''.'' @ ''cpu'' @ nat_string 10 n @ ''.'' @ buffer_output_path_suffix"

definition GetThreadPtFileName :: "string \<Rightarrow> nat \<Rightarrow> string" where
  "GetThreadPtFileName output_path_prefix n =
     output_path_prefix @ ''.'' @ ''thr'' @ nat_string 10 n @ ''.'' @ buffer_output_path_suffix"

text \<open>
  The loops of \<^verbatim>\<open>WriteBufferData\<close>: \<open>write_chunks\<close> copies one buffer and \<open>write_buffers\<close> the buffers from
  number \<open>i\<close> on.  Both return the status, the bytes left and the automatic array \<^verbatim>\<open>buf\<close>, of which a
  short read leaves the rest as it was.
\<close>

function write_chunks ::
  "'k ipt_dev \<Rightarrow> int \<Rightarrow> handle \<Rightarrow> nat \<Rightarrow> nat \<Rightarrow> nat \<Rightarrow> u8 list \<Rightarrow> 'k \<Rightarrow> (status \<times> bool \<times> nat \<times> u8 list \<times> 'k)" where
  "write_chunks V fd vmo offset buffer_remaining bytes_left buf k =
     (if buffer_remaining = 0 \<or> bytes_left = 0 then (NO_ERROR, True, bytes_left, buf, k)
      else
        let to_write = min 4096 (min buffer_remaining bytes_left);
            (status, bytes) = vmo_read V vmo offset to_write k;
            buf = bytes @ drop (length bytes) buf
        in if status \<noteq> NO_ERROR then (status, False, bytes_left, buf, k)
           else
             let (n, k) = fd_write V fd (take to_write buf) k in
             if n \<noteq> int to_write then (dev_ERR_IO V, False, bytes_left, buf, k)
             else write_chunks V fd vmo (offset + to_write) (buffer_remaining - to_write)
                    (bytes_left - to_write) buf k)"
  by pat_completeness auto

termination write_chunks
  by (relation "measure (\<lambda>(V, fd, vmo, offset, buffer_remaining, bytes_left, buf, k). buffer_remaining)") auto

declare write_chunks.simps [simp del]

fun write_buffers ::
  "'k mx \<Rightarrow> 'k ipt_dev \<Rightarrow> int \<Rightarrow> int \<Rightarrow> u32 \<Rightarrow> nat \<Rightarrow> nat list \<Rightarrow> nat \<Rightarrow> u8 list \<Rightarrow> 'k
    \<Rightarrow> status \<times> bool \<times> nat \<times> 'k" where
  "write_buffers K V ipt_fd fd descriptor buffer_size [] bytes_left buf k = (NO_ERROR, True, bytes_left, k)"
| "write_buffers K V ipt_fd fd descriptor buffer_size (i # is) bytes_left buf k =
     (if bytes_left = 0 then (NO_ERROR, True, bytes_left, k)
      else
        let (ssize, vmo, k) = ioctl_ipt_get_buffer_handle V ipt_fd descriptor (of_nat i) k in
        if ssize < 0 then (NO_ERROR, False, bytes_left, k)
        else
          let (status, ok, bytes_left, buf, k) = write_chunks V fd vmo 0 buffer_size bytes_left buf k;
              k = mx_handle_close K vmo k
          in if \<not> ok then (status, False, bytes_left, k)
             else write_buffers K V ipt_fd fd descriptor buffer_size is bytes_left buf k)"

definition WriteBufferData ::
  "'k mx \<Rightarrow> 'k ipt_dev \<Rightarrow> IptConfig \<Rightarrow> int \<Rightarrow> u32 \<Rightarrow> nat \<Rightarrow> 'k \<Rightarrow> (status \<times> 'k) option" where
  "WriteBufferData K V config ipt_fd descriptor n k =
     (let output_path =
            (if cfg_mode config = IPT_MODE_CPUS then GetCpuPtFileName (cfg_output_path_prefix config) n
             else GetThreadPtFileName (cfg_output_path_prefix config) n);
          (ssize, buffer_config) = ioctl_ipt_get_buffer_config V ipt_fd descriptor k
      in if ssize < 0 then Some (ssize, k)
         else
           let (ssize, capture_end) = ioctl_ipt_get_capture_end V ipt_fd descriptor k in
           if ssize < 0 then Some (ssize, k)
           else
             let (fd, k) = file_create V output_path k in
             if fd < 0 then Some (dev_ERR_BAD_PATH V, k)
             else do {
               dcheck (unat (bc_buffer_order buffer_config) < 19);
               let num_buffers = unat (bc_num_buffers buffer_config);
               let buffer_size = 2 ^ unat (bc_buffer_order buffer_config) * 4096;
               let bytes_left =
                 (if bc_is_circular buffer_config then num_buffers * buffer_size else unat capture_end);
               let (status, ok, bytes_left, k) =
                 write_buffers K V ipt_fd fd descriptor buffer_size [0..<num_buffers] bytes_left
                   (stack_bytes K 4096 k) k;
               dcheck (ok \<longrightarrow> bytes_left = 0);
               Some (status, UniqueFD_reset V fd k)
             })"

fun dump_cpus :: "'k mx \<Rightarrow> 'k ipt_dev \<Rightarrow> IptConfig \<Rightarrow> int \<Rightarrow> nat list \<Rightarrow> 'k \<Rightarrow> 'k option" where
  "dump_cpus K V config ipt_fd [] k = Some k"
| "dump_cpus K V config ipt_fd (cpu # cpus) k =
     do {
       (status, k) \<leftarrow> WriteBufferData K V config ipt_fd (of_nat cpu) cpu k;
       dump_cpus K V config ipt_fd cpus k
     }"

definition DumpCpuPerf :: "'k mx \<Rightarrow> 'k ipt_dev \<Rightarrow> IptConfig \<Rightarrow> 'k \<Rightarrow> 'k option" where
  "DumpCpuPerf K V config k =
     do {
       dcheck (cfg_mode config = IPT_MODE_CPUS);
       (case OpenDevices V True False False k of
          (None, k) \<Rightarrow> Some k
        | (Some (ipt_fd, _), k) \<Rightarrow>
            do {
              k \<leftarrow> dump_cpus K V config ipt_fd [0..<unat (cfg_num_cpus config)] k;
              Some (UniqueFD_reset V ipt_fd k)
            })
     }"

definition DumpThreadPerf :: "'k mx \<Rightarrow> 'k ipt_dev \<Rightarrow> IptConfig \<Rightarrow> thread \<Rightarrow> 'k \<Rightarrow> 'k option" where
  "DumpThreadPerf K V config t k =
     do {
       dcheck (cfg_mode config = IPT_MODE_THREADS);
       ipt_buffer \<leftarrow> t_ipt_buffer t;
       if ipt_buffer < 0 then Some k
       else
         (case OpenDevices V True False False k of
            (None, k) \<Rightarrow> Some k
          | (Some (ipt_fd, _), k) \<Rightarrow>
              do {
                (status, k) \<leftarrow> WriteBufferData K V config ipt_fd (word_of_int ipt_buffer) (unat (t_id t)) k;
                Some (UniqueFD_reset V ipt_fd k)
              })
     }"

text \<open>
  The loop that copies the ktrace records ends only when \<^verbatim>\<open>read\<close> returns 0; \<open>None\<close> is that it does
  not.  A negative count is passed to \<^verbatim>\<open>write\<close> as a huge size, which that refuses.
\<close>

partial_function (option) copy_ktrace :: "'k ipt_dev \<Rightarrow> int \<Rightarrow> int \<Rightarrow> 'k \<Rightarrow> 'k option" where
  "copy_ktrace V ktrace_fd dest_fd k =
     (let (count, buf, k) = fd_read V ktrace_fd 1024 k in
      if count = 0 then Some k
      else if count < 0 then copy_ktrace V ktrace_fd dest_fd k
      else let (_, k) = fd_write V dest_fd (take (nat count) buf) k in copy_ktrace V ktrace_fd dest_fd k)"

definition dump_ktrace :: "'k ipt_dev \<Rightarrow> IptConfig \<Rightarrow> 'k \<Rightarrow> (bool \<times> 'k) option" where
  "dump_ktrace V config k =
     (case OpenDevices V False True False k of
        (None, k) \<Rightarrow> Some (False, k)
      | (Some (_, ktrace_fd, _), k) \<Rightarrow>
          (let ktrace_output_path = cfg_output_path_prefix config @ ''.'' @ ktrace_output_path_suffix;
               (dest_fd, k) = file_create V ktrace_output_path k
           in if dest_fd < 0 then Some (True, UniqueFD_reset V ktrace_fd k)
              else do {
                k \<leftarrow> copy_ktrace V ktrace_fd dest_fd k;
                Some (True, UniqueFD_reset V ktrace_fd (UniqueFD_reset V dest_fd k))
              }))"

definition DumpArch_amd64 :: "cpu \<Rightarrow> x86_state \<Rightarrow> (string \<times> x86_state) option" where
  "DumpArch_amd64 C x = x86_feature_debug C x"

definition dump_cpuid :: "'k ipt_dev \<Rightarrow> IptConfig \<Rightarrow> x86_state \<Rightarrow> 'k \<Rightarrow> (x86_state \<times> 'k) option" where
  "dump_cpuid V config x k =
     (let cpuid_output_path = cfg_output_path_prefix config @ ''.'' @ cpuid_output_path_suffix;
          (f, k) = file_create V cpuid_output_path k
      in if f < 0 then Some (x, k)
         else do {
           (text, x) \<leftarrow> DumpArch_amd64 (dev_cpu V) x;
           let (_, k) = fd_write V f (map byte_of
             (text @ ''mtc_freq: '' @ nat_string 10 (unat (cfg_mtc_freq config)) @ ''\<newline>'')) k;
           Some (x, dev_close V f k)
         })"

definition pt_list_text :: "IptConfig \<Rightarrow> string" where
  "pt_list_text config =
     concat (map (\<lambda>cpu. nat_string 10 cpu @ '' '' @ GetCpuPtFileName (cfg_output_path_prefix config) cpu @ ''\<newline>'')
       [0..<unat (cfg_num_cpus config)])"

definition dump_pt_list :: "'k ipt_dev \<Rightarrow> IptConfig \<Rightarrow> 'k \<Rightarrow> 'k" where
  "dump_pt_list V config k =
     (let pt_list_output_path = cfg_output_path_prefix config @ ''.'' @ pt_list_output_path_suffix;
          (f, k) = file_create V pt_list_output_path k
      in if f < 0 then k
         else let (_, k) = fd_write V f (map byte_of (pt_list_text config)) k in dev_close V f k)"

definition DumpPerf :: "'k ipt_dev \<Rightarrow> IptConfig \<Rightarrow> x86_state \<Rightarrow> 'k \<Rightarrow> (x86_state \<times> 'k) option" where
  "DumpPerf V config x k =
     do {
       (ok, k) \<leftarrow> dump_ktrace V config k;
       if \<not> ok then Some (x, k)
       else do {
         (x, k) \<leftarrow> dump_cpuid V config x k;
         Some (x, if cfg_mode config = IPT_MODE_CPUS then dump_pt_list V config k else k)
       }
     }"

definition ResetCpuPerf :: "'k ipt_dev \<Rightarrow> IptConfig \<Rightarrow> 'k \<Rightarrow> 'k option" where
  "ResetCpuPerf V config k =
     do {
       dcheck (cfg_mode config = IPT_MODE_CPUS);
       Some (case OpenDevices V True False False k of
          (None, k) \<Rightarrow> k
        | (Some (ipt_fd, _), k) \<Rightarrow>
            (let (_, k) = ioctl_ipt_cpu_mode_free V ipt_fd k in UniqueFD_reset V ipt_fd k))
     }"

definition ResetThreadPerf :: "'k ipt_dev \<Rightarrow> IptConfig \<Rightarrow> thread \<Rightarrow> 'k \<Rightarrow> (thread \<times> 'k) option" where
  "ResetThreadPerf V config t k =
     do {
       dcheck (cfg_mode config = IPT_MODE_THREADS);
       ipt_buffer \<leftarrow> t_ipt_buffer t;
       if ipt_buffer < 0 then Some (t, k)
       else
         Some (case OpenDevices V True False False k of
            (None, k) \<Rightarrow> (t, k)
          | (Some (ipt_fd, _), k) \<Rightarrow>
              (let (_, k) = ioctl_ipt_free_buffer V ipt_fd (word_of_int ipt_buffer) k
               in (t\<lparr>t_ipt_buffer := Some (-1)\<rparr>, UniqueFD_reset V ipt_fd k)))
     }"

definition ResetPerf :: "'k mx \<Rightarrow> 'k ipt_dev \<Rightarrow> IptConfig \<Rightarrow> 'k \<Rightarrow> 'k" where
  "ResetPerf K V config k =
     (case OpenDevices V True False True k of
        (None, k) \<Rightarrow> k
      | (Some (ipt_fd, _, ktrace_handle), k) \<Rightarrow>
          (let (_, k) = ioctl_ipt_set_mode V ipt_fd IPT_MODE_CPUS k;
               (_, k) = mx_ktrace_control V ktrace_handle KTRACE_ACTION_STOP 0 k;
               (_, k) = mx_ktrace_control V ktrace_handle KTRACE_ACTION_START (kKtraceGroupMask V) k
           in UniqueFD_reset V ipt_fd (mx_handle_close K ktrace_handle k)))"

end
