(* ===== verification/Ipt_Control_Inv.thy ===== *)
theory Ipt_Control_Inv
  imports Ipt_Control
begin

text \<open>
  What is assumed of the devices of the tracer, and what the operations of \<^verbatim>\<open>bin/ipt/control.cc\<close> keep:
  every descriptor they open is closed when they return, and a dump writes the trace.
\<close>

section \<open>What the devices promise\<close>

text \<open>
  \<open>fds\<close> are the open file descriptors.  Only opening and creating adds one, a new one, and only closing
  removes one.
\<close>

locale ipt_devices =
  fixes K :: "'k mx" and V :: "'k ipt_dev" and fds :: "'k \<Rightarrow> int set"
  assumes fds_nonneg: "fd \<in> fds k \<Longrightarrow> 0 \<le> fd"
    and fds_open: "dev_open V p k = (fd, k') \<Longrightarrow>
      fds k' = (if fd < 0 then fds k else insert fd (fds k)) \<and> fd \<notin> fds k"
    and fds_create: "file_create V p k = (fd, k') \<Longrightarrow>
      fds k' = (if fd < 0 then fds k else insert fd (fds k)) \<and> fd \<notin> fds k"
    and fds_close: "fds (dev_close V fd k) = fds k - {fd}"
    and fds_ktrace: "ioctl_ktrace_get_handle V fd k = (s, h, k') \<Longrightarrow> fds k' = fds k"
      "mx_ktrace_control V h a m k = (s, k') \<Longrightarrow> fds k' = fds k"
    and fds_driver: "ioctl_ipt_set_mode V fd md k = (s, k') \<Longrightarrow> fds k' = fds k"
      "ioctl_ipt_alloc_buffer V fd bc k = (s, d, k') \<Longrightarrow> fds k' = fds k"
      "ioctl_ipt_cpu_mode_alloc V fd k = (s, k') \<Longrightarrow> fds k' = fds k"
      "ioctl_ipt_cpu_mode_start V fd k = (s, k') \<Longrightarrow> fds k' = fds k"
      "ioctl_ipt_cpu_mode_stop V fd k = (s, k') \<Longrightarrow> fds k' = fds k"
      "ioctl_ipt_cpu_mode_free V fd k = (s, k') \<Longrightarrow> fds k' = fds k"
      "ioctl_ipt_assign_buffer_thread V fd h d k = (s, k') \<Longrightarrow> fds k' = fds k"
      "ioctl_ipt_release_buffer_thread V fd h d k = (s, k') \<Longrightarrow> fds k' = fds k"
      "ioctl_ipt_free_buffer V fd d k = (s, k') \<Longrightarrow> fds k' = fds k"
      "ioctl_ipt_get_buffer_handle V fd d i k = (s, h, k') \<Longrightarrow> fds k' = fds k"
    and fds_handles: "mx_handle_duplicate V h k = (s, h', k') \<Longrightarrow> fds k' = fds k"
      "fds (mx_handle_close K h k) = fds k"
    and fds_io: "fd_write V fd bs k = (s, k') \<Longrightarrow> fds k' = fds k"
      "fd_read V fd n k = (s, bs, k') \<Longrightarrow> fds k' = fds k"
begin

lemmas fds_same = fds_ktrace fds_driver fds_handles(1) fds_io

lemma OpenDevices_fds:
  assumes "OpenDevices V a b c k = (r, k')"
  shows "case r of None \<Rightarrow> fds k' = fds k
    | Some (i, t, h) \<Rightarrow> fds k' = fds k \<union> (if a then {i} else {}) \<union> (if b then {t} else {})
        \<and> (a \<longrightarrow> 0 \<le> i \<and> i \<notin> fds k) \<and> (\<not> a \<longrightarrow> i = -1) \<and> (b \<longrightarrow> 0 \<le> t \<and> t \<notin> fds k \<and> t \<noteq> i)
        \<and> (\<not> b \<longrightarrow> t = -1)"
proof -
  have neg: "-1 \<notin> fds k" for k using fds_nonneg [of "-1" k] by auto
  obtain i k1 where 1: "(if a then dev_open V ipt_device_path k else (-1, k)) = (i, k1)" by fastforce
  obtain t k2 where 2: "(if b \<or> c then dev_open V ktrace_device_path k1 else (-1, k1)) = (t, k2)" by fastforce
  obtain s h k3 where 3: "(if c then ioctl_ktrace_get_handle V t k2 else (4, MX_HANDLE_INVALID, k2)) = (s, h, k3)"
    by (metis prod_cases3)
  have f1: "fds k1 = (if a \<and> 0 \<le> i then insert i (fds k) else fds k)" "i \<notin> fds k" "a \<or> i = -1"
    using 1 fds_open [of ipt_device_path k i k1] neg [of k] by (auto split: if_splits)
  have f2: "fds k2 = (if (b \<or> c) \<and> 0 \<le> t then insert t (fds k1) else fds k1)" "t \<notin> fds k1" "b \<or> c \<or> t = -1"
    using 2 fds_open [of ktrace_device_path k1 t k2] neg [of k1] by (auto split: if_splits)
  have f3: "fds k3 = fds k2" using 3 fds_ktrace(1) [of t k2 s h k3] by (auto split: if_splits)
  have o: "OpenDevices V a b c k =
      (if a \<and> i < 0 then (None, k1)
       else if (b \<or> c) \<and> t < 0 then (None, dev_close V i k2)
       else if c \<and> s \<noteq> 4 then (None, dev_close V t (dev_close V i k3))
       else if b then (Some (i, t, h), k3)
       else if t \<noteq> -1 then (Some (i, -1, h), dev_close V t k3) else (Some (i, -1, h), k3))"
    by (simp only: OpenDevices_def 1 2 3 Let_def prod.case)
  have neg_diff: "fds k - {x} = fds k" if "x < 0" for k x using fds_nonneg [of x k] that by auto
  consider "a" "i < 0" "r = None" "k' = k1"
    | "\<not> (a \<and> i < 0)" "b \<or> c" "t < 0" "r = None" "k' = dev_close V i k2"
    | "\<not> (a \<and> i < 0)" "\<not> t < 0" "c" "r = None" "k' = dev_close V t (dev_close V i k3)"
    | "\<not> (a \<and> i < 0)" "\<not> t < 0" "b" "r = Some (i, t, h)" "k' = k3"
    | "\<not> (a \<and> i < 0)" "\<not> t < 0" "c" "\<not> b" "r = Some (i, -1, h)" "k' = dev_close V t k3"
    | "\<not> (a \<and> i < 0)" "\<not> b" "\<not> c" "r = Some (i, -1, h)" "k' = k3"
    using assms f2(3) unfolding o by (metis (no_types, lifting) order_less_irrefl prod.inject neg_less_0_iff_less zero_less_one)
  then show ?thesis
    by cases (use f1 f2 f3 in \<open>auto simp: fds_close neg_diff\<close>)
qed

lemma reset_ipt: "0 \<le> fd \<Longrightarrow> fds (UniqueFD_reset V fd k) = fds k - {fd}"
  by (simp add: UniqueFD_reset_def fds_close)

lemma open_ipt:
  "OpenDevices V True False c k = (None, k') \<Longrightarrow> fds k' = fds k"
  "OpenDevices V True False c k = (Some (i, r), k') \<Longrightarrow> fds k' = insert i (fds k) \<and> 0 \<le> i \<and> i \<notin> fds k"
  using OpenDevices_fds [of True False c k] by (cases r; auto)+

lemma open_ktrace:
  "OpenDevices V False False True k = (r, k') \<Longrightarrow> fds k' = fds k"
  "OpenDevices V False True False k = (None, k') \<Longrightarrow> fds k' = fds k"
  "OpenDevices V False True False k = (Some (i, t, h), k') \<Longrightarrow> fds k' = insert t (fds k) \<and> 0 \<le> t \<and> t \<notin> fds k"
  using OpenDevices_fds [of False False True k r k'] OpenDevices_fds [of False True False k]
  by (cases r; auto)+

lemma SetPerfMode_fds: "SetPerfMode V c k = (ok, k') \<Longrightarrow> fds k' = fds k"
  unfolding SetPerfMode_def
  by (auto simp: reset_ipt split: prod.splits option.splits dest!: open_ipt fds_same)

lemma alloc_cpu_buffers_fds: "alloc_cpu_buffers V c fd n k = Some (ok, k') \<Longrightarrow> fds k' = fds k"
proof (induction n arbitrary: k)
  case (Suc n)
  from Suc.prems obtain y where y: "InitIptBufferConfig c = Some y" by (auto simp: bind_eq_Some_conv)
  obtain s d k1 where a: "ioctl_ipt_alloc_buffer V fd y k = (s, d, k1)" by (metis prod_cases3)
  from Suc.prems Suc.IH [of k1] fds_driver(2) [OF a] show ?case by (auto simp: y a split: if_splits)
qed simp

lemma InitCpuPerf_fds: "InitCpuPerf V c k = Some (ok, k') \<Longrightarrow> fds k' = fds k"
  unfolding InitCpuPerf_def
  by (auto simp: reset_ipt split: Option.bind_splits prod.splits option.splits if_splits
      dest!: open_ipt fds_same alloc_cpu_buffers_fds)

lemma InitThreadPerf_fds: "InitThreadPerf V c t k = Some (ok, t', k') \<Longrightarrow> fds k' = fds k"
  unfolding InitThreadPerf_def
  by (auto simp: reset_ipt split: Option.bind_splits prod.splits option.splits if_splits dest!: open_ipt fds_same)

lemma InitPerfPreProcess_fds: "InitPerfPreProcess K V c k = (ok, k') \<Longrightarrow> fds k' = fds k"
  unfolding InitPerfPreProcess_def
  by (auto simp: fds_handles Let_def split: prod.splits option.splits if_splits dest!: open_ktrace fds_same)

lemma StartCpuPerf_fds: "StartCpuPerf V c k = Some (ok, k') \<Longrightarrow> fds k' = fds k"
  unfolding StartCpuPerf_def
  by (auto simp: reset_ipt Let_def split: prod.splits option.splits if_splits dest!: open_ipt fds_same)

lemma StartThreadPerf_fds: "StartThreadPerf V c t k = Some (ok, k') \<Longrightarrow> fds k' = fds k"
  unfolding StartThreadPerf_def
  by (auto simp: reset_ipt Let_def split: Option.bind_splits prod.splits option.splits if_splits
      dest!: open_ipt fds_same)

lemma StopCpuPerf_fds: "StopCpuPerf V c k = Some k' \<Longrightarrow> fds k' = fds k"
  unfolding StopCpuPerf_def
  by (auto simp: reset_ipt Let_def split: prod.splits option.splits dest!: open_ipt fds_same)

lemma StopThreadPerf_fds: "StopThreadPerf V c t k = Some k' \<Longrightarrow> fds k' = fds k"
  unfolding StopThreadPerf_def
  by (auto simp: reset_ipt Let_def split: Option.bind_splits prod.splits option.splits if_splits
      dest!: open_ipt fds_same)

lemma StopPerf_fds: "fds (StopPerf K V c k) = fds k"
  unfolding StopPerf_def
  by (auto simp: fds_handles Let_def split: prod.splits option.splits dest!: open_ktrace fds_same)

lemma write_chunks_fds:
  "write_chunks V fd h off m n buf k = (st, ok, left, buf', k') \<Longrightarrow> fds k' = fds k"
proof (induction m arbitrary: off n buf k rule: less_induct)
  case (less m)
  obtain r bs where r: "vmo_read V h off (min 4096 (min m n)) k = (r, bs)" by fastforce
  obtain w k1 where w: "fd_write V fd (take (min 4096 (min m n)) (bs @ drop (length bs) buf)) k = (w, k1)" by fastforce
  have m: "m - min 4096 (min m n) < m" if "m \<noteq> 0" "n \<noteq> 0" using that by auto
  from less.prems less.IH [OF m] fds_io(1) [OF w] show ?case
    unfolding write_chunks.simps [of V fd h off m n buf k] by (simp add: Let_def r w del: take_append split: if_splits)
qed

lemma write_buffers_fds:
  "write_buffers K V ifd fd d bs is n buf k = (st, ok, left, k') \<Longrightarrow> fds k' = fds k"
proof (induction "is" arbitrary: n buf k)
  case (Cons i "is")
  obtain s h k1 where h: "ioctl_ipt_get_buffer_handle V ifd d (of_nat i) k = (s, h, k1)" by (metis prod_cases3)
  obtain st1 ok1 left1 buf1 k2 where w: "write_chunks V fd h 0 bs n buf k1 = (st1, ok1, left1, buf1, k2)"
    by (metis prod_cases5)
  from Cons.prems Cons.IH [of left1 buf1 "mx_handle_close K h k2"] fds_driver(10) [OF h] write_chunks_fds [OF w]
  show ?case by (auto simp: h w fds_handles Let_def split: if_splits)
qed simp

lemma WriteBufferData_fds: 
  assumes w: "WriteBufferData K V c ifd d n k = Some (st, k')"
  shows "fds k' = fds k"
proof -
  define p where "p = (if cfg_mode c = IPT_MODE_CPUS then GetCpuPtFileName (cfg_output_path_prefix c) n
    else GetThreadPtFileName (cfg_output_path_prefix c) n)"
  obtain s1 bc where 1: "ioctl_ipt_get_buffer_config V ifd d k = (s1, bc)" by fastforce
  obtain s2 e where 2: "ioctl_ipt_get_capture_end V ifd d k = (s2, e)" by fastforce
  obtain fd k1 where 3: "file_create V p k = (fd, k1)" by fastforce
  define z where "z = (2 :: nat) ^ unat (bc_buffer_order bc) * 4096"
  obtain st1 ok left k2 where 4: "write_buffers K V ifd fd d z [0..<unat (bc_num_buffers bc)]
    (if bc_is_circular bc then unat (bc_num_buffers bc) * z else unat e) (stack_bytes K 4096 k1) k1
    = (st1, ok, left, k2)" by (metis prod_cases4)
  from fds_create [OF 3] write_buffers_fds [OF 4] w show ?thesis
    unfolding WriteBufferData_def p_def [symmetric] 1 2 3 Let_def prod.case z_def [symmetric] 4
    by (auto simp: reset_ipt split: if_splits Option.bind_splits)
qed

lemma dump_cpus_fds: "dump_cpus K V c fd cs k = Some k' \<Longrightarrow> fds k' = fds k"
  by (induction cs arbitrary: k) (auto split: Option.bind_splits dest!: WriteBufferData_fds)

lemma DumpCpuPerf_fds: "DumpCpuPerf K V c k = Some k' \<Longrightarrow> fds k' = fds k"
  unfolding DumpCpuPerf_def
  by (auto simp: reset_ipt split: Option.bind_splits prod.splits option.splits dest!: open_ipt dump_cpus_fds)

lemma DumpThreadPerf_fds: "DumpThreadPerf K V c t k = Some k' \<Longrightarrow> fds k' = fds k"
  unfolding DumpThreadPerf_def
  by (auto simp: reset_ipt split: Option.bind_splits prod.splits option.splits if_splits
      dest!: open_ipt WriteBufferData_fds)

lemma copy_ktrace_fds: "copy_ktrace V a b k = Some k' \<Longrightarrow> fds k' = fds k"
proof -
  assume c: "copy_ktrace V a b k = Some k'"
  have "V = V \<longrightarrow> fds k' = fds k"
  proof (rule copy_ktrace.raw_induct [where P = "\<lambda>V' a b k k'. V' = V \<longrightarrow> fds k' = fds k", OF _ c])
    fix f V' a b k k'
    assume "\<And>V' a b k k'. f V' a b k = Some k' \<Longrightarrow> V' = V \<longrightarrow> fds k' = fds k"
      and "(let (count, buf, k) = fd_read V' a 1024 k in
        if count = 0 then Some k else if count < 0 then f V' a b k
        else let (_, k) = fd_write V' b (take (nat count) buf) k in f V' a b k) = Some k'"
    then show "V' = V \<longrightarrow> fds k' = fds k"
      by (fastforce simp: Let_def split: if_splits prod.splits dest!: fds_io)
  qed
  then show ?thesis by simp
qed

lemma dump_ktrace_fds: "dump_ktrace V c k = Some (ok, k') \<Longrightarrow> fds k' = fds k"
  unfolding dump_ktrace_def Let_def
  by (auto simp: reset_ipt split: Option.bind_splits prod.splits option.splits if_splits
      dest!: open_ktrace fds_create copy_ktrace_fds)

lemma write_file_fds:
  assumes "file_create V p k = (f, k1)" and "\<not> f < 0"
  shows "fds (case fd_write V f bs k1 of (_, k2) \<Rightarrow> dev_close V f k2) = fds k"
  using fds_create [OF assms(1)] assms(2) fds_io(1) [of f bs k1]
  by (cases "fd_write V f bs k1") (simp add: fds_close)

lemma dump_cpuid_fds:
  assumes d: "dump_cpuid V c x k = Some (x', k')"
  shows "fds k' = fds k"
proof -
  obtain f k1 where f: "file_create V (cfg_output_path_prefix c @ ''.'' @ cpuid_output_path_suffix) k = (f, k1)"
    by fastforce
  show ?thesis
  proof (cases "f < 0")
    case True
    with d fds_create [OF f] show ?thesis unfolding dump_cpuid_def Let_def f by simp
  next
    case False
    have "\<exists>bs. k' = (case fd_write V f bs k1 of (_, k2) \<Rightarrow> dev_close V f k2)"
      using d False unfolding dump_cpuid_def Let_def f
      by (auto simp: case_prod_beta bind_eq_Some_conv simp del: append.simps map_append list.map)
    with write_file_fds [OF f False] show ?thesis by auto
  qed
qed

lemma dump_pt_list_fds: "fds (dump_pt_list V c k) = fds k"
proof -
  obtain f k1 where f: "file_create V (cfg_output_path_prefix c @ ''.'' @ pt_list_output_path_suffix) k = (f, k1)"
    by fastforce
  show ?thesis
    using write_file_fds [OF f, of "map byte_of (pt_list_text c)"] fds_create [OF f]
    unfolding dump_pt_list_def Let_def f by simp
qed

lemma DumpPerf_fds:
  assumes d: "DumpPerf V c x k = Some (x', k')"
  shows "fds k' = fds k"
proof (cases "dump_ktrace V c k")
  case (Some r)
  obtain ok k1 where r: "r = (ok, k1)" by fastforce
  note 1 = dump_ktrace_fds [OF Some [unfolded r]]
  show ?thesis
  proof (cases "dump_cpuid V c x k1")
    case None
    with 1 Some r d show ?thesis by (simp add: DumpPerf_def split: if_splits)
  next
    case (Some q)
    obtain y k2 where q: "q = (y, k2)" by fastforce
    note 2 = dump_cpuid_fds [OF Some [unfolded q]]
    from 1 2 d Some q \<open>dump_ktrace V c k = Some r\<close> r show ?thesis
      by (auto simp: DumpPerf_def dump_pt_list_fds split: if_splits)
  qed
qed (use d in \<open>simp add: DumpPerf_def\<close>)

lemma ResetCpuPerf_fds: "ResetCpuPerf V c k = Some k' \<Longrightarrow> fds k' = fds k"
  unfolding ResetCpuPerf_def
  by (auto simp: reset_ipt Let_def split: prod.splits option.splits dest!: open_ipt fds_same)

lemma ResetThreadPerf_fds: "ResetThreadPerf V c t k = Some (t', k') \<Longrightarrow> fds k' = fds k"
  unfolding ResetThreadPerf_def
  by (auto simp: reset_ipt Let_def split: Option.bind_splits prod.splits option.splits if_splits
      dest!: open_ipt fds_same)

lemma ResetPerf_fds: "fds (ResetPerf K V c k) = fds k"
  unfolding ResetPerf_def
  by (auto simp: reset_ipt fds_handles Let_def split: prod.splits option.splits dest!: open_ipt fds_same)

end

text \<open>
  \<open>files\<close> are the contents of the files and \<open>opened\<close> the file a descriptor writes to; \<open>bufs\<close> are the trace
  buffers of a descriptor of the driver and \<open>vmo\<close> the bytes behind a handle.  Creating a file empties it,
  a complete write appends to it; the handle of a buffer is a handle of its bytes, and a successful read
  of a memory object is complete.  No operation of a dump changes a buffer.
\<close>

locale ipt_capture = ipt_devices K V fds
  for K :: "'k mx" and V :: "'k ipt_dev" and fds +
  fixes files :: "'k \<Rightarrow> string \<Rightarrow> u8 list" and opened :: "'k \<Rightarrow> int \<Rightarrow> string option"
    and bufs :: "'k \<Rightarrow> u32 \<Rightarrow> nat \<Rightarrow> u8 list" and vmo :: "'k \<Rightarrow> handle \<Rightarrow> u8 list"
  assumes created: "file_create V p k = (fd, k') \<Longrightarrow> 0 \<le> fd \<Longrightarrow>
      opened k' fd = Some p \<and> files k' p = [] \<and> bufs k' = bufs k"
    and written: "fd_write V fd bs k = (int (length bs), k') \<Longrightarrow> opened k fd = Some p \<Longrightarrow>
      files k' p = files k p @ bs \<and> opened k' fd = Some p \<and> bufs k' = bufs k \<and> vmo k' = vmo k"
    and buffer_handle: "ioctl_ipt_get_buffer_handle V ifd d (of_nat i) k = (s, h, k') \<Longrightarrow> 0 \<le> s \<Longrightarrow>
      vmo k' h = bufs k d i \<and> files k' = files k \<and> opened k' = opened k \<and> bufs k' = bufs k"
    and vmo_bytes: "vmo_read V h off n k = (NO_ERROR, bs) \<Longrightarrow> off + n \<le> length (vmo k h) \<Longrightarrow>
      bs = take n (drop off (vmo k h))"
    and closed: "files (mx_handle_close K h k) = files k" "opened (mx_handle_close K h k) = opened k"
      "bufs (mx_handle_close K h k) = bufs k" "files (dev_close V fd k) = files k"
begin

lemma write_chunks_file:
  assumes "write_chunks V fd h off m n buf k = (st, True, left, buf', k')" and "opened k fd = Some p"
    and "off + m = length (vmo k h)" and "0 < m \<longrightarrow> 0 < n \<longrightarrow> length buf = 4096"
  shows "st = NO_ERROR \<and> left = n - m \<and> opened k' fd = Some p \<and> bufs k' = bufs k
    \<and> length buf' = length buf \<and> files k' p = files k p @ take (min m n) (drop off (vmo k h))"
  using assms
proof (induction m arbitrary: off n buf k rule: less_induct)
  case (less m)
  define z where "z = min 4096 (min m n)"
  obtain r bs where r: "vmo_read V h off z k = (r, bs)" by fastforce
  define b where "b = bs @ drop (length bs) buf"
  obtain w k1 where w: "fd_write V fd (take z b) k = (w, k1)" by fastforce
  show ?case
  proof (cases "m = 0 \<or> n = 0")
    case True
    with less.prems show ?thesis by (subst (asm) write_chunks.simps) auto
  next
    case False
    with less.prems(1) have r0: "r = NO_ERROR" and wz: "w = int z"
      and c: "write_chunks V fd h (off + z) (m - z) (n - z) b k1 = (st, True, left, buf', k')"
      unfolding write_chunks.simps [of V fd h off m n buf k] Let_def z_def [symmetric] r prod.case
        b_def [symmetric] w by (simp_all split: if_splits)
    from False have z: "0 < z" "z \<le> m" "z \<le> n" "z \<le> 4096" by (auto simp: z_def)
    from vmo_bytes [OF r [unfolded r0]] z less.prems(3) have bs: "bs = take z (drop off (vmo k h))" by simp
    with z less.prems(3) have lb: "length bs = z" by simp
    with z less.prems(4) False have b: "take z b = bs" "length b = length buf" "length buf = 4096"
      by (auto simp: b_def)
    from written [of fd "take z b" k k1 p] w wz lb b(1) less.prems(2)
    have k1: "files k1 p = files k p @ bs" "opened k1 fd = Some p" "bufs k1 = bufs k" "vmo k1 = vmo k" by auto
    have "take (min m n) (drop off (vmo k h))
        = bs @ take (min (m - z) (n - z)) (drop (off + z) (vmo k h))"
      using bs z by (simp add: take_add [symmetric] min_diff flip: take_drop)
        (metis add.commute drop_drop le_add_diff_inverse min.boundedI take_add)
    with less.IH [OF _ c k1(2)] z k1 b less.prems(3) show ?thesis by auto
  qed
qed
lemma write_buffers_file:
  assumes "write_buffers K V ifd fd d z is n buf k = (st, True, left, k')" and "opened k fd = Some p"
    and "\<forall>i \<in> set is. length (bufs k d i) = z" and "length buf = 4096"
  shows "st = NO_ERROR \<and> left = n - length is * z \<and> files k' p = files k p @ take n (concat (map (bufs k d) is))"
  using assms
proof (induction "is" arbitrary: n buf k)
  case (Cons i "is")
  obtain s h k1 where h: "ioctl_ipt_get_buffer_handle V ifd d (of_nat i) k = (s, h, k1)" by (metis prod_cases3)
  obtain st1 ok1 left1 buf1 k2 where w: "write_chunks V fd h 0 z n buf k1 = (st1, ok1, left1, buf1, k2)"
    by (metis prod_cases5)
  show ?case
  proof (cases "n = 0")
    case False
    with Cons.prems(1) have s: "0 \<le> s" and ok: "ok1 = True"
      and r: "write_buffers K V ifd fd d z is left1 buf1 (mx_handle_close K h k2) = (st, True, left, k')"
      by (simp_all add: h w Let_def split: if_splits)
    note k1 = buffer_handle [OF h s]
    from write_chunks_file [OF w [unfolded ok], of p] k1 Cons.prems(2-4)
    have k2: "left1 = n - z" "opened k2 fd = Some p" "bufs k2 = bufs k" "length buf1 = 4096"
      "files k2 p = files k p @ take n (bufs k d i)" by (auto simp: min_def)
    from Cons.IH [OF r] k2 Cons.prems(3,4) show ?thesis
      by (auto simp: closed)
  qed (use Cons.prems in simp)
qed simp

lemma write_chunks_status:
  assumes "write_chunks V fd h off m n buf k = (st, False, left, buf', k')" and "dev_ERR_IO V \<noteq> NO_ERROR"
  shows "st \<noteq> NO_ERROR"
  using assms(1)
proof (induction m arbitrary: off n buf k rule: less_induct)
  case (less m)
  define z where "z = min 4096 (min m n)"
  obtain r bs where r: "vmo_read V h off z k = (r, bs)" by fastforce
  define b where "b = bs @ drop (length bs) buf"
  obtain w k1 where w: "fd_write V fd (take z b) k = (w, k1)" by fastforce
  have m: "m - z < m" if "m \<noteq> 0" "n \<noteq> 0" using that by (auto simp: z_def)
  from less.prems less.IH [OF m] assms(2) show ?case
    unfolding write_chunks.simps [of V fd h off m n buf k] Let_def z_def [symmetric] r prod.case b_def [symmetric] w
    by (auto split: if_splits)
qed

lemma write_buffers_status:
  assumes "write_buffers K V ifd fd d z is n buf k = (st, False, left, k')"
    and "\<And>i k. 0 \<le> fst (ioctl_ipt_get_buffer_handle V ifd d i k)" and "dev_ERR_IO V \<noteq> NO_ERROR"
  shows "st \<noteq> NO_ERROR"
  using assms(1)
proof (induction "is" arbitrary: n buf k)
  case (Cons i "is")
  obtain s h k1 where h: "ioctl_ipt_get_buffer_handle V ifd d (of_nat i) k = (s, h, k1)" by (metis prod_cases3)
  obtain st1 ok1 left1 buf1 k2 where w: "write_chunks V fd h 0 z n buf k1 = (st1, ok1, left1, buf1, k2)"
    by (metis prod_cases5)
  from assms(2) [of "of_nat i" k] h have "0 \<le> s" by simp
  moreover have "st1 \<noteq> NO_ERROR" if "\<not> ok1" using write_chunks_status [OF _ assms(3)] w that by auto
  ultimately show ?case using Cons.prems Cons.IH [of left1 buf1 "mx_handle_close K h k2"]
    by (auto simp: h w Let_def split: if_splits)
qed simp

lemma WriteBufferData_file:
  assumes cfg: "ioctl_ipt_get_buffer_config V ifd d k = (s1, bc)" and e: "ioctl_ipt_get_capture_end V ifd d k = (s2, e)"
    and order: "unat (bc_buffer_order bc) < 19" and z: "z = 2 ^ unat (bc_buffer_order bc) * 4096"
    and bufs: "\<forall>i < unat (bc_num_buffers bc). length (bufs k d i) = z"
    and n: "n = (if bc_is_circular bc then unat (bc_num_buffers bc) * z else unat e)"
    and cap: "n \<le> unat (bc_num_buffers bc) * z"
    and h: "\<And>i k. 0 \<le> fst (ioctl_ipt_get_buffer_handle V ifd d i k)"
    and io: "dev_ERR_IO V \<noteq> NO_ERROR" "dev_ERR_BAD_PATH V \<noteq> NO_ERROR"
    and stack: "\<And>k. length (stack_bytes K 4096 k) = 4096"
    and p: "p = (if cfg_mode c = IPT_MODE_CPUS then GetCpuPtFileName (cfg_output_path_prefix c) j
      else GetThreadPtFileName (cfg_output_path_prefix c) j)"
  shows "run (\<lambda>(st, k'). st = NO_ERROR \<longrightarrow>
      files k' p = take n (concat (map (bufs k d) [0..<unat (bc_num_buffers bc)]))) (WriteBufferData K V c ifd d j k)"
proof -
  obtain fd k1 where fd: "file_create V p k = (fd, k1)" by fastforce
  obtain st ok left k2 where w: "write_buffers K V ifd fd d z [0..<unat (bc_num_buffers bc)] n
    (stack_bytes K 4096 k1) k1 = (st, ok, left, k2)" by (metis prod_cases4)
  have eq: "WriteBufferData K V c ifd d j k =
    (if s1 < 0 then Some (s1, k) else if s2 < 0 then Some (s2, k) else if fd < 0 then Some (dev_ERR_BAD_PATH V, k1)
     else do {dcheck (ok \<longrightarrow> left = 0); Some (st, UniqueFD_reset V fd k2)})"
    unfolding WriteBufferData_def Let_def p [symmetric] fd cfg e prod.case z [symmetric] n [symmetric] w
    using order by simp
  show ?thesis
  proof (cases "s1 < 0 \<or> s2 < 0 \<or> fd < 0")
    case True
    with io show ?thesis by (auto simp: eq run_def)
  next
    case False
    then have "0 \<le> fd" by simp
    from created [OF fd this] have k1: "opened k1 fd = Some p" "files k1 p = []" "bufs k1 = bufs k" by auto
    show ?thesis
    proof (cases ok)
      case True
      with write_buffers_file [of ifd fd d z "[0..<unat (bc_num_buffers bc)]" n "stack_bytes K 4096 k1" k1 st left k2 p]
        w k1 bufs stack cap False
      show ?thesis by (simp add: eq run_def UniqueFD_reset_def closed)
    next
      case False
      with write_buffers_status [OF _ h io(1)] w have "st \<noteq> NO_ERROR" by auto
      with False \<open>\<not> (s1 < 0 \<or> s2 < 0 \<or> fd < 0)\<close> show ?thesis by (simp add: eq run_def)
    qed
  qed
qed

end

section \<open>Reference devices\<close>

text \<open>
  The reference kernel of \<open>Magenta\<close> with files and a driver whose buffers hold their own number.
\<close>

definition ref_fresh_fd :: "ref_kernel \<Rightarrow> int" where
  "ref_fresh_fd k = 1 + fold max (map fst (rk_fds k)) 2"

definition ref_buffer :: "nat \<Rightarrow> u8 list" where
  "ref_buffer i = replicate 4096 (of_nat i)"

definition ref_fd_write :: "int \<Rightarrow> u8 list \<Rightarrow> ref_kernel \<Rightarrow> int \<times> ref_kernel" where
  "ref_fd_write fd bs k =
     (case map_of (rk_fds k) fd of
        None \<Rightarrow> (-1, k)
      | Some p \<Rightarrow> (int (length bs), k\<lparr>rk_files := (rk_files k)(p := rk_files k p @ bs)\<rparr>))"

definition ref_dev :: "ref_kernel ipt_dev" where
  "ref_dev = \<lparr>
     dev_cpu = test_cpu,
     dev_open = (\<lambda>p k. (ref_fresh_fd k, k\<lparr>rk_fds := (ref_fresh_fd k, p) # rk_fds k\<rparr>)),
     dev_close = (\<lambda>fd k. k\<lparr>rk_fds := filter (\<lambda>(a, _). a \<noteq> fd) (rk_fds k)\<rparr>),
     ioctl_ktrace_get_handle = (\<lambda>fd k. (4, 1, k)),
     ioctl_ipt_set_mode = (\<lambda>fd m k. (0, k)),
     ioctl_ipt_alloc_buffer = (\<lambda>fd c k. (4, 0, k)),
     ioctl_ipt_cpu_mode_alloc = (\<lambda>fd k. (0, k)),
     ioctl_ipt_cpu_mode_start = (\<lambda>fd k. (0, k)),
     ioctl_ipt_cpu_mode_stop = (\<lambda>fd k. (0, k)),
     ioctl_ipt_cpu_mode_free = (\<lambda>fd k. (0, k)),
     ioctl_ipt_assign_buffer_thread = (\<lambda>fd h d k. (0, k)),
     ioctl_ipt_release_buffer_thread = (\<lambda>fd h d k. (0, k)),
     ioctl_ipt_free_buffer = (\<lambda>fd d k. (0, k)),
     ioctl_ipt_get_buffer_config = (\<lambda>fd d k. (0, \<lparr>bc_num_buffers = 2, bc_buffer_order = 0, bc_is_circular = False,
       bc_ctl = 0, bc_cr3_match = 0, bc_range0 = (0, 0), bc_range1 = (0, 0)\<rparr>)),
     ioctl_ipt_get_capture_end = (\<lambda>fd d k. (0, 5000)),
     ioctl_ipt_get_buffer_handle = (\<lambda>fd d i k. (4, int (unat i) + 1, k)),
     mx_ktrace_control = (\<lambda>h a m k. (NO_ERROR, k)),
     mx_handle_duplicate = (\<lambda>h k. (NO_ERROR, h, k)),
     vmo_read = (\<lambda>h off n k. (NO_ERROR, take n (drop off (ref_buffer (nat (h - 1)))))),
     file_create = (\<lambda>p k. (ref_fresh_fd k,
       k\<lparr>rk_fds := (ref_fresh_fd k, p) # rk_fds k, rk_files := (rk_files k)(p := [])\<rparr>)),
     fd_write = ref_fd_write,
     fd_read = (\<lambda>fd n k. (0, [], k)),
     dev_ERR_BAD_PATH = -50,
     dev_ERR_IO = -40,
     KTRACE_GRP_ARCH = 1,
     KTRACE_GRP_TASKS = 2
   \<rparr>"

lemma ref_fresh_ge: "a \<in> set (rk_fds k) \<Longrightarrow> fst a < ref_fresh_fd k" "2 < ref_fresh_fd k"
proof -
  have start: "m \<le> fold max xs m" for m :: int and xs
    by (induction xs arbitrary: m) (auto intro: order_trans [OF max.cobounded2])
  have "a \<in> set xs \<Longrightarrow> a \<le> fold max xs m" for a m :: int and xs
    by (induction xs arbitrary: m) (auto intro: order_trans [OF max.cobounded1] start)
  from this [of "fst a" "map fst (rk_fds k)" 2] start [of 2 "map fst (rk_fds k)"]
  show "a \<in> set (rk_fds k) \<Longrightarrow> fst a < ref_fresh_fd k" "2 < ref_fresh_fd k"
    by (auto simp: ref_fresh_fd_def)
qed

definition ref_fds :: "ref_kernel \<Rightarrow> int set" where
  "ref_fds k = {fd \<in> fst ` set (rk_fds k). 0 \<le> fd}"

interpretation ref_dev: ipt_capture ref_mx ref_dev ref_fds rk_files "\<lambda>k. map_of (rk_fds k)"
  "\<lambda>k d i. ref_buffer (unat (of_nat i :: u32))" "\<lambda>k h. ref_buffer (nat (h - 1))"
proof unfold_locales
  show "fd \<in> ref_fds k \<Longrightarrow> 0 \<le> fd" for fd k by (simp add: ref_fds_def)
  show "dev_open ref_dev p k = (fd, k') \<Longrightarrow>
      ref_fds k' = (if fd < 0 then ref_fds k else insert fd (ref_fds k)) \<and> fd \<notin> ref_fds k" for p k fd k'
    using ref_fresh_ge(1) [of _ k] ref_fresh_ge(2) [of k] by (fastforce simp: ref_dev_def ref_fds_def)
  show "file_create ref_dev p k = (fd, k') \<Longrightarrow>
      ref_fds k' = (if fd < 0 then ref_fds k else insert fd (ref_fds k)) \<and> fd \<notin> ref_fds k" for p k fd k'
    using ref_fresh_ge(1) [of _ k] ref_fresh_ge(2) [of k] by (fastforce simp: ref_dev_def ref_fds_def)
  show "ref_fds (dev_close ref_dev fd k) = ref_fds k - {fd}" for fd k
    by (force simp: ref_dev_def ref_fds_def)
qed (auto simp: ref_dev_def ref_fd_write_def ref_fds_def ref_buffer_def split: option.splits)

section \<open>Properties\<close>

text \<open>
  C16: whatever the devices answer, an operation of the tracer that returns leaves exactly the file
  descriptors open that were open before: those it opened are closed on the error paths too.
\<close>

theorem control_closes_descriptors:
  assumes "ipt_devices K V fds"
  shows "fds (snd (SetPerfMode V c k)) = fds k
    \<and> post (\<lambda>(ok, k1). fds k1 = fds k) (InitCpuPerf V c k)
    \<and> post (\<lambda>(ok, t1, k1). fds k1 = fds k) (InitThreadPerf V c t k)
    \<and> fds (snd (InitPerfPreProcess K V c k)) = fds k
    \<and> post (\<lambda>(ok, k1). fds k1 = fds k) (StartCpuPerf V c k)
    \<and> post (\<lambda>(ok, k1). fds k1 = fds k) (StartThreadPerf V c t k)
    \<and> post (\<lambda>k1. fds k1 = fds k) (StopCpuPerf V c k)
    \<and> post (\<lambda>k1. fds k1 = fds k) (StopThreadPerf V c t k)
    \<and> fds (StopPerf K V c k) = fds k
    \<and> post (\<lambda>k1. fds k1 = fds k) (DumpCpuPerf K V c k)
    \<and> post (\<lambda>k1. fds k1 = fds k) (DumpThreadPerf K V c t k)
    \<and> post (\<lambda>(x1, k1). fds k1 = fds k) (DumpPerf V c x k)
    \<and> post (\<lambda>k1. fds k1 = fds k) (ResetCpuPerf V c k)
    \<and> post (\<lambda>(t1, k1). fds k1 = fds k) (ResetThreadPerf V c t k)
    \<and> fds (ResetPerf K V c k) = fds k"
proof (intro conjI)
  show "fds (snd (SetPerfMode V c k)) = fds k"
    using ipt_devices.SetPerfMode_fds [OF assms] by (metis prod.collapse)
  show "fds (snd (InitPerfPreProcess K V c k)) = fds k"
    using ipt_devices.InitPerfPreProcess_fds [OF assms] by (metis prod.collapse)
qed (auto simp: post_def ipt_devices.StopPerf_fds [OF assms] ipt_devices.ResetPerf_fds [OF assms]
    dest: ipt_devices.InitCpuPerf_fds [OF assms] ipt_devices.InitThreadPerf_fds [OF assms]
      ipt_devices.StartCpuPerf_fds [OF assms] ipt_devices.StartThreadPerf_fds [OF assms]
      ipt_devices.StopCpuPerf_fds [OF assms] ipt_devices.StopThreadPerf_fds [OF assms]
      ipt_devices.DumpCpuPerf_fds [OF assms] ipt_devices.DumpThreadPerf_fds [OF assms]
      ipt_devices.DumpPerf_fds [OF assms] ipt_devices.ResetCpuPerf_fds [OF assms]
      ipt_devices.ResetThreadPerf_fds [OF assms])

theorem control_closes_descriptors_witness:
  "ipt_devices ref_mx ref_dev ref_fds
    \<and> rk_fds (snd (dev_open ref_dev ipt_device_path demo_kernel)) = [(3, ipt_device_path)]
    \<and> ref_fds (snd (SetPerfMode ref_dev (IptConfig_new 4) demo_kernel)) = {}"
  using control_closes_descriptors [OF ref_dev.ipt_devices_axioms, of "IptConfig_new 4" demo_kernel]
    ref_dev.ipt_devices_axioms
  by (simp add: demo_kernel_def ref_fds_def ref_dev_def ref_fresh_fd_def)


lemma ref_write_chunks:
  assumes "map_of (rk_fds k) fd = Some p" and "length buf = 4096"
  shows "\<exists>left buf' k'. write_chunks ref_dev fd h off m n buf k = (NO_ERROR, True, left, buf', k')
    \<and> rk_fds k' = rk_fds k \<and> length buf' = 4096"
  using assms
proof (induction m arbitrary: off n buf k rule: less_induct)
  case (less m)
  define z where "z = min 4096 (min m n)"
  define b where "b = take z (drop off (ref_buffer (nat (h - 1))))
    @ drop (length (take z (drop off (ref_buffer (nat (h - 1)))))) buf"
  have z: "z \<le> 4096" by (simp add: z_def)
  then have "length b = 4096" using less.prems(2) by (simp add: b_def)
  with z have b: "length (take z b) = z" "length b = 4096" by simp_all
  then have w: "fd_write ref_dev fd (take z b) k =
      (int z, k\<lparr>rk_files := (rk_files k)(p := rk_files k p @ take z b)\<rparr>)"
    using less.prems(1) by (simp add: ref_dev_def ref_fd_write_def)
  have r: "vmo_read ref_dev h off z k = (NO_ERROR, take z (drop off (ref_buffer (nat (h - 1)))))"
    by (simp add: ref_dev_def)
  show ?case
  proof (cases "m = 0 \<or> n = 0")
    case True
    with less.prems show ?thesis by (subst write_chunks.simps) auto
  next
    case False
    then have "m - z < m" by (auto simp: z_def)
    from less.IH [OF this, of "k\<lparr>rk_files := (rk_files k)(p := rk_files k p @ take z b)\<rparr>" b "off + z" "n - z"]
      less.prems b(2) False show ?thesis
      unfolding write_chunks.simps [of ref_dev fd h off m n buf k] Let_def z_def [symmetric] r prod.case
        b_def [symmetric] w by auto
  qed
qed

lemma ref_write_buffers:
  assumes "map_of (rk_fds k) fd = Some p" and "length buf = 4096"
  shows "\<exists>left k'. write_buffers ref_mx ref_dev ifd fd d z is n buf k = (NO_ERROR, True, left, k')"
  using assms
proof (induction "is" arbitrary: n buf k)
  case (Cons i "is")
  from ref_write_chunks [OF Cons.prems, of "int (unat (of_nat i :: u32)) + 1" 0 z n] obtain left buf' k' where
    "write_chunks ref_dev fd (int (unat (of_nat i :: u32)) + 1) 0 z n buf k = (NO_ERROR, True, left, buf', k')"
    "rk_fds k' = rk_fds k" "length buf' = 4096" by blast
  moreover have "ioctl_ipt_get_buffer_handle ref_dev ifd d (of_nat i) k = (4, int (unat (of_nat i :: u32)) + 1, k)"
    by (simp add: ref_dev_def)
  ultimately show ?case using Cons.IH [of k' buf' left] Cons.prems(1) by simp
qed simp


lemma WriteBufferData_lost_handle:
  assumes "ioctl_ipt_get_buffer_config V ifd d k = (s1, bc)" and "0 \<le> s1"
    and "ioctl_ipt_get_capture_end V ifd d k = (s2, e)" and "0 \<le> s2"
    and "\<And>p. file_create V p k = (fd, k1)" and "0 \<le> fd"
    and "unat (bc_buffer_order bc) < 19" and "bc_num_buffers bc \<noteq> 0" and "\<not> bc_is_circular bc" and "e \<noteq> 0"
    and "ioctl_ipt_get_buffer_handle V ifd d 0 k1 = (s3, h, k2)" and "s3 < 0"
  shows "\<exists>k'. WriteBufferData K V c ifd d j k = Some (NO_ERROR, k')"
proof -
  have "[0..<unat (bc_num_buffers bc)] = 0 # [1..<unat (bc_num_buffers bc)]"
    using assms(8) by (simp add: upt_conv_Cons unat_gt_0)
  moreover have "unat e \<noteq> 0" using assms(10) by (simp add: unat_eq_zero)
  ultimately show ?thesis using assms unfolding WriteBufferData_def Let_def by simp
qed

text \<open>
  The default configuration leaves the address ranges uninitialised, and \<^verbatim>\<open>InitIptBufferConfig\<close> copies
  them whatever the address filters are.
\<close>

lemma InitIptBufferConfig_default: "InitIptBufferConfig (IptConfig_new n) = None"
  by (simp add: InitIptBufferConfig_def AddrBegin_def IptConfig_new_def Let_def)

text \<open>A read of the ktrace device that keeps failing keeps \<^verbatim>\<open>DumpPerf\<close> in its loop.\<close>

lemma copy_ktrace_failing_read:
  assumes "\<And>k. \<exists>buf k'. fd_read V ktrace_fd 1024 k = (-1, buf, k')"
  shows "copy_ktrace V ktrace_fd dest_fd k = None"
proof (rule ccontr)
  assume "copy_ktrace V ktrace_fd dest_fd k \<noteq> None"
  then obtain k' where c: "copy_ktrace V ktrace_fd dest_fd k = Some k'" by auto
  have "\<not> (V = V \<and> ktrace_fd = ktrace_fd)"
  proof (rule copy_ktrace.raw_induct [where P = "\<lambda>V' a b k k'. \<not> (V' = V \<and> a = ktrace_fd)", OF _ c])
    fix f V' a b k k'
    assume "\<And>V' a b k k'. f V' a b k = Some k' \<Longrightarrow> \<not> (V' = V \<and> a = ktrace_fd)"
      and "(let (count, buf, k) = fd_read V' a 1024 k in
        if count = 0 then Some k else if count < 0 then f V' a b k
        else let (_, k) = fd_write V' b (take (nat count) buf) k in f V' a b k) = Some k'"
    then show "\<not> (V' = V \<and> a = ktrace_fd)" using assms [of k] by fastforce
  qed
  then show False by simp
qed

end
