(* ===== verification/Ipt_Server.thy ===== *)
theory Ipt_Server
  imports Ipt_Control_Inv Process_Inv
begin

text \<open>
  The tracer: \<^verbatim>\<open>IptServer\<close> of \<^verbatim>\<open>bin/ipt/server.{h,cc}\<close>, what \<^verbatim>\<open>bin/ipt/main.cc\<close> does with the parsed
  command line, and \<^verbatim>\<open>PrintException\<close>.  \<open>ipt_server\<close> extends the record of the inferior by the members
  of the class; \<open>ips_packets\<close> are the exceptions posted to its main loop, \<open>ips_stdout\<close> what was printed and
  \<open>ips_x86\<close> the cached processor features.  The numbers of the exception types are a parameter.
\<close>

section \<open>Definitions\<close>

record 'k ipt_env =
  ie_ftl :: ftl
  ie_mx :: "'k mx"
  ie_dso :: dso_env
  ie_dev :: "'k ipt_dev"
  ie_excp_number :: "mx_excp_type \<Rightarrow> nat"

record 'k ipt_server = "'k inferior" +
  ips_config :: IptConfig
  ips_current_thread :: "nat option"
  ips_run_status :: bool
  ips_packets :: "port_packet list"
  ips_quit :: bool
  ips_stdout :: string
  ips_x86 :: x86_state

definition Process_GetName :: "process \<Rightarrow> string" where
  "Process_GetName p = number_string 10 (sint (p_id p))"

definition Thread_GetDebugName :: "process \<Rightarrow> thread \<Rightarrow> string" where
  "Thread_GetDebugName p t =
     number_string 10 (sint (p_id p)) @ ''.'' @ number_string 10 (sint (t_id t))
     @ ''('' @ hex_text (unat (p_id p)) @ ''.'' @ hex_text (unat (t_id t)) @ '')''"

definition ExceptionToString :: "mx_excp_type \<Rightarrow> mx_exception_context \<Rightarrow> string" where
  "ExceptionToString type context = ExceptionName type"

definition PrintException ::
  "'k ipt_env \<Rightarrow> thread option \<Rightarrow> mx_excp_type \<Rightarrow> mx_exception_context \<Rightarrow> ('k, 'm) inferior_scheme \<Rightarrow> string option" where
  "PrintException E thread type context s =
     (let p = i_proc s in
      if MX_EXCP_IS_ARCH (ie_mx E) type then
        do {
          t \<leftarrow> thread;
          Some (''Thread '' @ Thread_GetDebugName p t @ '' received exception '' @ ExceptionToString type context
            @ ''\<newline>'' @ ''PC 0x'' @ hex_text (unat (ctx_pc context)) @ ''\<newline>'')
        }
      else case type of
        MX_EXCP_THREAD_STARTING \<Rightarrow>
          do { t \<leftarrow> thread; Some (''Thread '' @ Thread_GetDebugName p t @ '' is starting\<newline>'') }
      | MX_EXCP_THREAD_EXITING \<Rightarrow>
          do { t \<leftarrow> thread; Some (''Thread '' @ Thread_GetDebugName p t @ '' is exiting\<newline>'') }
      | MX_EXCP_GONE \<Rightarrow>
          (case thread of
             Some t \<Rightarrow> Some (''Thread '' @ Thread_GetDebugName p t @ '' is gone\<newline>'')
           | None \<Rightarrow>
               do {
                 rc \<leftarrow> Process_ExitCode (ie_mx E) s;
                 Some (''Process '' @ Process_GetName p @ '' is gone, rc '' @ number_string 10 rc @ ''\<newline>'')
               })
      | _ \<Rightarrow> Some (''Unknown exception '' @ nat_string 10 (ie_excp_number E type) @ ''\<newline>''))"

definition printed :: "string \<Rightarrow> 'k ipt_server \<Rightarrow> 'k ipt_server" where
  "printed text s = s\<lparr>ips_stdout := ips_stdout s @ text\<rparr>"

definition IptServer_new :: "IptConfig \<Rightarrow> u64 \<Rightarrow> x86_state \<Rightarrow> 'k \<Rightarrow> 'k ipt_server" where
  "IptServer_new config g_key_counter x k =
     \<lparr>i_proc = Process_new, i_eport = ExceptionPort_new g_key_counter, i_k = k, ips_config = config,
      ips_current_thread = None, ips_run_status = True, ips_packets = [], ips_quit = False, ips_stdout = [],
      ips_x86 = x\<rparr>"

definition IptServer_SetCurrentThread :: "u64 option \<Rightarrow> 'k ipt_server \<Rightarrow> 'k ipt_server" where
  "IptServer_SetCurrentThread thread s =
     (case thread of
        None \<Rightarrow> s\<lparr>ips_current_thread := None\<rparr>
      | Some tid \<Rightarrow> s\<lparr>ips_current_thread := map_option t_oid (get_thread tid s)\<rparr>)"

definition IptServer_QuitMessageLoop :: "bool \<Rightarrow> 'k ipt_server \<Rightarrow> 'k ipt_server" where
  "IptServer_QuitMessageLoop status s = s\<lparr>ips_run_status := status, ips_quit := True\<rparr>"

text \<open>
  \<open>start_trace\<close> is \<^verbatim>\<open>StartInferior\<close> up to the call of \<^verbatim>\<open>Initialize\<close>, \<open>start_program\<close> the rest of it, which ends
  with \<open>start_running\<close>.
\<close>

definition start_trace :: "'k mx \<Rightarrow> 'k ipt_dev \<Rightarrow> IptConfig \<Rightarrow> 'k \<Rightarrow> (bool \<times> 'k) option" where
  "start_trace K V config k =
     (case SetPerfMode V config k of
        (ok, k) \<Rightarrow>
          if \<not> ok then Some (False, k)
          else do {
            (ok, k) \<leftarrow> (if cfg_mode config = IPT_MODE_CPUS then InitCpuPerf V config k else Some (True, k));
            if \<not> ok then Some (False, k) else Some (InitPerfPreProcess K V config k)
          })"

definition start_running :: "'k ipt_env \<Rightarrow> 'k ipt_server \<Rightarrow> (bool \<times> 'k ipt_server) option" where
  "start_running E s =
     do {
       let K = ie_mx E; let V = ie_dev E; let config = ips_config s;
       (ok, k) \<leftarrow> (if cfg_mode config = IPT_MODE_CPUS then StartCpuPerf V config (i_k s) else Some (True, i_k s));
       if \<not> ok then Some (False, s\<lparr>i_k := ResetPerf K V config k\<rparr>)
       else do {
         let s = s\<lparr>i_k := k\<rparr>;
         dcheck (\<not> Process_IsLive (i_proc s));
         (ok, s) \<leftarrow> Process_Start K s;
         if \<not> ok then Some (False, s)
         else do { dcheck (Process_IsLive (i_proc s)); Some (True, s) }
       }
     }"

definition start_program :: "'k ipt_env \<Rightarrow> 'k ipt_server \<Rightarrow> (bool \<times> 'k ipt_server) option" where
  "start_program E s =
     do {
       (ok, s) \<leftarrow> Process_Initialize (ie_mx E) s;
       if \<not> ok then Some (False, s)
       else do {
         attached \<leftarrow> Process_IsAttached (i_proc s);
         dcheck (\<not> attached);
         (ok, s) \<leftarrow> Process_Attach (ie_mx E) s;
         if \<not> ok then Some (False, s)
         else do {
           attached \<leftarrow> Process_IsAttached (i_proc s);
           dcheck attached;
           start_running E s
         }
       }
     }"

definition StartInferior :: "'k ipt_env \<Rightarrow> 'k ipt_server \<Rightarrow> (bool \<times> 'k ipt_server) option" where
  "StartInferior E s =
     do {
       dcheck (p_argv (i_proc s) \<noteq> []);
       (ok, k) \<leftarrow> start_trace (ie_mx E) (ie_dev E) (ips_config s) (i_k s);
       if \<not> ok then Some (False, s\<lparr>i_k := k\<rparr>) else start_program E (s\<lparr>i_k := k\<rparr>)
     }"

definition DumpResults :: "'k ipt_env \<Rightarrow> 'k ipt_server \<Rightarrow> (bool \<times> 'k ipt_server) option" where
  "DumpResults E s =
     do {
       let K = ie_mx E; let V = ie_dev E; let config = ips_config s; let k = i_k s;
       k \<leftarrow> (if cfg_mode config = IPT_MODE_CPUS then StopCpuPerf V config k else Some k);
       let k = StopPerf K V config k;
       k \<leftarrow> (if cfg_mode config = IPT_MODE_CPUS then DumpCpuPerf K V config k else Some k);
       (x, k) \<leftarrow> DumpPerf V config (ips_x86 s) k;
       k \<leftarrow> (if cfg_mode config = IPT_MODE_CPUS then ResetCpuPerf V config k else Some k);
       Some (True, s\<lparr>ips_x86 := x, i_k := ResetPerf K V config k\<rparr>)
     }"

text \<open>\<^verbatim>\<open>Run\<close> up to the main loop, and from there on.\<close>

definition IptServer_start :: "'k ipt_env \<Rightarrow> 'k ipt_server \<Rightarrow> (bool \<times> 'k ipt_server) option" where
  "IptServer_start E s =
     do {
       (ok, ep, k) \<leftarrow> ExceptionPort_Run (ie_mx E) (i_eport s) (i_k s);
       let s = s\<lparr>i_eport := ep, i_k := k\<rparr>;
       if \<not> ok then Some (False, s) else StartInferior E s
     }"

definition IptServer_finish :: "'k ipt_env \<Rightarrow> 'k ipt_server \<Rightarrow> (bool \<times> 'k ipt_server) option" where
  "IptServer_finish E s =
     do {
       ep \<leftarrow> ExceptionPort_Quit (i_eport s);
       (ok, s) \<leftarrow> DumpResults E (s\<lparr>i_eport := ep\<rparr>);
       if \<not> ok then Some (False, s) else Some (ips_run_status s, s)
     }"

definition trace_thread ::
  "'k ipt_env \<Rightarrow> IptConfig \<Rightarrow> thread \<Rightarrow> 'k \<Rightarrow> (thread \<times> 'k) option" where
  "trace_thread E config t k =
     do {
       (ok, t, k) \<leftarrow> InitThreadPerf (ie_dev E) config t k;
       if \<not> ok then Some (t, k)
       else do {
         (ok, k) \<leftarrow> StartThreadPerf (ie_dev E) config t k;
         if \<not> ok then ResetThreadPerf (ie_dev E) config t k else Some (t, k)
       }
     }"

definition thread_starting ::
  "'k ipt_env \<Rightarrow> IptConfig \<Rightarrow> thread \<Rightarrow> 'k \<Rightarrow> (unit \<times> thread \<times> 'k) option" where
  "thread_starting E config t k =
     do {
       (t, k) \<leftarrow> (if cfg_mode config = IPT_MODE_THREADS then trace_thread E config t k else Some (t, k));
       let (_, t, k) = Thread_Resume (ie_mx E) t k;
       Some ((), t, k)
     }"

definition IptServer_OnThreadStarting ::
  "'k ipt_env \<Rightarrow> u64 \<Rightarrow> mx_exception_context \<Rightarrow> 'k ipt_server \<Rightarrow> 'k ipt_server option" where
  "IptServer_OnThreadStarting E thread context s =
     do {
       t \<leftarrow> get_thread thread s;
       text \<leftarrow> PrintException E (Some t) MX_EXCP_THREAD_STARTING context s;
       let s = printed text s;
       (case p_state (i_proc s) of
          prc_kStarting \<Rightarrow> Some ()
        | prc_kRunning \<Rightarrow> Some ()
        | _ \<Rightarrow> None);
       map_option snd (on_thread thread (thread_starting E (ips_config s)) s)
     }"

definition thread_exiting ::
  "'k ipt_env \<Rightarrow> IptConfig \<Rightarrow> thread \<Rightarrow> 'k \<Rightarrow> (unit \<times> thread \<times> 'k) option" where
  "thread_exiting E config t k =
     do {
       (t, k) \<leftarrow>
         (if cfg_mode config = IPT_MODE_THREADS then
            do {
              ipt_buffer \<leftarrow> t_ipt_buffer t;
              if ipt_buffer \<ge> 0 then
                do {
                  k \<leftarrow> StopThreadPerf (ie_dev E) config t k;
                  k \<leftarrow> DumpThreadPerf (ie_mx E) (ie_dev E) config t k;
                  ResetThreadPerf (ie_dev E) config t k
                }
              else Some (t, k)
            }
          else Some (t, k));
       (t, k) \<leftarrow> Thread_ResumeForExit (ie_mx E) t k;
       Some ((), t, k)
     }"

definition IptServer_OnThreadExiting ::
  "'k ipt_env \<Rightarrow> u64 \<Rightarrow> mx_excp_type \<Rightarrow> mx_exception_context \<Rightarrow> 'k ipt_server \<Rightarrow> 'k ipt_server option" where
  "IptServer_OnThreadExiting E thread type context s =
     do {
       t \<leftarrow> get_thread thread s;
       text \<leftarrow> PrintException E (Some t) type context s;
       let s = printed text s;
       map_option snd (on_thread thread (thread_exiting E (ips_config s)) s)
     }"

definition IptServer_OnProcessExit ::
  "'k ipt_env \<Rightarrow> mx_excp_type \<Rightarrow> mx_exception_context \<Rightarrow> 'k ipt_server \<Rightarrow> 'k ipt_server option" where
  "IptServer_OnProcessExit E type context s =
     do {
       text \<leftarrow> PrintException E None type context s;
       let s = printed text s;
       let s = IptServer_SetCurrentThread None s;
       Some (IptServer_QuitMessageLoop True s)
     }"

definition IptServer_OnArchitecturalException ::
  "'k ipt_env \<Rightarrow> u64 \<Rightarrow> mx_excp_type \<Rightarrow> mx_exception_context \<Rightarrow> 'k ipt_server \<Rightarrow> 'k ipt_server option" where
  "IptServer_OnArchitecturalException E thread type context s =
     do {
       t \<leftarrow> get_thread thread s;
       text \<leftarrow> PrintException E (Some t) type context s;
       Some (IptServer_QuitMessageLoop True (printed text s))
     }"

definition ipt_delegate :: "'k ipt_env \<Rightarrow> 'k ipt_server delegate" where
  "ipt_delegate E =
     \<lparr>OnThreadStarting = IptServer_OnThreadStarting E,
      OnThreadExiting = IptServer_OnThreadExiting E,
      OnProcessExit = IptServer_OnProcessExit E,
      OnArchitecturalException = IptServer_OnArchitecturalException E\<rparr>"

text \<open>
  The program: \<open>None\<close> of \<open>ipt_main\<close> is a fault, \<open>Ipt_exit\<close> an exit with success or failure, \<open>Ipt_run\<close> a
  server to run.  What is printed before an exit is left out.
\<close>

definition control_action :: "'k ipt_env \<Rightarrow> IptConfig \<Rightarrow> string \<Rightarrow> x86_state \<Rightarrow> 'k \<Rightarrow> (bool \<times> x86_state \<times> 'k) option" where
  "control_action E config action x k =
     (let K = ie_mx E; V = ie_dev E in
      if action = ''init'' then
        do {
          let (ok, k) = SetPerfMode V config k;
          if \<not> ok then Some (False, x, k)
          else do {
            (ok, k) \<leftarrow> InitCpuPerf V config k;
            if \<not> ok then Some (False, x, k)
            else let (ok, k) = InitPerfPreProcess K V config k in Some (ok, x, k)
          }
        }
      else if action = ''start'' then
        do { (ok, k) \<leftarrow> StartCpuPerf V config k; Some (ok, x, k) }
      else if action = ''stop'' then
        do { k \<leftarrow> StopCpuPerf V config k; Some (True, x, StopPerf K V config k) }
      else if action = ''dump'' then
        do {
          k \<leftarrow> DumpCpuPerf K V config k;
          (x, k) \<leftarrow> DumpPerf V config x k;
          Some (True, x, k)
        }
      else if action = ''reset'' then
        do { k \<leftarrow> ResetCpuPerf V config k; Some (True, x, ResetPerf K V config k) }
      else Some (False, x, k))"

fun control_actions ::
  "'k ipt_env \<Rightarrow> IptConfig \<Rightarrow> string list \<Rightarrow> x86_state \<Rightarrow> 'k \<Rightarrow> (bool \<times> x86_state \<times> 'k) option" where
  "control_actions E config [] x k = Some (True, x, k)"
| "control_actions E config (action # actions) x k =
     do {
       (ok, x, k) \<leftarrow> control_action E config action x k;
       if \<not> ok then Some (False, x, k) else control_actions E config actions x k
     }"

definition ControlIpt ::
  "'k ipt_env \<Rightarrow> IptConfig \<Rightarrow> ipt_command_line \<Rightarrow> x86_state \<Rightarrow> 'k \<Rightarrow> (bool \<times> x86_state \<times> 'k) option" where
  "ControlIpt E config cl x k =
     (if cfg_mode config \<noteq> IPT_MODE_CPUS then Some (False, x, k)
      else control_actions E config (icl_args cl) x k)"

definition RunProgram ::
  "IptConfig \<Rightarrow> ipt_command_line \<Rightarrow> u64 \<Rightarrow> x86_state \<Rightarrow> 'k \<Rightarrow> 'k ipt_server option" where
  "RunProgram config cl g_key_counter x k =
     (if icl_args cl = [] then None
      else let s = IptServer_new config g_key_counter x k
           in Some (s\<lparr>i_proc := (i_proc s)\<lparr>p_argv := icl_args cl\<rparr>\<rparr>))"

datatype 'k ipt_outcome = Ipt_exit bool 'k | Ipt_run "'k ipt_server"

definition ipt_main ::
  "'k ipt_env \<Rightarrow> u32 \<Rightarrow> ipt_command_line \<Rightarrow> u64 \<Rightarrow> 'k \<Rightarrow> 'k ipt_outcome option" where
  "ipt_main E num_cpus cl g_key_counter k =
     (let C = dev_cpu (ie_dev E) in
      if \<not> icl_log_settings cl then Some (Ipt_exit False k)
      else if icl_has cl ''help'' then Some (Ipt_exit True k)
      else if icl_has cl ''dump-arch'' then
        do { (text, x) \<leftarrow> DumpArch_amd64 C x86_static; Some (Ipt_exit True k) }
      else do {
        (have_pt, pt) \<leftarrow> HaveProcessorTrace C pt_static;
        let x = ps_x86 pt;
        if \<not> have_pt then Some (Ipt_exit False k)
        else case GetIptConfig (ie_ftl E) num_cpus cl of
          None \<Rightarrow> Some (Ipt_exit False k)
        | Some config \<Rightarrow>
            if icl_has cl ''control'' then
              do { (success, x, k) \<leftarrow> ControlIpt E config cl x k; Some (Ipt_exit success k) }
            else Some (case RunProgram config cl g_key_counter x k of
                None \<Rightarrow> Ipt_exit False k
              | Some s \<Rightarrow> Ipt_run s)
      })"

section \<open>The running tracer\<close>

inductive ipt_step :: "'k ipt_env \<Rightarrow> 'k ipt_server \<Rightarrow> 'k ipt_server \<Rightarrow> bool" for E where
  task: "\<not> ips_quit s \<Longrightarrow> ips_packets s = p # ps \<Longrightarrow>
    Worker_task (Process_OnException (ie_mx E) (ie_dso E) (ipt_delegate E)) (i_eport s) p (s\<lparr>ips_packets := ps\<rparr>)
      = Some s' \<Longrightarrow> ipt_step E s s'"
| exception: "Worker rounds = Some packets \<Longrightarrow> ipt_step E s (s\<lparr>ips_packets := ips_packets s @ packets\<rparr>)"
| world: "ipt_step E s (s\<lparr>i_k := k\<rparr>)"

inductive ipt_reach :: "'k ipt_env \<Rightarrow> 'k ipt_server \<Rightarrow> bool" for E where
  start: "ipt_main E n cl g k = Some (Ipt_run s) \<Longrightarrow> IptServer_start E s = Some (True, s') \<Longrightarrow> ipt_reach E s'"
| more: "ipt_reach E s \<Longrightarrow> ipt_step E s s' \<Longrightarrow> ipt_reach E s'"

definition ipt_inv :: "'k ipt_server \<Rightarrow> bool" where
  "ipt_inv s \<longleftrightarrow> ips_run_status s \<and> ips_current_thread s = None"

lemma ipt_more_eq:
  assumes "inferior.more s' = inferior.more (s :: 'k ipt_server)"
  shows "ips_run_status s' = ips_run_status s" "ips_current_thread s' = ips_current_thread s"
    "ips_config s' = ips_config s"
  using assms by (cases s; cases s'; simp)+

lemma ipt_inv_frame:
  assumes "inferior.more s' = inferior.more (s :: 'k ipt_server)"
  shows "ipt_inv s' \<longleftrightarrow> ipt_inv s"
  by (simp add: ipt_inv_def ipt_more_eq [OF assms])

text \<open>The operations on the buffer of a thread change nothing else of it.\<close>

definition same_thread :: "thread \<Rightarrow> thread \<Rightarrow> bool" where
  "same_thread t t' \<longleftrightarrow> (\<exists>b. t' = t\<lparr>t_ipt_buffer := b\<rparr>)"

lemma same_thread_refl [simp]: "same_thread t t"
  unfolding same_thread_def by (rule exI [of _ "t_ipt_buffer t"]) simp

lemma same_thread_buffer [simp]: "same_thread t (t\<lparr>t_ipt_buffer := b\<rparr>)"
  by (auto simp: same_thread_def)

lemma same_thread_trans: "same_thread t t1 \<Longrightarrow> same_thread t1 t2 \<Longrightarrow> same_thread t t2"
  by (auto simp: same_thread_def)

lemma same_thread_ok: "same_thread t t' \<Longrightarrow> thread_ok K t \<Longrightarrow>
    thread_ok K t' \<and> t_id t' = t_id t \<and> t_oid t' = t_oid t"
  by (auto simp: same_thread_def thread_ok_def)

lemma InitThreadPerf_same: "InitThreadPerf V c t k = Some (ok, t', k') \<Longrightarrow> same_thread t t'"
  unfolding InitThreadPerf_def Let_def
  by (auto split: Option.bind_splits prod.splits option.splits if_splits)

lemma ResetThreadPerf_same: "ResetThreadPerf V c t k = Some (t', k') \<Longrightarrow> same_thread t t'"
  unfolding ResetThreadPerf_def Let_def
  by (auto split: Option.bind_splits prod.splits option.splits if_splits)

lemma trace_thread_same: "trace_thread E c t k = Some (t', k') \<Longrightarrow> same_thread t t'"
  unfolding trace_thread_def
  by (auto simp: bind_eq_Some_conv split: if_splits
      dest!: InitThreadPerf_same ResetThreadPerf_same intro: same_thread_trans)

lemma thread_starting_post:
  assumes "thread_ok (ie_mx E) t"
  shows "post (\<lambda>(r, t', k'). thread_ok (ie_mx E) t' \<and> t_id t' = t_id t \<and> t_oid t' = t_oid t \<and> True)
    (thread_starting E c t k)"
proof -
  have "post (\<lambda>(t', k'). thread_ok (ie_mx E) t' \<and> t_id t' = t_id t \<and> t_oid t' = t_oid t)
    (if cfg_mode c = IPT_MODE_THREADS then trace_thread E c t k else Some (t, k))"
    using assms by (auto simp: post_def dest: trace_thread_same same_thread_ok)
  then show ?thesis unfolding thread_starting_def
    by (rule post_bindI) (auto simp: Let_def split: prod.splits dest: thread_ok_Resume)
qed

lemma thread_exiting_post:
  assumes "thread_ok (ie_mx E) t"
  shows "post (\<lambda>(r, t', k'). thread_ok (ie_mx E) t' \<and> t_id t' = t_id t \<and> t_oid t' = t_oid t \<and> True)
    (thread_exiting E c t k)"
  using assms unfolding thread_exiting_def post_def
  by (auto simp: bind_eq_Some_conv split: if_splits
      dest!: ResetThreadPerf_same thread_ok_ResumeForExit [rotated] dest: same_thread_ok)

locale ipt_tracer =
  fixes E :: "'k ipt_env"
  assumes kernel: "mx_kernel (ie_mx E)"
begin

abbreviation good :: "'k ipt_server \<Rightarrow> bool" where
  "good s \<equiv> service_ok (ie_mx E) s \<and> ipt_inv s"

lemma same_good:
  "good s \<Longrightarrow> i_proc s' = i_proc s \<Longrightarrow> i_eport s' = i_eport s \<Longrightarrow> ipt_inv s' \<Longrightarrow> good s'"
  by (auto simp: service_ok_def proc_ok_def proc_core_def)

lemma printed_good: "good s \<Longrightarrow> good (printed text s)"
  by (rule same_good) (simp_all add: printed_def ipt_inv_def)

lemma on_thread_good:
  assumes "good s" and "\<And>t k. get_thread tid s = Some t \<Longrightarrow> thread_ok (ie_mx E) t \<Longrightarrow>
    post (\<lambda>(r, t', k'). thread_ok (ie_mx E) t' \<and> t_id t' = t_id t \<and> t_oid t' = t_oid t \<and> True) (f t k)"
  shows "post good (map_option snd (on_thread tid f s))"
proof -
  have frame: "good s'" if "thread_upd (ie_mx E) s s'" for s'
    using quiet_service [OF thread_upd_quiet [OF that]] ipt_inv_frame [OF thread_upd_frame(1) [OF that]] assms(1)
    by simp
  have "post (\<lambda>(r, s'). good s') (on_thread tid f s)"
    by (rule post_mono [OF on_thread_post [OF service_core [OF conjunct1 [OF assms(1)]], where Q = "\<lambda>_ _. True"]])
      (use assms(2) in \<open>auto dest: frame\<close>)
  then show ?thesis unfolding post_simps by (rule post_mono) auto
qed

lemma starting_good: "good s \<Longrightarrow> post good (IptServer_OnThreadStarting E tid cx s)"
  unfolding IptServer_OnThreadStarting_def Let_def
  by (intro post_bindI [where Q = "\<lambda>_. True"] on_thread_good printed_good thread_starting_post) simp_all

lemma exiting_good: "good s \<Longrightarrow> post good (IptServer_OnThreadExiting E tid ty cx s)"
  unfolding IptServer_OnThreadExiting_def Let_def
  by (intro post_bindI [where Q = "\<lambda>_. True"] on_thread_good printed_good thread_exiting_post) simp_all

lemma architectural_good: "good s \<Longrightarrow> post good (IptServer_OnArchitecturalException E tid ty cx s)"
  unfolding IptServer_OnArchitecturalException_def Let_def
  by (auto simp: post_def bind_eq_Some_conv IptServer_QuitMessageLoop_def printed_def ipt_inv_def
      intro: same_good [THEN conjunct1])

lemma process_exit_good: "ipt_inv s \<Longrightarrow>
    post (\<lambda>s'. i_proc s' = i_proc s \<and> i_eport s' = i_eport s \<and> ipt_inv s') (IptServer_OnProcessExit E ty cx s)"
  unfolding IptServer_OnProcessExit_def Let_def
  by (auto simp: post_def bind_eq_Some_conv IptServer_QuitMessageLoop_def IptServer_SetCurrentThread_def
      printed_def ipt_inv_def)

end

sublocale ipt_tracer \<subseteq> delegate: process_delegate "ie_mx E" "ipt_delegate E" ipt_inv
proof (rule process_delegate.intro)
  show "mx_kernel (ie_mx E)" by (rule kernel)
  show "ipt_inv s' = ipt_inv s" if "inferior.more s' = inferior.more s" for s s' :: "'k ipt_server"
    using that by (rule ipt_inv_frame)
qed (simp_all add: ipt_delegate_def starting_good exiting_good architectural_good process_exit_good)

lemma StartCpuPerf_run: "cfg_mode c = IPT_MODE_CPUS \<Longrightarrow> run (\<lambda>_. True) (StartCpuPerf V c k)"
  by (simp add: StartCpuPerf_def)

lemma kernel_ok:
  "proc_ok K (s\<lparr>i_k := k\<rparr>) = proc_ok K s" "service_ok K (s\<lparr>i_k := k\<rparr>) = service_ok K s"
  "kept s0 (s\<lparr>i_k := k\<rparr>) = kept s0 s"
  by (simp_all add: proc_ok_def proc_core_def service_ok_def kept_def)

lemma kept_trans: "kept s s1 \<Longrightarrow> kept s1 s2 \<Longrightarrow> kept s s2"
  by (simp add: kept_def)

lemma attached_handle:
  "proc_ok K s \<Longrightarrow> Process_IsAttached (i_proc s) = Some (p_handle (i_proc s) \<noteq> MX_HANDLE_INVALID)"
  by (auto simp: Process_IsAttached_def proc_ok_def proc_core_def)

lemma start_program_run:
  assumes "mx_kernel (ie_mx E)" and "service_ok (ie_mx E) s" and "proc_clean (i_proc s)" and "\<not> Process_IsLive (i_proc s)"
  shows "run (\<lambda>(ok, s'). proc_ok (ie_mx E) s' \<and> kept s s' \<and> (ok \<longrightarrow> p_state (i_proc s') = prc_kStarting))
    (start_program E s)"
proof -
  let ?K = "ie_mx E"
  let ?P = "\<lambda>(ok, s'). proc_ok ?K s' \<and> kept s s' \<and> (ok \<longrightarrow> p_state (i_proc s') = prc_kStarting)"
  have open_s: "eport_open (i_eport s)" and ok_s: "proc_ok ?K s" using assms(2) by (simp_all add: service_ok_def)
  have start: "run ?P (do {
        (ok, s) \<leftarrow> Process_Start ?K (s2\<lparr>i_k := k\<rparr>);
        if \<not> ok then Some (False, s) else do { dcheck (Process_IsLive (i_proc s)); Some (True, s) } })"
    if "proc_ok ?K s2" "kept s s2" "p_launchpad (i_proc s2) \<noteq> 0" "p_handle (i_proc s2) \<noteq> MX_HANDLE_INVALID" for s2 k
  proof -
    have "kept s s'" if "kept (s2\<lparr>i_k := k\<rparr>) s'" for s' using that \<open>kept s s2\<close> by (simp add: kept_def)
    with that show ?thesis
      by (intro run_bindI [OF Start_ok]) (auto simp: kernel_ok Process_IsLive_def)
  qed
  have attach: "run (\<lambda>(ok, s'). proc_ok ?K s' \<and> kept s s' \<and> p_state (i_proc s') = prc_kNew
      \<and> (ok \<longleftrightarrow> p_handle (i_proc s') \<noteq> MX_HANDLE_INVALID) \<and> p_launchpad (i_proc s') = p_launchpad (i_proc s1))
      (Process_Attach ?K s1)" if "initialized ?K s (True, s1)" for s1
    using that open_s by (intro run_mono [OF Attach_ok [OF assms(1)]])
      (auto simp: initialized_def intro: kept_trans)
  have perf: "run (\<lambda>_. True) (if cfg_mode c = IPT_MODE_CPUS then StartCpuPerf V c k else Some (True, k))" for V c k
    using StartCpuPerf_run by auto
  have new: "\<not> Process_IsLive p" if "p_state p = prc_kNew" for p using that by (simp add: Process_IsLive_def)
  have rest: "run ?P (start_running E s2)"
    if "proc_ok ?K s2" "kept s s2" "p_launchpad (i_proc s2) \<noteq> 0" "p_handle (i_proc s2) \<noteq> MX_HANDLE_INVALID"
      "p_state (i_proc s2) = prc_kNew" for s2
    unfolding start_running_def Let_def
    by (rule run_bindI [OF perf]) (use that start in \<open>auto simp: kernel_ok new\<close>)
  show ?thesis
    unfolding start_program_def Let_def
    by (rule run_bindI [OF Initialize_ok [OF assms(1) ok_s assms(3,4)]])
      (auto simp: attached_handle initialized_def intro!: run_bindI [OF attach] rest)
qed

lemma alloc_cpu_buffers_run:
  "InitIptBufferConfig c \<noteq> None \<Longrightarrow> run (\<lambda>_. True) (alloc_cpu_buffers V c fd n k)"
  by (induction n arbitrary: k) (auto split: prod.split)

lemma start_trace_run:
  assumes "InitIptBufferConfig c \<noteq> None"
  shows "run (\<lambda>_. True) (start_trace K V c k)"
proof -
  have "run (\<lambda>_. True) (InitCpuPerf V c k)" if "cfg_mode c = IPT_MODE_CPUS" for k
    using that unfolding InitCpuPerf_def
    by (auto intro!: run_bindI [OF alloc_cpu_buffers_run [OF assms]] simp: Let_def split: prod.split option.split)
  then show ?thesis unfolding start_trace_def
    by (auto intro!: run_bindI [where Q = "\<lambda>_. True"] split: prod.split)
qed

lemma start_trace_fds:
  assumes "ipt_devices K V fds"
  shows "post (\<lambda>(ok, k'). fds k' = fds k) (start_trace K V c k)"
proof -
  obtain ok1 k1 where 1: "SetPerfMode V c k = (ok1, k1)" by fastforce
  note f1 = ipt_devices.SetPerfMode_fds [OF assms 1]
  have "post (\<lambda>(ok, k'). fds k' = fds k) (if cfg_mode c = IPT_MODE_CPUS then InitCpuPerf V c k1 else Some (True, k1))"
    using ipt_devices.InitCpuPerf_fds [OF assms, of c k1] f1 by (simp add: post_def)
  moreover have "fds k3 = fds k" if "InitPerfPreProcess K V c k2 = (b, k3)" "fds k2 = fds k" for b k2 k3
    using ipt_devices.InitPerfPreProcess_fds [OF assms that(1)] that(2) by simp
  ultimately show ?thesis unfolding start_trace_def 1 using f1
    by (auto intro!: post_bindI split: prod.split)
qed

lemma run_with_post: "run P x \<Longrightarrow> post Q x \<Longrightarrow> run Q x"
  by (auto simp: run_def)

lemma eport_kept: "service_ok K s \<Longrightarrow> proc_ok K s' \<Longrightarrow> kept s s' \<Longrightarrow> service_ok K s'"
  by (simp add: service_ok_def kept_def)

lemma StartInferior_run:
  assumes "mx_kernel (ie_mx E)" and "service_ok (ie_mx E) s" and "proc_clean (i_proc s)" and "\<not> Process_IsLive (i_proc s)"
    and "p_argv (i_proc s) \<noteq> []" and "InitIptBufferConfig (ips_config s) \<noteq> None"
  shows "run (\<lambda>(ok, s'). service_ok (ie_mx E) s' \<and> inferior.more s' = inferior.more s
      \<and> (ok \<longrightarrow> p_state (i_proc s') = prc_kStarting)) (StartInferior E s)"
proof -
  have "run (\<lambda>(ok, s'). service_ok (ie_mx E) s' \<and> inferior.more s' = inferior.more s
      \<and> (ok \<longrightarrow> p_state (i_proc s') = prc_kStarting)) (start_program E (s\<lparr>i_k := k\<rparr>))" for k
  proof -
    have s: "service_ok (ie_mx E) (s\<lparr>i_k := k\<rparr>)" using assms(2) by (simp add: kernel_ok)
    show ?thesis
      by (rule run_mono [OF start_program_run [OF assms(1) s]])
        (use assms(3,4) in \<open>auto dest: eport_kept [OF s] simp: kept_def\<close>)
  qed
  then show ?thesis unfolding StartInferior_def using assms(2,5)
    by (auto intro!: run_bindI [OF start_trace_run [OF assms(6)]] simp: kernel_ok)
qed


section \<open>A tracer to evaluate with\<close>

definition demo_ipt_env :: "ref_kernel ipt_env" where
  "demo_ipt_env =
     \<lparr>ie_ftl = ftl_ref, ie_mx = ref_mx, ie_dso = test_env (\<lambda>_. 0), ie_dev = ref_dev, ie_excp_number = (\<lambda>_. 0)\<rparr>"

lemma demo_ipt_env_sel [simp]:
  "ie_ftl demo_ipt_env = ftl_ref" "ie_mx demo_ipt_env = ref_mx" "ie_dev demo_ipt_env = ref_dev"
  by (simp_all add: demo_ipt_env_def)

interpretation demo_tracer: ipt_tracer demo_ipt_env
  by (rule ipt_tracer.intro) (simp add: ref_mx.mx_kernel_axioms)

definition demo_ipt_server :: "ref_kernel ipt_server" where
  "demo_ipt_server =
     \<lparr>i_proc = Process_new\<lparr>p_argv := [''/boot/app'']\<rparr>,
      i_eport = \<lparr>ep_handle = 1, ep_keep_running = True, ep_callbacks = [], ep_key_counter = 0\<rparr>,
      i_k = demo_kernel, ips_config = test_config, ips_current_thread = None, ips_run_status = True, ips_packets = [],
      ips_quit = False, ips_stdout = [], ips_x86 = x86_static\<rparr>"


section \<open>The invariant of the running tracer\<close>

lemma ipt_main_new:
  assumes "ipt_main E n cl g k = Some (Ipt_run s)"
  obtains c x where "s = (IptServer_new c g x k)\<lparr>i_proc := Process_new\<lparr>p_argv := icl_args cl\<rparr>\<rparr>" "icl_args cl \<noteq> []"
proof -
  have "\<exists>c x. RunProgram c cl g x k = Some s"
    using assms unfolding ipt_main_def Let_def
    by (auto simp: bind_eq_Some_conv split: if_splits option.splits)
  then show ?thesis using that
    by (auto simp: RunProgram_def Let_def IptServer_new_def split: if_splits)
qed

context ipt_tracer
begin

lemma start_good:
  assumes "ipt_main E n cl g k = Some (Ipt_run s)" and "IptServer_start E s = Some (True, s')"
  shows "good s'"
proof -
  obtain c x where s: "s = (IptServer_new c g x k)\<lparr>i_proc := Process_new\<lparr>p_argv := icl_args cl\<rparr>\<rparr>"
    using ipt_main_new [OF assms(1)] .
  from assms(2) obtain ep k1 k2 where
    run: "ExceptionPort_Run (ie_mx E) (i_eport s) (i_k s) = Some (True, ep, k1)"
    and st: "start_program E (s\<lparr>i_eport := ep, i_k := k2\<rparr>) = Some (True, s')"
    by (auto simp: IptServer_start_def StartInferior_def bind_eq_Some_conv Let_def split: if_splits)
  let ?s = "s\<lparr>i_eport := ep, i_k := k2\<rparr>"
  have ep: "eport_ok ep" "eport_open ep"
    using run by (auto simp: s IptServer_new_def ExceptionPort_Run_def ExceptionPort_new_def eport_ok_def
        eport_open_def split: prod.splits if_splits)
  then have ok: "service_ok (ie_mx E) ?s" "proc_clean (i_proc ?s)" "\<not> Process_IsLive (i_proc ?s)"
    by (simp_all add: s service_ok_def proc_ok_def proc_core_def proc_clean_def Process_new_def Process_IsLive_def)
  from postD [OF run_post [OF start_program_run [OF kernel ok]] st]
  have "proc_ok (ie_mx E) s'" "kept ?s s'" by simp_all
  then have "service_ok (ie_mx E) s'" and more: "inferior.more s' = inferior.more s"
    using eport_kept [OF ok(1)] by (simp_all add: kept_def)
  moreover have "ipt_inv s'" using ipt_inv_frame [OF more] by (simp add: s IptServer_new_def ipt_inv_def)
  ultimately show ?thesis by simp
qed

lemma step_good:
  assumes "ipt_step E s s'" and "good s"
  shows "good s'"
  using assms
proof (cases rule: ipt_step.cases)
  case (task p ps)
  have "good (s\<lparr>ips_packets := ps\<rparr>)" by (rule same_good [OF assms(2)]) (use assms(2) in \<open>simp_all add: ipt_inv_def\<close>)
  note good = this and step = task(3) [unfolded Worker_task_def]
  show ?thesis
  proof (cases "map_of (ep_callbacks (i_eport s)) (pkt_key p)")
    case None
    with good step show ?thesis by simp
  next
    case (Some h)
    with postD [OF delegate.OnException_inv [OF good]] step show ?thesis by simp
  qed
next
  case (exception rounds packets)
  show ?thesis by (rule same_good [OF assms(2)]) (use assms(2) exception in \<open>simp_all add: ipt_inv_def\<close>)
next
  case (world k)
  show ?thesis using assms(2) unfolding world by (simp add: kernel_ok ipt_inv_def)
qed

lemma reach_good: "ipt_reach E s \<Longrightarrow> good s"
proof (induction rule: ipt_reach.induct)
  case (start n cl g k s s')
  then show ?case by (rule start_good)
next
  case (more s s')
  show ?case by (rule step_good [OF more.hyps(2) more.IH])
qed

end

lemma DumpResults_frame: "DumpResults E s = Some (b, s') \<Longrightarrow> b \<and> ips_run_status s' = ips_run_status s"
  by (auto simp: DumpResults_def Let_def bind_eq_Some_conv)

text \<open>
  C13: the invariant of the running tracer.  In every state the tracer can reach, whatever its program, the
  devices and the kernel do, the process, its thread map and the exception port are consistent; no
  thread is current and no error status was recorded, so that when the main loop has ended and the
  results are written, \<^verbatim>\<open>Run\<close> returns true.
\<close>

theorem ipt_reach_invariant:
  assumes "mx_kernel (ie_mx E)" and "ipt_reach E s"
  shows "service_ok (ie_mx E) s \<and> ips_current_thread s = None \<and> post (\<lambda>(ok, s'). ok) (IptServer_finish E s)"
proof -
  from ipt_tracer.reach_good [OF ipt_tracer.intro [OF assms(1)] assms(2)]
  have "service_ok (ie_mx E) s" "ips_current_thread s = None" "ips_run_status s" by (simp_all add: ipt_inv_def)
  moreover from this(3) have "post (\<lambda>(ok, s'). ok) (IptServer_finish E s)"
    by (auto simp: IptServer_finish_def post_def bind_eq_Some_conv split: if_splits dest: DumpResults_frame)
  ultimately show ?thesis by simp
qed

lemma demo_pt: "cpuid_bit_ref test_cpu X86_FEATURE_PT"
  by (auto simp: cpuid_bit_ref_def cpuid_leaf_ref_def X86_FEATURE_PT_def X86_CPUID_BIT_def test_cpu_def cpuid_max_def
      X86_CPUID_EXT_BASE_def MAX_SUPPORTED_CPUID_def leaf_word_def zero_leaf_def bit_numeral_rec)

lemma ref_dev_sel:
  "dev_open ref_dev = (\<lambda>p k. (ref_fresh_fd k, k\<lparr>rk_fds := (ref_fresh_fd k, p) # rk_fds k\<rparr>))"
  "ioctl_ktrace_get_handle ref_dev = (\<lambda>fd k. (4, 1, k))" "ioctl_ipt_set_mode ref_dev = (\<lambda>fd m k. (0, k))"
  "mx_ktrace_control ref_dev = (\<lambda>h a m k. (NO_ERROR, k))"
  by (simp_all add: ref_dev_def)

lemma ref_start_trace:
  assumes "cfg_mode c = IPT_MODE_THREADS"
  shows "\<exists>k'. start_trace ref_mx ref_dev c k = Some (True, k')"
proof -
  have "\<not> ref_fresh_fd k < 0" for k using ref_fresh_ge(2) [of k] by simp
  then show ?thesis using assms
    by (simp add: start_trace_def SetPerfMode_def InitPerfPreProcess_def OpenDevices_def ref_dev_sel Let_def)
qed

lemma ref_start_program:
  assumes "i_proc s = Process_new\<lparr>p_argv := [''/boot/app'']\<rparr>" and "cfg_mode (ips_config s) = IPT_MODE_THREADS"
    and "i_eport s = \<lparr>ep_handle = 1, ep_keep_running = True, ep_callbacks = [], ep_key_counter = 0\<rparr>"
  shows "\<exists>s'. start_program demo_ipt_env s = Some (True, s')"
  using assms
  by (simp add: start_program_def start_running_def Process_Initialize_def Process_Renew_def Process_new_def SetupLaunchpad_def
      Initialize_load_def LoadBinary_def GetProcessId_def Process_IsAttached_def Process_Attach_def
      Process_AllocDebugHandle_def GetProcessDebugHandle_def Process_BindExceptionPort_def ExceptionPort_Bind_def
      Process_IsLive_def Process_Start_def Process_set_state_def Let_def)

definition demo_ipt_command_line :: ipt_command_line where
  "demo_ipt_command_line =
     \<lparr>icl_log_settings = True, icl_has = (\<lambda>n. False), icl_value = [''mode'' \<mapsto> ''thread''], icl_options = [],
      icl_args = [''/boot/app'']\<rparr>"

theorem ipt_reach_invariant_witness: "\<exists>s. ipt_reach demo_ipt_env s \<and> service_ok ref_mx s"
proof -
  let ?c = "(IptConfig_new 4)\<lparr>cfg_mode := IPT_MODE_THREADS\<rparr>"
  have cfg: "GetIptConfig ftl_ref 4 demo_ipt_command_line = Some ?c"
    by (simp add: GetIptConfig_def demo_ipt_command_line_def number_option_def mode_option_def Let_def)
  obtain pt where pt: "HaveProcessorTrace test_cpu pt_static = Some (True, pt)"
    using HaveProcessorTrace_ok [OF pt_valid_static, of test_cpu] by (auto simp: demo_pt)
  have "dev_cpu ref_dev = test_cpu" by (simp add: ref_dev_def)
  then have m: "ipt_main demo_ipt_env 4 demo_ipt_command_line 0 demo_kernel = Some (Ipt_run
      ((IptServer_new ?c 0 (ps_x86 pt) demo_kernel)\<lparr>i_proc := Process_new\<lparr>p_argv := [''/boot/app'']\<rparr>\<rparr>))" (is "_ = Some (Ipt_run ?s)")
    using cfg pt by (simp add: ipt_main_def RunProgram_def IptServer_new_def demo_ipt_command_line_def Let_def)
  have "\<exists>s'. IptServer_start demo_ipt_env ?s = Some (True, s')"
  proof -
    obtain k' where k': "start_trace ref_mx ref_dev ?c demo_kernel = Some (True, k')"
      using ref_start_trace [of ?c demo_kernel] by auto
    then show ?thesis
      using ref_start_program [of "?s\<lparr>i_eport := \<lparr>ep_handle = 1, ep_keep_running = True, ep_callbacks = [],
        ep_key_counter = 0\<rparr>, i_k := k'\<rparr>"]
      by (simp add: IptServer_start_def StartInferior_def ExceptionPort_Run_def ExceptionPort_new_def IptServer_new_def)
  qed
  then obtain s' where "ipt_reach demo_ipt_env s'" using ipt_reach.start [OF m] by blast
  with ipt_reach_invariant [of demo_ipt_env s'] ref_mx.mx_kernel_axioms show ?thesis by auto
qed

text \<open>
  \<^verbatim>\<open>ipt_buffer_\<close> is not initialised by the constructor of a thread.  When the device cannot be opened as
  the thread starts, it is read uninitialised as the thread exits.
\<close>

lemma thread_without_buffer:
  assumes "cfg_mode c = IPT_MODE_THREADS" and "t_ipt_buffer t = None"
    and "OpenDevices (ie_dev E) True False False k = (None, k')"
  shows "trace_thread E c t k = Some (t, k') \<and> thread_exiting E c t k' = None"
  using assms by (simp add: trace_thread_def InitThreadPerf_def thread_exiting_def)

end
