(* ===== verification/Files.thy ===== *)
theory Files
  imports Elf_Reader
begin

text \<open>
  The files a program works on, and the first client of them:
  \<^verbatim>\<open>lib/debugger-utils/byte-block-file.{h,cc}\<close>.  The operating system's calls and the path functions
  of ftl are the record \<open>P\<close>, over a state \<open>'f\<close> of open files; a file descriptor and a result of
  \<^verbatim>\<open>lseek\<close>, \<^verbatim>\<open>read\<close> and \<^verbatim>\<open>write\<close> are signed numbers, negative for an error.
\<close>

section \<open>Definitions\<close>

text \<open>
  \<open>px_fopen\<close> gives the text of the stream and whether it ends at the end of the file (and not with a read
  error); \<open>px_fopen_write\<close> says whether a file can be opened to be written; \<open>px_getline_room old need\<close> is the capacity of the buffer of \<^verbatim>\<open>getline\<close> after a line of \<open>need\<close>
  bytes, its terminator included, when it was \<open>old\<close> before.
\<close>

record 'f posix =
  px_open :: "string \<Rightarrow> 'f \<Rightarrow> int \<times> 'f"
  px_close :: "int \<Rightarrow> 'f \<Rightarrow> 'f"
  px_lseek :: "int \<Rightarrow> u64 \<Rightarrow> 'f \<Rightarrow> int \<times> 'f"
  px_read :: "int \<Rightarrow> nat \<Rightarrow> 'f \<Rightarrow> int \<times> u8 list \<times> 'f"
  px_write :: "int \<Rightarrow> u8 list \<Rightarrow> 'f \<Rightarrow> int \<times> 'f"
  px_fstat :: "int \<Rightarrow> 'f \<Rightarrow> nat option"
  px_mmap :: "int \<Rightarrow> nat \<Rightarrow> 'f \<Rightarrow> u64 option \<times> 'f"
  px_munmap :: "u64 \<Rightarrow> nat \<Rightarrow> 'f \<Rightarrow> 'f"
  px_fopen :: "string \<Rightarrow> 'f \<Rightarrow> (string \<times> bool) option"
  px_fopen_write :: "string \<Rightarrow> 'f \<Rightarrow> bool"
  px_getline_room :: "nat \<Rightarrow> nat \<Rightarrow> nat"
  px_malloc :: "u64 \<Rightarrow> bool"
  px_AbsolutePath :: "string \<Rightarrow> string"
  px_GetDirectoryName :: "string \<Rightarrow> string"
  px_GetCurrentDirectory :: "string"

definition FileByteBlock :: "int \<Rightarrow> int option" where
  "FileByteBlock fd = do { dcheck (fd \<ge> 0); Some fd }"

definition FileByteBlock_destroy :: "'f posix \<Rightarrow> int \<Rightarrow> 'f \<Rightarrow> 'f" where
  "FileByteBlock_destroy P fd f = px_close P fd f"

text \<open>\<^verbatim>\<open>off_t\<close> is a signed 64-bit number; \<^verbatim>\<open>read\<close> stores at most what was asked for.\<close>

definition FileByteBlock_Read ::
  "'f posix \<Rightarrow> int \<Rightarrow> u64 \<Rightarrow> nat \<Rightarrow> 'f \<Rightarrow> (u8 list option \<times> 'f) option" where
  "FileByteBlock_Read P fd address len f =
     (case px_lseek P fd address f of
        (pos, f) \<Rightarrow>
          if pos \<noteq> sint address then Some (None, f)
          else case px_read P fd len f of
            (bytes_read, bytes, f) \<Rightarrow>
              if bytes_read < 0 then Some (None, f)
              else if int len \<noteq> bytes_read then Some (None, f)
              else do {
                dcheck (length bytes = len);
                Some (Some bytes, f)
              })"

definition FileByteBlock_Write ::
  "'f posix \<Rightarrow> int \<Rightarrow> u64 \<Rightarrow> u8 list \<Rightarrow> 'f \<Rightarrow> bool \<times> 'f" where
  "FileByteBlock_Write P fd address buffer f =
     (if length buffer = 0 then (True, f)
      else case px_lseek P fd address f of
        (pos, f) \<Rightarrow>
          if pos \<noteq> sint address then (False, f)
          else case px_write P fd buffer f of
            (bytes_written, f) \<Rightarrow>
              if bytes_written < 0 then (False, f)
              else if int (length buffer) \<noteq> bytes_written then (False, f)
              else (True, f))"

text \<open>
  What an ELF reader on such a block sees: the answer of every read in the state the file is opened in.
  A read seeks first, so that its answer does not depend on what was read before; this is
  \<open>Read_stable\<close> of the locale below.
\<close>

definition file_read :: "'f posix \<Rightarrow> int \<Rightarrow> 'f \<Rightarrow> read_fn" where
  "file_read P fd f = (\<lambda>a n. map_option fst (FileByteBlock_Read P fd a n f))"

section \<open>Files that only this program changes\<close>

text \<open>
  \<open>view f fd\<close> is the content of the file behind an open descriptor.  What is assumed of regular files: a seek
  and a read keep every content; a seek to an offset that \<^verbatim>\<open>off_t\<close> holds succeeds, any other seek returns \<open>- 1\<close>;
  after a seek a read takes bytes from there, as many as asked for or as the file has.
\<close>

locale posix_files =
  fixes P :: "'f posix" and view :: "'f \<Rightarrow> int \<Rightarrow> u8 list option"
  assumes lseek_view: "view (snd (px_lseek P fd a f)) = view f"
    and lseek_result: "view f fd = Some bs \<Longrightarrow> a < 2 ^ 63 \<Longrightarrow> fst (px_lseek P fd a f) = sint a"
    and lseek_bad: "\<not> a < 2 ^ 63 \<or> view f fd = None \<Longrightarrow> fst (px_lseek P fd a f) = - 1"
    and read_view: "view (snd (snd (px_read P fd n f))) = view f"
    and seek_read: "view f fd = Some bs \<Longrightarrow> a < 2 ^ 63 \<Longrightarrow>
      px_read P fd n (snd (px_lseek P fd a f)) =
        (int (length (take n (drop (unat a) bs))), take n (drop (unat a) bs),
         snd (snd (px_read P fd n (snd (px_lseek P fd a f)))))"
begin

lemma Read_spec:
  assumes "view f fd = Some bs" "a < 2 ^ 63"
  shows "\<exists>f'. FileByteBlock_Read P fd a n f =
      Some (if n = min (length bs - unat a) n then Some (take n (drop (unat a) bs)) else None, f')
    \<and> view f' = view f"
proof -
  define g where "g = snd (px_lseek P fd a f)"
  define h where "h = snd (snd (px_read P fd n g))"
  have l: "px_lseek P fd a f = (sint a, g)"
    using lseek_result [OF assms] by (simp add: g_def prod_eq_iff)
  have r: "px_read P fd n g =
      (int (length (take n (drop (unat a) bs))), take n (drop (unat a) bs), h)"
    using seek_read [OF assms, of n] unfolding g_def [symmetric] h_def .
  have "view h = view f" using read_view [of fd n g] lseek_view [of fd a f] by (simp add: h_def g_def)
  then show ?thesis by (auto simp: FileByteBlock_Read_def l r)
qed

lemma Read_bad:
  assumes "\<not> a < 2 ^ 63 \<or> view f fd = None" "a \<noteq> - 1"
  shows "\<exists>f'. FileByteBlock_Read P fd a n f = Some (None, f') \<and> view f' = view f"
proof -
  have "sint a \<noteq> - 1" using assms(2) by (metis signed_minus_1 signed_word_eqI)
  then show ?thesis using lseek_view [of fd a f] lseek_bad [OF assms(1)]
    by (cases "px_lseek P fd a f") (auto simp: FileByteBlock_Read_def)
qed

lemma Read_stable:
  assumes "view f = view f'" "a \<noteq> - 1"
  shows "file_read P fd f a n = file_read P fd f' a n"
proof (cases "\<not> a < 2 ^ 63 \<or> view f fd = None")
  case True
  then show ?thesis using Read_bad [of a f fd n] Read_bad [of a f' fd n] assms by (auto simp: file_read_def)
next
  case False
  then obtain bs where "view f fd = Some bs" "view f' fd = Some bs" "a < 2 ^ 63" using assms(1) by auto
  then show ?thesis using Read_spec [of f fd bs a n] Read_spec [of f' fd bs a n]
    by (auto simp: file_read_def)
qed

lemma read_after_read:
  assumes "FileByteBlock_Read P fd a n f = Some (x, f')" "a \<noteq> - 1"
  shows "view f' = view f"
  using Read_bad [of a f fd n, OF _ assms(2)] Read_spec [of f fd _ a n] assms(1)
  by (cases "\<not> a < 2 ^ 63 \<or> view f fd = None") auto

end

section \<open>Files in memory\<close>

text \<open>
  A file system: named contents, the open descriptors with the name and the position of each, and the mappings.
\<close>

record ref_fs =
  fs_files :: "(string \<times> u8 list) list"
  fs_fds :: "(int \<times> string \<times> nat) list"
  fs_next :: int
  fs_maps :: "(u64 \<times> nat) list"

definition fs_view :: "ref_fs \<Rightarrow> int \<Rightarrow> u8 list option" where
  "fs_view f fd = map_option (\<lambda>e. case map_of (fs_files f) (fst e) of None \<Rightarrow> [] | Some bs \<Rightarrow> bs)
     (map_of (fs_fds f) fd)"

definition fs_seek :: "int \<Rightarrow> nat \<Rightarrow> ref_fs \<Rightarrow> ref_fs" where
  "fs_seek fd pos f =
     f\<lparr>fs_fds := map (\<lambda>(d, name, p). (d, name, if d = fd then pos else p)) (fs_fds f)\<rparr>"

definition fs_pos :: "ref_fs \<Rightarrow> int \<Rightarrow> nat" where
  "fs_pos f fd = (case map_of (fs_fds f) fd of None \<Rightarrow> 0 | Some e \<Rightarrow> snd e)"

definition fs_read :: "int \<Rightarrow> nat \<Rightarrow> ref_fs \<Rightarrow> int \<times> u8 list \<times> ref_fs" where
  "fs_read fd n f =
     (case fs_view f fd of
        None \<Rightarrow> (- 1, [], f)
      | Some bs \<Rightarrow>
          let got = take n (drop (fs_pos f fd) bs)
          in (int (length got), got, fs_seek fd (fs_pos f fd + length got) f))"

definition ref_posix :: "ref_fs posix" where
  "ref_posix =
     \<lparr>px_open = (\<lambda>name f. if map_of (fs_files f) name = None then (- 1, f)
        else (fs_next f, f\<lparr>fs_fds := (fs_next f, name, 0) # fs_fds f, fs_next := fs_next f + 1\<rparr>)),
      px_close = (\<lambda>fd f. f\<lparr>fs_fds := filter (\<lambda>e. fst e \<noteq> fd) (fs_fds f)\<rparr>),
      px_lseek = (\<lambda>fd a f. if \<not> a < 2 ^ 63 \<or> fs_view f fd = None then (- 1, f)
        else (sint a, fs_seek fd (unat a) f)),
      px_read = fs_read,
      px_write = (\<lambda>fd bs f. (- 1, f)),
      px_fstat = (\<lambda>fd f. map_option length (fs_view f fd)),
      px_mmap = (\<lambda>fd n f. let a = of_nat (Suc (length (fs_maps f))) * 0x10000
        in (Some a, f\<lparr>fs_maps := (a, n) # fs_maps f\<rparr>)),
      px_munmap = (\<lambda>a n f. f\<lparr>fs_maps := filter (\<lambda>m. fst m \<noteq> a) (fs_maps f)\<rparr>),
      px_fopen = (\<lambda>name f. map_option (\<lambda>bs. (map char_of_byte bs, True)) (map_of (fs_files f) name)),
      px_fopen_write = (\<lambda>name f. True),
      px_getline_room = max,
      px_malloc = (\<lambda>n. True),
      px_AbsolutePath = (\<lambda>p. if take 1 p = ''/'' then p else ''/'' @ p),
      px_GetDirectoryName = (\<lambda>p. rev (drop 1 (dropWhile (\<lambda>c. c \<noteq> CHR ''/'') (rev p)))),
      px_GetCurrentDirectory = ''/''\<rparr>"

lemma ref_posix_sel [simp]:
  "px_lseek ref_posix = (\<lambda>fd a f. if \<not> a < 2 ^ 63 \<or> fs_view f fd = None then (- 1, f)
     else (sint a, fs_seek fd (unat a) f))"
  "px_read ref_posix = fs_read"
  by (simp_all add: ref_posix_def)

lemma map_of_seek:
  "map_of (map (\<lambda>(d, name, p). (d, name, if d = fd then pos else p)) xs) d =
     map_option (\<lambda>(name, p). (name, if d = fd then pos else p)) (map_of xs d)"
  by (induction xs) auto

lemma fs_view_seek [simp]: "fs_view (fs_seek fd pos f) = fs_view f"
  by (rule ext) (simp add: fs_view_def fs_seek_def map_of_seek option.map_comp comp_def case_prod_beta)

lemma fs_pos_seek: "fs_view f fd \<noteq> None \<Longrightarrow> fs_pos (fs_seek fd pos f) fd = pos"
  by (auto simp: fs_pos_def fs_view_def fs_seek_def map_of_seek split: option.splits)

interpretation ref_files: posix_files ref_posix fs_view
proof
  fix fd and a :: u64 and f n bs
  show "fs_view (snd (px_lseek ref_posix fd a f)) = fs_view f" by simp
  show "fs_view f fd = Some bs \<Longrightarrow> a < 2 ^ 63 \<Longrightarrow> fst (px_lseek ref_posix fd a f) = sint a" by simp
  show "\<not> a < 2 ^ 63 \<or> fs_view f fd = None \<Longrightarrow> fst (px_lseek ref_posix fd a f) = - 1" by simp
  show "fs_view (snd (snd (px_read ref_posix fd n f))) = fs_view f"
    by (simp add: fs_read_def Let_def split: option.splits)
  show "fs_view f fd = Some bs \<Longrightarrow> a < 2 ^ 63 \<Longrightarrow>
      px_read ref_posix fd n (snd (px_lseek ref_posix fd a f)) =
        (int (length (take n (drop (unat a) bs))), take n (drop (unat a) bs),
         snd (snd (px_read ref_posix fd n (snd (px_lseek ref_posix fd a f)))))"
    by (simp add: fs_read_def fs_pos_seek Let_def)
qed

text \<open>
  The highest address cannot be told from a failed seek: the answer is then the bytes at the position that the last
  read left.
\<close>

lemma read_at_the_last_address:
  "map_option fst (FileByteBlock_Read ref_posix 3 (- 1) 2
     \<lparr>fs_files = [(''f'', [1, 2, 3, 4])], fs_fds = [(3, ''f'', 1)], fs_next = 4, fs_maps = []\<rparr>) =
   Some (Some [2, 3])"
  by (simp add: FileByteBlock_Read_def fs_read_def fs_view_def fs_pos_def)

end
