(* ===== verification/Elf_Symtab.thy ===== *)
theory Elf_Symtab
  imports Files "HOL-Library.Multiset"
begin

text \<open>
  Symbol tables of ELF files: \<^verbatim>\<open>lib/debugger-utils/elf-symtab.{h,cc}\<close>.  The table is sorted and searched with
  \<^verbatim>\<open>qsort\<close> and \<^verbatim>\<open>bsearch\<close>, whose algorithms the C standard leaves open: they are the record \<open>L\<close>, with the
  standard's contract as the locale \<open>c_search\<close>.
\<close>

section \<open>Definitions\<close>

text \<open>\<open>sym_name\<close> is the offset in the string section that the pointer \<^verbatim>\<open>name\<close> is at.\<close>

record Symbol =
  sym_name :: nat
  sym_addr :: u64
  sym_size :: u64

record libc =
  lc_qsort :: "(Symbol \<Rightarrow> Symbol \<Rightarrow> int) \<Rightarrow> Symbol list \<Rightarrow> Symbol list"
  lc_bsearch :: "(Symbol \<Rightarrow> Symbol \<Rightarrow> int) \<Rightarrow> Symbol \<Rightarrow> Symbol list \<Rightarrow> nat option"

record SymbolTable =
  tab_file_name :: string
  tab_contents :: string
  tab_symbols :: "Symbol list option"
  tab_string_section :: "section_contents option"

definition SymbolTable_new :: "string \<Rightarrow> string \<Rightarrow> SymbolTable" where
  "SymbolTable_new file_name contents =
     \<lparr>tab_file_name = file_name, tab_contents = contents, tab_symbols = None, tab_string_section = None\<rparr>"

definition num_symbols :: "'t SymbolTable_scheme \<Rightarrow> nat" where
  "num_symbols t = (case tab_symbols t of None \<Rightarrow> 0 | Some syms \<Rightarrow> length syms)"

definition GetSymbol :: "'t SymbolTable_scheme \<Rightarrow> nat \<Rightarrow> Symbol option" where
  "GetSymbol t index =
     do {
       syms \<leftarrow> tab_symbols t;
       dcheck (index < length syms);
       Some (syms ! index)
     }"

text \<open>
  The characters a symbol's name points at; \<open>None\<close> when they run out of the string section.
\<close>

definition symbol_name :: "'t SymbolTable_scheme \<Rightarrow> Symbol \<Rightarrow> string option" where
  "symbol_name t s =
     do {
       strings \<leftarrow> tab_string_section t;
       let bytes = drop (sym_name s) (sc_contents strings);
       dcheck (0 \<in> set bytes);
       Some (c_string bytes)
     }"

text \<open>The difference of the addresses is converted to an \<^verbatim>\<open>int\<close>: its low 32 bits.\<close>

definition CompareSymbol :: "Symbol \<Rightarrow> Symbol \<Rightarrow> int" where
  "CompareSymbol a b =
     (if sym_addr a \<ge> sym_addr b \<and> sym_addr a < sym_addr b + sym_size b then 0
      else if sym_addr b \<ge> sym_addr a \<and> sym_addr b < sym_addr a + sym_size a then 0
      else sint (ucast (sym_addr a - sym_addr b) :: u32))"

definition Finalize :: "libc \<Rightarrow> Symbol list \<Rightarrow> Symbol list" where
  "Finalize L symbols = lc_qsort L CompareSymbol symbols"

definition FindSymbol :: "libc \<Rightarrow> 't SymbolTable_scheme \<Rightarrow> u64 \<Rightarrow> Symbol option" where
  "FindSymbol L t addr =
     (case tab_symbols t of
        None \<Rightarrow> None
      | Some symbols \<Rightarrow>
          let search = \<lparr>sym_name = 0, sym_addr = addr, sym_size = 0\<rparr>
          in map_option ((!) symbols) (lc_bsearch L CompareSymbol search symbols))"

text \<open>The loop of \<^verbatim>\<open>Populate\<close> over the entries that are left: the symbols with a name in the string section.\<close>

fun populate_loop :: "section_contents \<Rightarrow> nat \<Rightarrow> nat list \<Rightarrow> Symbol list option" where
  "populate_loop contents max_string_offset [] = Some []"
| "populate_loop contents max_string_offset (i # is) =
     do {
       sym \<leftarrow> GetSymbolEntry contents i;
       if unat (st_name sym) \<ge> max_string_offset then populate_loop contents max_string_offset is
       else do {
         rest \<leftarrow> populate_loop contents max_string_offset is;
         Some (\<lparr>sym_name = unat (st_name sym), sym_addr = st_value sym, sym_size = st_size sym\<rparr> # rest)
       }
     }"

text \<open>\<open>Populate\<close> returns the result, the table and the reader with its section headers.\<close>

definition Populate_sections ::
  "libc \<Rightarrow> (u64 \<Rightarrow> bool) \<Rightarrow> read_fn \<Rightarrow> section_header \<Rightarrow> section_header \<Rightarrow> elf_reader \<Rightarrow> 't SymbolTable_scheme \<Rightarrow>
     (bool \<times> 't SymbolTable_scheme) option" where
  "Populate_sections L malloc_ok Read shdr str_shdr elf t =
     do {
       c \<leftarrow> GetSectionContents Read malloc_ok elf shdr;
       (case c of
          Inl rc \<Rightarrow> Some (False, t)
        | Inr contents \<Rightarrow>
            do {
              s \<leftarrow> GetSectionContents Read malloc_ok elf str_shdr;
              (case s of
                 Inl rc \<Rightarrow> Some (False, t)
               | Inr string_section \<Rightarrow>
                   do {
                     num_raw_symbols \<leftarrow> GetNumEntries contents;
                     symbols \<leftarrow> populate_loop contents (unat (sh_size (sc_header string_section)))
                       [0..<num_raw_symbols];
                     Some (True, t\<lparr>tab_string_section := Some string_section,
                       tab_symbols := Some (Finalize L symbols)\<rparr>)
                   })
            })
     }"

definition Populate ::
  "libc \<Rightarrow> (u64 \<Rightarrow> bool) \<Rightarrow> read_fn \<Rightarrow> u64 \<Rightarrow> elf_reader \<Rightarrow> 't SymbolTable_scheme \<Rightarrow>
     (bool \<times> 't SymbolTable_scheme \<times> elf_reader) option" where
  "Populate L malloc_ok Read symtab_type elf t =
     do {
       dcheck (symtab_type = SHT_SYMTAB \<or> symtab_type = SHT_DYNSYM);
       if tab_symbols t \<noteq> None then Some (False, t, elf)
       else do {
         (rc, elf) \<leftarrow> ReadSectionHeaders Read elf;
         if rc \<noteq> ELF_OK then Some (False, t, elf)
         else do {
           found \<leftarrow> GetSectionHeaderByType elf symtab_type;
           (case found of
              None \<Rightarrow> Some (True, t, elf)
            | Some shdr \<Rightarrow>
                let string_section = unat (sh_link shdr)
                in if string_section \<ge> GetNumSections elf then Some (False, t, elf)
                   else do {
                     str_shdr \<leftarrow> GetSectionHeader elf string_section;
                     (ok, t) \<leftarrow> Populate_sections L malloc_ok Read shdr str_shdr elf t;
                     Some (ok, t, elf)
                   })
         }
       }
     }"

text \<open>\<open>Dump\<close>: the lines for the symbols that have an address and a name.\<close>

fun dump_loop :: "'t SymbolTable_scheme \<Rightarrow> Symbol list \<Rightarrow> (u64 \<times> string) list option" where
  "dump_loop t [] = Some []"
| "dump_loop t (s # ss) =
     (if sym_addr s = 0 then dump_loop t ss
      else do {
        name \<leftarrow> symbol_name t s;
        rest \<leftarrow> dump_loop t ss;
        Some (if name = '''' then rest else (sym_addr s, name) # rest)
      })"

definition SymbolTable_Dump :: "'t SymbolTable_scheme \<Rightarrow> (string \<times> string \<times> (u64 \<times> string) list) option" where
  "SymbolTable_Dump t =
     do {
       lines \<leftarrow> dump_loop t (case tab_symbols t of None \<Rightarrow> [] | Some syms \<Rightarrow> syms);
       Some (tab_file_name t, tab_contents t, lines)
     }"

section \<open>The contract of \<^verbatim>\<open>qsort\<close> and \<^verbatim>\<open>bsearch\<close>\<close>

text \<open>
  ISO C 7.22.5: the comparison orders the elements consistently, and the array that is searched
  consists of the elements below the key, those that compare equal and those above it, in that order.
\<close>

definition consistent :: "('a \<Rightarrow> 'a \<Rightarrow> int) \<Rightarrow> 'a list \<Rightarrow> bool" where
  "consistent cmp xs \<longleftrightarrow>
     (\<forall>a \<in> set xs. \<forall>b \<in> set xs. sgn (cmp a b) = - sgn (cmp b a))
     \<and> (\<forall>a \<in> set xs. \<forall>b \<in> set xs. \<forall>c \<in> set xs. cmp a b \<le> 0 \<longrightarrow> cmp b c \<le> 0 \<longrightarrow> cmp a c \<le> 0)"

definition partitioned :: "('a \<Rightarrow> 'a \<Rightarrow> int) \<Rightarrow> 'a \<Rightarrow> 'a list \<Rightarrow> bool" where
  "partitioned cmp key xs \<longleftrightarrow>
     sorted_wrt (\<lambda>a b. sgn (cmp key a) \<ge> sgn (cmp key b)) xs"

locale c_search =
  fixes L :: libc
  assumes qsort_mset: "consistent cmp xs \<Longrightarrow> mset (lc_qsort L cmp xs) = mset xs"
    and qsort_sorted: "consistent cmp xs \<Longrightarrow> sorted_wrt (\<lambda>a b. cmp a b \<le> 0) (lc_qsort L cmp xs)"
    and bsearch_Some: "partitioned cmp key xs \<Longrightarrow> lc_bsearch L cmp key xs = Some i \<Longrightarrow>
      i < length xs \<and> cmp key (xs ! i) = 0"
    and bsearch_None: "partitioned cmp key xs \<Longrightarrow> lc_bsearch L cmp key xs = None \<Longrightarrow>
      e \<in> set xs \<Longrightarrow> cmp key e \<noteq> 0"

section \<open>The comparison\<close>

text \<open>A symbol covers its range, and its own address when its size is zero.\<close>

definition sym_width :: "Symbol \<Rightarrow> nat" where
  "sym_width s = max 1 (unat (sym_size s))"

definition covers :: "Symbol \<Rightarrow> u64 \<Rightarrow> bool" where
  "covers s x \<longleftrightarrow> unat (sym_addr s) \<le> unat x \<and> unat x < unat (sym_addr s) + sym_width s"

text \<open>\<open>in_window lo s\<close>: the symbol lies in the \<open>2 ^ 31\<close> addresses from \<open>lo\<close> on.\<close>

definition in_window :: "u64 \<Rightarrow> Symbol \<Rightarrow> bool" where
  "in_window lo s \<longleftrightarrow> unat lo + 2 ^ 31 < 2 ^ 64 \<and> lo \<le> sym_addr s
     \<and> unat (sym_addr s) + sym_width s \<le> unat lo + 2 ^ 31"

text \<open>No two symbols of the table cover the same address.\<close>

definition sym_apart :: "Symbol list \<Rightarrow> bool" where
  "sym_apart syms \<longleftrightarrow>
     (\<forall>a \<in> set syms. \<forall>b \<in> set syms. a \<noteq> b \<longrightarrow>
        unat (sym_addr a) + sym_width a \<le> unat (sym_addr b)
        \<or> unat (sym_addr b) + sym_width b \<le> unat (sym_addr a))"

lemma ucast_32_word_of_int: "(ucast (word_of_int k :: u64) :: u32) = word_of_int k"
  by transfer simp

lemma sint_32_word_of_int: "sint (word_of_int k :: u32) = signed_take_bit 31 k"
  by transfer simp

lemma sint_difference:
  fixes x y :: u64
  assumes "\<bar>int (unat x) - int (unat y)\<bar> < 2 ^ 31"
  shows "sint (ucast (x - y) :: u32) = int (unat x) - int (unat y)"
proof -
  have "x - y = word_of_int (uint x - uint y)" by simp
  then have "(ucast (x - y) :: u32) = word_of_int (uint x - uint y)" by (metis ucast_32_word_of_int)
  then have "sint (ucast (x - y) :: u32) = signed_take_bit 31 (uint x - uint y)"
    by (simp only: sint_32_word_of_int)
  also have "\<dots> = uint x - uint y" using assms by (intro signed_take_bit_int_eq_self) simp_all
  finally show ?thesis by simp
qed

lemma window_distance:
  "(l :: nat) \<le> a \<Longrightarrow> a < l + n \<Longrightarrow> l \<le> b \<Longrightarrow> b < l + n \<Longrightarrow> \<bar>int a - int b\<bar> < int n"
  by linarith

lemma zero_width:
  fixes A B sa sb :: nat
  shows "(if B \<le> A \<and> A < B + sb then 0 else if A \<le> B \<and> B < A + sa then 0 else int A - int B) =
    (if (B \<le> A \<and> A < B + max 1 sb) \<or> (A \<le> B \<and> B < A + max 1 sa) then 0 else int A - int B)"
  by (auto simp: max_def)

lemma within_size:
  assumes "in_window lo s"
  shows "sym_addr s \<le> x \<and> x < sym_addr s + sym_size s \<longleftrightarrow>
    unat (sym_addr s) \<le> unat x \<and> unat x < unat (sym_addr s) + unat (sym_size s)"
proof -
  have "unat (sym_addr s) + unat (sym_size s) < 2 ^ 64"
    using assms by (auto simp: in_window_def sym_width_def max_def split: if_splits)
  then have "unat (sym_addr s + sym_size s) = unat (sym_addr s) + unat (sym_size s)"
    by (simp add: unat_word_ariths)
  then show ?thesis by (simp add: word_le_nat_alt word_less_nat_alt)
qed

text \<open>In a window the comparison is exact: equal when one covers the other's address, else the difference.\<close>

lemma CompareSymbol_window:
  assumes "in_window lo a" "in_window lo b"
  shows "CompareSymbol a b =
    (if covers b (sym_addr a) \<or> covers a (sym_addr b) then 0
     else int (unat (sym_addr a)) - int (unat (sym_addr b)))"
proof -
  have "unat lo \<le> unat (sym_addr s) \<and> unat (sym_addr s) < unat lo + 2 ^ 31" if "in_window lo s" for s
    using that by (auto simp: in_window_def sym_width_def word_le_nat_alt max_def split: if_splits)
  then have "\<bar>int (unat (sym_addr a)) - int (unat (sym_addr b))\<bar> < 2 ^ 31"
    using window_distance [of "unat lo" "unat (sym_addr a)" "2 ^ 31" "unat (sym_addr b)"] assms
    by simp
  note d = sint_difference [OF this]
  show ?thesis
    unfolding CompareSymbol_def within_size [OF assms(1)] within_size [OF assms(2)] d covers_def sym_width_def
    by (rule zero_width)
qed

lemma sym_width_pos: "0 < sym_width s"
  by (simp add: sym_width_def)

lemma covers_self [simp]: "covers s (sym_addr s)"
  by (simp add: covers_def sym_width_def)

lemma sym_apart_order:
  assumes "sym_apart syms" "a \<in> set syms" "b \<in> set syms" "\<forall>s \<in> set syms. in_window lo s"
  shows "CompareSymbol a b = int (unat (sym_addr a)) - int (unat (sym_addr b))"
proof (cases "a = b")
  case True
  then show ?thesis using CompareSymbol_window [of lo a b] assms by simp
next
  case False
  then have "unat (sym_addr a) + sym_width a \<le> unat (sym_addr b)
      \<or> unat (sym_addr b) + sym_width b \<le> unat (sym_addr a)"
    using assms(1-3) by (simp add: sym_apart_def)
  then have "\<not> covers b (sym_addr a)" "\<not> covers a (sym_addr b)"
    using sym_width_pos [of a] sym_width_pos [of b] by (auto simp: covers_def)
  then show ?thesis using CompareSymbol_window [of lo a b] assms by simp
qed

lemma CompareSymbol_consistent:
  assumes "sym_apart syms" "\<forall>s \<in> set syms. in_window lo s"
  shows "consistent CompareSymbol syms"
  unfolding consistent_def using sym_apart_order [OF assms(1) _ _ assms(2)] by (auto simp: sgn_if)

section \<open>Finding a symbol\<close>

definition search_key :: "u64 \<Rightarrow> Symbol" where
  "search_key addr = \<lparr>sym_name = 0, sym_addr = addr, sym_size = 0\<rparr>"

lemma compare_key:
  assumes "in_window lo s" "in_window lo (search_key x)"
  shows "CompareSymbol (search_key x) s =
    (if covers s x then 0 else int (unat x) - int (unat (sym_addr s)))"
  using CompareSymbol_window [OF assms(2,1)]
  by (auto simp: search_key_def covers_def sym_width_def)

lemma compare_key_zero:
  assumes "in_window lo s" "in_window lo (search_key x)"
  shows "CompareSymbol (search_key x) s = 0 \<longleftrightarrow> covers s x"
  using compare_key [OF assms] sym_width_pos [of s] by (auto simp: covers_def simp del: of_nat_unat)

lemma key_partitions:
  assumes "sorted_wrt (\<lambda>a b. CompareSymbol a b \<le> 0) syms" "sym_apart syms"
    "\<forall>s \<in> set syms. in_window lo s" "in_window lo (search_key x)"
  shows "partitioned CompareSymbol (search_key x) syms"
  unfolding partitioned_def
proof (rule sorted_wrt_mono_rel [OF _ assms(1)])
  fix a b assume m: "a \<in> set syms" "b \<in> set syms" and le: "CompareSymbol a b \<le> 0"
  then have "unat (sym_addr a) \<le> unat (sym_addr b)" 
    using sym_apart_order [OF assms(2) m assms(3)] le by linarith
  moreover have "a = b \<or> unat (sym_addr a) + sym_width a \<le> unat (sym_addr b)
      \<or> unat (sym_addr b) + sym_width b \<le> unat (sym_addr a)"
    using assms(2) m by (auto simp: sym_apart_def)
  ultimately have "a = b \<or> unat (sym_addr a) + sym_width a \<le> unat (sym_addr b)"
    by (auto simp: sym_width_def)
  then show "sgn (CompareSymbol (search_key x) b) \<le> sgn (CompareSymbol (search_key x) a)"
    using compare_key [OF _ assms(4), of a] compare_key [OF _ assms(4), of b] assms(3) m
    by (auto simp: covers_def sgn_if simp del: of_nat_unat)
qed

lemma covers_unique:
  "sym_apart syms \<Longrightarrow> a \<in> set syms \<Longrightarrow> b \<in> set syms \<Longrightarrow> covers a x \<Longrightarrow> covers b x \<Longrightarrow> a = b"
  unfolding sym_apart_def covers_def by (meson leD le_less_trans less_le_trans order.strict_trans1)

lemma find_unique:
  assumes "s \<in> set xs" "P s" "\<And>t. t \<in> set xs \<Longrightarrow> P t \<Longrightarrow> t = s"
  shows "find P xs = Some s"
proof (cases "find P xs")
  case None
  then show ?thesis using assms(1,2) by (auto simp: find_None_iff)
next
  case (Some t)
  then have "t \<in> set xs" "P t" by (auto simp: find_Some_iff)
  then show ?thesis using Some assms(3) by simp
qed

context c_search
begin

lemma Finalize_sorts:
  assumes "sym_apart syms" "\<forall>s \<in> set syms. in_window lo s"
  shows "set (Finalize L syms) = set syms \<and> sorted_wrt (\<lambda>a b. CompareSymbol a b \<le> 0) (Finalize L syms)"
  using qsort_mset [OF CompareSymbol_consistent [OF assms]] qsort_sorted [OF CompareSymbol_consistent [OF assms]]
  by (metis Finalize_def set_mset_mset)

lemma FindSymbol_sorted:
  assumes t: "tab_symbols t = Some (Finalize L syms)"
    and ok: "sym_apart syms" "\<forall>s \<in> set syms. in_window lo s" "in_window lo (search_key x)"
  shows "FindSymbol L t x = find (\<lambda>s. covers s x) syms"
proof -
  let ?tab = "Finalize L syms"
  have set: "set ?tab = set syms" and sorted: "sorted_wrt (\<lambda>a b. CompareSymbol a b \<le> 0) ?tab"
    using Finalize_sorts [OF ok(1,2)] by auto
  have "sym_apart ?tab" using ok(1) by (simp add: sym_apart_def set)
  then have p: "partitioned CompareSymbol (search_key x) ?tab"
    using key_partitions [OF sorted _ _ ok(3)] ok(2) set by simp
  show ?thesis
  proof (cases "lc_bsearch L CompareSymbol (search_key x) ?tab")
    case None
    then have "\<not> covers s x" if "s \<in> set syms" for s
      using bsearch_None [OF p None, of s] compare_key [OF _ ok(3), of s] ok(2) that set by auto
    then have "find (\<lambda>s. covers s x) syms = None" by (auto simp: find_None_iff)
    then show ?thesis using None t by (simp add: FindSymbol_def search_key_def Let_def)
  next
    case (Some i)
    then have i: "?tab ! i \<in> set syms" "CompareSymbol (search_key x) (?tab ! i) = 0"
      using bsearch_Some [OF p Some] set nth_mem by auto
    then have "covers (?tab ! i) x"
      using compare_key_zero [OF _ ok(3)] ok(2) by simp
    then have "find (\<lambda>s. covers s x) syms = Some (?tab ! i)"
      using find_unique i(1) covers_unique [OF ok(1)] by metis
    then show ?thesis using Some t by (simp add: FindSymbol_def search_key_def Let_def)
  qed
qed

end

section \<open>A C library\<close>

text \<open>
  Sorting by insertion and searching by bisection: \<open>bisect cmp key xs lo n\<close> looks at the \<open>n\<close> elements from
  \<open>lo\<close> on.
\<close>

fun insert_by :: "('a \<Rightarrow> 'a \<Rightarrow> int) \<Rightarrow> 'a \<Rightarrow> 'a list \<Rightarrow> 'a list" where
  "insert_by cmp x [] = [x]"
| "insert_by cmp x (y # ys) = (if cmp x y \<le> 0 then x # y # ys else y # insert_by cmp x ys)"

definition isort :: "('a \<Rightarrow> 'a \<Rightarrow> int) \<Rightarrow> 'a list \<Rightarrow> 'a list" where
  "isort cmp xs = foldr (insert_by cmp) xs []"

fun bisect :: "('a \<Rightarrow> 'a \<Rightarrow> int) \<Rightarrow> 'a \<Rightarrow> 'a list \<Rightarrow> nat \<Rightarrow> nat \<Rightarrow> nat option" where
  "bisect cmp key xs lo n =
     (if n = 0 then None
      else let mid = lo + n div 2; c = cmp key (xs ! mid)
        in if c = 0 then Some mid
           else if c < 0 then bisect cmp key xs lo (n div 2)
           else bisect cmp key xs (Suc mid) (n - Suc (n div 2)))"

declare bisect.simps [simp del]

definition ref_libc :: libc where
  "ref_libc = \<lparr>lc_qsort = isort, lc_bsearch = (\<lambda>cmp key xs. bisect cmp key xs 0 (length xs))\<rparr>"

lemma mset_insert_by [simp]: "mset (insert_by cmp x ys) = add_mset x (mset ys)"
  by (induction ys) auto

lemma set_insert_by [simp]: "set (insert_by cmp x ys) = insert x (set ys)"
  by (induction ys) auto

lemma mset_isort [simp]: "mset (isort cmp xs) = mset xs"
  by (induction xs) (simp_all add: isort_def)

lemma consistent_subset: "consistent cmp xs \<Longrightarrow> set ys \<subseteq> set xs \<Longrightarrow> consistent cmp ys"
  unfolding consistent_def by blast

lemma consistent_swap: "consistent cmp xs \<Longrightarrow> a \<in> set xs \<Longrightarrow> b \<in> set xs \<Longrightarrow> \<not> cmp a b \<le> 0 \<Longrightarrow> cmp b a \<le> 0"
proof -
  assume "consistent cmp xs" "a \<in> set xs" "b \<in> set xs" "\<not> cmp a b \<le> 0"
  then have "sgn (cmp a b) = - sgn (cmp b a)" "cmp a b > 0" unfolding consistent_def by (blast, linarith)
  then show "cmp b a \<le> 0" by (simp add: sgn_if split: if_splits)
qed

lemma sorted_insert_by:
  assumes "sorted_wrt (\<lambda>a b. cmp a b \<le> 0) ys" "consistent cmp (x # ys)"
  shows "sorted_wrt (\<lambda>a b. cmp a b \<le> 0) (insert_by cmp x ys)"
  using assms
proof (induction ys)
  case (Cons y ys)
  have c: "consistent cmp (x # ys)" using Cons.prems(2) by (rule consistent_subset) auto
  show ?case
  proof (cases "cmp x y \<le> 0")
    case True
    have "cmp x z \<le> 0" if z: "z \<in> set ys" for z
    proof -
      have "cmp y z \<le> 0" using Cons.prems(1) z by simp
      then show ?thesis using Cons.prems(2) True z unfolding consistent_def by (meson list.set_intros)
    qed
    then show ?thesis using True Cons.prems(1) by simp
  next
    case False
    then have "cmp y x \<le> 0" using consistent_swap [OF Cons.prems(2)] by simp
    then show ?thesis using False Cons.prems(1) Cons.IH [OF _ c] by simp
  qed
qed simp

lemma sorted_isort: "consistent cmp xs \<Longrightarrow> sorted_wrt (\<lambda>a b. cmp a b \<le> 0) (isort cmp xs)"
proof (induction xs)
  case (Cons x xs)
  have "set (isort cmp xs) = set xs" by (metis mset_isort set_mset_mset)
  then have "consistent cmp (x # isort cmp xs)" "consistent cmp xs"
    using Cons.prems by (auto intro: consistent_subset)
  then show ?case using sorted_insert_by Cons.IH by (simp add: isort_def)
qed (simp add: isort_def)

lemma bisect_Some: "bisect cmp key xs lo n = Some i \<Longrightarrow> lo + n \<le> length xs \<Longrightarrow>
    i < length xs \<and> cmp key (xs ! i) = 0"
proof (induction cmp key xs lo n rule: bisect.induct)
  case (1 cmp key xs lo n)
  then show ?case by (subst (asm) (3) bisect.simps) (auto simp: Let_def split: if_splits)
qed

lemma bisect_None:
  assumes "bisect cmp key xs lo n = None" "partitioned cmp key xs" "lo + n \<le> length xs" "lo \<le> i" "i < lo + n"
  shows "cmp key (xs ! i) \<noteq> 0"
  using assms
proof (induction cmp key xs lo n rule: bisect.induct)
  case (1 cmp key xs lo n)
  define mid where "mid = lo + n div 2"
  have n: "n \<noteq> 0" and mid: "mid < length xs" using "1.prems" by (auto simp: mid_def)
  have order: "sgn (cmp key (xs ! j)) \<ge> sgn (cmp key (xs ! k))" if "j < k" "k < length xs" for j k
    using "1.prems"(2) that by (simp add: partitioned_def sorted_wrt_iff_nth_less)
  have "cmp key (xs ! mid) \<noteq> 0" using "1.prems"(1) n
    by (subst (asm) bisect.simps) (auto simp: Let_def mid_def split: if_splits)
  then consider "cmp key (xs ! mid) < 0" | "cmp key (xs ! mid) > 0" by linarith
  then show ?case
  proof cases
    case 1
    then have "bisect cmp key xs lo (n div 2) = None" using "1.prems"(1) n
      by (subst (asm) bisect.simps) (auto simp: Let_def mid_def)
    then show ?thesis
      using "1.IH"(1) [OF n mid_def refl] order [of mid i] 1 "1.prems" n mid
      by (cases "i < mid"; cases "i = mid") (auto simp: mid_def sgn_if split: if_splits)
  next
    case 2
    then have "bisect cmp key xs (Suc mid) (n - Suc (n div 2)) = None" using "1.prems"(1) n
      by (subst (asm) bisect.simps) (auto simp: Let_def mid_def)
    then show ?thesis
      using "1.IH"(2) [OF n mid_def refl] order [of i mid] 2 "1.prems" n mid
      by (cases "i < mid"; cases "i = mid") (auto simp: mid_def sgn_if split: if_splits)
  qed
qed

interpretation ref_search: c_search ref_libc
proof
  fix cmp :: "Symbol \<Rightarrow> Symbol \<Rightarrow> int" and key xs i e
  show "mset (lc_qsort ref_libc cmp xs) = mset xs" by (simp add: ref_libc_def)
  show "consistent cmp xs \<Longrightarrow> sorted_wrt (\<lambda>a b. cmp a b \<le> 0) (lc_qsort ref_libc cmp xs)"
    by (simp add: ref_libc_def sorted_isort)
  show "lc_bsearch ref_libc cmp key xs = Some i \<Longrightarrow> i < length xs \<and> cmp key (xs ! i) = 0"
    using bisect_Some [of cmp key xs 0 "length xs" i] by (simp add: ref_libc_def)
  show "partitioned cmp key xs \<Longrightarrow> lc_bsearch ref_libc cmp key xs = None \<Longrightarrow> e \<in> set xs \<Longrightarrow> cmp key e \<noteq> 0"
    using bisect_None [of cmp key xs 0 "length xs"] by (auto simp: ref_libc_def in_set_conv_nth)
qed

section \<open>Search against the plain definition\<close>



text \<open>
  \<^verbatim>\<open>Populate\<close> leaves the table empty or finalizes the entries of the section that have a name, and a table is
  populated once.
\<close>

lemma Populate_finalizes:
  assumes "Populate L malloc_ok Read ty elf t = Some (True, t', elf')"
  shows "tab_symbols t = None \<and>
    (t' = t \<or> (\<exists>contents maxs n syms. populate_loop contents maxs [0..<n] = Some syms
      \<and> tab_symbols t' = Some (Finalize L syms)))"
  using assms
  by (auto simp: Populate_def Populate_sections_def Let_def
      split: Option.bind_splits option.splits sum.splits if_splits prod.splits) (blast+)

lemma populate_loop_named:
  "populate_loop contents maxs is = Some syms \<Longrightarrow> s \<in> set syms \<Longrightarrow> sym_name s < maxs"
  by (induction "is" arbitrary: syms) (auto split: Option.bind_splits if_splits)

text \<open>
  Without the bound on the distance the conversion of the difference to \<^verbatim>\<open>int\<close> shows: symbols \<open>2 ^ 31\<close> apart compare
  in the wrong order, and an address \<open>2 ^ 32\<close> above a symbol is taken for the symbol's.
\<close>

lemma CompareSymbol_wrong_order:
  "CompareSymbol \<lparr>sym_name = 0, sym_addr = 0x80001000, sym_size = 16\<rparr>
     \<lparr>sym_name = 0, sym_addr = 0x1000, sym_size = 16\<rparr> = - (2 ^ 31)"
  by (simp add: CompareSymbol_def)

lemma FindSymbol_far:
  "FindSymbol ref_libc ((SymbolTable_new ''a'' ''symtab'')\<lparr>tab_symbols :=
       Some (Finalize ref_libc [\<lparr>sym_name = 7, sym_addr = 0x1000, sym_size = 16\<rparr>])\<rparr>) 0x100001000 =
     Some \<lparr>sym_name = 7, sym_addr = 0x1000, sym_size = 16\<rparr>"
  by (simp add: FindSymbol_def Finalize_def ref_libc_def isort_def bisect.simps [of _ _ _ 0] CompareSymbol_def Let_def)

end
