(* ===== verification/Simple_Pt.thy ===== *)
theory Simple_Pt
  imports Elf_Symtab
begin

text \<open>
  The files of a traced program: \<^verbatim>\<open>third_party/simple-pt/symtab.{h,cc}\<close>, the symbol tables of the processes, and
  \<^verbatim>\<open>third_party/simple-pt/elf.cc\<close>, which reads the tables of a file and hands its code to the trace decoder's memory
  image.  The decoder library (libipt) is not part of the repository: what is used of its images and of
  its error numbers is the record \<open>T\<close>.
\<close>

section \<open>Definitions\<close>

text \<open>Images and decoders are handles, 0 being null; \<open>lp_errata\<close> is \<^verbatim>\<open>pt_cpu_errata\<close> on the bytes of the structure.\<close>

record pt_cpu =
  cpu_family :: u32
  cpu_model :: u32
  cpu_stepping :: u32

record pt_config =
  cfg_cpu :: pt_cpu
  cfg_errata :: "u8 list"
  cfg_begin :: u64
  cfg_end :: u64
  cfg_nom_freq :: u8

record 'f libipt =
  lp_no_cr3 :: u64
  lp_eos :: int
  lp_nomap :: int
  lp_bad_image :: int
  lp_config_init :: pt_config
  lp_errata :: "pt_cpu \<Rightarrow> u8 list \<Rightarrow> u8 list"
  lp_image_alloc :: "string \<Rightarrow> 'f \<Rightarrow> u64 \<times> 'f"
  lp_image_free :: "u64 \<Rightarrow> 'f \<Rightarrow> 'f"
  lp_image_add_file :: "u64 \<Rightarrow> string \<Rightarrow> u64 \<Rightarrow> u64 \<Rightarrow> u64 \<Rightarrow> u64 \<Rightarrow> 'f \<Rightarrow> int \<times> 'f"
  lp_image_read :: "u64 \<Rightarrow> nat \<Rightarrow> u64 \<Rightarrow> u64 \<Rightarrow> 'f \<Rightarrow> int \<times> u8 list \<times> 'f"
  lp_alloc_decoder :: "pt_config \<Rightarrow> 'f \<Rightarrow> u64 \<times> 'f"
  lp_free_decoder :: "u64 \<Rightarrow> 'f \<Rightarrow> 'f"
  lp_set_image :: "u64 \<Rightarrow> u64 \<Rightarrow> 'f \<Rightarrow> 'f"

text \<open>A symbol table of a process; \<^verbatim>\<open>simple_pt::SymbolTable\<close> extends \<^verbatim>\<open>elf::SymbolTable\<close>.\<close>

record pt_table = SymbolTable +
  pt_cr3 :: u64
  pt_base :: u64
  pt_end :: u64
  pt_offset :: u64
  pt_is_kernel :: bool

definition pt_table_new :: "string \<Rightarrow> string \<Rightarrow> u64 \<Rightarrow> u64 \<Rightarrow> u64 \<Rightarrow> bool \<Rightarrow> pt_table" where
  "pt_table_new file_name contents cr3 base offset is_kernel =
     \<lparr>tab_file_name = file_name, tab_contents = contents, tab_symbols = None, tab_string_section = None,
      pt_cr3 = cr3, pt_base = base, pt_end = 0, pt_offset = offset, pt_is_kernel = is_kernel\<rparr>"

definition pt_table_FindSymbol :: "libc \<Rightarrow> pt_table \<Rightarrow> u64 \<Rightarrow> Symbol option" where
  "pt_table_FindSymbol L st addr =
     (if addr < pt_base st \<or> addr \<ge> pt_end st then None
      else FindSymbol L st (addr - pt_offset st))"

definition Cr3Matches :: "'f libipt \<Rightarrow> u64 \<Rightarrow> u64 \<Rightarrow> bool" where
  "Cr3Matches T cr3_1 cr3_2 =
     (if cr3_1 = 0 \<or> cr3_2 = 0 then True
      else if cr3_1 = lp_no_cr3 T \<or> cr3_2 = lp_no_cr3 T then True
      else cr3_1 = cr3_2)"

fun FindSymbolTable :: "'f libipt \<Rightarrow> pt_table list \<Rightarrow> u64 \<Rightarrow> u64 \<Rightarrow> pt_table option" where
  "FindSymbolTable T [] cr3 pc = None"
| "FindSymbolTable T (st # symtabs) cr3 pc =
     (if \<not> Cr3Matches T (pt_cr3 st) cr3 then FindSymbolTable T symtabs cr3 pc
      else if pc < pt_base st \<or> pc \<ge> pt_end st then FindSymbolTable T symtabs cr3 pc
      else Some st)"

definition tables_FindSymbol ::
  "libc \<Rightarrow> 'f libipt \<Rightarrow> pt_table list \<Rightarrow> u64 \<Rightarrow> u64 \<Rightarrow> Symbol option \<times> pt_table option" where
  "tables_FindSymbol L T symtabs cr3 pc =
     (case FindSymbolTable T symtabs cr3 pc of
        None \<Rightarrow> (None, None)
      | Some symtab \<Rightarrow> (pt_table_FindSymbol L symtab pc, Some symtab))"

fun FindPcFileName :: "'f libipt \<Rightarrow> pt_table list \<Rightarrow> u64 \<Rightarrow> u64 \<Rightarrow> string option" where
  "FindPcFileName T [] cr3 pc = None"
| "FindPcFileName T (st # symtabs) cr3 pc =
     (if \<not> Cr3Matches T (pt_cr3 st) cr3 then FindPcFileName T symtabs cr3 pc
      else if pc < pt_base st \<or> pc \<ge> pt_end st then FindPcFileName T symtabs cr3 pc
      else Some (tab_file_name st))"

definition SeenCr3 :: "pt_table list \<Rightarrow> u64 \<Rightarrow> bool" where
  "SeenCr3 symtabs cr3 \<longleftrightarrow> (\<exists>st \<in> set symtabs. pt_cr3 st = cr3)"

definition PF_X :: u64 where "PF_X = 1"
definition ET_DYN :: u64 where "ET_DYN = 3"

text \<open>The last address used by the symbols of a table.\<close>

fun symbols_end :: "u64 \<Rightarrow> Symbol list \<Rightarrow> u64" where
  "symbols_end e [] = e"
| "symbols_end e (s # ss) =
     symbols_end (if e < sym_addr s + sym_size s then sym_addr s + sym_size s else e) ss"

text \<open>
  One table of \<^verbatim>\<open>ReadSymtabs\<close>: filled from the section, with its end set; the reader is returned with it.
\<close>

definition ReadSymtab ::
  "libc \<Rightarrow> (u64 \<Rightarrow> bool) \<Rightarrow> read_fn \<Rightarrow> u64 \<Rightarrow> u64 \<Rightarrow> u64 \<Rightarrow> elf_reader \<Rightarrow> pt_table \<Rightarrow>
     (bool \<times> pt_table \<times> elf_reader) option" where
  "ReadSymtab L malloc_ok Read len offset symtab_type elf st =
     do {
       (ok, st, elf) \<leftarrow> Populate L malloc_ok Read symtab_type elf st;
       if \<not> ok then Some (False, st, elf)
       else let e = symbols_end 0 (case tab_symbols st of None \<Rightarrow> [] | Some syms \<Rightarrow> syms)
         in Some (True, st\<lparr>pt_end := if len > e then offset + len else offset + e\<rparr>, elf)
     }"

fun symtabs_loop ::
  "libc \<Rightarrow> (u64 \<Rightarrow> bool) \<Rightarrow> read_fn \<Rightarrow> (string \<Rightarrow> pt_table) \<Rightarrow> u64 \<Rightarrow> u64 \<Rightarrow> nat list \<Rightarrow> elf_reader \<Rightarrow>
     pt_table option \<Rightarrow> pt_table option \<Rightarrow> (bool \<times> pt_table option \<times> pt_table option \<times> elf_reader) option" where
  "symtabs_loop L malloc_ok Read new len offset [] elf symtab dynsym = Some (True, symtab, dynsym, elf)"
| "symtabs_loop L malloc_ok Read new len offset (i # is) elf symtab dynsym =
     do {
       shdr \<leftarrow> GetSectionHeader elf i;
       if sh_type shdr = SHT_SYMTAB then do {
         (ok, st, elf) \<leftarrow> ReadSymtab L malloc_ok Read len offset (sh_type shdr) elf (new ''symtab'');
         if \<not> ok then Some (False, Some st, dynsym, elf)
         else symtabs_loop L malloc_ok Read new len offset is elf (Some st) dynsym
       }
       else if sh_type shdr = SHT_DYNSYM then do {
         (ok, st, elf) \<leftarrow> ReadSymtab L malloc_ok Read len offset (sh_type shdr) elf (new ''dynsym'');
         if \<not> ok then Some (False, symtab, Some st, elf)
         else symtabs_loop L malloc_ok Read new len offset is elf symtab (Some st)
       }
       else symtabs_loop L malloc_ok Read new len offset is elf symtab dynsym
     }"

text \<open>\<open>None\<close> inside the result is \<^verbatim>\<open>false\<close>: the tables are then dropped.\<close>

definition ReadSymtabs ::
  "libc \<Rightarrow> (u64 \<Rightarrow> bool) \<Rightarrow> read_fn \<Rightarrow> string \<Rightarrow> u64 \<Rightarrow> u64 \<Rightarrow> u64 \<Rightarrow> u64 \<Rightarrow> bool \<Rightarrow> elf_reader \<Rightarrow>
     ((pt_table option \<times> pt_table option) option \<times> elf_reader) option" where
  "ReadSymtabs L malloc_ok Read file_name cr3 base len offset is_kernel elf =
     do {
       let num_sections = GetNumSections elf;
       (rc, elf) \<leftarrow> ReadSectionHeaders Read elf;
       if rc \<noteq> ELF_OK then Some (None, elf)
       else do {
         (ok, symtab, dynsym, elf) \<leftarrow>
           symtabs_loop L malloc_ok Read (\<lambda>contents. pt_table_new file_name contents cr3 base offset is_kernel)
             len offset [0..<num_sections] elf None None;
         Some (if ok then Some (symtab, dynsym) else None, elf)
       }
     }"

fun find_text_segment :: "elf_reader \<Rightarrow> nat list \<Rightarrow> segment_header option option" where
  "find_text_segment elf [] = Some None"
| "find_text_segment elf (i # is) =
     do {
       phdr \<leftarrow> GetSegmentHeader elf i;
       if p_type phdr = PT_LOAD \<and> p_flags phdr AND PF_X \<noteq> 0 then Some (Some phdr)
       else find_text_segment elf is
     }"

definition FindBaseLenFileoff :: "elf_reader \<Rightarrow> u64 \<times> u64 \<times> u64 \<Rightarrow> (u64 \<times> u64 \<times> u64) option" where
  "FindBaseLenFileoff elf old =
     do {
       found \<leftarrow> find_text_segment elf [0..<GetNumSegments elf];
       Some (case found of
          None \<Rightarrow> old
        | Some phdr \<Rightarrow> (p_vaddr phdr, p_memsz phdr, p_offset phdr))
     }"

fun min_load_address :: "elf_reader \<Rightarrow> nat list \<Rightarrow> u64 \<Rightarrow> u64 option" where
  "min_load_address elf [] minaddr = Some minaddr"
| "min_load_address elf (i # is) minaddr =
     do {
       phdr \<leftarrow> GetSegmentHeader elf i;
       min_load_address elf is
         (if p_type phdr = PT_LOAD \<and> p_vaddr phdr < minaddr then p_vaddr phdr else minaddr)
     }"

definition FindOffset :: "elf_reader \<Rightarrow> u64 \<Rightarrow> u64 option" where
  "FindOffset elf base =
     (if base = 0 then Some 0
      else do {
        minaddr \<leftarrow> min_load_address elf [0..<GetNumSegments elf] (- 1);
        Some (if minaddr = - 1 then 0 else base - minaddr)
      })"

text \<open>The segments of code that lie in the mapped part of the file, given to the image.\<close>

definition usable_segment :: "u64 \<Rightarrow> u64 \<Rightarrow> segment_header \<Rightarrow> bool" where
  "usable_segment file_off map_len phdr \<longleftrightarrow>
     p_type phdr = PT_LOAD \<and> p_flags phdr AND PF_X \<noteq> 0 \<and> p_offset phdr \<ge> file_off
     \<and> (map_len = 0 \<or> p_offset phdr + p_filesz phdr \<le> file_off + map_len)"

fun progbits_loop ::
  "'f libipt \<Rightarrow> u64 \<Rightarrow> string \<Rightarrow> u64 \<Rightarrow> u64 \<Rightarrow> u64 \<Rightarrow> u64 \<Rightarrow> elf_reader \<Rightarrow> nat list \<Rightarrow> 'f \<Rightarrow> 'f option" where
  "progbits_loop T img file_name cr3 offset file_off map_len elf [] f = Some f"
| "progbits_loop T img file_name cr3 offset file_off map_len elf (i # is) f =
     do {
       phdr \<leftarrow> GetSegmentHeader elf i;
       if usable_segment file_off map_len phdr then
         if p_vaddr phdr < p_paddr phdr then progbits_loop T img file_name cr3 offset file_off map_len elf is f
         else case lp_image_add_file T img file_name (p_offset phdr) (p_filesz phdr) cr3 (p_vaddr phdr + offset) f of
           (err, f) \<Rightarrow>
             if err = - lp_bad_image T then progbits_loop T img file_name cr3 offset file_off map_len elf is f
             else if err < 0 then Some f
             else progbits_loop T img file_name cr3 offset file_off map_len elf is f
       else progbits_loop T img file_name cr3 offset file_off map_len elf is f
     }"

definition AddProgbits ::
  "'f libipt \<Rightarrow> u64 \<Rightarrow> string \<Rightarrow> u64 \<Rightarrow> u64 \<Rightarrow> u64 \<Rightarrow> u64 \<Rightarrow> elf_reader \<Rightarrow> 'f \<Rightarrow> 'f option" where
  "AddProgbits T img file_name cr3 offset file_off map_len elf f =
     progbits_loop T img file_name cr3 offset file_off map_len elf [0..<GetNumSegments elf] f"

text \<open>\<open>ElfOpen\<close>: the descriptor and the reader with its segment headers; the block closes the file when it fails.\<close>

definition ElfOpen :: "'f posix \<Rightarrow> string \<Rightarrow> 'f \<Rightarrow> ((int \<times> elf_reader) option \<times> 'f) option" where
  "ElfOpen P file_name f =
     (case px_open P file_name f of
        (fd, f) \<Rightarrow>
          if fd < 0 then Some (None, f)
          else do {
            bb \<leftarrow> FileByteBlock fd;
            r \<leftarrow> Reader_Create (file_read P bb f) 0 0;
            (case r of
               Inl rc \<Rightarrow> Some (None, FileByteBlock_destroy P bb f)
             | Inr elf \<Rightarrow>
                 do {
                   (rc, elf) \<leftarrow> ReadSegmentHeaders (file_read P bb f) elf;
                   Some (if rc \<noteq> ELF_OK then (None, FileByteBlock_destroy P bb f) else (Some (bb, elf), f))
                 })
          })"

text \<open>
  \<open>ReadElf\<close> and \<open>ReadNonPicElf\<close> return the tables, or \<open>None\<close> for \<^verbatim>\<open>false\<close>.  The reader and its file are released at the end.
\<close>

definition ReadElf ::
  "libc \<Rightarrow> 'f posix \<Rightarrow> 'f libipt \<Rightarrow> string \<Rightarrow> u64 \<Rightarrow> u64 \<Rightarrow> u64 \<Rightarrow> u64 \<Rightarrow> u64 \<Rightarrow> 'f \<Rightarrow>
     ((pt_table option \<times> pt_table option) option \<times> 'f) option" where
  "ReadElf L P T file_name img base cr3 file_off map_len f =
     do {
       (opened, f) \<leftarrow> ElfOpen P file_name f;
       (case opened of
          None \<Rightarrow> Some (None, f)
        | Some (fd, elf) \<Rightarrow>
            let pic = (e_type (rd_header elf) = ET_DYN)
            in if pic \<and> base = 0 then Some (None, FileByteBlock_destroy P fd f)
               else do {
                 offset \<leftarrow> (if pic then FindOffset elf base else Some 0);
                 (tables, elf) \<leftarrow>
                   ReadSymtabs L (px_malloc P) (file_read P fd f) file_name cr3 base map_len offset False elf;
                 (case tables of
                    None \<Rightarrow> Some (None, FileByteBlock_destroy P fd f)
                  | Some tabs \<Rightarrow>
                      do {
                        f \<leftarrow> AddProgbits T img file_name cr3 offset file_off map_len elf f;
                        Some (Some tabs, FileByteBlock_destroy P fd f)
                      })
               })
     }"

definition ReadNonPicElf ::
  "libc \<Rightarrow> 'f posix \<Rightarrow> 'f libipt \<Rightarrow> string \<Rightarrow> u64 \<Rightarrow> u64 \<Rightarrow> bool \<Rightarrow> 'f \<Rightarrow>
     ((pt_table option \<times> pt_table option) option \<times> 'f) option" where
  "ReadNonPicElf L P T file_name img cr3 is_kernel f =
     do {
       (opened, f) \<leftarrow> ElfOpen P file_name f;
       (case opened of
          None \<Rightarrow> Some (None, f)
        | Some (fd, elf) \<Rightarrow>
            do {
              (base, len, file_off) \<leftarrow> FindBaseLenFileoff elf (0, 0, 0);
              (tables, elf) \<leftarrow>
                ReadSymtabs L (px_malloc P) (file_read P fd f) file_name (lp_no_cr3 T) base len 0 is_kernel elf;
              (case tables of
                 None \<Rightarrow> Some (None, FileByteBlock_destroy P fd f)
               | Some tabs \<Rightarrow>
                   do {
                     f \<leftarrow> AddProgbits T img file_name (if cr3 \<noteq> 0 then cr3 else lp_no_cr3 T) 0 file_off len elf f;
                     Some (Some tabs, FileByteBlock_destroy P fd f)
                   })
            })
     }"

section \<open>Symbols of a file that is loaded at an address\<close>

lemma Populate_more:
  "Populate L malloc_ok Read ty elf t = Some (ok, t', elf') \<Longrightarrow> SymbolTable.more t' = SymbolTable.more t"
  by (auto simp: Populate_def Populate_sections_def Let_def
      split: Option.bind_splits option.splits sum.splits if_splits prod.splits)

lemma pt_table_fields:
  assumes "SymbolTable.more t = SymbolTable.more (t' :: pt_table)"
  shows "pt_base t = pt_base t' \<and> pt_offset t = pt_offset t' \<and> pt_cr3 t = pt_cr3 t' \<and> pt_is_kernel t = pt_is_kernel t'"
  using assms by (cases t, cases t') simp

lemma symbols_end_start: "unat e \<le> unat (symbols_end e syms)"
  by (induction syms arbitrary: e)
    (auto simp: word_less_nat_alt intro: order_trans [OF less_imp_le])

lemma symbols_end_ge:
  "s \<in> set syms \<Longrightarrow> unat (sym_addr s + sym_size s) \<le> unat (symbols_end e syms)"
proof (induction syms arbitrary: e)
  case (Cons t syms)
  show ?case
  proof (cases "s = t")
    case True
    then show ?thesis
      using symbols_end_start [of "if e < sym_addr t + sym_size t then sym_addr t + sym_size t else e" syms]
      by (auto simp: word_less_nat_alt split: if_splits)
  next
    case False
    then show ?thesis using Cons by simp
  qed
qed simp

lemma symbols_end_le:
  "unat e \<le> m \<Longrightarrow> \<forall>s \<in> set syms. unat (sym_addr s + sym_size s) \<le> m \<Longrightarrow> unat (symbols_end e syms) \<le> m"
  by (induction syms arbitrary: e) auto

lemma window_end:
  assumes "in_window lo s"
  shows "unat (sym_addr s + sym_size s) = unat (sym_addr s) + unat (sym_size s)"
    "unat (sym_addr s) + unat (sym_size s) \<le> unat lo + 2 ^ 31"
proof -
  show b: "unat (sym_addr s) + unat (sym_size s) \<le> unat lo + 2 ^ 31"
    using assms by (auto simp: in_window_def sym_width_def max_def split: if_splits)
  moreover have "unat lo + 2 ^ 31 < 2 ^ 64" using assms by (simp add: in_window_def)
  ultimately show "unat (sym_addr s + sym_size s) = unat (sym_addr s) + unat (sym_size s)"
    by (simp add: unat_word_ariths)
qed


text \<open>A file with one section of symbols and one of strings, whose headers are read.\<close>

definition demo_section :: "u64 \<Rightarrow> u64 \<Rightarrow> u64 \<Rightarrow> u64 \<Rightarrow> u64 \<Rightarrow> section_header" where
  "demo_section ty off sz link entsize =
     \<lparr>sh_name = 0, sh_type = ty, sh_flags = 0, sh_addr = 0, sh_offset = off, sh_size = sz, sh_link = link, sh_info = 0,
      sh_addralign = 0, sh_entsize = entsize\<rparr>"

definition demo_elf :: elf_reader where
  "demo_elf =
     \<lparr>rd_base = 0,
      rd_header = (decode_header (replicate 64 0))\<lparr>e_shnum := 2\<rparr>,
      rd_segments = None,
      rd_sections = Some [demo_section SHT_SYMTAB 0x100 24 1 24, demo_section 3 0x200 2 0 0]\<rparr>"

definition demo_elf_read :: read_fn where
  "demo_elf_read a n =
     Some (Some (if a = 0x100 then [0, 0, 0, 0, 0, 0, 0, 0, 0, 0x10, 0, 0, 0, 0, 0, 0, 0x20, 0, 0, 0, 0, 0, 0, 0] else [0x66, 0]))"

lemma demo_populate:
  "Populate ref_libc (\<lambda>n. True) demo_elf_read SHT_SYMTAB demo_elf (pt_table_new ''a'' ''symtab'' 7 0x40000000 0x40000000 False) =
     Some (True, (pt_table_new ''a'' ''symtab'' 7 0x40000000 0x40000000 False)\<lparr>tab_string_section :=
        Some \<lparr>sc_header = demo_section 3 0x200 2 0 0, sc_contents = [0x66, 0]\<rparr>,
        tab_symbols := Some (Finalize ref_libc [\<lparr>sym_name = 0, sym_addr = 0x1000, sym_size = 0x20\<rparr>])\<rparr>, demo_elf)"
  by code_simp


end
