(* ===== verification/Scan.thy ===== *)
theory Scan
  imports Files
begin

text \<open>
  The parts of the C library with which the text files of a trace are read: the lines of \<^verbatim>\<open>getline\<close>,
  \<^verbatim>\<open>strstr\<close>, and \<^verbatim>\<open>sscanf\<close> for the conversions the sources use.  \<open>None\<close> is undefined behaviour: a number that
  its type does not hold, or a string that is longer than the buffer it is stored in.
\<close>

section \<open>Lines\<close>

fun text_lines :: "string \<Rightarrow> string list" where
  "text_lines [] = []"
| "text_lines (c # cs) =
     (if c = CHR ''\<newline>'' then [c] # text_lines cs
      else case text_lines cs of
        [] \<Rightarrow> [[c]]
      | l # ls \<Rightarrow> (c # l) # ls)"

definition c_text :: "string \<Rightarrow> string" where
  "c_text line = takeWhile (\<lambda>c. c \<noteq> CHR 0x00) line"

definition strip_newline :: "string \<Rightarrow> string" where
  "strip_newline line = (if line \<noteq> [] \<and> last line = CHR ''\<newline>'' then butlast line else line)"

fun strstr :: "string \<Rightarrow> string \<Rightarrow> bool" where
  "strstr [] needle \<longleftrightarrow> needle = []"
| "strstr (c # cs) needle \<longleftrightarrow> take (length needle) (c # cs) = needle \<or> strstr cs needle"

section \<open>Conversions\<close>

text \<open>
  \<open>S_Str cap\<close> is \<^verbatim>\<open>%s\<close> and \<open>S_Until d cap\<close> is \<^verbatim>\<open>%[^d]\<close>, into a buffer of \<open>cap\<close> bytes; \<open>S_Num base bits\<close> is an unsigned
  conversion to a type of \<open>bits\<close> bits.
\<close>

datatype scan_item =
    S_Lit char
  | S_Space
  | S_Str nat
  | S_Until char nat
  | S_Num nat nat

datatype scan_value = V_Str string | V_Num u64

definition store_string :: "nat \<Rightarrow> string \<Rightarrow> string \<Rightarrow> (scan_value \<times> string) option option" where
  "store_string cap word rest =
     (if word = [] then Some None
      else do {
        dcheck (length word < cap);
        Some (Some (V_Str word, rest))
      })"

definition scan_sign :: "string \<Rightarrow> bool \<times> string" where
  "scan_sign s =
     (case s of
        [] \<Rightarrow> (False, s)
      | c # cs \<Rightarrow> if c = CHR ''-'' then (True, cs) else if c = CHR ''+'' then (False, cs) else (False, s))"

definition scan_prefix :: "nat \<Rightarrow> string \<Rightarrow> string" where
  "scan_prefix base s = (if base = 16 \<and> take 2 s \<in> {''0x'', ''0X''} then drop 2 s else s)"

definition scan_number :: "nat \<Rightarrow> nat \<Rightarrow> string \<Rightarrow> (scan_value \<times> string) option option" where
  "scan_number base bits s =
     (let (neg, s) = scan_sign (dropWhile isspace s);
          s = scan_prefix base s;
          digits = takeWhile (\<lambda>c. digit_value base c \<noteq> None) s;
          rest = dropWhile (\<lambda>c. digit_value base c \<noteq> None) s
      in if digits = [] then Some None
         else do {
           n \<leftarrow> parse_digits base 0 digits;
           dcheck (n < 2 ^ bits);
           Some (Some (V_Num (if neg then - of_nat n else of_nat n), rest))
         })"

fun scan_conv :: "scan_item \<Rightarrow> string \<Rightarrow> (scan_value \<times> string) option option" where
  "scan_conv (S_Str cap) s =
     (let s = dropWhile isspace s
      in store_string cap (takeWhile (\<lambda>c. \<not> isspace c) s) (dropWhile (\<lambda>c. \<not> isspace c) s))"
| "scan_conv (S_Until d cap) s =
     store_string cap (takeWhile (\<lambda>c. c \<noteq> d) s) (dropWhile (\<lambda>c. c \<noteq> d) s)"
| "scan_conv (S_Num base bits) s = scan_number base bits s"
| "scan_conv _ s = Some None"

text \<open>The values that are assigned before the input stops matching; \<^verbatim>\<open>sscanf\<close> returns their number.\<close>

fun sscanf :: "string \<Rightarrow> scan_item list \<Rightarrow> scan_value list option" where
  "sscanf s [] = Some []"
| "sscanf s (S_Lit c # fmt) =
     (case s of
        [] \<Rightarrow> Some []
      | d # ds \<Rightarrow> if d = c then sscanf ds fmt else Some [])"
| "sscanf s (S_Space # fmt) = sscanf (dropWhile isspace s) fmt"
| "sscanf s (item # fmt) =
     do {
       r \<leftarrow> scan_conv item s;
       (case r of
          None \<Rightarrow> Some []
        | Some (v, rest) \<Rightarrow>
            do {
              vs \<leftarrow> sscanf rest fmt;
              Some (v # vs)
            })
     }"

lemmas sscanf_convs = sscanf.simps(4-6)

declare sscanf_convs [simp del]

section \<open>Scanning what was printed\<close>

lemma text_lines_line:
  "CHR ''\<newline>'' \<notin> set l \<Longrightarrow> text_lines (l @ CHR ''\<newline>'' # rest) = (l @ ''\<newline>'') # text_lines rest"
  by (induction l) auto

lemma text_lines_concat:
  "\<forall>l \<in> set ls. CHR ''\<newline>'' \<notin> set l \<Longrightarrow>
    text_lines (concat (map (\<lambda>l. l @ ''\<newline>'') ls)) = map (\<lambda>l. l @ ''\<newline>'') ls"
  by (induction ls) (simp_all add: text_lines_line)

lemma strip_newline_line [simp]: "strip_newline (l @ ''\<newline>'') = l"
  by (simp add: strip_newline_def)

lemma c_text_id: "CHR 0x00 \<notin> set l \<Longrightarrow> c_text l = l"
  by (simp add: c_text_def takeWhile_eq_all_conv) (metis)

lemma scan_lits: "sscanf (map_text @ s) (map S_Lit map_text @ fmt) = sscanf s fmt"
  by (induction map_text) simp_all

lemma digit_not_space: "digit_value b c = Some d \<Longrightarrow> \<not> isspace c \<and> c \<noteq> CHR ''-'' \<and> c \<noteq> CHR ''+''"
  by (auto simp: digit_value_def isspace_def Let_def word_le_nat_alt unat_byte_of split: if_splits)

definition ends_number :: "nat \<Rightarrow> string \<Rightarrow> bool" where
  "ends_number b rest \<longleftrightarrow> (case rest of [] \<Rightarrow> True | c # cs \<Rightarrow> digit_value b c = None \<and> c \<notin> set ''xX'')"

lemma nat_string_digits:
  "2 \<le> b \<Longrightarrow> b \<le> 16 \<Longrightarrow> \<forall>c \<in> set (nat_string b n). \<exists>d. digit_value b c = Some d"
proof (induction n rule: less_induct)
  case (less n)
  show ?case
  proof (cases "n < b")
    case True
    then show ?thesis using less.prems by (subst nat_string.simps) (simp add: digit_value_digit_char)
  next
    case False
    then have "n div b < n" using less.prems by simp
    from less.IH [OF this less.prems] False less.prems show ?thesis
      by (subst nat_string.simps) (auto simp: digit_value_digit_char)
  qed
qed

lemma digit_not_x: "digit_value b c = Some d \<Longrightarrow> c \<notin> set ''xX''"
  by (auto simp: digit_value_def Let_def split: if_splits)

lemma no_prefix:
  assumes "2 \<le> b" "b \<le> 16" "ends_number b rest"
  shows "scan_prefix b (nat_string b n @ rest) = nat_string b n @ rest"
proof -
  have "c \<notin> set ''xX''" if "nat_string b n @ rest = a # c # cs" for a c cs
  proof (cases "c \<in> set (nat_string b n)")
    case True
    then show ?thesis using nat_string_digits [OF assms(1,2)] digit_not_x by blast
  next
    case False
    then have "\<exists>r. rest = c # r" using that by (cases "nat_string b n" rule: remdups_adj.cases) auto
    then show ?thesis using assms(3) by (auto simp: ends_number_def)
  qed
  then show ?thesis
    by (cases "nat_string b n @ rest" rule: remdups_adj.cases) (auto simp: scan_prefix_def)
qed

lemma scan_number_printed:
  assumes "2 \<le> b" "b \<le> 16" "ends_number b rest" "n < 2 ^ bits"
  shows "scan_number b bits (nat_string b n @ rest) = Some (Some (V_Num (of_nat n), rest))"
proof -
  let ?s = "nat_string b n @ rest"
  have d: "\<forall>c \<in> set (nat_string b n). digit_value b c \<noteq> None"
    using nat_string_digits [OF assms(1,2)] by force
  obtain c cs where c: "nat_string b n = c # cs" by (cases "nat_string b n") simp_all
  then have "\<not> isspace c \<and> c \<noteq> CHR ''-'' \<and> c \<noteq> CHR ''+''" using d digit_not_space by fastforce
  then have sign: "scan_sign (dropWhile isspace ?s) = (False, ?s)" by (simp add: c scan_sign_def)
  have "takeWhile (\<lambda>c. digit_value b c \<noteq> None) rest = []" "dropWhile (\<lambda>c. digit_value b c \<noteq> None) rest = rest"
    using assms(3) by (simp_all add: ends_number_def split: list.splits)
  then have "takeWhile (\<lambda>c. digit_value b c \<noteq> None) ?s = nat_string b n"
    "dropWhile (\<lambda>c. digit_value b c \<noteq> None) ?s = rest"
    using d by (simp_all add: takeWhile_append2 dropWhile_append2)
  then show ?thesis
    using assms by (simp add: scan_number_def sign no_prefix parse_digits_nat_string)
qed

end
