(* ===== verification/Load_Maps.thy ===== *)
theory Load_Maps
  imports Scan
begin

text \<open>
  Where a trace finds the files of the program: the load maps of \<^verbatim>\<open>lib/debugger-utils/load-maps.{h,cc}\<close>, read from the
  output of a log listener, and the build ids of \<^verbatim>\<open>lib/debugger-utils/build-ids.{h,cc}\<close>, read from
  the files \<^verbatim>\<open>ids.txt\<close> of a build.
\<close>

section \<open>Load maps\<close>

record LoadMap =
  lm_pid :: u64
  lm_base_addr :: u64
  lm_load_addr :: u64
  lm_end_addr :: u64
  lm_name :: string
  lm_so_name :: string
  lm_build_id :: string

type_synonym map_table = "LoadMap list"

definition AddLoadMap :: "LoadMap \<Rightarrow> map_table \<Rightarrow> map_table" where
  "AddLoadMap m maps = maps @ [m]"

definition LoadMapTable_Clear :: "map_table \<Rightarrow> map_table" where
  "LoadMapTable_Clear maps = []"

definition LookupLoadMap :: "u64 \<Rightarrow> u64 \<Rightarrow> map_table \<Rightarrow> LoadMap option" where
  "LookupLoadMap pid addr maps =
     find (\<lambda>m. pid = lm_pid m \<and> addr \<ge> lm_load_addr m \<and> addr < lm_end_addr m) maps"

definition kMaxLineLen :: nat where "kMaxLineLen = 1024"

definition trace_load_prefix :: "char \<Rightarrow> scan_item list" where
  "trace_load_prefix kind =
     S_Until (CHR ''@'') kMaxLineLen # map S_Lit ''@trace_load:'' @
     [S_Space, S_Num 10 64, S_Lit (CHR '':''), S_Num 10 32, S_Lit kind]"

definition hex_item :: "scan_item list" where
  "hex_item = [S_Space, S_Lit (CHR ''0''), S_Lit (CHR ''x''), S_Num 16 64]"

definition format_a :: "scan_item list" where
  "format_a = trace_load_prefix (CHR ''a'') @ hex_item @ hex_item @ hex_item"

definition format_b :: "scan_item list" where
  "format_b = trace_load_prefix (CHR ''b'') @ [S_Space, S_Str kMaxLineLen]"

definition format_c :: "scan_item list" where
  "format_c = trace_load_prefix (CHR ''c'') @ [S_Space, S_Str kMaxLineLen, S_Space, S_Str kMaxLineLen]"

definition GET_ENTRY_ID :: "u64 \<Rightarrow> u64 \<Rightarrow> u64" where
  "GET_ENTRY_ID pid seqno = push_bit 8 pid + seqno"

text \<open>The records that are being put together, by their id, and the table.\<close>

type_synonym map_state = "(u64 \<rightharpoonup> LoadMap) \<times> map_table"

definition record_a :: "scan_value list \<Rightarrow> map_state \<Rightarrow> map_state option" where
  "record_a values st =
     (case (values, st) of
        ([V_Str prefix_text, V_Num pid, V_Num seqno, V_Num base_addr, V_Num load_addr, V_Num end_addr], map_data, maps) \<Rightarrow>
          let id = GET_ENTRY_ID pid seqno
          in if map_data id \<noteq> None then Some (map_data, maps)
             else Some (map_data(id \<mapsto> \<lparr>lm_pid = pid, lm_base_addr = base_addr, lm_load_addr = load_addr,
               lm_end_addr = end_addr, lm_name = '''', lm_so_name = '''', lm_build_id = ''''\<rparr>), maps)
      | _ \<Rightarrow> None)"

definition record_b :: "scan_value list \<Rightarrow> map_state \<Rightarrow> map_state option" where
  "record_b values st =
     (case (values, st) of
        ([V_Str prefix_text, V_Num pid, V_Num seqno, V_Str build_id], map_data, maps) \<Rightarrow>
          let id = GET_ENTRY_ID pid seqno
          in (case map_data id of
                None \<Rightarrow> Some (map_data, maps)
              | Some entry \<Rightarrow> Some (map_data(id \<mapsto> entry\<lparr>lm_build_id := build_id\<rparr>), maps))
      | _ \<Rightarrow> None)"

definition record_c :: "scan_value list \<Rightarrow> map_state \<Rightarrow> map_state option" where
  "record_c values st =
     (case (values, st) of
        ([V_Str prefix_text, V_Num pid, V_Num seqno, V_Str name, V_Str so_name], map_data, maps) \<Rightarrow>
          let id = GET_ENTRY_ID pid seqno
          in (case map_data id of
                None \<Rightarrow> Some (map_data, maps)
              | Some entry \<Rightarrow>
                  let entry = entry\<lparr>lm_name := name, lm_so_name := so_name\<rparr>
                  in Some (map_data(id \<mapsto> entry), AddLoadMap entry maps))
      | _ \<Rightarrow> None)"

definition load_record :: "string \<Rightarrow> map_state \<Rightarrow> map_state option" where
  "load_record line st =
     do {
       a \<leftarrow> sscanf line format_a;
       if length a = 6 then record_a a st
       else do {
         b \<leftarrow> sscanf line format_b;
         if length b = 4 then record_b b st
         else do {
           c \<leftarrow> sscanf line format_c;
           if length c = 5 then record_c c st
           else Some st
         }
       }
     }"

text \<open>One line as \<^verbatim>\<open>getline\<close> gives it.  A line that is too long is reported and then read like any other.\<close>

definition load_line :: "string \<Rightarrow> map_state \<Rightarrow> map_state option" where
  "load_line line st =
     (if length (c_text line) \<noteq> length line then Some st
      else let line = strip_newline line
        in if line = ''\<newline>'' then Some st
           else if take 1 line = ''#'' then Some st
           else if strstr line ''welcome to lk/MP'' then Some (Map.empty, LoadMapTable_Clear (snd st))
           else load_record line st)"

fun load_lines :: "string list \<Rightarrow> map_state \<Rightarrow> map_state option" where
  "load_lines [] st = Some st"
| "load_lines (l # ls) st = do { st \<leftarrow> load_line l st; load_lines ls st }"

definition ReadLogListenerOutput :: "'f posix \<Rightarrow> string \<Rightarrow> 'f \<Rightarrow> map_table \<Rightarrow> (bool \<times> map_table) option" where
  "ReadLogListenerOutput P path f maps =
     (case px_fopen P path f of
        None \<Rightarrow> Some (False, maps)
      | Some (text, at_eof) \<Rightarrow>
          if \<not> px_malloc P (of_nat kMaxLineLen) then Some (False, maps)
          else do {
            (map_data, maps) \<leftarrow> load_lines (text_lines text) (Map.empty, maps);
            Some (at_eof, maps)
          })"

section \<open>Build ids\<close>

record BuildId =
  bid_build_id :: string
  bid_file :: string

definition absolute :: "'f posix \<Rightarrow> string \<Rightarrow> string \<Rightarrow> string" where
  "absolute P file_dir path =
     (if take 1 path \<noteq> ''/'' then px_AbsolutePath P file_dir @ ''/'' @ path else path)"

definition AddBuildId :: "'f posix \<Rightarrow> string \<Rightarrow> string \<Rightarrow> string \<Rightarrow> BuildId list \<Rightarrow> BuildId list" where
  "AddBuildId P file_dir build_id path ids =
     ids @ [\<lparr>bid_build_id = build_id, bid_file = absolute P file_dir path\<rparr>]"

definition MAX_LINE_LEN :: nat where "MAX_LINE_LEN = 1024"

text \<open>
  \<^verbatim>\<open>linelen\<close> is the capacity of the buffer that \<^verbatim>\<open>getline\<close> keeps from line to line.
\<close>

definition ids_line :: "'f posix \<Rightarrow> string \<Rightarrow> string \<Rightarrow> nat \<Rightarrow> BuildId list \<Rightarrow> BuildId list option" where
  "ids_line P path line linelen ids =
     (let line = strip_newline (c_text line)
      in if linelen > MAX_LINE_LEN then Some ids
         else if line = ''\<newline>'' then Some ids
         else if take 1 line = ''#'' then Some ids
         else do {
           values \<leftarrow> sscanf line [S_Str linelen, S_Space, S_Str linelen];
           Some (case values of
              [V_Str build_id, V_Str file_path] \<Rightarrow>
                AddBuildId P (px_GetDirectoryName P path) build_id file_path ids
            | _ \<Rightarrow> ids)
         })"

fun ids_lines :: "'f posix \<Rightarrow> string \<Rightarrow> string list \<Rightarrow> nat \<Rightarrow> BuildId list \<Rightarrow> BuildId list option" where
  "ids_lines P path [] linelen ids = Some ids"
| "ids_lines P path (l # ls) linelen ids =
     do {
       let linelen = px_getline_room P linelen (Suc (length l));
       ids \<leftarrow> ids_line P path l linelen ids;
       ids_lines P path ls linelen ids
     }"

definition ReadIdsFile :: "'f posix \<Rightarrow> string \<Rightarrow> 'f \<Rightarrow> BuildId list \<Rightarrow> (bool \<times> BuildId list) option" where
  "ReadIdsFile P path f ids =
     (case px_fopen P path f of
        None \<Rightarrow> Some (False, ids)
      | Some (text, at_eof) \<Rightarrow>
          do {
            ids \<leftarrow> ids_lines P path (text_lines text) 0 ids;
            Some (True, ids)
          })"

definition LookupBuildId :: "string \<Rightarrow> BuildId list \<Rightarrow> BuildId option" where
  "LookupBuildId bid ids = find (\<lambda>b. bid = bid_build_id b) ids"

section \<open>Reading what the dynamic linker logs\<close>

text \<open>The three lines for a loaded file, after the text that the log puts before each line.\<close>

definition trace_line :: "string \<Rightarrow> char \<Rightarrow> u64 \<Rightarrow> u64 \<Rightarrow> string \<Rightarrow> string" where
  "trace_line pfx kind pid seqno rest =
     pfx @ ''@trace_load: '' @ nat_string 10 (unat pid) @ '':'' @ nat_string 10 (unat seqno) @ kind # rest"

definition hex_field :: "u64 \<Rightarrow> string" where
  "hex_field n = '' 0x'' @ nat_string 16 (unat n)"

definition trace_lines :: "string \<Rightarrow> u64 \<Rightarrow> LoadMap \<Rightarrow> string list" where
  "trace_lines pfx seqno m =
     [trace_line pfx (CHR ''a'') (lm_pid m) seqno
        (hex_field (lm_base_addr m) @ hex_field (lm_load_addr m) @ hex_field (lm_end_addr m)),
      trace_line pfx (CHR ''b'') (lm_pid m) seqno ('' '' @ lm_build_id m),
      trace_line pfx (CHR ''c'') (lm_pid m) seqno ('' '' @ lm_name m @ '' '' @ lm_so_name m)]"

definition log_prefix :: "string \<Rightarrow> bool" where
  "log_prefix pfx \<longleftrightarrow> pfx \<noteq> [] \<and> CHR ''@'' \<notin> set pfx \<and> length pfx < kMaxLineLen"

definition log_word :: "nat \<Rightarrow> string \<Rightarrow> bool" where
  "log_word cap w \<longleftrightarrow> w \<noteq> [] \<and> (\<forall>c \<in> set w. \<not> isspace c) \<and> length w < cap"

lemma sscanf_conv:
  "scan_conv item s = Some (Some (v, rest)) \<Longrightarrow> (\<nexists>c. item = S_Lit c) \<Longrightarrow> item \<noteq> S_Space \<Longrightarrow>
    sscanf s (item # fmt) = map_option ((#) v) (sscanf rest fmt)"
  by (cases item) (auto simp: sscanf_convs map_option_case split: option.splits Option.bind_splits)

lemma scan_prefix_text:
  assumes "log_prefix pfx"
  shows "sscanf (pfx @ CHR ''@'' # s) (S_Until (CHR ''@'') kMaxLineLen # fmt) =
    map_option ((#) (V_Str pfx)) (sscanf (CHR ''@'' # s) fmt)"
proof (rule sscanf_conv)
  have "\<forall>c \<in> set pfx. c \<noteq> CHR ''@''" using assms by (auto simp: log_prefix_def)
  then show "scan_conv (S_Until (CHR ''@'') kMaxLineLen) (pfx @ CHR ''@'' # s) = Some (Some (V_Str pfx, CHR ''@'' # s))"
    using assms by (simp add: store_string_def log_prefix_def takeWhile_append2 dropWhile_append2)
qed simp_all

lemma scan_printed:
  assumes "ends_number b rest" "unat w < 2 ^ bits" "2 \<le> b" "b \<le> 16"
  shows "sscanf (nat_string b (unat w) @ rest) (S_Num b bits # fmt) =
    map_option ((#) (V_Num w)) (sscanf rest fmt)"
  by (rule sscanf_conv) (use assms in \<open>simp_all add: scan_number_printed\<close>)

lemma scan_word:
  assumes "log_word cap w" "rest = [] \<or> isspace (hd rest)"
  shows "sscanf (w @ rest) (S_Str cap # fmt) = map_option ((#) (V_Str w)) (sscanf rest fmt)"
proof (rule sscanf_conv)
  obtain c cs where w: "w = c # cs" using assms(1) by (cases w) (auto simp: log_word_def)
  have r: "takeWhile (\<lambda>c. \<not> isspace c) rest = []" "dropWhile (\<lambda>c. \<not> isspace c) rest = rest"
    using assms(2) by (cases rest; simp)+
  have "dropWhile isspace (w @ rest) = w @ rest" using assms(1) by (simp add: w log_word_def)
  then show "scan_conv (S_Str cap) (w @ rest) = Some (Some (V_Str w, rest))"
    using assms(1) r by (simp add: store_string_def log_word_def takeWhile_append2 dropWhile_append2)
qed simp_all

lemma isspace_simps [simp]:
  "isspace (CHR '' '')"
  "\<not> isspace (CHR ''0'')"
  by (simp_all add: isspace_def byte_of_def)

lemma drop_space: "w \<noteq> [] \<Longrightarrow> \<not> isspace (hd w) \<Longrightarrow> dropWhile isspace (CHR '' '' # w @ rest) = w @ rest"
  by (cases w) simp_all

lemma hd_nat_string_space: "2 \<le> b \<Longrightarrow> b \<le> 16 \<Longrightarrow> \<not> isspace (hd (nat_string b n))"
  using nat_string_digits [of b n] digit_not_space by (metis hd_in_set nat_string_nonempty)

lemma scan_hex_field:
  assumes "ends_number 16 rest"
  shows "sscanf (hex_field n @ rest) (hex_item @ fmt) = map_option ((#) (V_Num n)) (sscanf rest fmt)"
proof -
  have "unat n < 2 ^ 64" using unsigned_less [of n] by simp
  then show ?thesis using scan_printed [OF assms, of n 64 fmt]
    by (simp add: hex_field_def hex_item_def)
qed

lemma scan_trace_line:
  assumes "log_prefix pfx" "unat seqno < 2 ^ 32" "kind \<in> set ''abc''" "kind' \<in> set ''abc''"
  shows "sscanf (trace_line pfx kind pid seqno rest) (trace_load_prefix kind' @ fmt) =
    (if kind = kind' then map_option (\<lambda>vs. [V_Str pfx, V_Num pid, V_Num seqno] @ vs) (sscanf rest fmt)
     else Some [V_Str pfx, V_Num pid, V_Num seqno])"
proof -
  let ?n = "nat_string 10 (unat pid)" and ?t = "nat_string 10 (unat seqno) @ kind # rest"
  have e: "ends_number 10 (CHR '':'' # ?t)" "ends_number 10 (kind # rest)"
    using assms(3) by (auto simp: ends_number_def digit_value_def)
  have "unat pid < 2 ^ 64" using unsigned_less [of pid] by simp
  note num = scan_printed [OF e(1) this] scan_printed [OF e(2) assms(2)]
  have "dropWhile isspace (CHR '' '' # ?n @ CHR '':'' # ?t) = ?n @ CHR '':'' # ?t"
    by (rule drop_space) (simp_all add: hd_nat_string_space)
  then show ?thesis
    using scan_prefix_text [OF assms(1)]
    by (simp add: trace_line_def trace_load_prefix_def num option.map_comp comp_def)
qed

lemma ends_number_simps [simp]:
  "ends_number b []"
  "ends_number 16 (hex_field n @ rest)"
  "ends_number 16 (hex_field n)"
  by (simp_all add: ends_number_def hex_field_def digit_value_def)

lemma scan_hex_last: "sscanf (hex_field n) (hex_item @ fmt) = map_option ((#) (V_Num n)) (sscanf [] fmt)"
  using scan_hex_field [of "[]" n fmt] by simp

lemma scan_space_word:
  "log_word cap w \<Longrightarrow> rest = [] \<or> isspace (hd rest) \<Longrightarrow>
    sscanf (CHR '' '' # w @ rest) (S_Space # S_Str cap # fmt) = map_option ((#) (V_Str w)) (sscanf rest fmt)"
  using drop_space [of w rest] scan_word [of cap w rest fmt] by (simp add: log_word_def)

lemma load_record_a:
  assumes "log_prefix pfx" "unat seqno < 2 ^ 32" "map_data (GET_ENTRY_ID pid seqno) = None"
  shows "load_record (trace_line pfx (CHR ''a'') pid seqno (hex_field b @ hex_field l @ hex_field e)) (map_data, maps) =
    Some (map_data(GET_ENTRY_ID pid seqno \<mapsto> \<lparr>lm_pid = pid, lm_base_addr = b, lm_load_addr = l, lm_end_addr = e,
      lm_name = '''', lm_so_name = '''', lm_build_id = ''''\<rparr>), maps)"
proof -
  have "sscanf (hex_field b @ hex_field l @ hex_field e) (hex_item @ hex_item @ hex_item) =
      Some [V_Num b, V_Num l, V_Num e]"
    using scan_hex_last [of e "[]"] by (simp add: scan_hex_field)
  then show ?thesis using assms
    by (simp add: load_record_def format_a_def scan_trace_line record_a_def Let_def)
qed

lemma load_record_b:
  assumes "log_prefix pfx" "unat seqno < 2 ^ 32" "log_word kMaxLineLen bid"
    "map_data (GET_ENTRY_ID pid seqno) = Some entry"
  shows "load_record (trace_line pfx (CHR ''b'') pid seqno (CHR '' '' # bid)) (map_data, maps) =
    Some (map_data(GET_ENTRY_ID pid seqno \<mapsto> entry\<lparr>lm_build_id := bid\<rparr>), maps)"
proof -
  have "sscanf ('' '' @ bid) [S_Space, S_Str kMaxLineLen] = Some [V_Str bid]"
    using scan_space_word [OF assms(3), of "[]" "[]"] by simp
  then show ?thesis using assms
    by (simp add: load_record_def format_a_def format_b_def scan_trace_line record_b_def Let_def)
qed

lemma load_record_c:
  assumes "log_prefix pfx" "unat seqno < 2 ^ 32" "log_word kMaxLineLen name" "log_word kMaxLineLen so"
    "map_data (GET_ENTRY_ID pid seqno) = Some entry"
  shows "load_record (trace_line pfx (CHR ''c'') pid seqno (CHR '' '' # name @ CHR '' '' # so)) (map_data, maps) =
    Some (map_data(GET_ENTRY_ID pid seqno \<mapsto> entry\<lparr>lm_name := name, lm_so_name := so\<rparr>),
      AddLoadMap (entry\<lparr>lm_name := name, lm_so_name := so\<rparr>) maps)"
proof -
  have "sscanf ('' '' @ name @ '' '' @ so) [S_Space, S_Str kMaxLineLen, S_Space, S_Str kMaxLineLen] =
      Some [V_Str name, V_Str so]"
    using scan_space_word [OF assms(3), of "'' '' @ so"] scan_space_word [OF assms(4), of "[]" "[]"] by simp
  then show ?thesis using assms
    by (simp add: load_record_def format_a_def format_b_def format_c_def scan_trace_line record_c_def Let_def)
qed

text \<open>What the log says of a file: words of a reasonable length, and lines that no other rule of the reader takes.\<close>

definition log_entry :: "string \<Rightarrow> u64 \<Rightarrow> LoadMap \<Rightarrow> bool" where
  "log_entry pfx seqno m \<longleftrightarrow> log_prefix pfx \<and> unat seqno < 2 ^ 32
     \<and> log_word kMaxLineLen (lm_build_id m) \<and> log_word kMaxLineLen (lm_name m) \<and> log_word kMaxLineLen (lm_so_name m)
     \<and> (\<forall>l \<in> set (trace_lines pfx seqno m). take 1 l \<noteq> ''#'' \<and> \<not> strstr l ''welcome to lk/MP''
          \<and> CHR 0x00 \<notin> set l \<and> CHR ''\<newline>'' \<notin> set l)"

lemma load_line_record:
  assumes "take 1 l \<noteq> ''#''" "\<not> strstr l ''welcome to lk/MP''" "CHR 0x00 \<notin> set l" "CHR ''\<newline>'' \<notin> set l"
  shows "load_line (l @ ''\<newline>'') st = load_record l st"
proof -
  have "c_text (l @ ''\<newline>'') = l @ ''\<newline>''" using assms(3) by (intro c_text_id) simp
  moreover have "l \<noteq> ''\<newline>''" using assms(4) by auto
  ultimately show ?thesis using assms(1,2) by (simp add: load_line_def Let_def)
qed

lemma load_trace_lines:
  assumes "log_entry pfx seqno m" "map_data (GET_ENTRY_ID (lm_pid m) seqno) = None"
  shows "load_lines (map (\<lambda>l. l @ ''\<newline>'') (trace_lines pfx seqno m)) (map_data, maps) =
    Some (map_data(GET_ENTRY_ID (lm_pid m) seqno \<mapsto> m), maps @ [m])"
proof -
  have l: "load_line (l @ ''\<newline>'') st = load_record l st" if "l \<in> set (trace_lines pfx seqno m)" for l st
    using that assms(1) by (intro load_line_record) (auto simp: log_entry_def)
  show ?thesis
    using assms l unfolding log_entry_def trace_lines_def
    by (cases m) (simp add: load_record_a load_record_b load_record_c AddLoadMap_def)
qed

lemma load_lines_append: "load_lines (xs @ ys) st = load_lines xs st \<bind> load_lines ys"
proof (induction xs arbitrary: st)
  case (Cons x xs)
  then show ?case by (cases "load_line x st") simp_all
qed simp

text \<open>The log of several files, each with its prefix and its sequence number.\<close>

definition log_id :: "string \<times> u64 \<times> LoadMap \<Rightarrow> u64" where
  "log_id e = GET_ENTRY_ID (lm_pid (snd (snd e))) (fst (snd e))"

definition log_lines :: "(string \<times> u64 \<times> LoadMap) list \<Rightarrow> string list" where
  "log_lines entries = concat (map (\<lambda>(pfx, seqno, m). trace_lines pfx seqno m) entries)"

definition log_text :: "(string \<times> u64 \<times> LoadMap) list \<Rightarrow> string" where
  "log_text entries = concat (map (\<lambda>l. l @ ''\<newline>'') (log_lines entries))"

lemma load_log_lines:
  assumes "\<forall>(pfx, seqno, m) \<in> set entries. log_entry pfx seqno m" "distinct (map log_id entries)"
    "\<forall>e \<in> set entries. map_data (log_id e) = None"
  shows "\<exists>map_data'. load_lines (map (\<lambda>l. l @ ''\<newline>'') (log_lines entries)) (map_data, maps) =
    Some (map_data', maps @ map (snd \<circ> snd) entries)"
  using assms
proof (induction entries arbitrary: map_data maps)
  case (Cons e entries)
  obtain pfx seqno m where e: "e = (pfx, seqno, m)" by (cases e)
  define md where "md = map_data(log_id e \<mapsto> m)"
  have i: "GET_ENTRY_ID (lm_pid m) seqno = log_id e" by (simp add: e log_id_def)
  have "log_entry pfx seqno m" "map_data (GET_ENTRY_ID (lm_pid m) seqno) = None"
    using Cons.prems(1,3) unfolding i by (auto simp: e)
  then have "load_lines (map (\<lambda>l. l @ ''\<newline>'') (trace_lines pfx seqno m)) (map_data, maps) = Some (md, maps @ [m])"
    using load_trace_lines [of pfx seqno m map_data maps] by (simp add: i md_def)
  moreover have "log_id d \<noteq> log_id e" if "d \<in> set entries" for d
    using Cons.prems(2) imageI [OF that, of log_id] by auto
  then have "\<forall>d \<in> set entries. md (log_id d) = None" using Cons.prems(3) by (simp add: md_def)
  ultimately show ?case using Cons.IH [of md "maps @ [m]"] Cons.prems
    by (auto simp: log_lines_def e load_lines_append)
qed (simp add: log_lines_def)

text \<open>
  C22: reading a log in which every loaded file has its three records, with ids of their own, adds exactly these files to
  the load map table, in the order of the log, and reports success.
\<close>

theorem ReadLogListenerOutput_roundtrip:
  assumes "px_fopen P path f = Some (log_text entries, True)" "px_malloc P (of_nat kMaxLineLen)"
    "\<forall>(pfx, seqno, m) \<in> set entries. log_entry pfx seqno m" "distinct (map log_id entries)"
  shows "ReadLogListenerOutput P path f maps = Some (True, maps @ map (snd \<circ> snd) entries)"
proof -
  have "\<forall>l \<in> set (log_lines entries). CHR ''\<newline>'' \<notin> set l"
    using assms(3) by (fastforce simp: log_lines_def log_entry_def)
  then have "text_lines (log_text entries) = map (\<lambda>l. l @ ''\<newline>'') (log_lines entries)"
    unfolding log_text_def by (rule text_lines_concat)
  then show ?thesis using assms(1,2) load_log_lines [OF assms(3,4), of Map.empty maps]
    by (auto simp: ReadLogListenerOutput_def)
qed

definition demo_map :: LoadMap where
  "demo_map = \<lparr>lm_pid = 7, lm_base_addr = 1, lm_load_addr = 2, lm_end_addr = 5,
     lm_name = ''/ls'', lm_so_name = ''ls'', lm_build_id = ''ab1''\<rparr>"

lemma demo_log_entry: "log_entry ''[1] '' 7 demo_map"
  by (simp add: log_entry_def log_prefix_def log_word_def kMaxLineLen_def demo_map_def trace_lines_def trace_line_def
      hex_field_def nat_string.simps digit_char_def isspace_def byte_of_def, simp add: char_of_def)

theorem ReadLogListenerOutput_roundtrip_witness:
  "ReadLogListenerOutput ref_posix ''log''
     \<lparr>fs_files = [(''log'', map byte_of (log_text [(''[1] '', 7, demo_map)]))], fs_fds = [], fs_next = 3, fs_maps = []\<rparr> []
   = Some (True, [demo_map])"
  by (subst ReadLogListenerOutput_roundtrip [where entries = "[(''[1] '', 7, demo_map)]"])
    (simp_all add: ref_posix_def demo_log_entry comp_def)

text \<open>A reboot in the log empties the table: what was loaded before is forgotten.\<close>

lemma reboot_clears: "load_line ''welcome to lk/MP\<newline>'' st = Some (Map.empty, [])"
proof -
  have "c_text ''welcome to lk/MP\<newline>'' = ''welcome to lk/MP\<newline>''" by (intro c_text_id) simp
  then show ?thesis by (simp add: load_line_def strip_newline_def LoadMapTable_Clear_def)
qed

text \<open>A line without \<^verbatim>\<open>@\<close> that is longer than the buffer for its first field is stored over the buffer's end.\<close>

lemma long_line_overflows:
  assumes "length l \<ge> kMaxLineLen" "set l \<subseteq> {CHR ''x''}"
  shows "load_line (l @ ''\<newline>'') st = None"
proof -
  have c: "\<forall>c \<in> set l. c \<noteq> CHR ''@''" "CHR ''#'' \<notin> set l" "CHR ''\<newline>'' \<notin> set l" "CHR 0x00 \<notin> set l"
    and w: "CHR ''w'' \<notin> set l" using assms(2) by auto
  have "l \<noteq> []" using assms(1) by (auto simp: kMaxLineLen_def)
  then have "take 1 l \<noteq> ''#''" using c(2) by (cases l) auto
  moreover have "\<not> strstr l ''welcome to lk/MP''" using w by (induction l) auto
  ultimately have "load_line (l @ ''\<newline>'') st = load_record l st" using c by (intro load_line_record) auto
  moreover have "sscanf l format_a = None"
    using c(1) assms(1) \<open>l \<noteq> []\<close>
    by (simp add: format_a_def trace_load_prefix_def sscanf_convs store_string_def takeWhile_eq_all_conv [THEN iffD2])
  ultimately show ?thesis by (simp add: load_record_def)
qed

section \<open>The buffer of \<^verbatim>\<open>getline\<close>\<close>

text \<open>What \<^verbatim>\<open>getline\<close> promises of the buffer it keeps for the next call: it holds the line and it does not shrink.\<close>

locale getline_buffer =
  fixes P :: "'f posix"
  assumes room_need: "need \<le> px_getline_room P old need"
    and room_old: "old \<le> px_getline_room P old need"
begin

lemma word_fits: "length s < cap \<Longrightarrow> scan_conv (S_Str cap) s \<noteq> None"
proof -
  assume "length s < cap"
  moreover have "length (takeWhile (\<lambda>c. \<not> isspace c) (dropWhile isspace s)) \<le> length s"
    by (meson length_dropWhile_le length_takeWhile_le order_trans)
  ultimately show ?thesis by (simp add: store_string_def Let_def)
qed

lemma word_rest: "scan_conv (S_Str cap) s = Some (Some (v, rest)) \<Longrightarrow> length rest \<le> length s"
  by (auto simp: store_string_def Let_def split: if_splits)
    (meson length_dropWhile_le order_trans)

lemma two_words_fit:
  assumes "length s < cap"
  shows "sscanf s [S_Str cap, S_Space, S_Str cap] \<noteq> None"
proof (cases "scan_conv (S_Str cap) s")
  case (Some r)
  show ?thesis
  proof (cases r)
    case (Some vr)
    obtain v rest where vr: "vr = (v, rest)" by (cases vr)
    have "length (dropWhile isspace rest) < cap"
      using word_rest [of cap s v rest] \<open>scan_conv (S_Str cap) s = Some r\<close> Some vr assms
      by (metis le_less_trans length_dropWhile_le)
    then obtain r2 where "scan_conv (S_Str cap) (dropWhile isspace rest) = Some r2" using word_fits by blast
    then show ?thesis using \<open>scan_conv (S_Str cap) s = Some r\<close> Some vr
      by (simp add: sscanf_convs del: scan_conv.simps split: option.splits prod.splits)
  qed (use \<open>scan_conv (S_Str cap) s = Some r\<close> in \<open>simp add: sscanf_convs del: scan_conv.simps\<close>)
qed (use word_fits assms in blast)

lemma ids_lines_total: "ids_lines P path ls linelen ids \<noteq> None"
proof (induction ls arbitrary: linelen ids)
  case (Cons l ls)
  let ?cap = "px_getline_room P linelen (Suc (length l))"
  have "length (strip_newline (c_text l)) \<le> length l"
    by (auto simp: strip_newline_def c_text_def length_takeWhile_le intro: le_trans [OF diff_le_self])
  then have "length (strip_newline (c_text l)) < ?cap" using room_need [of "Suc (length l)" linelen] by linarith
  from two_words_fit [OF this] have "ids_line P path l ?cap ids \<noteq> None" by (auto simp: ids_line_def Let_def)
  then show ?case using Cons by (auto simp: Let_def)
qed simp

lemma ids_lines_full: "linelen > MAX_LINE_LEN \<Longrightarrow> ids_lines P path ls linelen ids = Some ids"
proof (induction ls arbitrary: linelen)
  case (Cons l ls)
  then have "px_getline_room P linelen (Suc (length l)) > MAX_LINE_LEN"
    using room_old [of linelen "Suc (length l)"] by linarith
  then show ?case using Cons.IH by (simp add: ids_line_def Let_def)
qed simp

lemma ids_lines_after_long:
  assumes "length l \<ge> MAX_LINE_LEN"
  shows "ids_lines P path (ls @ l # ls') linelen ids = ids_lines P path ls linelen ids"
proof (induction ls arbitrary: linelen ids)
  case Nil
  have "px_getline_room P linelen (Suc (length l)) > MAX_LINE_LEN"
    using room_need [of "Suc (length l)" linelen] assms by linarith
  then show ?case by (simp add: ids_line_def Let_def ids_lines_full)
next
  case (Cons x xs)
  then show ?case
    by (cases "ids_line P path x (px_getline_room P linelen (Suc (length x))) ids") (simp_all add: Let_def)
qed

end

interpretation ref_getline: getline_buffer ref_posix
  by unfold_locales (simp_all add: ref_posix_def)

text \<open>
  C32: reading the build ids never stores a string over the end of its buffer, whatever the file holds; but the check of a
  line's length looks at the capacity of the buffer, so that after one line of 1024 characters
  every later line of the file is ignored.
\<close>

theorem ReadIdsFile_long_line:
  assumes "getline_buffer P"
  shows "ReadIdsFile P path f ids \<noteq> None \<and>
    (\<forall>ls l ls' text. length l \<ge> MAX_LINE_LEN \<longrightarrow> px_fopen P path f = Some (text, True) \<longrightarrow>
       text_lines text = ls @ l # ls' \<longrightarrow>
       ReadIdsFile P path f ids = map_option (\<lambda>ids. (True, ids)) (ids_lines P path ls 0 ids))"
proof (intro conjI allI impI)
  show "ReadIdsFile P path f ids \<noteq> None"
  proof (cases "px_fopen P path f")
    case (Some s)
    obtain ids' where "ids_lines P path (text_lines (fst s)) 0 ids = Some ids'"
      using getline_buffer.ids_lines_total [OF assms] by blast
    then show ?thesis using Some by (cases s) (simp add: ReadIdsFile_def)
  qed (simp add: ReadIdsFile_def)
  fix ls l ls' cs
  assume "length l \<ge> MAX_LINE_LEN" "px_fopen P path f = Some (cs, True)" "text_lines cs = ls @ l # ls'"
  then show "ReadIdsFile P path f ids = map_option (\<lambda>ids. (True, ids)) (ids_lines P path ls 0 ids)"
    using getline_buffer.ids_lines_after_long [OF assms]
    by (cases "ids_lines P path ls 0 ids") (simp_all add: ReadIdsFile_def)
qed

theorem ReadIdsFile_long_line_witness:
  "ReadIdsFile ref_posix ''d/ids.txt''
     \<lparr>fs_files = [(''d/ids.txt'', map byte_of (''a b\<newline>'' @ replicate MAX_LINE_LEN (CHR ''x'') @ ''\<newline>c d\<newline>''))],
      fs_fds = [], fs_next = 3, fs_maps = []\<rparr> [] =
   Some (True, [\<lparr>bid_build_id = ''a'', bid_file = ''/d/b''\<rparr>])"
proof -
  let ?x = "replicate MAX_LINE_LEN (CHR ''x'')" and ?p = "''d/ids.txt''"
  let ?text = "''a b\<newline>'' @ ?x @ ''\<newline>c d\<newline>''"
  let ?f = "\<lparr>fs_files = [(?p, map byte_of ?text)], fs_fds = [], fs_next = 3, fs_maps = []\<rparr>"
  have "CHR ''\<newline>'' \<notin> set ?x" by simp
  from text_lines_line [OF this, of "''c d\<newline>''"]
  have "text_lines ?text = [''a b\<newline>''] @ (?x @ ''\<newline>'') # [''c d\<newline>'']" by simp
  moreover have "px_fopen ref_posix ?p ?f = Some (?text, True)" by (simp add: ref_posix_def comp_def)
  moreover have "MAX_LINE_LEN \<le> length (?x @ ''\<newline>'')" by simp
  ultimately have "ReadIdsFile ref_posix ?p ?f [] =
      map_option (\<lambda>ids. (True, ids)) (ids_lines ref_posix ?p [''a b\<newline>''] 0 [])"
    using ReadIdsFile_long_line [OF ref_getline.getline_buffer_axioms, of ?p ?f "[]"] by blast
  moreover have "\<not> isspace (CHR ''a'')" "\<not> isspace (CHR ''b'')" by (simp_all add: isspace_def byte_of_def)
  ultimately show ?thesis
    by (simp add: ids_line_def strip_newline_def c_text_def MAX_LINE_LEN_def sscanf_convs store_string_def
        AddBuildId_def absolute_def ref_posix_def Let_def)
qed

end
