(* ===== verification/Ktrace.thy ===== *)
theory Ktrace
  imports Files
begin

text \<open>
  The reader of ktrace files, \<^verbatim>\<open>lib/debugger-utils/ktrace-reader.{h,cc}\<close>.  The record format comes from the kernel's headers
  (\<^verbatim>\<open>magenta/ktrace.h\<close>), which are not part of the repository: the size of a header, the offsets of the fields, the
  length that a tag encodes and the tags are the record \<open>KT\<close>.
\<close>

section \<open>Definitions\<close>

record ktrace_format =
  kt_header_size :: nat
  kt_LEN :: "u32 \<Rightarrow> u32"
  kt_tag_at :: nat
  kt_ts_at :: nat
  kt_a_at :: nat
  kt_b_at :: nat
  kt_c_at :: nat
  kt_d_at :: nat
  TAG_IPT_START :: u32
  TAG_IPT_CPU_INFO :: u32
  TAG_IPT_STOP :: u32
  TAG_IPT_PROCESS_CREATE :: u32
  TAG_PROC_EXIT :: u32
  kt_names :: "(u32 \<times> string) list"

text \<open>The union \<^verbatim>\<open>KtraceRecord\<close>: 256 bytes, \<open>None\<close> where nothing was stored yet.\<close>

type_synonym KtraceRecord = "u8 option list"

definition KtraceRecord_new :: KtraceRecord where
  "KtraceRecord_new = replicate 256 None"

definition store_raw :: "KtraceRecord \<Rightarrow> nat \<Rightarrow> u8 list \<Rightarrow> KtraceRecord option" where
  "store_raw raw off bytes =
     do {
       dcheck (off + length bytes \<le> length raw);
       Some (take off raw @ map Some bytes @ drop (off + length bytes) raw)
     }"

definition rec_field :: "KtraceRecord \<Rightarrow> nat \<Rightarrow> nat \<Rightarrow> u64 option" where
  "rec_field raw off n =
     do {
       let bytes = take n (drop off raw);
       dcheck (length bytes = n \<and> None \<notin> set bytes);
       Some (le_word (map the bytes))
     }"

definition rec_u32 :: "KtraceRecord \<Rightarrow> nat \<Rightarrow> u32 option" where
  "rec_u32 raw off = map_option ucast (rec_field raw off 4)"

definition rec_tag :: "ktrace_format \<Rightarrow> KtraceRecord \<Rightarrow> u32 option" where
  "rec_tag KT raw = rec_u32 raw (kt_tag_at KT)"

definition rec_ts :: "ktrace_format \<Rightarrow> KtraceRecord \<Rightarrow> u64 option" where
  "rec_ts KT raw = rec_field raw (kt_ts_at KT) 8"

partial_function (option) ReadFile_loop ::
  "ktrace_format \<Rightarrow> 'f posix \<Rightarrow> int \<Rightarrow> (KtraceRecord \<Rightarrow> 's \<Rightarrow> (int \<times> 's) option) \<Rightarrow> KtraceRecord \<Rightarrow> 's \<Rightarrow> 'f \<Rightarrow>
     (int \<times> 's \<times> 'f) option" where
  "ReadFile_loop KT OS fd reader rec s f =
     (case px_read OS fd (kt_header_size KT) f of
        (n, bytes, f) \<Rightarrow>
          do {
            rec \<leftarrow> store_raw rec 0 bytes;
            if n \<noteq> int (kt_header_size KT) then Some (0, s, f)
            else do {
              tag \<leftarrow> rec_tag KT rec;
              let len = unat (kt_LEN KT tag);
              if tag = 0 then Some (0, s, f)
              else if len < kt_header_size KT then Some (0, s, f)
              else case px_read OS fd (len - kt_header_size KT) f of
                (m, bytes, f) \<Rightarrow>
                  do {
                    rec \<leftarrow> store_raw rec (kt_header_size KT) bytes;
                    if m \<noteq> int (len - kt_header_size KT) then Some (0, s, f)
                    else do {
                      (rc, s) \<leftarrow> reader rec s;
                      if rc \<noteq> 0 then Some (rc, s, f)
                      else ReadFile_loop KT OS fd reader rec s f
                    }
                  }
            }
          })"

definition ReadFile ::
  "ktrace_format \<Rightarrow> 'f posix \<Rightarrow> int \<Rightarrow> (KtraceRecord \<Rightarrow> 's \<Rightarrow> (int \<times> 's) option) \<Rightarrow> 's \<Rightarrow> 'f \<Rightarrow> (int \<times> 's \<times> 'f) option" where
  "ReadFile KT P fd reader s f = ReadFile_loop KT P fd reader KtraceRecord_new s f"

text \<open>\<open>kt_names\<close> is the table of \<^verbatim>\<open>magenta/ktrace-def.h\<close>, by the tag with length 0.\<close>

definition RecName :: "ktrace_format \<Rightarrow> u32 \<Rightarrow> string" where
  "RecName KT tag =
     (case map_of (kt_names KT) (tag AND 0xffffff00) of
        None \<Rightarrow> ''UNKNOWN''
      | Some name \<Rightarrow> name)"

lemma ReadFile_loop_inv:
  "ReadFile_loop KT P fd reader rec s f = Some r \<Longrightarrow>
    (\<forall>rec s. I s \<longrightarrow> post (\<lambda>(rc, s'). I s') (reader rec s)) \<longrightarrow> I s \<longrightarrow> I (fst (snd r))"
proof (rule ReadFile_loop.raw_induct [where P = "\<lambda>KT P fd reader rec s f r.
      (\<forall>rec s. I s \<longrightarrow> post (\<lambda>(rc, s'). I s') (reader rec s)) \<longrightarrow> I s \<longrightarrow> I (fst (snd r))"], goal_cases)
  case (1 loop KT P fd reader rec s f r)
  have reader: "I s'" if "\<forall>rec s. I s \<longrightarrow> post (\<lambda>(rc, s'). I s') (reader rec s)" "I s" "reader rec s = Some (rc, s')"
    for rec s rc s' using that by (auto simp: post_def)
  show ?case
    using 1(3) by (auto simp: Let_def split: Option.bind_splits if_splits prod.splits dest: 1(2) intro: reader)
qed simp_all

section \<open>Files that are read in sequence\<close>

text \<open>\<open>left f\<close> are the bytes that the descriptor has not delivered; a read delivers the next ones.\<close>

locale sequential_file =
  fixes P :: "'f posix" and fd :: int and opened :: "'f \<Rightarrow> bool" and left :: "'f \<Rightarrow> u8 list"
  assumes read_next: "opened f \<Longrightarrow>
      \<exists>f'. px_read P fd n f = (int (length (take n (left f))), take n (left f), f')
        \<and> opened f' \<and> left f' = drop n (left f)"

text \<open>A record as it is in the file, and the calls that a sequence of them is to give.\<close>

definition whole_record :: "ktrace_format \<Rightarrow> u8 list \<Rightarrow> bool" where
  "whole_record KT r \<longleftrightarrow>
     kt_header_size KT \<le> length r \<and> length r \<le> 256 \<and> kt_tag_at KT + 4 \<le> kt_header_size KT
     \<and> (let tag = ucast (le_word (take 4 (drop (kt_tag_at KT) r)) :: u64) :: u32
        in tag \<noteq> 0 \<and> unat (kt_LEN KT tag) = length r)"

fun deliver :: "(KtraceRecord \<Rightarrow> 's \<Rightarrow> (int \<times> 's) option) \<Rightarrow> KtraceRecord \<Rightarrow> 's \<Rightarrow> u8 list list \<Rightarrow> (int \<times> 's) option" where
  "deliver reader rec s [] = Some (0, s)"
| "deliver reader rec s (r # rs) =
     do {
       let rec = map Some r @ drop (length r) rec;
       (rc, s) \<leftarrow> reader rec s;
       if rc \<noteq> 0 then Some (rc, s) else deliver reader rec s rs
     }"

lemma store_raw_start: "length r \<le> length rec \<Longrightarrow> store_raw rec 0 r = Some (map Some r @ drop (length r) rec)"
  by (simp add: store_raw_def)

lemma store_raw_rest:
  assumes "length r \<le> length rec" "h \<le> length r"
  shows "store_raw (map Some (take h r) @ drop h rec) h (drop h r) = Some (map Some r @ drop (length r) rec)"
proof -
  have "map Some r = map Some (take h r) @ map Some (drop h r)" by (metis append_take_drop_id map_append)
  then show ?thesis using assms by (simp add: store_raw_def min_def)
qed

lemma rec_tag_start:
  assumes "kt_tag_at KT + 4 \<le> h" "h \<le> length r"
  shows "rec_tag KT (map Some (take h r) @ rec) = Some (ucast (le_word (take 4 (drop (kt_tag_at KT) r)) :: u64))"
proof -
  have "take 4 (drop (kt_tag_at KT) (map Some (take h r) @ rec)) = map Some (take 4 (drop (kt_tag_at KT) r))"
    using assms by (simp add: take_map drop_map drop_take)
  then show ?thesis using assms by (simp add: rec_tag_def rec_u32_def rec_field_def Let_def comp_def)
qed

context sequential_file
begin

lemma loop_record:
  assumes "opened f" "left f = r @ later" "whole_record KT r" "length rec = 256"
  shows "\<exists>f'. opened f' \<and> left f' = later \<and>
    ReadFile_loop KT P fd reader rec s f =
      (do {
         (rc, s) \<leftarrow> reader (map Some r @ drop (length r) rec) s;
         if rc \<noteq> 0 then Some (rc, s, f')
         else ReadFile_loop KT P fd reader (map Some r @ drop (length r) rec) s f'
       })"
proof -
  let ?h = "kt_header_size KT" and ?tag = "ucast (le_word (take 4 (drop (kt_tag_at KT) r)) :: u64) :: u32"
  have w: "?h \<le> length r" "length r \<le> 256" "kt_tag_at KT + 4 \<le> ?h" "?tag \<noteq> 0" "unat (kt_LEN KT ?tag) = length r"
    using assms(3) by (simp_all add: whole_record_def Let_def)
  obtain f1 where f1: "px_read P fd ?h f = (int ?h, take ?h r, f1)" "opened f1" "left f1 = drop ?h r @ later"
    using read_next [OF assms(1), of ?h] w(1) assms(2) by auto
  obtain f2 where f2: "px_read P fd (length r - ?h) f1 = (int (length r - ?h), drop ?h r, f2)" "opened f2" "left f2 = later"
    using read_next [OF f1(2), of "length r - ?h"] f1(3) by auto
  have "store_raw rec 0 (take ?h r) = Some (map Some (take ?h r) @ drop ?h rec)"
    using store_raw_start [of "take ?h r" rec] w assms(4) by (simp add: min_def)
  then show ?thesis
    using f2(2,3) w assms(4) rec_tag_start [OF w(3,1)] store_raw_rest [of r rec ?h]
    by (subst ReadFile_loop.simps) (auto simp: f1(1) f2(1) Let_def)
qed

text \<open>A record that is longer than the buffer is stored over its end.\<close>

lemma loop_overflow:
  assumes "opened f" "left f = r @ later" "256 < length r" "length rec = 256" "kt_header_size KT \<le> 256"
    "kt_tag_at KT + 4 \<le> kt_header_size KT"
    "ucast (le_word (take 4 (drop (kt_tag_at KT) r)) :: u64) \<noteq> (0 :: u32)"
    "unat (kt_LEN KT (ucast (le_word (take 4 (drop (kt_tag_at KT) r)) :: u64))) = length r"
  shows "ReadFile_loop KT P fd reader rec s f = None"
proof -
  let ?h = "kt_header_size KT"
  obtain f1 where f1: "px_read P fd ?h f = (int ?h, take ?h r, f1)" "opened f1" "left f1 = drop ?h r @ later"
    using read_next [OF assms(1), of ?h] assms(2,3,5) by auto
  obtain f2 where f2: "px_read P fd (length r - ?h) f1 = (int (length r - ?h), drop ?h r, f2)"
    using read_next [OF f1(2), of "length r - ?h"] f1(3) by auto
  have "store_raw rec 0 (take ?h r) = Some (map Some (take ?h r) @ drop ?h rec)"
    using store_raw_start [of "take ?h r" rec] assms by (simp add: min_def)
  moreover have "rec_tag KT (map Some (take ?h r) @ drop ?h rec) =
      Some (ucast (le_word (take 4 (drop (kt_tag_at KT) r)) :: u64))"
    using assms(3,5,6) by (intro rec_tag_start) simp_all
  ultimately show ?thesis using assms
    by (subst ReadFile_loop.simps) (simp add: f1(1) f2 Let_def store_raw_def)
qed

lemma loop_end:
  assumes "opened f" "length (left f) < kt_header_size KT" "length (left f) \<le> 256" "length rec = 256"
  shows "\<exists>f'. ReadFile_loop KT P fd reader rec s f = Some (0, s, f')"
proof -
  obtain f1 where "px_read P fd (kt_header_size KT) f = (int (length (left f)), left f, f1)"
    using read_next [OF assms(1), of "kt_header_size KT"] assms(2) by auto
  then show ?thesis using assms store_raw_start [of "left f" rec]
    by (subst ReadFile_loop.simps) auto
qed

lemma loop_delivers:
  assumes "opened f" "left f = concat rs @ end_bytes" "\<forall>r \<in> set rs. whole_record KT r" "length rec = 256"
    "length end_bytes < kt_header_size KT" "kt_header_size KT \<le> 256"
  shows "map_option (\<lambda>(rc, s, f). (rc, s)) (ReadFile_loop KT P fd reader rec s f) = deliver reader rec s rs"
  using assms
proof (induction rs arbitrary: rec s f)
  case Nil
  then show ?case using loop_end [of f KT rec reader s] by force
next
  case (Cons r rs)
  let ?rec = "map Some r @ drop (length r) rec"
  obtain f' where f': "opened f'" "left f' = concat rs @ end_bytes"
    "ReadFile_loop KT P fd reader rec s f =
      (do { (rc, s) \<leftarrow> reader ?rec s; if rc \<noteq> 0 then Some (rc, s, f') else ReadFile_loop KT P fd reader ?rec s f' })"
    using loop_record [of f r "concat rs @ end_bytes" KT rec reader s] Cons.prems by auto
  have "length ?rec = 256" using Cons.prems(3,4) by (simp add: whole_record_def)
  moreover have "\<forall>r \<in> set rs. whole_record KT r" using Cons.prems(3) by simp
  ultimately have "map_option (\<lambda>(rc, s, f). (rc, s)) (ReadFile_loop KT P fd reader ?rec s' f') = deliver reader ?rec s' rs" for s'
    using Cons.IH [OF f'(1,2)] Cons.prems(5,6) by blast
  then show ?case by (cases "reader ?rec s") (auto simp: f'(3))
qed

end

interpretation ref_sequential: sequential_file ref_posix fd "\<lambda>f. fs_view f fd \<noteq> None"
  "\<lambda>f. drop (fs_pos f fd) (the (fs_view f fd))" for fd
proof
  fix f n assume "fs_view f fd \<noteq> None"
  then obtain bs where v: "fs_view f fd = Some bs" by blast
  let ?got = "take n (drop (fs_pos f fd) bs)"
  have "drop (fs_pos f fd + length ?got) bs = drop n (drop (fs_pos f fd) bs)"
    by (simp add: min_def add.commute)
  moreover have "fs_pos (fs_seek fd (fs_pos f fd + length ?got) f) fd = fs_pos f fd + length ?got"
    by (rule fs_pos_seek) (simp add: v)
  ultimately show "\<exists>f'. px_read ref_posix fd n f =
      (int (length (take n (drop (fs_pos f fd) (the (fs_view f fd))))), take n (drop (fs_pos f fd) (the (fs_view f fd))), f')
      \<and> fs_view f' fd \<noteq> None
      \<and> drop (fs_pos f' fd) (the (fs_view f' fd)) = drop n (drop (fs_pos f fd) (the (fs_view f fd)))"
    by (intro exI [of _ "fs_seek fd (fs_pos f fd + length ?got) f"]) (simp add: fs_read_def v Let_def)
qed

text \<open>
  C24: from a file that consists of whole records of at most 256 bytes, followed by less than a header, the reader function is
  called with each record in order, on top of what earlier records left in the buffer, until it returns a nonzero
  code, which is then the result.
\<close>

theorem ReadFile_delivers:
  assumes "sequential_file P fd opened left" "opened f" "left f = concat rs @ end_bytes"
    "\<forall>r \<in> set rs. whole_record KT r" "length end_bytes < kt_header_size KT" "kt_header_size KT \<le> 256"
  shows "map_option (\<lambda>(rc, s, f). (rc, s)) (ReadFile KT P fd reader s f) = deliver reader KtraceRecord_new s rs"
  unfolding ReadFile_def
  by (rule sequential_file.loop_delivers [OF assms(1-4) _ assms(5,6)]) (simp add: KtraceRecord_new_def)

text \<open>The layout of the kernel's headers: a tag gives the length in units of 8 bytes.\<close>

definition magenta_ktrace :: ktrace_format where
  "magenta_ktrace =
     \<lparr>kt_header_size = 16, kt_LEN = (\<lambda>tag. push_bit 3 (tag AND 0xff)), kt_tag_at = 0, kt_ts_at = 8,
      kt_a_at = 16, kt_b_at = 20, kt_c_at = 24, kt_d_at = 28,
      TAG_IPT_START = 0x0a001004, TAG_IPT_CPU_INFO = 0x0a002004, TAG_IPT_STOP = 0x0a003004,
      TAG_IPT_PROCESS_CREATE = 0x0a004004, TAG_PROC_EXIT = 0x0a005004, kt_names = []\<rparr>"

definition count_records :: "KtraceRecord \<Rightarrow> nat \<Rightarrow> (int \<times> nat) option" where
  "count_records rec n = Some (0, Suc n)"

theorem ReadFile_delivers_witness:
  "map_option (\<lambda>(rc, s, f). (rc, s)) (ReadFile magenta_ktrace ref_posix 3 count_records 0
     \<lparr>fs_files = [(''k'', [2, 1, 0, 0, 7, 0, 0, 0, 9, 0, 0, 0, 0, 0, 0, 0, 1])], fs_fds = [(3, ''k'', 0)], fs_next = 4,
      fs_maps = []\<rparr>) = Some (0, 1)"
  by (subst ReadFile_delivers [OF ref_sequential.sequential_file_axioms,
        where rs = "[[2, 1, 0, 0, 7, 0, 0, 0, 9, 0, 0, 0, 0, 0, 0, 0]]" and end_bytes = "[1]"])
    (simp_all add: fs_view_def fs_pos_def magenta_ktrace_def whole_record_def count_records_def Let_def)

end
