(* ===== verification/Decoder.thy ===== *)
theory Decoder
  imports Simple_Pt Load_Maps Ktrace
begin

text \<open>
  The decoder's state, \<^verbatim>\<open>lib/intel-pt-decode/decoder.{h,cc}\<close>, and the sideband data it is built from,
  \<^verbatim>\<open>lib/intel-pt-decode/sideband.cc\<close>: the processes of the trace, their load maps and build ids, the trace files and the
  symbol tables.  \<open>C\<close> collects the environment: the C library, the operating system, libipt and the ktrace format.
\<close>

section \<open>Definitions\<close>

record 'f dump_env =
  de_libc :: libc
  de_posix :: "'f posix"
  de_ipt :: "'f libipt"
  de_ktrace :: ktrace_format

record DecoderConfig =
  dc_kernel_file_name :: string
  dc_kernel_cr3 :: u64
  dc_pt_file_name :: string
  dc_pt_list_file_name :: string
  dc_ktrace_file_name :: string
  dc_elf_file_names :: "string list"
  dc_ids_file_names :: "string list"
  dc_map_file_names :: "string list"

definition DecoderConfig_new :: "'f libipt \<Rightarrow> DecoderConfig" where
  "DecoderConfig_new T =
     \<lparr>dc_kernel_file_name = '''', dc_kernel_cr3 = lp_no_cr3 T, dc_pt_file_name = '''', dc_pt_list_file_name = '''',
      dc_ktrace_file_name = '''', dc_elf_file_names = [], dc_ids_file_names = [], dc_map_file_names = []\<rparr>"

record pt_process =
  pr_pid :: u64
  pr_cr3 :: u64
  pr_start_time :: u64
  pr_end_time :: u64

record PtFile =
  pf_id :: u64
  pf_file :: string

definition kIdUnset :: u64 where "kIdUnset = NOT 0"

record DecoderState =
  ds_config :: pt_config
  ds_image :: u64
  ds_decoder :: u64
  ds_kernel_cr3 :: u64
  ds_processes :: "pt_process list"
  ds_load_maps :: map_table
  ds_build_ids :: "BuildId list"
  ds_pt_files :: "PtFile list"
  ds_unknown_cr3s :: "u64 set"
  ds_symtabs :: "pt_table list"

definition DecoderState_new :: "'f libipt \<Rightarrow> DecoderState" where
  "DecoderState_new T =
     \<lparr>ds_config = lp_config_init T, ds_image = 0, ds_decoder = 0, ds_kernel_cr3 = lp_no_cr3 T, ds_processes = [],
      ds_load_maps = [], ds_build_ids = [], ds_pt_files = [], ds_unknown_cr3s = {}, ds_symtabs = []\<rparr>"

subsection \<open>Lookup\<close>

definition LookupProcessByPid :: "u64 \<Rightarrow> DecoderState \<Rightarrow> pt_process option" where
  "LookupProcessByPid pid d = find (\<lambda>p. pr_pid p = pid) (ds_processes d)"

fun process_by_cr3 :: "u64 \<Rightarrow> nat \<Rightarrow> u64 \<Rightarrow> pt_process list \<Rightarrow> pt_process option" where
  "process_by_cr3 no_cr3 n cr3 [] = None"
| "process_by_cr3 no_cr3 n cr3 (p # ps) =
     (if pr_cr3 p = cr3 then Some p
      else if cr3 = no_cr3 \<and> n = 1 then Some p
      else process_by_cr3 no_cr3 n cr3 ps)"

definition LookupProcessByCr3 :: "'f libipt \<Rightarrow> u64 \<Rightarrow> DecoderState \<Rightarrow> pt_process option" where
  "LookupProcessByCr3 T cr3 d = process_by_cr3 (lp_no_cr3 T) (length (ds_processes d)) cr3 (ds_processes d)"

definition LookupMapEntry :: "u64 \<Rightarrow> u64 \<Rightarrow> DecoderState \<Rightarrow> LoadMap option" where
  "LookupMapEntry pid addr d = LookupLoadMap pid addr (ds_load_maps d)"

definition Decoder_LookupBuildId :: "string \<Rightarrow> DecoderState \<Rightarrow> BuildId option" where
  "Decoder_LookupBuildId bid d = LookupBuildId bid (ds_build_ids d)"

definition LookupFile :: "string \<Rightarrow> string" where
  "LookupFile file_name = file_name"

definition Decoder_FindSymbolTable :: "'f dump_env \<Rightarrow> u64 \<Rightarrow> u64 \<Rightarrow> DecoderState \<Rightarrow> pt_table option" where
  "Decoder_FindSymbolTable C cr3 pc d = FindSymbolTable (de_ipt C) (ds_symtabs d) cr3 pc"

definition Decoder_FindSymbol :: "'f dump_env \<Rightarrow> u64 \<Rightarrow> u64 \<Rightarrow> DecoderState \<Rightarrow> Symbol option \<times> pt_table option" where
  "Decoder_FindSymbol C cr3 pc d = tables_FindSymbol (de_libc C) (de_ipt C) (ds_symtabs d) cr3 pc"

definition Decoder_FindPcFileName :: "'f dump_env \<Rightarrow> u64 \<Rightarrow> u64 \<Rightarrow> DecoderState \<Rightarrow> string option" where
  "Decoder_FindPcFileName C cr3 pc d = FindPcFileName (de_ipt C) (ds_symtabs d) cr3 pc"

definition Decoder_SeenCr3 :: "u64 \<Rightarrow> DecoderState \<Rightarrow> bool" where
  "Decoder_SeenCr3 cr3 d = SeenCr3 (ds_symtabs d) cr3"

subsection \<open>Sideband data\<close>

definition AddProcess :: "u64 \<Rightarrow> u64 \<Rightarrow> u64 \<Rightarrow> DecoderState \<Rightarrow> bool \<times> DecoderState" where
  "AddProcess pid cr3 start_time d =
     (True, d\<lparr>ds_processes := ds_processes d @
        [\<lparr>pr_pid = pid, pr_cr3 = cr3, pr_start_time = start_time, pr_end_time = 0\<rparr>]\<rparr>)"

fun mark_exited :: "u64 \<Rightarrow> u64 \<Rightarrow> pt_process list \<Rightarrow> pt_process list" where
  "mark_exited pid end_time [] = []"
| "mark_exited pid end_time (p # ps) =
     (if pr_pid p = pid then p\<lparr>pr_end_time := end_time\<rparr> # ps else p # mark_exited pid end_time ps)"

definition MarkProcessExited :: "u64 \<Rightarrow> u64 \<Rightarrow> DecoderState \<Rightarrow> bool \<times> DecoderState" where
  "MarkProcessExited pid end_time d = (True, d\<lparr>ds_processes := mark_exited pid end_time (ds_processes d)\<rparr>)"

definition set_nom_freq :: "u8 \<Rightarrow> DecoderState \<Rightarrow> DecoderState" where
  "set_nom_freq freq d = d\<lparr>ds_config := (ds_config d)\<lparr>cfg_nom_freq := freq\<rparr>\<rparr>"

definition set_cpu :: "u32 \<Rightarrow> u32 \<Rightarrow> u32 \<Rightarrow> DecoderState \<Rightarrow> DecoderState" where
  "set_cpu family model stepping d =
     d\<lparr>ds_config := (ds_config d)\<lparr>cfg_cpu := \<lparr>cpu_family = family, cpu_model = model, cpu_stepping = stepping\<rparr>\<rparr>\<rparr>"

definition set_kernel_cr3 :: "u64 \<Rightarrow> DecoderState \<Rightarrow> DecoderState" where
  "set_kernel_cr3 cr3 d = d\<lparr>ds_kernel_cr3 := cr3\<rparr>"

definition join_words :: "u32 \<Rightarrow> u32 \<Rightarrow> u64" where
  "join_words low high = ucast low OR push_bit 32 (ucast high)"

text \<open>\<open>None\<close> is the use of a field that no record has stored.\<close>

definition ProcessKtraceRecord :: "ktrace_format \<Rightarrow> KtraceRecord \<Rightarrow> DecoderState \<Rightarrow> (int \<times> DecoderState) option" where
  "ProcessKtraceRecord KT rec d =
     do {
       tag \<leftarrow> rec_tag KT rec;
       if tag = TAG_IPT_START KT then do {
         a \<leftarrow> rec_u32 rec (kt_a_at KT);
         c \<leftarrow> rec_u32 rec (kt_c_at KT);
         e \<leftarrow> rec_u32 rec (kt_d_at KT);
         Some (0, set_kernel_cr3 (join_words c e) (set_nom_freq (ucast a) d))
       }
       else if tag = TAG_IPT_CPU_INFO KT then do {
         b \<leftarrow> rec_u32 rec (kt_b_at KT);
         c \<leftarrow> rec_u32 rec (kt_c_at KT);
         e \<leftarrow> rec_u32 rec (kt_d_at KT);
         Some (0, set_cpu b c e d)
       }
       else if tag = TAG_IPT_STOP KT then Some (0, d)
       else if tag = TAG_IPT_PROCESS_CREATE KT then do {
         a \<leftarrow> rec_u32 rec (kt_a_at KT);
         b \<leftarrow> rec_u32 rec (kt_b_at KT);
         c \<leftarrow> rec_u32 rec (kt_c_at KT);
         e \<leftarrow> rec_u32 rec (kt_d_at KT);
         ts \<leftarrow> rec_ts KT rec;
         Some (0, snd (AddProcess (join_words a b) (join_words c e) ts d))
       }
       else if tag = TAG_PROC_EXIT KT then do {
         a \<leftarrow> rec_u32 rec (kt_a_at KT);
         b \<leftarrow> rec_u32 rec (kt_b_at KT);
         ts \<leftarrow> rec_ts KT rec;
         Some (0, snd (MarkProcessExited (join_words a b) ts d))
       }
       else Some (0, d)
     }"

definition ReadKtraceFile :: "'f dump_env \<Rightarrow> string \<Rightarrow> DecoderState \<Rightarrow> 'f \<Rightarrow> (bool \<times> DecoderState \<times> 'f) option" where
  "ReadKtraceFile C path d f =
     (case px_open (de_posix C) path f of
        (fd, f) \<Rightarrow>
          if fd < 0 then Some (False, d, f)
          else do {
            (rc, d, f) \<leftarrow> ReadFile (de_ktrace C) (de_posix C) fd (ProcessKtraceRecord (de_ktrace C)) d f;
            Some (rc = 0, d, px_close (de_posix C) fd f)
          })"

definition ReadMapFile :: "'f dump_env \<Rightarrow> string \<Rightarrow> DecoderState \<Rightarrow> 'f \<Rightarrow> (bool \<times> DecoderState \<times> 'f) option" where
  "ReadMapFile C path d f =
     do {
       (ok, maps) \<leftarrow> ReadLogListenerOutput (de_posix C) path f (ds_load_maps d);
       Some (ok, d\<lparr>ds_load_maps := maps\<rparr>, f)
     }"

definition Decoder_ReadIdsFile :: "'f dump_env \<Rightarrow> string \<Rightarrow> DecoderState \<Rightarrow> 'f \<Rightarrow> (bool \<times> DecoderState \<times> 'f) option" where
  "Decoder_ReadIdsFile C path d f =
     do {
       (ok, ids) \<leftarrow> ReadIdsFile (de_posix C) path f (ds_build_ids d);
       Some (ok, d\<lparr>ds_build_ids := ids\<rparr>, f)
     }"

definition AddPtFile :: "'f posix \<Rightarrow> string \<Rightarrow> u64 \<Rightarrow> string \<Rightarrow> PtFile list \<Rightarrow> PtFile list" where
  "AddPtFile P file_dir num path files = files @ [\<lparr>pf_id = num, pf_file = absolute P file_dir path\<rparr>]"

definition pt_list_line :: "'f posix \<Rightarrow> string \<Rightarrow> string \<Rightarrow> nat \<Rightarrow> PtFile list \<Rightarrow> PtFile list option" where
  "pt_list_line P path line linelen files =
     (let line = strip_newline (c_text line)
      in if linelen > MAX_LINE_LEN then Some files
         else if line = ''\<newline>'' then Some files
         else if take 1 line = ''#'' then Some files
         else do {
           values \<leftarrow> sscanf line [S_Num 10 64, S_Space, S_Str linelen];
           Some (case values of
              [V_Num num, V_Str file_path] \<Rightarrow> AddPtFile P (px_GetDirectoryName P path) num file_path files
            | _ \<Rightarrow> files)
         })"

fun pt_list_lines :: "'f posix \<Rightarrow> string \<Rightarrow> string list \<Rightarrow> nat \<Rightarrow> PtFile list \<Rightarrow> PtFile list option" where
  "pt_list_lines P path [] linelen files = Some files"
| "pt_list_lines P path (l # ls) linelen files =
     do {
       let linelen = px_getline_room P linelen (Suc (length l));
       files \<leftarrow> pt_list_line P path l linelen files;
       pt_list_lines P path ls linelen files
     }"

definition ReadPtListFile :: "'f dump_env \<Rightarrow> string \<Rightarrow> DecoderState \<Rightarrow> 'f \<Rightarrow> (bool \<times> DecoderState \<times> 'f) option" where
  "ReadPtListFile C path d f =
     (case px_fopen (de_posix C) path f of
        None \<Rightarrow> Some (False, d, f)
      | Some (text, at_eof) \<Rightarrow>
          do {
            files \<leftarrow> pt_list_lines (de_posix C) path (text_lines text) 0 (ds_pt_files d);
            Some (True, d\<lparr>ds_pt_files := files\<rparr>, f)
          })"

subsection \<open>Files of the program\<close>

definition AddSymtab :: "pt_table option \<Rightarrow> DecoderState \<Rightarrow> DecoderState" where
  "AddSymtab symtab d =
     (case symtab of
        None \<Rightarrow> d
      | Some st \<Rightarrow> d\<lparr>ds_symtabs := ds_symtabs d @ [st]\<rparr>)"

definition Decoder_ReadElf ::
  "'f dump_env \<Rightarrow> string \<Rightarrow> u64 \<Rightarrow> u64 \<Rightarrow> u64 \<Rightarrow> u64 \<Rightarrow> DecoderState \<Rightarrow> 'f \<Rightarrow> (bool \<times> DecoderState \<times> 'f) option" where
  "Decoder_ReadElf C file_name base cr3 file_off map_len d f =
     do {
       dcheck (ds_image d \<noteq> 0);
       (tables, f) \<leftarrow>
         ReadElf (de_libc C) (de_posix C) (de_ipt C) file_name (ds_image d) base cr3 file_off map_len f;
       Some (case tables of
          None \<Rightarrow> (False, d, f)
        | Some (symtab, dynsym) \<Rightarrow> (True, AddSymtab dynsym (AddSymtab symtab d), f))
     }"

definition ReadKernelElf :: "'f dump_env \<Rightarrow> string \<Rightarrow> u64 \<Rightarrow> DecoderState \<Rightarrow> 'f \<Rightarrow> (bool \<times> DecoderState \<times> 'f) option" where
  "ReadKernelElf C file_name cr3 d f =
     do {
       dcheck (ds_image d \<noteq> 0);
       (tables, f) \<leftarrow> ReadNonPicElf (de_libc C) (de_posix C) (de_ipt C) file_name (ds_image d) cr3 True f;
       Some (case tables of
          None \<Rightarrow> (False, d, f)
        | Some (symtab, dynsym) \<Rightarrow> (True, AddSymtab symtab d, f))
     }"

text \<open>
  \<open>ReadMemCallback\<close> returns the number of bytes or a negative error, and what it stored in the buffer.
\<close>

definition ReadMemCallback ::
  "'f dump_env \<Rightarrow> nat \<Rightarrow> u64 \<Rightarrow> u64 \<Rightarrow> DecoderState \<times> 'f \<Rightarrow> (int \<times> u8 list \<times> DecoderState \<times> 'f) option" where
  "ReadMemCallback C len cr3 addr st =
     (case st of (d, f) \<Rightarrow>
        case LookupProcessByCr3 (de_ipt C) cr3 d of
          None \<Rightarrow> Some (- lp_nomap (de_ipt C), [], d\<lparr>ds_unknown_cr3s := insert cr3 (ds_unknown_cr3s d)\<rparr>, f)
        | Some proc \<Rightarrow>
            (case LookupMapEntry (pr_pid proc) addr d of
               None \<Rightarrow> Some (- lp_nomap (de_ipt C), [], d, f)
             | Some lmap \<Rightarrow>
                 (case Decoder_LookupBuildId (lm_build_id lmap) d of
                    None \<Rightarrow> Some (- lp_nomap (de_ipt C), [], d, f)
                  | Some bid \<Rightarrow>
                      if length (LookupFile (bid_file bid)) = 0 then Some (- lp_nomap (de_ipt C), [], d, f)
                      else do {
                        (ok, d, f) \<leftarrow> Decoder_ReadElf C (LookupFile (bid_file bid)) (lm_base_addr lmap) cr3 0
                          (lm_end_addr lmap - lm_load_addr lmap) d f;
                        if \<not> ok then Some (- lp_nomap (de_ipt C), [], d, f)
                        else Some (case lp_image_read (de_ipt C) (ds_image d) len cr3 addr f of
                          (n, bytes, f) \<Rightarrow> (n, bytes, d, f))
                      })))"

subsection \<open>Decoders\<close>

definition AllocImage :: "'f dump_env \<Rightarrow> string \<Rightarrow> DecoderState \<Rightarrow> 'f \<Rightarrow> (bool \<times> DecoderState \<times> 'f) option" where
  "AllocImage C name d f =
     do {
       dcheck (ds_image d = 0);
       let (img, f) = lp_image_alloc (de_ipt C) name f;
       dcheck (img \<noteq> 0);
       Some (True, d\<lparr>ds_image := img\<rparr>, f)
     }"

definition MmapFile :: "'f posix \<Rightarrow> string \<Rightarrow> 'f \<Rightarrow> (u64 \<times> nat) option \<times> 'f" where
  "MmapFile P path f =
     (case px_open P path f of
        (fd, f) \<Rightarrow>
          if fd < 0 then (None, f)
          else case px_fstat P fd f of
            None \<Rightarrow> (None, px_close P fd f)
          | Some bytes \<Rightarrow>
              (case px_mmap P fd bytes f of
                 (addr, f) \<Rightarrow>
                   (case addr of None \<Rightarrow> None | Some a \<Rightarrow> Some (a, bytes), px_close P fd f)))"

definition UnmapFile :: "'f posix \<Rightarrow> u64 \<Rightarrow> nat \<Rightarrow> 'f \<Rightarrow> 'f" where
  "UnmapFile P addr len f = px_munmap P addr len f"

definition adjust_errata :: "'f libipt \<Rightarrow> pt_config \<Rightarrow> pt_config" where
  "adjust_errata T cfg =
     (let errata = lp_errata T (cfg_cpu cfg) (cfg_errata cfg)
      in cfg\<lparr>cfg_errata := if take 4 errata = [0, 0, 0, 0] then replicate (length errata) 0xff else errata\<rparr>)"

definition AllocDecoder :: "'f dump_env \<Rightarrow> string \<Rightarrow> DecoderState \<Rightarrow> 'f \<Rightarrow> (bool \<times> DecoderState \<times> 'f) option" where
  "AllocDecoder C pt_file_name d f =
     do {
       dcheck (ds_decoder d = 0);
       let d = d\<lparr>ds_config := adjust_errata (de_ipt C) (ds_config d)\<rparr>;
       (case MmapFile (de_posix C) pt_file_name f of
          (None, f) \<Rightarrow> Some (False, d, f)
        | (Some (addr, len), f) \<Rightarrow>
            let d = d\<lparr>ds_config := (ds_config d)\<lparr>cfg_begin := addr, cfg_end := addr + of_nat len\<rparr>\<rparr>
            in case lp_alloc_decoder (de_ipt C) (ds_config d) f of
              (dec, f) \<Rightarrow>
                let d = d\<lparr>ds_decoder := dec\<rparr>
                in if dec = 0 then Some (False, d, UnmapFile (de_posix C) addr len f)
                   else Some (True, d, lp_set_image (de_ipt C) dec (ds_image d) f))
     }"

definition FreeDecoder :: "'f dump_env \<Rightarrow> DecoderState \<Rightarrow> 'f \<Rightarrow> (DecoderState \<times> 'f) option" where
  "FreeDecoder C d f =
     do {
       dcheck (ds_decoder d \<noteq> 0);
       Some (d\<lparr>ds_decoder := 0\<rparr>, lp_free_decoder (de_ipt C) (ds_decoder d) f)
     }"

definition DecoderState_destroy :: "'f dump_env \<Rightarrow> DecoderState \<Rightarrow> 'f \<Rightarrow> 'f" where
  "DecoderState_destroy C d f =
     (let cfg = ds_config d;
          f = (if cfg_begin cfg \<noteq> 0 then UnmapFile (de_posix C) (cfg_begin cfg) (unat (cfg_end cfg - cfg_begin cfg)) f else f);
          f = (if ds_decoder d \<noteq> 0 then lp_free_decoder (de_ipt C) (ds_decoder d) f else f)
      in if ds_image d \<noteq> 0 then lp_image_free (de_ipt C) (ds_image d) f else f)"

subsection \<open>Building the state\<close>

text \<open>The steps of \<^verbatim>\<open>Create\<close>: the first that fails destroys the decoder, and null is returned.\<close>

type_synonym 'f decoder_step = "DecoderState \<Rightarrow> 'f \<Rightarrow> (bool \<times> DecoderState \<times> 'f) option"

fun run_steps :: "'f decoder_step list \<Rightarrow> 'f decoder_step" where
  "run_steps [] d f = Some (True, d, f)"
| "run_steps (step # steps) d f =
     do {
       (ok, d, f) \<leftarrow> step d f;
       if ok then run_steps steps d f else Some (False, d, f)
     }"

definition pt_files_step :: "'f dump_env \<Rightarrow> DecoderConfig \<Rightarrow> 'f decoder_step" where
  "pt_files_step C config d f =
     (if dc_pt_file_name config \<noteq> '''' then
        Some (True, d\<lparr>ds_pt_files := AddPtFile (de_posix C) (px_GetCurrentDirectory (de_posix C)) kIdUnset
          (dc_pt_file_name config) (ds_pt_files d)\<rparr>, f)
      else ReadPtListFile C (dc_pt_list_file_name config) d f)"

definition kernel_step :: "'f dump_env \<Rightarrow> DecoderConfig \<Rightarrow> 'f decoder_step" where
  "kernel_step C config d f =
     (if dc_kernel_file_name config \<noteq> '''' then
        ReadKernelElf C (dc_kernel_file_name config) (dc_kernel_cr3 config) (set_kernel_cr3 (dc_kernel_cr3 config) d) f
      else Some (True, d, f))"

definition create_steps :: "'f dump_env \<Rightarrow> DecoderConfig \<Rightarrow> 'f decoder_step list" where
  "create_steps C config =
     [AllocImage C ''ipt-dump'', ReadKtraceFile C (dc_ktrace_file_name config)]
     @ map (ReadMapFile C) (dc_map_file_names config)
     @ map (Decoder_ReadIdsFile C) (dc_ids_file_names config)
     @ [pt_files_step C config]
     @ map (\<lambda>name. Decoder_ReadElf C name 0 0 0 0) (dc_elf_file_names config)
     @ [kernel_step C config]"

definition DecoderState_Create :: "'f dump_env \<Rightarrow> DecoderConfig \<Rightarrow> 'f \<Rightarrow> (DecoderState option \<times> 'f) option" where
  "DecoderState_Create C config f =
     do {
       dcheck (dc_pt_file_name config \<noteq> '''' \<or> dc_pt_list_file_name config \<noteq> '''');
       dcheck (dc_ktrace_file_name config \<noteq> '''');
       (ok, d, f) \<leftarrow> run_steps (create_steps C config) (DecoderState_new (de_ipt C)) f;
       Some (if ok then (Some d, f) else (None, DecoderState_destroy C d f))
     }"

section \<open>What the callback and the construction keep\<close>

text \<open>
  \<open>sideband_kept d d'\<close>: the sideband data and the image are those of \<open>d\<close>, and symbol tables have only been added.
\<close>

definition sideband_kept :: "DecoderState \<Rightarrow> DecoderState \<Rightarrow> bool" where
  "sideband_kept d d' \<longleftrightarrow> ds_image d' = ds_image d \<and> ds_kernel_cr3 d' = ds_kernel_cr3 d \<and> ds_processes d' = ds_processes d
     \<and> ds_load_maps d' = ds_load_maps d \<and> ds_build_ids d' = ds_build_ids d \<and> ds_pt_files d' = ds_pt_files d
     \<and> prefix (ds_symtabs d) (ds_symtabs d')"

lemma sideband_kept_refl [simp]: "sideband_kept d d"
  by (simp add: sideband_kept_def)

lemma sideband_kept_trans: "sideband_kept a b \<Longrightarrow> sideband_kept b c \<Longrightarrow> sideband_kept a c"
  by (auto simp: sideband_kept_def intro: prefix_order.trans)

lemma AddSymtab_kept: "sideband_kept d (AddSymtab st d) \<and> ds_decoder (AddSymtab st d) = ds_decoder d"
  by (simp add: sideband_kept_def AddSymtab_def split: option.splits)

lemma Decoder_ReadElf_kept:
  "post (\<lambda>(ok, d', f'). sideband_kept d d' \<and> ds_decoder d' = ds_decoder d) (Decoder_ReadElf C name base cr3 off len d f)"
proof -
  have "sideband_kept d (AddSymtab b (AddSymtab a d)) \<and> ds_decoder (AddSymtab b (AddSymtab a d)) = ds_decoder d" for a b
    using AddSymtab_kept sideband_kept_trans by metis
  then show ?thesis by (auto simp: Decoder_ReadElf_def post_def split: Option.bind_splits option.splits)
qed

lemma ReadKernelElf_kept:
  "post (\<lambda>(ok, d', f'). sideband_kept d d' \<and> ds_decoder d' = ds_decoder d) (ReadKernelElf C name cr3 d f)"
  using AddSymtab_kept by (auto simp: ReadKernelElf_def post_def split: Option.bind_splits option.splits)

lemma ReadMemCallback_kept:
  "post (\<lambda>(n, bytes, d', f'). sideband_kept d d' \<and> ds_decoder d' = ds_decoder d) (ReadMemCallback C len cr3 addr (d, f))"
proof -
  have unknown: "sideband_kept d (d\<lparr>ds_unknown_cr3s := s\<rparr>)" for s by (simp add: sideband_kept_def)
  have elf: "post (\<lambda>(n, bytes, d', f'). sideband_kept d d' \<and> ds_decoder d' = ds_decoder d)
      (Decoder_ReadElf C name base cr3 0 mlen d f \<bind> (\<lambda>(ok, d, f).
        if \<not> ok then Some (- lp_nomap (de_ipt C), [], d, f)
        else Some (case lp_image_read (de_ipt C) (ds_image d) len cr3 addr f of (n, bytes, f) \<Rightarrow> (n, bytes, d, f))))"
    for name base mlen
    by (rule post_bindI [OF Decoder_ReadElf_kept]) (auto split: prod.splits)
  show ?thesis
    by (simp add: ReadMemCallback_def unknown elf split: option.splits)
qed

text \<open>The steps of \<^verbatim>\<open>Create\<close> after the image is there keep it, and none makes an instruction decoder.\<close>

definition same_handles :: "DecoderState \<Rightarrow> DecoderState \<Rightarrow> bool" where
  "same_handles d d' \<longleftrightarrow> ds_image d' = ds_image d \<and> ds_decoder d' = ds_decoder d"

lemma ProcessKtraceRecord_handles: "post (\<lambda>(rc, d'). same_handles d d') (ProcessKtraceRecord KT rec d)"
  by (auto simp: ProcessKtraceRecord_def post_def same_handles_def set_kernel_cr3_def set_nom_freq_def set_cpu_def
      AddProcess_def MarkProcessExited_def split: Option.bind_splits if_splits)

lemma same_handles_trans: "same_handles a b \<Longrightarrow> same_handles b c \<Longrightarrow> same_handles a c"
  by (simp add: same_handles_def)

lemma ReadKtraceFile_handles: "post (\<lambda>(ok, d', f'). same_handles d d') (ReadKtraceFile C path d f)"
proof -
  have rec: "\<forall>rec s. same_handles d s \<longrightarrow> post (\<lambda>(rc, s'). same_handles d s') (ProcessKtraceRecord KT rec s)" for KT
    by (intro allI impI post_mono [OF ProcessKtraceRecord_handles]) (auto intro: same_handles_trans)
  have "same_handles d d'"
    if "ReadFile KT P fd (ProcessKtraceRecord KT) d g = Some (rc, d', g')" for KT fd rc d' and P :: "'a posix" and g g'
    using ReadFile_loop_inv [where I = "same_handles d", OF that [unfolded ReadFile_def]] rec
    by (simp add: same_handles_def [of d d])
  then show ?thesis
    by (auto simp: ReadKtraceFile_def post_def same_handles_def [of d d] split: Option.bind_splits prod.splits if_splits)
qed

lemma create_step_handles:
  assumes "step \<in> set (tl (create_steps C config))"
  shows "post (\<lambda>(ok, d', f'). same_handles d d') (step d f)"
proof -
  have elf: "post (\<lambda>(ok, d', f'). same_handles d d') (Decoder_ReadElf C name base cr3 off len d f)" for name base cr3 off len d
    by (rule post_mono [OF Decoder_ReadElf_kept]) (auto simp: same_handles_def sideband_kept_def)
  have krn: "post (\<lambda>(ok, d', f'). same_handles d d') (ReadKernelElf C name cr3 (set_kernel_cr3 c d) f)" for name cr3 c
    by (rule post_mono [OF ReadKernelElf_kept]) (auto simp: same_handles_def sideband_kept_def set_kernel_cr3_def)
  have "post (\<lambda>(ok, d', f'). same_handles d d') (ReadMapFile C name d f)"
    "post (\<lambda>(ok, d', f'). same_handles d d') (Decoder_ReadIdsFile C name d f)"
    "post (\<lambda>(ok, d', f'). same_handles d d') (pt_files_step C config d f)" for name
    by (auto simp: ReadMapFile_def Decoder_ReadIdsFile_def pt_files_step_def ReadPtListFile_def post_def same_handles_def
        split: Option.bind_splits option.splits if_splits)
  moreover have "post (\<lambda>(ok, d', f'). same_handles d d') (kernel_step C config d f)"
    using krn by (auto simp: kernel_step_def same_handles_def)
  ultimately show ?thesis
    using assms ReadKtraceFile_handles elf by (auto simp: create_steps_def)
qed

lemma run_steps_handles:
  assumes "\<And>step d f. step \<in> set steps \<Longrightarrow> post (\<lambda>(ok, d', f'). same_handles d d') (step d f)"
  shows "post (\<lambda>(ok, d', f'). same_handles d d') (run_steps steps d f)"
  using assms
proof (induction steps arbitrary: d f)
  case Nil
  then show ?case by (simp add: same_handles_def)
next
  case (Cons step steps)
  show ?case unfolding run_steps.simps
  proof (rule post_bindI [OF Cons.prems], simp, clarify)
    fix ok d1 f1
    assume h: "same_handles d d1"
    show "post (\<lambda>(ok, d', f'). same_handles d d') (if ok then run_steps steps d1 f1 else Some (False, d1, f1))"
      using post_mono [OF Cons.IH [of d1 f1]] Cons.prems h same_handles_trans [OF h] by auto
  qed
qed

text \<open>The decoder's state that \<^verbatim>\<open>Create\<close> returns has an image and no instruction decoder.\<close>

lemma Create_handles:
  assumes "DecoderState_Create C config f = Some (Some d, f')"
  shows "ds_image d \<noteq> 0 \<and> ds_decoder d = 0"
proof -
  obtain d1 f1 where i: "AllocImage C ''ipt-dump'' (DecoderState_new (de_ipt C)) f = Some (True, d1, f1)"
    and r: "run_steps (tl (create_steps C config)) d1 f1 = Some (True, d, f')"
    using assms by (auto simp: DecoderState_Create_def create_steps_def AllocImage_def Let_def
        split: Option.bind_splits if_splits prod.splits)
  have "ds_image d1 \<noteq> 0 \<and> ds_decoder d1 = 0"
    using i by (auto simp: AllocImage_def DecoderState_new_def split: prod.splits)
  moreover have "post (\<lambda>(ok, d', f'). same_handles d1 d') (run_steps (tl (create_steps C config)) d1 f1)"
    by (rule run_steps_handles) (rule create_step_handles)
  then have "same_handles d1 d" using r by simp
  ultimately show ?thesis by (simp add: same_handles_def)
qed

end
