(* ===== verification/Raw_Printer.thy ===== *)
theory Raw_Printer
  imports Decoder
begin

text \<open>
  Decoding a trace and printing it instruction by instruction: \<^verbatim>\<open>bin/ipt-dump/raw-printer.{h,cc}\<close> and the names of
  \<^verbatim>\<open>third_party/simple-pt/printer-util.cc\<close>.  The instruction decoder of libipt is the record \<open>D\<close>; it reads the
  program's memory through the callback that it is given.  What \<^verbatim>\<open>Printf\<close> writes is appended to a text.
\<close>

section \<open>The instruction decoder\<close>

datatype pt_insn_class =
    ptic_error | ptic_other | ptic_call | ptic_return | ptic_jump | ptic_cond_jump
  | ptic_far_call | ptic_far_return | ptic_far_jump | ptic_code nat

record pt_insn =
  in_ip :: u64
  in_iclass :: pt_insn_class
  in_raw :: "u8 list"
  in_speculative :: bool
  in_aborted :: bool
  in_committed :: bool
  in_disabled :: bool
  in_enabled :: bool
  in_resumed :: bool
  in_interrupted :: bool
  in_resynced :: bool
  in_stopped :: bool

type_synonym 'f mem_callback =
  "nat \<Rightarrow> u64 \<Rightarrow> u64 \<Rightarrow> DecoderState \<times> 'f \<Rightarrow> (int \<times> u8 list \<times> DecoderState \<times> 'f) option"

text \<open>\<open>dl_next\<close> returns a negative number for an error, and the instruction, whose address is 0 if none was stored.\<close>

record 'f pt_decode =
  dl_sync_forward :: "u64 \<Rightarrow> 'f \<Rightarrow> int \<times> 'f"
  dl_get_offset :: "u64 \<Rightarrow> 'f \<Rightarrow> u64"
  dl_time :: "u64 \<Rightarrow> 'f \<Rightarrow> u64 \<times> u32 \<times> u32"
  dl_next :: "'f mem_callback \<Rightarrow> u64 \<Rightarrow> DecoderState \<times> 'f \<Rightarrow> (int \<times> pt_insn \<times> DecoderState \<times> 'f) option"
  dl_get_cr3 :: "u64 \<Rightarrow> 'f \<Rightarrow> u64"
  dl_core_bus_ratio :: "u64 \<Rightarrow> 'f \<Rightarrow> u32"
  dl_errstr :: "int \<Rightarrow> string"
  dl_class_value :: "pt_insn_class \<Rightarrow> nat"

section \<open>Definitions\<close>

text \<open>The array of names has an entry for the highest of the classes that are named; others below it have no name.\<close>

definition class_names :: "(pt_insn_class \<times> string) list" where
  "class_names =
     [(ptic_error, ''error''), (ptic_other, ''other''), (ptic_call, ''call''), (ptic_return, ''return''),
      (ptic_jump, ''jump''), (ptic_cond_jump, ''cjump''), (ptic_far_call, ''fcall''), (ptic_far_return, ''freturn''),
      (ptic_far_jump, ''fjump'')]"

definition InsnClassName :: "'f pt_decode \<Rightarrow> pt_insn_class \<Rightarrow> string" where
  "InsnClassName D iclass =
     (if dl_class_value D iclass > foldr max (map (dl_class_value D \<circ> fst) class_names) 0 then '';;;''
      else case map_of class_names iclass of
        None \<Rightarrow> ''???''
      | Some name \<Rightarrow> name)"

datatype Space = kUnknown | kKernel | kUser

text \<open>
  A table is known by its index in \<^verbatim>\<open>symtabs_\<close> and a symbol by its index in the table, so that pointers are
  compared and not what they point at.
\<close>

fun find_index :: "('a \<Rightarrow> bool) \<Rightarrow> 'a list \<Rightarrow> nat option" where
  "find_index Q [] = None"
| "find_index Q (x # xs) = (if Q x then Some 0 else map_option Suc (find_index Q xs))"

definition table_index :: "'f libipt \<Rightarrow> pt_table list \<Rightarrow> u64 \<Rightarrow> u64 \<Rightarrow> nat option" where
  "table_index T symtabs cr3 pc =
     find_index (\<lambda>st. Cr3Matches T (pt_cr3 st) cr3 \<and> \<not> (pc < pt_base st \<or> pc \<ge> pt_end st)) symtabs"

definition symbol_index :: "libc \<Rightarrow> pt_table \<Rightarrow> u64 \<Rightarrow> nat option" where
  "symbol_index L st addr =
     (if addr < pt_base st \<or> addr \<ge> pt_end st then None
      else case tab_symbols st of
        None \<Rightarrow> None
      | Some symbols \<Rightarrow>
          lc_bsearch L CompareSymbol \<lparr>sym_name = 0, sym_addr = addr - pt_offset st, sym_size = 0\<rparr> symbols)"

record PrintState =
  ps_total_insncnt :: u64
  ps_current_ts :: u64
  ps_current_pos :: u64
  ps_current_space :: Space
  ps_current_symtab :: "nat option"
  ps_current_function :: "(nat \<times> nat) option"
  ps_current_cr3 :: u64
  ps_current_pc :: u64
  ps_current_core_bus_ratio :: u32

definition PrintState_new :: "'f libipt \<Rightarrow> u64 \<Rightarrow> PrintState" where
  "PrintState_new T indeterminate =
     \<lparr>ps_total_insncnt = 0, ps_current_ts = 0, ps_current_pos = indeterminate, ps_current_space = kUnknown,
      ps_current_symtab = None, ps_current_function = None, ps_current_cr3 = lp_no_cr3 T, ps_current_pc = 0,
      ps_current_core_bus_ratio = 0\<rparr>"

definition dec_text :: "u64 \<Rightarrow> string" where
  "dec_text n = nat_string 10 (unat n)"

definition GetSpace :: "'f libipt \<Rightarrow> DecoderState \<Rightarrow> u64 \<Rightarrow> pt_table option \<Rightarrow> Space" where
  "GetSpace T d cr3 symtab =
     (case symtab of
        Some st \<Rightarrow> if pt_is_kernel st then kKernel else kUser
      | None \<Rightarrow>
          if cr3 \<noteq> lp_no_cr3 T then (if cr3 = ds_kernel_cr3 d then kKernel else kUser)
          else kUnknown)"

definition space_text :: "Space \<Rightarrow> string" where
  "space_text sp =
     (case sp of
        kKernel \<Rightarrow> ''kernel''
      | kUser \<Rightarrow> ''user''
      | kUnknown \<Rightarrow> ''unknown'')"

definition raw_PrintInsn :: "'f pt_decode \<Rightarrow> pt_insn \<Rightarrow> PrintState \<Rightarrow> string" where
  "raw_PrintInsn D insn ps =
     dec_text (ps_current_ts ps) @ '': '' @ hex_text (unat (ps_current_pc ps)) @ '': '' @ InsnClassName D (in_iclass insn)
     @ ''\<newline>''"

text \<open>The lines about what has changed since the last instruction.\<close>

definition watch_ratio :: "u32 \<Rightarrow> PrintState \<Rightarrow> string \<times> PrintState" where
  "watch_ratio ratio ps =
     (if ratio \<noteq> ps_current_core_bus_ratio ps then
        (''Core bus ratio is now '' @ nat_string 10 (unat ratio) @ ''\<newline>'', ps\<lparr>ps_current_core_bus_ratio := ratio\<rparr>)
      else ('''', ps))"

definition watch_cr3 :: "u64 \<Rightarrow> PrintState \<Rightarrow> string \<times> PrintState" where
  "watch_cr3 cr3 ps =
     (if cr3 \<noteq> ps_current_cr3 ps then
        (''CR3 is now 0x'' @ hex_text (unat cr3) @ ''\<newline>'', ps\<lparr>ps_current_cr3 := cr3\<rparr>)
      else ('''', ps))"

definition watch_space :: "Space \<Rightarrow> PrintState \<Rightarrow> string \<times> PrintState" where
  "watch_space sp ps =
     (if sp \<noteq> ps_current_space ps then
        (''Space is now '' @ space_text sp @ ''\<newline>'', ps\<lparr>ps_current_space := sp\<rparr>)
      else ('''', ps))"

definition watch_function :: "'f dump_env \<Rightarrow> DecoderState \<Rightarrow> PrintState \<Rightarrow> (string \<times> PrintState) option" where
  "watch_function C d ps =
     (let pc = ps_current_pc ps;
          ti = table_index (de_ipt C) (ds_symtabs d) (ps_current_cr3 ps) pc;
          sym = (case ti of
             None \<Rightarrow> None
           | Some i \<Rightarrow> map_option (\<lambda>j. (i, j)) (symbol_index (de_libc C) (ds_symtabs d ! i) pc))
      in if sym = ps_current_function ps then Some ('''', ps)
         else do {
           line \<leftarrow> (case sym of
              None \<Rightarrow> Some ''Entering unknown function\<newline>''
            | Some (i, j) \<Rightarrow>
                do {
                  let symtab = ds_symtabs d ! i;
                  symbol \<leftarrow> GetSymbol symtab j;
                  name \<leftarrow> symbol_name symtab symbol;
                  Some (''Current function is now '' @ tab_file_name symtab @ '':'' @ name @ ''\<newline>'')
                });
           Some (line, ps\<lparr>ps_current_symtab := ti, ps_current_function := sym\<rparr>)
         })"

text \<open>\<open>ProcessNextInsn\<close> returns the error code, what is printed, and the states.\<close>

definition ProcessNextInsn ::
  "'f dump_env \<Rightarrow> 'f pt_decode \<Rightarrow> PrintState \<Rightarrow> DecoderState \<times> 'f \<Rightarrow> (int \<times> string \<times> PrintState \<times> DecoderState \<times> 'f) option"
where
  "ProcessNextInsn C D ps st =
     (let dec = ds_decoder (fst st);
          ps = ps\<lparr>ps_total_insncnt := ps_total_insncnt ps + 1, ps_current_pos := dl_get_offset D dec (snd st)\<rparr>;
          (ts, lost_mtc, lost_cyc) = dl_time D dec (snd st);
          ps = (if ts \<noteq> 0 then ps\<lparr>ps_current_ts := ts\<rparr> else ps)
      in do {
        (err, insn, d, f) \<leftarrow> dl_next D (ReadMemCallback C) dec st;
        let cr3 = dl_get_cr3 D dec f;
        let ps = ps\<lparr>ps_current_pc := in_ip insn\<rparr>;
        if err < 0 then Some (err, '''', ps\<lparr>ps_current_cr3 := cr3\<rparr>, d, f)
        else do {
          let (l1, ps) = watch_ratio (dl_core_bus_ratio D dec f) ps;
          let (l2, ps) = watch_cr3 cr3 ps;
          let symtab = Decoder_FindSymbolTable C (ps_current_cr3 ps) (ps_current_pc ps) d;
          let (l3, ps) = watch_space (GetSpace (de_ipt C) d (ps_current_cr3 ps) symtab) ps;
          (l4, ps) \<leftarrow> watch_function C d ps;
          Some (0, l1 @ l2 @ l3 @ l4 @ raw_PrintInsn D insn ps, ps, d, f)
        }
      })"

text \<open>The inner loop of \<^verbatim>\<open>PrintOneFile\<close>, until an error, and the loop around it; \<open>None\<close> also if one does not end.\<close>

partial_function (option) raw_insns ::
  "'f dump_env \<Rightarrow> 'f pt_decode \<Rightarrow> string \<Rightarrow> PrintState \<Rightarrow> DecoderState \<times> 'f \<Rightarrow>
     (int \<times> string \<times> PrintState \<times> DecoderState \<times> 'f) option" where
  "raw_insns C D out ps st =
     do {
       (err, line, ps, st) \<leftarrow> ProcessNextInsn C D ps st;
       if err < 0 then Some (err, out @ line, ps, st)
       else raw_insns C D (out @ line) ps st
     }"

partial_function (option) raw_syncs ::
  "'f dump_env \<Rightarrow> 'f pt_decode \<Rightarrow> string \<Rightarrow> PrintState \<Rightarrow> DecoderState \<times> 'f \<Rightarrow> (string \<times> PrintState \<times> DecoderState \<times> 'f) option" where
  "raw_syncs C D out ps st =
     (case dl_sync_forward D (ds_decoder (fst st)) (snd st) of
        (err, f) \<Rightarrow>
          let ps = ps\<lparr>ps_current_pos := dl_get_offset D (ds_decoder (fst st)) f\<rparr>
          in if err < 0 then Some (out, ps, fst st, f)
             else do {
               (err, out, ps, st) \<leftarrow> raw_insns C D out ps (fst st, f);
               raw_syncs C D out ps st
             })"

definition raw_PrintOneFile ::
  "'f dump_env \<Rightarrow> 'f pt_decode \<Rightarrow> PtFile \<Rightarrow> string \<Rightarrow> DecoderState \<times> 'f \<Rightarrow> (u64 \<times> string \<times> DecoderState \<times> 'f) option" where
  "raw_PrintOneFile C D pt_file out st =
     do {
       (ok, st) \<leftarrow> AllocDecoder C (pf_file pt_file) (fst st) (snd st);
       if \<not> ok then Some (0, out, st)
       else do {
         let out = out @ ''Dump of PT file '' @ pf_file pt_file @ '', id 0x'' @ hex_text (unat (pf_id pt_file)) @ ''\<newline>'';
         (out, ps, d, f) \<leftarrow> raw_syncs C D out (PrintState_new (de_ipt C) 0) st;
         st \<leftarrow> FreeDecoder C d f;
         Some (ps_total_insncnt ps, out, st)
       }
     }"

fun print_files ::
  "(PtFile \<Rightarrow> string \<Rightarrow> DecoderState \<times> 'f \<Rightarrow> (u64 \<times> string \<times> DecoderState \<times> 'f) option) \<Rightarrow> PtFile list \<Rightarrow> u64 \<Rightarrow> string \<Rightarrow>
     DecoderState \<times> 'f \<Rightarrow> (u64 \<times> string \<times> DecoderState \<times> 'f) option" where
  "print_files one [] cnt out st = Some (cnt, out, st)"
| "print_files one (pt_file # pt_files) cnt out st =
     do {
       (n, out, st) \<leftarrow> one pt_file out st;
       print_files one pt_files (cnt + n) out st
     }"

definition raw_PrintFiles ::
  "'f dump_env \<Rightarrow> 'f pt_decode \<Rightarrow> string \<Rightarrow> DecoderState \<times> 'f \<Rightarrow> (u64 \<times> string \<times> DecoderState \<times> 'f) option" where
  "raw_PrintFiles C D out st = print_files (raw_PrintOneFile C D) (ds_pt_files (fst st)) 0 out st"

text \<open>A printer is its output file's name; \<open>None\<close> is null.\<close>

definition RawPrinter_Create :: "'f posix \<Rightarrow> string \<Rightarrow> 'f \<Rightarrow> string option" where
  "RawPrinter_Create P output_file_name f =
     (if output_file_name \<noteq> '''' \<and> \<not> px_fopen_write P output_file_name f then None else Some output_file_name)"

section \<open>The decoder's state while printing\<close>

definition steady :: "DecoderState \<Rightarrow> DecoderState \<Rightarrow> bool" where
  "steady d d' \<longleftrightarrow> sideband_kept d d' \<and> ds_decoder d' = ds_decoder d"

lemma steady_refl [simp]: "steady d d"
  by (simp add: steady_def)

lemma steady_trans: "steady a b \<Longrightarrow> steady b c \<Longrightarrow> steady a c"
  by (auto simp: steady_def intro: sideband_kept_trans)

text \<open>
  What is assumed of the decoder library: it changes the program's state only by calling the callback, so that what every call
  of the callback keeps, decoding an instruction keeps.
\<close>

locale pt_library =
  fixes D :: "'f pt_decode"
  assumes next_keeps:
    "(\<And>n cr3 a d f. I d \<Longrightarrow> post (\<lambda>(m, bytes, d', f'). I d') (cb n cr3 a (d, f))) \<Longrightarrow> I d \<Longrightarrow>
      post (\<lambda>(err, insn, d', f'). I d') (dl_next D cb dec (d, f))"
begin

lemma next_steady: "post (\<lambda>(err, insn, d', f'). steady d d') (dl_next D (ReadMemCallback C) dec (d, f))"
proof (rule next_keeps [where I = "steady d"])
  fix n cr3 a d1 f assume "steady d d1"
  then show "post (\<lambda>(m, bytes, d', f'). steady d d') (ReadMemCallback C n cr3 a (d1, f))"
    by (intro post_mono [OF ReadMemCallback_kept]) (auto simp: steady_def intro: sideband_kept_trans)
qed simp

lemma ProcessNextInsn_steady:
  "post (\<lambda>(err, line, ps', d', f'). steady d d') (ProcessNextInsn C D ps (d, f))"
  unfolding ProcessNextInsn_def Let_def fst_conv snd_conv case_prod_beta
  by (rule post_bindI [OF next_steady]) (auto simp: post_def split: Option.bind_splits)

lemma raw_insns_steady:
  "raw_insns C D out ps (d, f) = Some (err, out', ps', d', f') \<Longrightarrow> steady d d'"
proof -
  have "D' = D \<longrightarrow> steady (fst st) (fst (snd (snd (snd r))))" if "raw_insns C D' out ps st = Some r" for C D' out ps st r
  proof (rule raw_insns.raw_induct [where P = "\<lambda>C D' out ps st r. D' = D \<longrightarrow> steady (fst st) (fst (snd (snd (snd r))))", OF _ that])
    fix loop C D' out ps st r
    assume IH: "\<And>C D' out ps st r. loop C D' out ps st = Some r \<Longrightarrow> D' = D \<longrightarrow> steady (fst st) (fst (snd (snd (snd r))))"
      and body: "do {
          (err, line, ps, st) \<leftarrow> ProcessNextInsn C D' ps st;
          if err < 0 then Some (err, out @ line, ps, st) else loop C D' (out @ line) ps st
        } = Some r"
    show "D' = D \<longrightarrow> steady (fst st) (fst (snd (snd (snd r))))"
    proof
      assume D: "D' = D"
      obtain err line ps1 d1 f1 where n: "ProcessNextInsn C D ps st = Some (err, line, ps1, d1, f1)"
        and rest: "(if err < 0 then Some (err, out @ line, ps1, d1, f1) else loop C D (out @ line) ps1 (d1, f1)) = Some r"
        using body D by (auto split: Option.bind_splits prod.splits)
      have "steady (fst st) d1" using postD [OF ProcessNextInsn_steady [of "fst st"], of C ps "snd st"] n by simp
      then show "steady (fst st) (fst (snd (snd (snd r))))"
        using rest IH [of C D "out @ line" ps1 "(d1, f1)" r] steady_trans by (auto split: if_splits)
    qed
  qed
  then show "raw_insns C D out ps (d, f) = Some (err, out', ps', d', f') \<Longrightarrow> steady d d'" by fastforce
qed

lemma raw_syncs_steady:
  "raw_syncs C D out ps (d, f) = Some (out', ps', d', f') \<Longrightarrow> steady d d'"
proof -
  have "D' = D \<longrightarrow> steady (fst st) (fst (snd (snd r)))" if "raw_syncs C D' out ps st = Some r" for C D' out ps st r
  proof (rule raw_syncs.raw_induct [where P = "\<lambda>C D' out ps st r. D' = D \<longrightarrow> steady (fst st) (fst (snd (snd r)))", OF _ that], goal_cases)
    case (1 loop C D' out ps st r)
    show ?case
    proof
      assume D: "D' = D"
      obtain err f1 where s: "dl_sync_forward D (ds_decoder (fst st)) (snd st) = (err, f1)"
        by (cases "dl_sync_forward D (ds_decoder (fst st)) (snd st)")
      show "steady (fst st) (fst (snd (snd r)))"
      proof (cases "err < 0")
        case True
        then show ?thesis using 1(2) D s by (auto simp: Let_def)
      next
        case False
        obtain e out1 ps1 ps2 d2 f2 where i: "raw_insns C D out ps1 (fst st, f1) = Some (e, out1, ps2, d2, f2)"
          and l: "loop C D out1 ps2 (d2, f2) = Some r"
          using 1(2) D s False by (auto simp: Let_def split: Option.bind_splits prod.splits)
        then show ?thesis using raw_insns_steady [OF i] 1(1) [OF l] steady_trans by fastforce
      qed
    qed
  qed
  then show "raw_syncs C D out ps (d, f) = Some (out', ps', d', f') \<Longrightarrow> steady d d'" by fastforce
qed

end

lemma AllocDecoder_kept:
  "post (\<lambda>(ok, d', f'). sideband_kept d d' \<and> (\<not> ok \<longrightarrow> ds_decoder d' = 0)) (AllocDecoder C name d f)"
  by (auto simp: AllocDecoder_def post_def sideband_kept_def Let_def split: option.splits prod.splits if_splits)

lemma FreeDecoder_kept: "post (\<lambda>(d', f'). sideband_kept d d' \<and> ds_decoder d' = 0) (FreeDecoder C d f)"
  by (simp add: FreeDecoder_def sideband_kept_def)

lemma print_files_kept:
  assumes "\<And>pf out d f. ds_decoder d = 0 \<Longrightarrow> post (\<lambda>(n, out', d', f'). sideband_kept d d' \<and> ds_decoder d' = 0) (one pf out (d, f))"
    and "ds_decoder d = 0"
  shows "post (\<lambda>(n, out', d', f'). sideband_kept d d' \<and> ds_decoder d' = 0) (print_files one pfs cnt out (d, f))"
  using assms(2)
proof (induction pfs arbitrary: cnt out d f)
  case (Cons pf pfs)
  show ?case unfolding print_files.simps
  proof (rule post_bindI [OF assms(1) [OF Cons.prems]], clarify)
    fix n out1 d1 f1 assume "sideband_kept d d1" "ds_decoder d1 = 0"
    then show "post (\<lambda>(n, out', d', f'). sideband_kept d d' \<and> ds_decoder d' = 0) (print_files one pfs (cnt + n) out1 (d1, f1))"
      by (intro post_mono [OF Cons.IH]) (auto intro: sideband_kept_trans)
  qed
qed simp

context pt_library
begin

lemma raw_PrintOneFile_kept:
  "post (\<lambda>(n, out', d', f'). sideband_kept d d' \<and> ds_decoder d' = 0) (raw_PrintOneFile C D pf out (d, f))"
  unfolding raw_PrintOneFile_def fst_conv snd_conv
proof (rule post_bindI [OF AllocDecoder_kept], clarify)
  fix ok d1 f1 assume a: "sideband_kept d d1" "\<not> ok \<longrightarrow> ds_decoder d1 = 0"
  have "sideband_kept d d3 \<and> ds_decoder d3 = 0"
    if "raw_syncs C D out1 ps1 (d1, f1) = Some (out2, ps2, d2, f2)" "FreeDecoder C d2 f2 = Some (d3, f3)"
    for out1 ps1 out2 ps2 d2 f2 d3 f3
    using raw_syncs_steady [OF that(1)] postD [OF FreeDecoder_kept that(2)] a(1)
    by (auto simp: steady_def intro: sideband_kept_trans)
  then show "post (\<lambda>(n, out', d', f'). sideband_kept d d' \<and> ds_decoder d' = 0)
      (if \<not> ok then Some (0, out, d1, f1)
       else do {
         let out = out @ ''Dump of PT file '' @ pf_file pf @ '', id 0x'' @ hex_text (unat (pf_id pf)) @ ''\<newline>'';
         (out, ps, d, f) \<leftarrow> raw_syncs C D out (PrintState_new (de_ipt C) 0) (d1, f1);
         st \<leftarrow> FreeDecoder C d f;
         Some (ps_total_insncnt ps, out, st)
       })"
    using a by (auto simp: post_def Let_def split: Option.bind_splits)
qed

lemma raw_PrintFiles_kept:
  "ds_decoder d = 0 \<Longrightarrow> post (\<lambda>(n, out', d', f'). sideband_kept d d' \<and> ds_decoder d' = 0) (raw_PrintFiles C D out (d, f))"
  unfolding raw_PrintFiles_def by (rule print_files_kept [OF raw_PrintOneFile_kept])

end

section \<open>A small decoder library\<close>

text \<open>
  Images and decoders that always exist, and a decoder that synchronises once and then fails to read the instruction at
  address 0: it asks the callback for one byte.
\<close>

definition ref_ipt :: "ref_fs libipt" where
  "ref_ipt =
     \<lparr>lp_no_cr3 = - 1, lp_eos = 1, lp_nomap = 2, lp_bad_image = 3,
      lp_config_init = \<lparr>cfg_cpu = \<lparr>cpu_family = 0, cpu_model = 0, cpu_stepping = 0\<rparr>, cfg_errata = [0, 0, 0, 0], cfg_begin = 0,
        cfg_end = 0, cfg_nom_freq = 0\<rparr>,
      lp_errata = (\<lambda>cpu e. e),
      lp_image_alloc = (\<lambda>name f. (1, f)),
      lp_image_free = (\<lambda>img f. f),
      lp_image_add_file = (\<lambda>img name off len cr3 addr f. (0, f)),
      lp_image_read = (\<lambda>img n cr3 addr f. (int n, replicate n 0x90, f)),
      lp_alloc_decoder = (\<lambda>cfg f. (1, f)),
      lp_free_decoder = (\<lambda>dec f. f),
      lp_set_image = (\<lambda>dec img f. f)\<rparr>"

definition ref_dump_env :: "ref_fs dump_env" where
  "ref_dump_env = \<lparr>de_libc = ref_libc, de_posix = ref_posix, de_ipt = ref_ipt, de_ktrace = magenta_ktrace\<rparr>"

definition nop_insn :: "u64 \<Rightarrow> pt_insn" where
  "nop_insn ip =
     \<lparr>in_ip = ip, in_iclass = ptic_other, in_raw = [0x90], in_speculative = False, in_aborted = False, in_committed = False,
      in_disabled = False, in_enabled = False, in_resumed = False, in_interrupted = False, in_resynced = False,
      in_stopped = False\<rparr>"

definition ref_decode :: "ref_fs pt_decode" where
  "ref_decode =
     \<lparr>dl_sync_forward = (\<lambda>dec f. if fs_next f < 16 then (0, f\<lparr>fs_next := fs_next f + 16\<rparr>) else (- 1, f)),
      dl_get_offset = (\<lambda>dec f. 0),
      dl_time = (\<lambda>dec f. (0, 0, 0)),
      dl_next = (\<lambda>cb dec st. do {
        (n, bytes, d, f) \<leftarrow> cb 1 0 0 st;
        Some (if n < 0 then n else - 1, nop_insn 0, d, f)
      }),
      dl_get_cr3 = (\<lambda>dec f. 0),
      dl_core_bus_ratio = (\<lambda>dec f. 0),
      dl_errstr = (\<lambda>err. ''error''),
      dl_class_value = (\<lambda>c. 0)\<rparr>"

interpretation ref_library: pt_library ref_decode
proof
  fix I :: "DecoderState \<Rightarrow> bool" and cb :: "ref_fs mem_callback" and d dec f
  assume "\<And>n cr3 a d f. I d \<Longrightarrow> post (\<lambda>(m, bytes, d', f'). I d') (cb n cr3 a (d, f))" "I d"
  then have "post (\<lambda>(m, bytes, d', f'). I d') (cb 1 0 0 (d, f))" by blast
  then show "post (\<lambda>(err, insn, d', f'). I d') (dl_next ref_decode cb dec (d, f))"
    unfolding ref_decode_def pt_decode.simps by (rule post_bindI) auto
qed

text \<open>
  Decoding a second file maps it over the record of the first mapping, which is never released: after both are printed and the
  decoder is destroyed the first is still there.
\<close>

definition two_files :: "(int \<times> ref_fs) option" where
  "two_files =
     (let f0 = \<lparr>fs_files = [(''a'', [1]), (''b'', [2])], fs_fds = [], fs_next = 3, fs_maps = []\<rparr>; C = ref_dump_env
      in do {
        (ok, d, f) \<leftarrow> AllocDecoder C ''a'' (DecoderState_new ref_ipt) f0;
        (d, f) \<leftarrow> FreeDecoder C d f;
        (ok, d, f) \<leftarrow> AllocDecoder C ''b'' d f;
        (d, f) \<leftarrow> FreeDecoder C d f;
        Some (0, DecoderState_destroy C d f)
      })"

lemma first_mapping_leaks: "map_option (fs_maps \<circ> snd) two_files = Some [(0x10000, 1)]"
  by (simp add: two_files_def AllocDecoder_def MmapFile_def FreeDecoder_def DecoderState_destroy_def UnmapFile_def
      ref_dump_env_def ref_posix_def ref_ipt_def DecoderState_new_def adjust_errata_def fs_view_def Let_def)

end
