(* ===== verification/Call_Printer.thy ===== *)
theory Call_Printer
  imports Raw_Printer
begin

text \<open>
  Printing the calls and returns of a trace: \<^verbatim>\<open>third_party/simple-pt/call-printer.{h,cc}\<close> and
  \<^verbatim>\<open>third_party/simple-pt/instruction.{h,cc}\<close>.  The records that are collected live in an array on the stack that is not
  initialised: a field of an \<open>Instruction\<close> is \<open>None\<close> until it is assigned, and reading it then is \<open>None\<close>.
\<close>

section \<open>Definitions\<close>

record insn_events =
  ev_speculative :: bool
  ev_aborted :: bool
  ev_committed :: bool
  ev_disabled :: bool
  ev_enabled :: bool
  ev_resumed :: bool
  ev_interrupted :: bool
  ev_resynced :: bool
  ev_stopped :: bool

record Instruction =
  i_tic :: "u64 option"
  i_cr3 :: "u64 option"
  i_pc :: "u64 option"
  i_dst :: "u64 option"
  i_ts :: "u64 option"
  i_lost_mtc :: "u32 option"
  i_lost_cyc :: "u32 option"
  i_iclass :: "pt_insn_class option"
  i_insn_delta :: "u32 option"
  i_core_bus_ratio :: "u32 option"
  i_events :: "insn_events option"

definition Instruction_new :: Instruction where
  "Instruction_new =
     \<lparr>i_tic = None, i_cr3 = None, i_pc = None, i_dst = None, i_ts = None, i_lost_mtc = None, i_lost_cyc = None,
      i_iclass = None, i_insn_delta = None, i_core_bus_ratio = None, i_events = None\<rparr>"

definition TransferEvents :: "Instruction \<Rightarrow> pt_insn \<Rightarrow> Instruction" where
  "TransferEvents insn raw =
     insn\<lparr>i_events := Some
       \<lparr>ev_speculative = in_speculative raw, ev_aborted = in_aborted raw, ev_committed = in_committed raw,
        ev_disabled = in_disabled raw, ev_enabled = in_enabled raw, ev_resumed = in_resumed raw,
        ev_interrupted = in_interrupted raw, ev_resynced = in_resynced raw, ev_stopped = in_stopped raw\<rparr>\<rparr>"

record CallConfig =
  cc_output_file_name :: string
  cc_abstime :: bool
  cc_report_lost_mtc_cyc :: bool
  cc_dump_pc :: bool
  cc_dump_insn :: bool

record GlobalPrintState =
  gps_first_ts :: u64
  gps_last_ts :: u64
  gps_core_bus_ratio :: u32

record LocalPrintState =
  lps_indent :: int
  lps_prev_speculative :: int

definition kInsnsPerIteration :: nat where "kInsnsPerIteration = 256"

subsection \<open>Formats\<close>

definition pad_left :: "nat \<Rightarrow> string \<Rightarrow> string" where
  "pad_left n s = replicate (n - length s) (CHR '' '') @ s"

definition pad_right :: "nat \<Rightarrow> string \<Rightarrow> string" where
  "pad_right n s = s @ replicate (n - length s) (CHR '' '')"

text \<open>A negative field width is a width and a flag.\<close>

definition spaces :: "int \<Rightarrow> string" where
  "spaces w = replicate (nat \<bar>w\<bar>) (CHR '' '')"

definition u32_text :: "u32 \<Rightarrow> string" where
  "u32_text n = nat_string 10 (unat n)"

subsection \<open>Printing a record\<close>

definition PrintPc_at ::
  "CallConfig \<Rightarrow> (pt_table \<times> Symbol) option \<Rightarrow> u64 \<Rightarrow> u64 \<Rightarrow> bool \<Rightarrow> string option" where
  "PrintPc_at cfg found pc cr3 print_cr3 =
     (case found of
        Some (symtab, smb) \<Rightarrow>
          do {
            name \<leftarrow> symbol_name symtab smb;
            let addr = sym_addr smb + pt_offset symtab;
            Some (name
              @ (if pc - addr > 0 then ''+'' @ number_string 10 (sint (pc - addr)) else '''')
              @ (if cc_dump_pc cfg then
                   '' ['' @ (if print_cr3 then hex_text (unat cr3) @ '':'' else '''') @ hex_text (unat pc) @ '']''
                 else ''''))
          }
      | None \<Rightarrow> Some ((if print_cr3 then hex_text (unat cr3) @ '':'' else '''') @ hex_text (unat pc)))"

definition with_table :: "Symbol option \<Rightarrow> pt_table option \<Rightarrow> (pt_table \<times> Symbol) option" where
  "with_table smb symtab = do { s \<leftarrow> smb; t \<leftarrow> symtab; Some (t, s) }"

definition PrintPc :: "'f dump_env \<Rightarrow> CallConfig \<Rightarrow> DecoderState \<Rightarrow> u64 \<Rightarrow> u64 \<Rightarrow> bool \<Rightarrow> string option" where
  "PrintPc C cfg d pc cr3 print_cr3 =
     (case Decoder_FindSymbol C cr3 pc d of
        (smb, symtab) \<Rightarrow> PrintPc_at cfg (with_table smb symtab) pc cr3 print_cr3)"

definition PrintEv :: "'f dump_env \<Rightarrow> CallConfig \<Rightarrow> DecoderState \<Rightarrow> string \<Rightarrow> Instruction \<Rightarrow> string option" where
  "PrintEv C cfg d name insn =
     do {
       pc \<leftarrow> i_pc insn;
       cr3 \<leftarrow> i_cr3 insn;
       where \<leftarrow> PrintPc C cfg d pc cr3 True;
       Some (name @ '' '' @ where @ ''\<newline>'')
     }"

definition PrintEvent :: "'f dump_env \<Rightarrow> CallConfig \<Rightarrow> DecoderState \<Rightarrow> Instruction \<Rightarrow> string option" where
  "PrintEvent C cfg d insn =
     do {
       ev \<leftarrow> i_events insn;
       a \<leftarrow> (if ev_interrupted ev then PrintEv C cfg d ''interrupted'' insn else Some '''');
       b \<leftarrow> (if ev_resynced ev then PrintEv C cfg d ''resynced'' insn else Some '''');
       c \<leftarrow> (if ev_stopped ev then PrintEv C cfg d ''stopped'' insn else Some '''');
       Some (a @ b @ c)
     }"

definition HasSpeculativeEvent :: "insn_events \<Rightarrow> bool" where
  "HasSpeculativeEvent ev \<longleftrightarrow> ev_speculative ev \<or> ev_aborted ev \<or> ev_committed ev"

definition PrintSpeculativeEvent :: "insn_events \<Rightarrow> LocalPrintState \<Rightarrow> string \<times> LocalPrintState" where
  "PrintSpeculativeEvent ev lps =
     (let spec = (if ev_speculative ev then 1 else 0);
          (l1, lps) = (if spec \<noteq> lps_prev_speculative lps then
              (spaces (lps_indent lps) @ ''transaction\<newline>'',
               lps\<lparr>lps_prev_speculative := spec, lps_indent := lps_indent lps + 4\<rparr>)
            else ('''', lps));
          (l2, lps) = (if ev_aborted ev then
              (spaces (lps_indent lps) @ ''aborted\<newline>'', lps\<lparr>lps_indent := lps_indent lps - 4\<rparr>)
            else ('''', lps));
          (l3, lps) = (if ev_committed ev then
              (spaces (lps_indent lps) @ ''committed\<newline>'', lps\<lparr>lps_indent := lps_indent lps - 4\<rparr>)
            else ('''', lps))
      in (l1 @ l2 @ l3, if lps_indent lps < 0 then lps\<lparr>lps_indent := 0\<rparr> else lps))"

definition PrintTic :: "u64 \<Rightarrow> string" where
  "PrintTic tic = ''['' @ pad_left 8 (dec_text tic) @ ''] ''"

definition PrintTimeIndent :: string where
  "PrintTimeIndent = spaces 24"

definition PrintTime :: "CallConfig \<Rightarrow> u64 \<Rightarrow> GlobalPrintState \<Rightarrow> string \<times> GlobalPrintState" where
  "PrintTime cfg ts gps =
     (let gps = (if gps_first_ts gps = 0 \<and> \<not> cc_abstime cfg then gps\<lparr>gps_first_ts := ts\<rparr> else gps);
          gps = (if gps_last_ts gps = 0 then gps\<lparr>gps_last_ts := ts\<rparr> else gps);
          relative_time = ts - gps_first_ts gps;
          delta_time = ts - gps_last_ts gps
      in (pad_right 24 (pad_right 9 (dec_text relative_time) @ '' ['' @ dec_text delta_time @ '']''),
          gps\<lparr>gps_last_ts := ts\<rparr>))"

definition PrintInsnTime :: "CallConfig \<Rightarrow> u64 \<Rightarrow> GlobalPrintState \<Rightarrow> string \<times> GlobalPrintState" where
  "PrintInsnTime cfg ts gps = (if ts \<noteq> 0 then PrintTime cfg ts gps else (PrintTimeIndent, gps))"

definition call_PrintInsn :: "'f pt_decode \<Rightarrow> pt_insn \<Rightarrow> u64 \<Rightarrow> u64 \<Rightarrow> string" where
  "call_PrintInsn D insn total_insn_count ts =
     ''['' @ pad_left 8 (dec_text total_insn_count) @ ''] '' @ hex_text (unat (in_ip insn)) @ '' '' @ dec_text ts @ '' ''
     @ pad_left 7 (InsnClassName D (in_iclass insn)) @ '': ''
     @ concat (map (\<lambda>b. printf_02x b @ '' '') (in_raw insn))
     @ (if in_enabled insn then CHR 0x09 # ''ENA'' else '''')
     @ (if in_disabled insn then CHR 0x09 # ''DIS'' else '''')
     @ (if in_resumed insn then CHR 0x09 # ''RES'' else '''')
     @ (if in_interrupted insn then CHR 0x09 # ''INT'' else '''')
     @ ''\<newline>''"

definition PrintKernelMarker :: "'f libipt \<Rightarrow> DecoderState \<Rightarrow> u64 \<Rightarrow> pt_table option \<Rightarrow> string" where
  "PrintKernelMarker T d cr3 symtab =
     (case symtab of
        Some st \<Rightarrow> if pt_is_kernel st then '' K'' else '' U''
      | None \<Rightarrow>
          if cr3 \<noteq> lp_no_cr3 T then (if cr3 = ds_kernel_cr3 d then '' K'' else '' U'')
          else '' ?'')"

definition ReportLost :: "CallConfig \<Rightarrow> u64 \<Rightarrow> Instruction \<Rightarrow> string option" where
  "ReportLost cfg ts insn =
     (if cc_report_lost_mtc_cyc cfg \<and> ts \<noteq> 0 then
        do {
          mtc \<leftarrow> i_lost_mtc insn;
          cyc \<leftarrow> i_lost_cyc insn;
          Some ((if mtc \<noteq> 0 then ''  [lost-mtc:'' @ u32_text mtc @ '']'' else '''')
            @ (if cyc \<noteq> 0 then ''  [lost-cyc:'' @ u32_text cyc @ '']'' else ''''))
        }
      else Some '''')"

subsection \<open>Printing what was collected\<close>

text \<open>The line for a record: what \<^verbatim>\<open>PrintOutput\<close> prints in each of its three cases before and after the target of a call.\<close>

definition print_line ::
  "'f dump_env \<Rightarrow> 'f pt_decode \<Rightarrow> CallConfig \<Rightarrow> DecoderState \<Rightarrow> bool \<Rightarrow> Instruction \<Rightarrow> GlobalPrintState \<Rightarrow> int \<Rightarrow>
     (string \<times> GlobalPrintState) option" where
  "print_line C D cfg d is_call insn gps indent =
     do {
       tic \<leftarrow> i_tic insn;
       ts \<leftarrow> i_ts insn;
       delta \<leftarrow> i_insn_delta insn;
       cr3 \<leftarrow> i_cr3 insn;
       pc \<leftarrow> i_pc insn;
       iclass \<leftarrow> i_iclass insn;
       let (time, gps) = PrintInsnTime cfg ts gps;
       let symtab = Decoder_FindSymbolTable C cr3 pc d;
       let smb = (case symtab of None \<Rightarrow> None | Some st \<Rightarrow> pt_table_FindSymbol (de_libc C) st pc);
       at \<leftarrow> PrintPc_at cfg (with_table smb symtab) pc cr3 True;
       target \<leftarrow> (if is_call then do {
           dst \<leftarrow> i_dst insn;
           t \<leftarrow> PrintPc C cfg d dst cr3 False;
           Some ('' -> '' @ t)
         }
         else Some '''');
       lost \<leftarrow> ReportLost cfg ts insn;
       Some (PrintTic tic @ time @ ''[+'' @ pad_left 4 (u32_text delta) @ '']''
         @ PrintKernelMarker (de_ipt C) d cr3 symtab @ '' '' @ pad_right 7 (InsnClassName D iclass)
         @ '' '' @ spaces indent @ at @ target @ lost @ ''\<newline>'', gps)
     }"

definition print_entry ::
  "'f dump_env \<Rightarrow> 'f pt_decode \<Rightarrow> CallConfig \<Rightarrow> DecoderState \<Rightarrow> Instruction \<Rightarrow> GlobalPrintState \<Rightarrow> LocalPrintState \<Rightarrow>
     (string \<times> GlobalPrintState \<times> LocalPrintState) option" where
  "print_entry C D cfg d insn gps lps =
     do {
       iclass \<leftarrow> i_iclass insn;
       if iclass = ptic_call \<or> iclass = ptic_far_call then do {
         (line, gps) \<leftarrow> print_line C D cfg d True insn gps (lps_indent lps);
         Some (line, gps, lps\<lparr>lps_indent := lps_indent lps + 4\<rparr>)
       }
       else if iclass = ptic_return \<or> iclass = ptic_far_return then do {
         (line, gps) \<leftarrow> print_line C D cfg d False insn gps (lps_indent lps);
         Some (line, gps, lps\<lparr>lps_indent := if lps_indent lps - 4 < 0 then 0 else lps_indent lps - 4\<rparr>)
       }
       else do {
         ts \<leftarrow> i_ts insn;
         if ts \<noteq> 0 \<or> iclass = ptic_error then do {
           (line, gps) \<leftarrow> print_line C D cfg d False insn gps (lps_indent lps);
           Some (line, gps, lps)
         }
         else Some ('''', gps, lps)
       }
     }"

fun PrintOutput ::
  "'f dump_env \<Rightarrow> 'f pt_decode \<Rightarrow> CallConfig \<Rightarrow> DecoderState \<Rightarrow> Instruction list \<Rightarrow> GlobalPrintState \<Rightarrow> LocalPrintState \<Rightarrow>
     (string \<times> GlobalPrintState \<times> LocalPrintState) option" where
  "PrintOutput C D cfg d [] gps lps = Some ('''', gps, lps)"
| "PrintOutput C D cfg d (insn # insns) gps lps =
     do {
       ratio \<leftarrow> i_core_bus_ratio insn;
       let (freq, gps) = (if ratio \<noteq> 0 \<and> ratio \<noteq> gps_core_bus_ratio gps then
           (''frequency '' @ number_string 10 (sint ratio) @ ''\<newline>'', gps\<lparr>gps_core_bus_ratio := ratio\<rparr>)
         else ('''', gps));
       ev \<leftarrow> i_events insn;
       let (spec, lps) = (if HasSpeculativeEvent ev then PrintSpeculativeEvent ev lps else ('''', lps));
       events \<leftarrow> (if ev_enabled ev \<or> ev_disabled ev \<or> ev_resumed ev \<or> ev_interrupted ev \<or> ev_resynced ev \<or> ev_stopped ev
         then PrintEvent C cfg d insn else Some '''');
       (line, gps, lps) \<leftarrow> print_entry C D cfg d insn gps lps;
       (rest, gps, lps) \<leftarrow> PrintOutput C D cfg d insns gps lps;
       Some (freq @ spec @ events @ line @ rest, gps, lps)
     }"

definition PrintHeader :: "u64 \<Rightarrow> string" where
  "PrintHeader num =
     ''PT dump for id '' @ dec_text num @ ''\<newline>''
     @ pad_right 10 ''REF#'' @ '' '' @ pad_right 9 ''TIME'' @ '' '' @ pad_right 13 ''DELTA'' @ '' '' @ pad_right 7 ''INSNs''
     @ '' @ '' @ pad_right 7 ''ICLASS'' @ '' LOCATION\<newline>''"

subsection \<open>Collecting records\<close>

text \<open>
  The variables of \<^verbatim>\<open>PrintOneFile\<close>.  \<open>cs_slot\<close> is \<^verbatim>\<open>insnbuf[count]\<close>, \<open>cs_buf\<close> the \<open>count\<close> records before it; \<open>cs_raw\<close> is
  \<^verbatim>\<open>raw_insn\<close>, \<open>None\<close> where it is not initialised.
\<close>

record 'f collect_state =
  cs_err :: int
  cs_buf :: "Instruction list"
  cs_slot :: Instruction
  cs_peeked_ahead :: bool
  cs_raw :: "pt_insn option"
  cs_total :: u64
  cs_last_ts :: u64
  cs_since :: u32
  cs_prev_ratio :: u32
  cs_errcr3 :: u64
  cs_errip :: u64
  cs_out :: string
  cs_decoder :: DecoderState
  cs_files :: 'f

definition emit :: "Instruction \<Rightarrow> 'f collect_state \<Rightarrow> 'f collect_state" where
  "emit insn cs = cs\<lparr>cs_buf := cs_buf cs @ [insn], cs_slot := Instruction_new\<rparr>"

definition next_insn :: "'f dump_env \<Rightarrow> 'f pt_decode \<Rightarrow> 'f collect_state \<Rightarrow> 'f collect_state option" where
  "next_insn C D cs =
     do {
       (err, insn, d, f) \<leftarrow> dl_next D (ReadMemCallback C) (ds_decoder (cs_decoder cs)) (cs_decoder cs, cs_files cs);
       let cs = cs\<lparr>cs_err := err, cs_raw := Some insn, cs_decoder := d, cs_files := f\<rparr>;
       Some (if err < 0 then cs\<lparr>cs_errcr3 := dl_get_cr3 D (ds_decoder d) f, cs_errip := in_ip insn\<rparr> else cs)
     }"

definition emit_error :: "'f collect_state \<Rightarrow> 'f collect_state" where
  "emit_error cs =
     (if cs_since cs > 0 then
        emit ((cs_slot cs)\<lparr>i_iclass := Some ptic_error, i_ts := Some 0, i_tic := Some (cs_total cs),
          i_cr3 := Some (cs_errcr3 cs), i_pc := Some (cs_errip cs), i_insn_delta := Some (cs_since cs)\<rparr>)
          (cs\<lparr>cs_since := 0\<rparr>)
      else cs)"

definition fill_slot :: "'f pt_decode \<Rightarrow> CallConfig \<Rightarrow> u64 \<Rightarrow> pt_insn \<Rightarrow> 'f collect_state \<Rightarrow> 'f collect_state" where
  "fill_slot D cfg ts raw cs =
     (let dec = ds_decoder (cs_decoder cs);
          cr3 = dl_get_cr3 D dec (cs_files cs);
          ratio = dl_core_bus_ratio D dec (cs_files cs)
      in cs\<lparr>cs_peeked_ahead := False, cs_since := cs_since cs + 1,
            cs_out := cs_out cs @ (if cc_dump_insn cfg then call_PrintInsn D raw (cs_total cs) ts else ''''),
            cs_prev_ratio := ratio,
            cs_slot := (cs_slot cs)\<lparr>i_cr3 := Some cr3,
              i_core_bus_ratio := Some (if ratio \<noteq> cs_prev_ratio cs then ratio else 0),
              i_iclass := Some (in_iclass raw)\<rparr>\<rparr>)"

definition finished_slot :: "pt_insn \<Rightarrow> 'f collect_state \<Rightarrow> Instruction" where
  "finished_slot raw cs =
     TransferEvents ((cs_slot cs)\<lparr>i_tic := Some (cs_total cs), i_pc := Some (in_ip raw),
       i_insn_delta := Some (cs_since cs)\<rparr>) raw"

text \<open>What happens to an instruction that was decoded: a call, something else that is printed, or nothing.\<close>

definition collect_insn ::
  "'f dump_env \<Rightarrow> 'f pt_decode \<Rightarrow> u64 \<Rightarrow> pt_insn \<Rightarrow> 'f collect_state \<Rightarrow> 'f collect_state option" where
  "collect_insn C D ts raw cs =
     (if in_iclass raw = ptic_call \<or> in_iclass raw = ptic_far_call then
        do {
          let insn = finished_slot raw cs;
          cs \<leftarrow> next_insn C D (cs\<lparr>cs_since := 0\<rparr>);
          if cs_err cs < 0 then Some (emit (insn\<lparr>i_dst := Some 0\<rparr>) cs)
          else Some (emit (insn\<lparr>i_dst := map_option in_ip (cs_raw cs)\<rparr>)
            (cs\<lparr>cs_peeked_ahead := True, cs_last_ts := if ts \<noteq> 0 then ts else cs_last_ts cs\<rparr>))
        }
      else if in_iclass raw = ptic_return \<or> in_iclass raw = ptic_far_return \<or> ts \<noteq> 0 then
        Some (emit (finished_slot raw cs)
          (cs\<lparr>cs_since := 0, cs_last_ts := if ts \<noteq> 0 then ts else cs_last_ts cs\<rparr>))
      else Some cs)"

definition collect_step ::
  "'f dump_env \<Rightarrow> 'f pt_decode \<Rightarrow> CallConfig \<Rightarrow> 'f collect_state \<Rightarrow> 'f collect_state option" where
  "collect_step C D cfg cs =
     (let (time, lost_mtc, lost_cyc) = dl_time D (ds_decoder (cs_decoder cs)) (cs_files cs);
          ts = (if time \<noteq> 0 \<and> time = cs_last_ts cs then 0 else time);
          cs = cs\<lparr>cs_total := cs_total cs + 1,
            cs_slot := (cs_slot cs)\<lparr>i_ts := Some ts, i_lost_mtc := Some lost_mtc, i_lost_cyc := Some lost_cyc\<rparr>\<rparr>
      in do {
        cs \<leftarrow> (if \<not> cs_peeked_ahead cs then next_insn C D cs else Some cs);
        if \<not> cs_peeked_ahead cs \<and> cs_err cs < 0 then Some (emit_error cs)
        else do {
          raw \<leftarrow> cs_raw cs;
          collect_insn C D ts raw (fill_slot D cfg ts raw cs)
        }
      })"

partial_function (option) collect_loop ::
  "'f dump_env \<Rightarrow> 'f pt_decode \<Rightarrow> CallConfig \<Rightarrow> 'f collect_state \<Rightarrow> 'f collect_state option" where
  "collect_loop C D cfg cs =
     (if cs_err cs = 0 \<and> length (cs_buf cs) < kInsnsPerIteration then
        do {
          cs \<leftarrow> collect_step C D cfg cs;
          collect_loop C D cfg cs
        }
      else Some cs)"

text \<open>The batches of records until an error: \<^verbatim>\<open>insnbuf\<close>, \<^verbatim>\<open>peeked_ahead\<close> and \<^verbatim>\<open>raw_insn\<close> are new for each.\<close>

definition new_batch :: "'f collect_state \<Rightarrow> 'f collect_state" where
  "new_batch cs = cs\<lparr>cs_buf := [], cs_slot := Instruction_new, cs_peeked_ahead := False, cs_raw := None\<rparr>"

partial_function (option) batches ::
  "'f dump_env \<Rightarrow> 'f pt_decode \<Rightarrow> CallConfig \<Rightarrow> GlobalPrintState \<Rightarrow> LocalPrintState \<Rightarrow> 'f collect_state \<Rightarrow>
     (GlobalPrintState \<times> 'f collect_state) option" where
  "batches C D cfg gps lps cs =
     do {
       cs \<leftarrow> collect_loop C D cfg (new_batch cs);
       (lines, gps, lps) \<leftarrow> PrintOutput C D cfg (cs_decoder cs) (cs_buf cs) gps lps;
       let cs = cs\<lparr>cs_out := cs_out cs @ lines\<rparr>;
       if cs_err cs = 0 then batches C D cfg gps lps cs else Some (gps, cs)
     }"

partial_function (option) call_syncs ::
  "'f dump_env \<Rightarrow> 'f pt_decode \<Rightarrow> CallConfig \<Rightarrow> GlobalPrintState \<Rightarrow> 'f collect_state \<Rightarrow> 'f collect_state option" where
  "call_syncs C D cfg gps cs =
     (case dl_sync_forward D (ds_decoder (cs_decoder cs)) (cs_files cs) of
        (err, f) \<Rightarrow>
          let cs = cs\<lparr>cs_files := f\<rparr>; dec = ds_decoder (cs_decoder cs)
          in if err < 0 then
               Some (cs\<lparr>cs_out := cs_out cs @ hex_text (unat (dl_get_offset D dec f)) @ '': sync forward: ''
                 @ dl_errstr D err @ ''\<newline>''\<rparr>)
             else do {
               (gps, cs) \<leftarrow> batches C D cfg gps \<lparr>lps_indent = 0, lps_prev_speculative = 0\<rparr>
                 (cs\<lparr>cs_err := err, cs_errcr3 := 0, cs_errip := 0, cs_prev_ratio := 0, cs_since := 0\<rparr>);
               if cs_err cs = - lp_eos (de_ipt C) then Some cs
               else call_syncs C D cfg gps
                 (cs\<lparr>cs_out := cs_out cs @ ''['' @ pad_left 8 (dec_text (cs_total cs)) @ ''] ''
                   @ hex_text (unat (dl_get_offset D (ds_decoder (cs_decoder cs)) (cs_files cs))) @ '':''
                   @ hex_text (unat (cs_errcr3 cs)) @ '':'' @ hex_text (unat (cs_errip cs)) @ '': error ''
                   @ dl_errstr D (cs_err cs) @ ''\<newline>''\<rparr>)
             })"

definition call_PrintOneFile ::
  "'f dump_env \<Rightarrow> 'f pt_decode \<Rightarrow> CallConfig \<Rightarrow> PtFile \<Rightarrow> string \<Rightarrow> DecoderState \<times> 'f \<Rightarrow>
     (u64 \<times> string \<times> DecoderState \<times> 'f) option" where
  "call_PrintOneFile C D cfg pt_file out st =
     do {
       (ok, d, f) \<leftarrow> AllocDecoder C (pf_file pt_file) (fst st) (snd st);
       if \<not> ok then Some (0, out, d, f)
       else do {
         cs \<leftarrow> call_syncs C D cfg \<lparr>gps_first_ts = 0, gps_last_ts = 0, gps_core_bus_ratio = 0\<rparr>
           \<lparr>cs_err = 0, cs_buf = [], cs_slot = Instruction_new, cs_peeked_ahead = False, cs_raw = None, cs_total = 0,
            cs_last_ts = 0, cs_since = 0, cs_prev_ratio = 0, cs_errcr3 = 0, cs_errip = 0,
            cs_out = out @ PrintHeader (pf_id pt_file), cs_decoder = d, cs_files = f\<rparr>;
         st \<leftarrow> FreeDecoder C (cs_decoder cs) (cs_files cs);
         Some (cs_total cs, cs_out cs, st)
       }
     }"

definition call_PrintFiles ::
  "'f dump_env \<Rightarrow> 'f pt_decode \<Rightarrow> CallConfig \<Rightarrow> string \<Rightarrow> DecoderState \<times> 'f \<Rightarrow> (u64 \<times> string \<times> DecoderState \<times> 'f) option" where
  "call_PrintFiles C D cfg out st = print_files (call_PrintOneFile C D cfg) (ds_pt_files (fst st)) 0 out st"

definition CallPrinter_Create :: "'f posix \<Rightarrow> CallConfig \<Rightarrow> 'f \<Rightarrow> CallConfig option" where
  "CallPrinter_Create P config f =
     (if cc_output_file_name config \<noteq> '''' \<and> \<not> px_fopen_write P (cc_output_file_name config) f then None
      else Some config)"

section \<open>The decoder's state while printing\<close>

definition cs_steady :: "'f collect_state \<Rightarrow> 'f collect_state \<Rightarrow> bool" where
  "cs_steady cs cs' \<longleftrightarrow> steady (cs_decoder cs) (cs_decoder cs')"

lemma cs_steady_refl [simp]: "cs_steady cs cs"
  by (simp add: cs_steady_def)

lemma cs_steady_trans: "cs_steady a b \<Longrightarrow> cs_steady b c \<Longrightarrow> cs_steady a c"
  by (auto simp: cs_steady_def intro: steady_trans)

lemma cs_steady_emit: "cs_steady cs (emit insn cs') \<longleftrightarrow> cs_steady cs cs'"
  by (simp add: cs_steady_def emit_def)

context pt_library
begin

lemma next_insn_steady: "post (cs_steady cs) (next_insn C D cs)"
  unfolding next_insn_def cs_steady_def
  by (rule post_bindI [OF next_steady]) (auto simp: Let_def)

lemma collect_insn_steady: "post (cs_steady cs) (collect_insn C D ts raw cs)"
proof -
  have "post (cs_steady cs) (next_insn C D (cs\<lparr>cs_since := 0\<rparr>))"
    by (rule post_mono [OF next_insn_steady]) (simp add: cs_steady_def)
  then have call: "post (cs_steady cs) (do {
      cs1 \<leftarrow> next_insn C D (cs\<lparr>cs_since := 0\<rparr>);
      if cs_err cs1 < 0 then Some (emit (insn\<lparr>i_dst := Some 0\<rparr>) cs1)
      else Some (emit (insn\<lparr>i_dst := map_option in_ip (cs_raw cs1)\<rparr>)
        (cs1\<lparr>cs_peeked_ahead := True, cs_last_ts := if ts \<noteq> 0 then ts else cs_last_ts cs1\<rparr>)) })" for insn
    by (rule post_bindI) (auto simp: cs_steady_emit, auto simp: cs_steady_def)
  show ?thesis unfolding collect_insn_def Let_def
    using call by (auto simp: cs_steady_emit) (auto simp: cs_steady_def)
qed

lemma collect_step_steady: "post (cs_steady cs) (collect_step C D cfg cs)"
proof -
  obtain time m c where t: "dl_time D (ds_decoder (cs_decoder cs)) (cs_files cs) = (time, m, c)"
    by (cases "dl_time D (ds_decoder (cs_decoder cs)) (cs_files cs)")
  define ts where "ts = (if time \<noteq> 0 \<and> time = cs_last_ts cs then 0 else time)"
  define cs1 where "cs1 = cs\<lparr>cs_total := cs_total cs + 1,
      cs_slot := (cs_slot cs)\<lparr>i_ts := Some ts, i_lost_mtc := Some m, i_lost_cyc := Some c\<rparr>\<rparr>"
  have first: "post (cs_steady cs) (if \<not> cs_peeked_ahead cs1 then next_insn C D cs1 else Some cs1)"
    using post_mono [OF next_insn_steady [of cs1 C], of "cs_steady cs"] by (auto simp: cs_steady_def cs1_def)
  have eq: "collect_step C D cfg cs = do {
      cs2 \<leftarrow> (if \<not> cs_peeked_ahead cs1 then next_insn C D cs1 else Some cs1);
      if \<not> cs_peeked_ahead cs2 \<and> cs_err cs2 < 0 then Some (emit_error cs2)
      else do { raw \<leftarrow> cs_raw cs2; collect_insn C D ts raw (fill_slot D cfg ts raw cs2) } }"
    unfolding collect_step_def Let_def t prod.case ts_def [symmetric] cs1_def [symmetric] ..
  have rest: "post (cs_steady cs) (if \<not> cs_peeked_ahead cs2 \<and> cs_err cs2 < 0 then Some (emit_error cs2)
      else do { raw \<leftarrow> cs_raw cs2; collect_insn C D ts raw (fill_slot D cfg ts raw cs2) })"
    if s: "cs_steady cs cs2" for cs2
  proof -
    have "cs_steady cs (emit_error cs2)" using s by (auto simp: emit_error_def cs_steady_emit) (simp add: cs_steady_def)
    moreover have "post (cs_steady cs) (collect_insn C D ts raw (fill_slot D cfg ts raw cs2))" for raw
    proof (rule post_mono [OF collect_insn_steady])
      fix cs3 assume "cs_steady (fill_slot D cfg ts raw cs2) cs3"
      then show "cs_steady cs cs3" using s steady_trans by (simp add: cs_steady_def fill_slot_def Let_def)
    qed
    ultimately show ?thesis by (auto simp: post_bind)
  qed
  show ?thesis unfolding eq by (rule post_bindI [OF first]) (rule rest)
qed

lemma collect_loop_steady: "collect_loop C D cfg cs = Some cs' \<Longrightarrow> cs_steady cs cs'"
proof -
  have "D' = D \<longrightarrow> cs_steady cs r" if "collect_loop C D' cfg cs = Some r" for C D' cfg cs r
  proof (rule collect_loop.raw_induct [where P = "\<lambda>C D' cfg cs r. D' = D \<longrightarrow> cs_steady cs r", OF _ that], goal_cases)
    case (1 loop C D' cfg cs r)
    show ?case
    proof
      assume D: "D' = D"
      show "cs_steady cs r"
      proof (cases "cs_err cs = 0 \<and> length (cs_buf cs) < kInsnsPerIteration")
        case True
        then obtain cs1 where "collect_step C D cfg cs = Some cs1" "loop C D cfg cs1 = Some r"
          using 1(2) D by (auto split: Option.bind_splits)
        then show ?thesis using postD [OF collect_step_steady] 1(1) cs_steady_trans by blast
      next
        case False
        then show ?thesis using 1(2) by auto
      qed
    qed
  qed
  then show "collect_loop C D cfg cs = Some cs' \<Longrightarrow> cs_steady cs cs'" by blast
qed

lemma batches_steady: "batches C D cfg gps lps cs = Some (gps', cs') \<Longrightarrow> cs_steady cs cs'"
proof -
  have "D' = D \<longrightarrow> cs_steady cs (snd r)" if "batches C D' cfg gps lps cs = Some r" for C D' cfg gps lps cs r
  proof (rule batches.raw_induct [where P = "\<lambda>C D' cfg gps lps cs r. D' = D \<longrightarrow> cs_steady cs (snd r)", OF _ that], goal_cases)
    case (1 loop C D' cfg gps lps cs r)
    show ?case
    proof
      assume D: "D' = D"
      obtain cs1 lines gps1 lps1 where c: "collect_loop C D cfg (new_batch cs) = Some cs1"
        and rest: "(if cs_err cs1 = 0 then loop C D cfg gps1 lps1 (cs1\<lparr>cs_out := cs_out cs1 @ lines\<rparr>)
          else Some (gps1, cs1\<lparr>cs_out := cs_out cs1 @ lines\<rparr>)) = Some r"
        using 1(2) D by (auto simp: Let_def split: Option.bind_splits prod.splits if_splits)
      have "cs_steady cs (cs1\<lparr>cs_out := cs_out cs1 @ lines\<rparr>)"
        using collect_loop_steady [OF c] by (simp add: cs_steady_def new_batch_def)
      then show "cs_steady cs (snd r)"
        using rest 1(1) [of C D cfg gps1 lps1 "cs1\<lparr>cs_out := cs_out cs1 @ lines\<rparr>" r] cs_steady_trans
        by (auto split: if_splits)
    qed
  qed
  then show "batches C D cfg gps lps cs = Some (gps', cs') \<Longrightarrow> cs_steady cs cs'" by fastforce
qed

end

context pt_library
begin

lemma call_syncs_steady: "call_syncs C D cfg gps cs = Some cs' \<Longrightarrow> cs_steady cs cs'"
proof -
  have "D' = D \<longrightarrow> cs_steady cs r" if "call_syncs C D' cfg gps cs = Some r" for C D' cfg gps cs r
  proof (rule call_syncs.raw_induct [where P = "\<lambda>C D' cfg gps cs r. D' = D \<longrightarrow> cs_steady cs r", OF _ that], goal_cases)
    case (1 loop C D' cfg gps cs r)
    show ?case
    proof
      assume D: "D' = D"
      obtain err f1 where s: "dl_sync_forward D (ds_decoder (cs_decoder cs)) (cs_files cs) = (err, f1)"
        by (cases "dl_sync_forward D (ds_decoder (cs_decoder cs)) (cs_files cs)")
      show "cs_steady cs r"
      proof (cases "err < 0")
        case True
        then show ?thesis using 1(2) D s by (auto simp: Let_def cs_steady_def)
      next
        case False
        obtain gps1 lps cs1 cs2 where b: "batches C D cfg gps lps cs1 = Some (gps1, cs2)" "cs_decoder cs1 = cs_decoder cs"
          and rest: "r = cs2 \<or> (\<exists>cs3. cs_decoder cs3 = cs_decoder cs2 \<and> loop C D cfg gps1 cs3 = Some r)"
          using 1(2) D s False by (fastforce simp: Let_def split: Option.bind_splits prod.splits if_splits)
        have "cs_steady cs cs2" using batches_steady [OF b(1)] b(2) by (simp add: cs_steady_def)
        then show ?thesis using rest 1(1) cs_steady_trans unfolding cs_steady_def by (metis steady_trans)
      qed
    qed
  qed
  then show "call_syncs C D cfg gps cs = Some cs' \<Longrightarrow> cs_steady cs cs'" by blast
qed

lemma call_PrintOneFile_kept:
  "post (\<lambda>(n, out', d', f'). sideband_kept d d' \<and> ds_decoder d' = 0) (call_PrintOneFile C D cfg pf out (d, f))"
  unfolding call_PrintOneFile_def fst_conv snd_conv
proof (rule post_bindI [OF AllocDecoder_kept], clarify, goal_cases)
  case (1 ok d1 f1)
  have "sideband_kept d d3 \<and> ds_decoder d3 = 0"
    if "call_syncs C D cfg gps cs = Some cs2" "cs_decoder cs = d1" "FreeDecoder C (cs_decoder cs2) f2 = Some (d3, f3)"
    for gps cs cs2 f2 d3 f3
    using call_syncs_steady [OF that(1)] that(2) postD [OF FreeDecoder_kept that(3)] 1(1)
    by (auto simp: cs_steady_def steady_def intro: sideband_kept_trans)
  then show ?case using 1 by (auto simp: post_def Let_def split: Option.bind_splits)
qed

lemma call_PrintFiles_kept:
  "ds_decoder d = 0 \<Longrightarrow> post (\<lambda>(n, out', d', f'). sideband_kept d d' \<and> ds_decoder d' = 0) (call_PrintFiles C D cfg out (d, f))"
  unfolding call_PrintFiles_def by (rule print_files_kept [OF call_PrintOneFile_kept])

end

section \<open>Errors in a trace\<close>

text \<open>A record whose event flags were never assigned cannot be printed.\<close>

lemma PrintOutput_no_events: "i_events insn = None \<Longrightarrow> PrintOutput C D cfg d (xs @ [insn]) gps lps = None"
proof (induction xs arbitrary: gps lps)
  case Nil
  then show ?case by (auto simp: Let_def split: Option.bind_splits prod.splits)
next
  case (Cons x xs)
  then show ?case by (auto simp: Let_def split: Option.bind_splits prod.splits)
qed


definition pending_state :: "ref_fs collect_state" where
  "pending_state =
     \<lparr>cs_err = 0, cs_buf = [], cs_slot = Instruction_new, cs_peeked_ahead = False, cs_raw = None, cs_total = 1, cs_last_ts = 0,
      cs_since = 1, cs_prev_ratio = 0, cs_errcr3 = 0, cs_errip = 0, cs_out = '''', cs_decoder = DecoderState_new ref_ipt,
      cs_files = \<lparr>fs_files = [], fs_fds = [], fs_next = 3, fs_maps = []\<rparr>\<rparr>"

definition plain_config :: CallConfig where
  "plain_config = \<lparr>cc_output_file_name = '''', cc_abstime = False, cc_report_lost_mtc_cyc = False, cc_dump_pc = False,
     cc_dump_insn = False\<rparr>"


text \<open>
  The instruction after a call is decoded with the call, to know the target.  When the call fills the buffer, that instruction is
  forgotten with the batch: it is neither counted nor looked at.
\<close>

lemma peeked_instruction_dropped:
  assumes "cs_err cs = 0" "Suc (length (cs_buf cs)) = kInsnsPerIteration" "in_iclass raw = ptic_call"
    "dl_next D (ReadMemCallback C) (ds_decoder (cs_decoder cs)) (cs_decoder cs, cs_files cs) = Some (0, insn, d, f)"
  shows "\<exists>cs'. collect_insn C D ts raw cs = Some cs' \<and> cs_peeked_ahead cs' \<and> cs_raw cs' = Some insn
    \<and> collect_loop C D cfg cs' = Some cs' \<and> \<not> cs_peeked_ahead (new_batch cs') \<and> cs_raw (new_batch cs') = None
    \<and> cs_total (new_batch cs') = cs_total cs"
proof -
  obtain cs' where c: "collect_insn C D ts raw cs = Some cs'" "cs_peeked_ahead cs'" "cs_raw cs' = Some insn"
    "length (cs_buf cs') = kInsnsPerIteration" "cs_total cs' = cs_total cs"
    using assms by (simp add: collect_insn_def next_insn_def emit_def Let_def)
  then have "collect_loop C D cfg cs' = Some cs'" by (subst collect_loop.simps) simp
  then show ?thesis using c by (simp add: new_batch_def)
qed

end
