(* ===== verification/Ipt_Dump.thy ===== *)
theory Ipt_Dump
  imports Call_Printer
begin

text \<open>
  The program \<^verbatim>\<open>ipt-dump\<close>: its options (\<^verbatim>\<open>bin/ipt-dump/main.cc\<close>, \<^verbatim>\<open>command-line-settings.{h,cc}\<close>, \<^verbatim>\<open>printer-config.h\<close>)
  and its \<^verbatim>\<open>main\<close>, which builds the decoder's state and runs a printer over the trace files.
\<close>

section \<open>Options\<close>

datatype OutputFormat = kRaw | kCalls | kChrome
datatype OutputView = kCpu | kProcess

record CommandLineSettings =
  cl_output_format :: OutputFormat
  cl_output_file_name :: string
  cl_view :: OutputView
  cl_abstime :: bool
  cl_report_lost_mtc_cyc :: bool
  cl_dump_pc :: bool
  cl_dump_insn :: bool
  cl_id :: u32

definition CommandLineSettings_new :: CommandLineSettings where
  "CommandLineSettings_new =
     \<lparr>cl_output_format = kCalls, cl_output_file_name = '''', cl_view = kCpu, cl_abstime = False,
      cl_report_lost_mtc_cyc = False, cl_dump_pc = False, cl_dump_insn = False, cl_id = 0xffffffff\<rparr>"

definition ToRawPrinterConfig :: "CommandLineSettings \<Rightarrow> string" where
  "ToRawPrinterConfig cl = cl_output_file_name cl"

definition ToCallPrinterConfig :: "CommandLineSettings \<Rightarrow> CallConfig" where
  "ToCallPrinterConfig cl =
     \<lparr>cc_output_file_name = cl_output_file_name cl, cc_abstime = cl_abstime cl,
      cc_report_lost_mtc_cyc = cl_report_lost_mtc_cyc cl, cc_dump_pc = cl_dump_pc cl, cc_dump_insn = cl_dump_insn cl\<rparr>"

definition ParseOption :: "string \<Rightarrow> (string \<times> string) option" where
  "ParseOption arg =
     (if length arg < 2 \<or> arg ! 0 \<noteq> CHR ''-'' \<or> arg ! 1 \<noteq> CHR ''-'' then None
      else if length arg = 2 then None
      else if CHR ''='' \<notin> set (drop 3 arg) then Some (drop 2 arg, '''')
      else let tail = drop 3 arg;
               value = dropWhile (\<lambda>c. c \<noteq> CHR ''='') tail
        in Some (arg ! 2 # takeWhile (\<lambda>c. c \<noteq> CHR ''='') tail, drop 1 value))"

type_synonym dump_config = "DecoderConfig \<times> CommandLineSettings"

text \<open>One option; \<open>None\<close> is the error for which \<^verbatim>\<open>ParseArgv\<close> returns -1.\<close>

definition decoder_option :: "ftl \<Rightarrow> string \<Rightarrow> string \<Rightarrow> dump_config \<Rightarrow> dump_config option" where
  "decoder_option F option value config =
     (case config of (dc, cl) \<Rightarrow>
        if option = ''elf'' then
          (if value = '''' then None else Some (dc\<lparr>dc_elf_file_names := dc_elf_file_names dc @ [value]\<rparr>, cl))
        else if option = ''pt'' then
          (if value = '''' then None
           else if dc_pt_file_name dc \<noteq> '''' \<or> dc_pt_list_file_name dc \<noteq> '''' then None
           else Some (dc\<lparr>dc_pt_file_name := value\<rparr>, cl))
        else if option = ''pt-list'' then
          (if value = '''' then None
           else if dc_pt_file_name dc \<noteq> '''' \<or> dc_pt_list_file_name dc \<noteq> '''' then None
           else Some (dc\<lparr>dc_pt_list_file_name := value\<rparr>, cl))
        else if option = ''kernel'' then
          (if value = '''' then None else Some (dc\<lparr>dc_kernel_file_name := value\<rparr>, cl))
        else if option = ''kernel-cr3'' then
          (case StringToNumberWithError F UInt64 16 value of
             None \<Rightarrow> None
           | Some v \<Rightarrow> Some (dc\<lparr>dc_kernel_cr3 := word_of_int v\<rparr>, cl))
        else if option = ''ids'' then
          (if value = '''' then None else Some (dc\<lparr>dc_ids_file_names := dc_ids_file_names dc @ [value]\<rparr>, cl))
        else if option = ''ktrace'' then
          (if value = '''' then None else Some (dc\<lparr>dc_ktrace_file_name := value\<rparr>, cl))
        else if option = ''map'' then
          (if value = '''' then None else Some (dc\<lparr>dc_map_file_names := dc_map_file_names dc @ [value]\<rparr>, cl))
        else if option = ''verbose'' then Some config
        else None)"

definition printer_option :: "ftl \<Rightarrow> string \<Rightarrow> string \<Rightarrow> dump_config \<Rightarrow> dump_config option option" where
  "printer_option F option value config =
     (case config of (dc, cl) \<Rightarrow>
        if option = ''output-format'' then
          Some (if value = ''raw'' then Some (dc, cl\<lparr>cl_output_format := kRaw\<rparr>)
                else if value = ''calls'' then Some (dc, cl\<lparr>cl_output_format := kCalls\<rparr>)
                else if value = ''chrome'' then Some (dc, cl\<lparr>cl_output_format := kChrome\<rparr>)
                else None)
        else if option = ''output-file'' then Some (Some (dc, cl\<lparr>cl_output_file_name := value\<rparr>))
        else if option = ''time'' then
          Some (if value = ''abs'' then Some (dc, cl\<lparr>cl_abstime := True\<rparr>)
                else if value = ''rel'' then Some (dc, cl\<lparr>cl_abstime := False\<rparr>)
                else None)
        else if option = ''pc'' then Some (Some (dc, cl\<lparr>cl_dump_pc := True\<rparr>))
        else if option = ''insn'' then Some (Some (dc, cl\<lparr>cl_dump_insn := True\<rparr>))
        else if option = ''report-lost'' then Some (Some (dc, cl\<lparr>cl_report_lost_mtc_cyc := True\<rparr>))
        else if option = ''id'' then
          Some (case StringToNumberWithError F UInt32 16 value of
             None \<Rightarrow> None
           | Some v \<Rightarrow> Some (dc, cl\<lparr>cl_id := word_of_int v\<rparr>))
        else if option = ''view'' then
          Some (if value = ''cpu'' then Some (dc, cl\<lparr>cl_view := kCpu\<rparr>)
                else if value = ''process'' then Some (dc, cl\<lparr>cl_view := kProcess\<rparr>)
                else None)
        else None)"

definition parse_one :: "ftl \<Rightarrow> string \<Rightarrow> string \<Rightarrow> dump_config \<Rightarrow> dump_config option" where
  "parse_one F option value config =
     (case printer_option F option value config of
        Some r \<Rightarrow> r
      | None \<Rightarrow> decoder_option F option value config)"

text \<open>The loop over the arguments from \<open>n\<close> on: the index at which it stops, or -1.\<close>

fun parse_args :: "ftl \<Rightarrow> string list \<Rightarrow> int \<Rightarrow> dump_config \<Rightarrow> int \<times> dump_config" where
  "parse_args F [] n config = (n, config)"
| "parse_args F (arg # args) n config =
     (if arg = ''--'' then (n, config)
      else case ParseOption arg of
        None \<Rightarrow> (n, config)
      | Some (option, value) \<Rightarrow>
          (case parse_one F option value config of
             None \<Rightarrow> (- 1, config)
           | Some config \<Rightarrow> parse_args F args (n + 1) config))"

definition ParseArgv :: "ftl \<Rightarrow> string list \<Rightarrow> dump_config \<Rightarrow> int \<times> dump_config" where
  "ParseArgv F argv config =
     (case parse_args F (drop 1 argv) 1 config of
        (n, dc, cl) \<Rightarrow>
          if n < 0 then (- 1, dc, cl)
          else let n = (if n < int (length argv) \<and> argv ! nat n = ''--'' then n + 1 else n)
            in if dc_pt_file_name dc = '''' \<and> dc_pt_list_file_name dc = '''' then (- 1, dc, cl)
               else (n, dc, cl))"

section \<open>The program\<close>

definition run_printer ::
  "'f dump_env \<Rightarrow> 'f pt_decode \<Rightarrow> CommandLineSettings \<Rightarrow> DecoderState \<times> 'f \<Rightarrow> ((u64 \<times> string) option \<times> DecoderState \<times> 'f) option" where
  "run_printer C D cl st =
     (case cl_output_format cl of
        kRaw \<Rightarrow>
          (case RawPrinter_Create (de_posix C) (ToRawPrinterConfig cl) (snd st) of
             None \<Rightarrow> Some (None, st)
           | Some printer \<Rightarrow>
               do {
                 (total_insns, out, st) \<leftarrow> raw_PrintFiles C D '''' st;
                 Some (Some (total_insns, out), st)
               })
      | kCalls \<Rightarrow>
          (case CallPrinter_Create (de_posix C) (ToCallPrinterConfig cl) (snd st) of
             None \<Rightarrow> Some (None, st)
           | Some config \<Rightarrow>
               do {
                 (total_insns, out, st) \<leftarrow> call_PrintFiles C D config '''' st;
                 Some (Some (total_insns, out), st)
               })
      | kChrome \<Rightarrow> Some (None, st))"

text \<open>
  \<open>log_ok\<close> and \<open>help\<close> are what ftl's command line makes of the arguments.  The result has the exit status, what the printer
  wrote, and the files; the usage text is not modelled.
\<close>

definition ipt_dump_main ::
  "ftl \<Rightarrow> 'f dump_env \<Rightarrow> 'f pt_decode \<Rightarrow> (string list \<Rightarrow> bool) \<Rightarrow> (string list \<Rightarrow> bool) \<Rightarrow> string list \<Rightarrow> 'f \<Rightarrow>
     (int \<times> string \<times> 'f) option" where
  "ipt_dump_main F C D log_ok help argv f =
     (if \<not> log_ok argv then Some (1, '''', f)
      else if help argv then Some (0, '''', f)
      else case ParseArgv F argv (DecoderConfig_new (de_ipt C), CommandLineSettings_new) of
        (n, dc, cl) \<Rightarrow>
          if n < 0 then Some (1, '''', f)
          else if n \<noteq> int (length argv) then Some (1, '''', f)
          else do {
            (decoder, f) \<leftarrow> DecoderState_Create C dc f;
            (case decoder of
               None \<Rightarrow> Some (1, '''', f)
             | Some d \<Rightarrow>
                 do {
                   (result, d, f) \<leftarrow> run_printer C D cl (d, f);
                   let f = DecoderState_destroy C d f;
                   Some (case result of
                      None \<Rightarrow> (1, '''', f)
                    | Some (total_insns, out) \<Rightarrow> (0, out, f))
                 })
          })"

section \<open>Command lines\<close>

definition opt_text :: "string \<Rightarrow> string \<Rightarrow> string" where
  "opt_text name value = ''--'' @ name @ ''='' @ value"

lemma ParseOption_opt_text:
  assumes "name \<noteq> []" "CHR ''='' \<notin> set name"
  shows "ParseOption (opt_text name value) = Some (name, value)" "opt_text name value \<noteq> ''--''"
proof -
  obtain c cs where n: "name = c # cs" using assms(1) by (cases name) auto
  have "\<forall>c \<in> set cs. c \<noteq> CHR ''=''" using assms(2) n by auto
  then show "ParseOption (opt_text name value) = Some (name, value)"
    by (simp add: ParseOption_def opt_text_def n takeWhile_append2 dropWhile_append2)
  show "opt_text name value \<noteq> ''--''" by (simp add: opt_text_def)
qed

text \<open>\<open>consumes F args c c'\<close>: the loop gets past the arguments, turning the settings \<open>c\<close> into \<open>c'\<close>.\<close>

definition consumes :: "ftl \<Rightarrow> string list \<Rightarrow> dump_config \<Rightarrow> dump_config \<Rightarrow> bool" where
  "consumes F args c c' \<longleftrightarrow>
     (\<forall>n more. parse_args F (args @ more) n c = parse_args F more (n + int (length args)) c')"

lemma consumes_Nil: "consumes F [] c c"
  by (simp add: consumes_def)

lemma consumes_append: "consumes F xs c c' \<Longrightarrow> consumes F ys c' c'' \<Longrightarrow> consumes F (xs @ ys) c c''"
  by (simp add: consumes_def add.assoc)

lemma consumes_opt:
  "name \<noteq> [] \<Longrightarrow> CHR ''='' \<notin> set name \<Longrightarrow> parse_one F name value c = Some c' \<Longrightarrow>
    consumes F [opt_text name value] c c'"
  by (simp add: consumes_def ParseOption_opt_text)

lemma consumes_flag: "parse_one F name '''' c = Some c' \<Longrightarrow> name \<in> {''pc'', ''insn'', ''report-lost''} \<Longrightarrow>
    consumes F [''--'' @ name] c c'"
  by (auto simp: consumes_def ParseOption_def)

lemma consumes_list:
  assumes "name \<noteq> []" "CHR ''='' \<notin> set name" "\<forall>v \<in> set vs. v \<noteq> []"
    and "\<And>v ws. v \<noteq> [] \<Longrightarrow> parse_one F name v (upd ws) = Some (upd (ws @ [v]))"
  shows "consumes F (map (opt_text name) vs) (upd ws) (upd (ws @ vs))"
  using assms(3)
proof (induction vs arbitrary: ws)
  case (Cons v vs)
  then have "consumes F ([opt_text name v] @ map (opt_text name) vs) (upd ws) (upd ((ws @ [v]) @ vs))"
    using consumes_append [OF consumes_opt [OF assms(1,2) assms(4)]] by (metis list.set_intros)
  then show ?case by simp
qed (simp add: consumes_Nil)

text \<open>A command line for given settings.\<close>

definition input_args :: "ftl \<Rightarrow> DecoderConfig \<Rightarrow> string list" where
  "input_args F dc =
     [if dc_pt_file_name dc \<noteq> '''' then opt_text ''pt'' (dc_pt_file_name dc) else opt_text ''pt-list'' (dc_pt_list_file_name dc)]
     @ map (opt_text ''elf'') (dc_elf_file_names dc) @ map (opt_text ''ids'') (dc_ids_file_names dc)
     @ map (opt_text ''map'') (dc_map_file_names dc)
     @ (if dc_ktrace_file_name dc \<noteq> '''' then [opt_text ''ktrace'' (dc_ktrace_file_name dc)] else [])
     @ (if dc_kernel_file_name dc \<noteq> '''' then [opt_text ''kernel'' (dc_kernel_file_name dc)] else [])
     @ [opt_text ''kernel-cr3'' (NumberToString F UInt64 16 (uint (dc_kernel_cr3 dc)))]"

definition format_text :: "OutputFormat \<Rightarrow> string" where
  "format_text fmt = (case fmt of kRaw \<Rightarrow> ''raw'' | kCalls \<Rightarrow> ''calls'' | kChrome \<Rightarrow> ''chrome'')"

definition view_text :: "OutputView \<Rightarrow> string" where
  "view_text v = (case v of kCpu \<Rightarrow> ''cpu'' | kProcess \<Rightarrow> ''process'')"

definition output_args :: "ftl \<Rightarrow> CommandLineSettings \<Rightarrow> string list" where
  "output_args F cl =
     [opt_text ''output-format'' (format_text (cl_output_format cl)), opt_text ''output-file'' (cl_output_file_name cl),
      opt_text ''time'' (if cl_abstime cl then ''abs'' else ''rel'')]
     @ (if cl_dump_pc cl then [''--'' @ ''pc''] else []) @ (if cl_dump_insn cl then [''--'' @ ''insn''] else [])
     @ (if cl_report_lost_mtc_cyc cl then [''--'' @ ''report-lost''] else [])
     @ [opt_text ''id'' (NumberToString F UInt32 16 (uint (cl_id cl))), opt_text ''view'' (view_text (cl_view cl))]"

lemma in_range_words: "in_range UInt64 (uint (w :: u64))" "in_range UInt32 (uint (v :: u32))"
  using unsigned_less [of w, where ?'a = int] unsigned_less [of v, where ?'a = int] by simp_all

lemma input_args_consumed:
  assumes "ftl_conversions F" "dc_pt_file_name dc = '''' \<longleftrightarrow> dc_pt_list_file_name dc \<noteq> ''''"
    "\<forall>v \<in> set (dc_elf_file_names dc) \<union> set (dc_ids_file_names dc) \<union> set (dc_map_file_names dc). v \<noteq> []"
  shows "consumes F (input_args F dc) (DecoderConfig_new T, cl) (dc, cl)"
proof -
  note c3 = ftl_conversions.hex_roundtrip [OF assms(1) in_range_words(1) in_range_words(1)]
  define c0 where "c0 = DecoderConfig_new T"
  define c1 where "c1 = c0\<lparr>dc_pt_file_name := dc_pt_file_name dc, dc_pt_list_file_name := dc_pt_list_file_name dc\<rparr>"
  define c2 where "c2 = c1\<lparr>dc_elf_file_names := dc_elf_file_names dc\<rparr>"
  define c4 where "c4 = c2\<lparr>dc_ids_file_names := dc_ids_file_names dc\<rparr>"
  define c5 where "c5 = c4\<lparr>dc_map_file_names := dc_map_file_names dc\<rparr>"
  define c6 where "c6 = c5\<lparr>dc_ktrace_file_name := dc_ktrace_file_name dc\<rparr>"
  define c7 where "c7 = c6\<lparr>dc_kernel_file_name := dc_kernel_file_name dc\<rparr>"
  note d = c7_def c6_def c5_def c4_def c2_def c1_def c0_def DecoderConfig_new_def
  note one = parse_one_def printer_option_def decoder_option_def
  have s1: "consumes F [if dc_pt_file_name dc \<noteq> '''' then opt_text ''pt'' (dc_pt_file_name dc)
      else opt_text ''pt-list'' (dc_pt_list_file_name dc)] (c0, cl) (c1, cl)"
    using assms(2) by (auto intro!: consumes_opt simp: one d)
  have s2: "consumes F (map (opt_text ''elf'') (dc_elf_file_names dc)) (c1, cl) (c2, cl)"
    using consumes_list [of "''elf''" "dc_elf_file_names dc" F "\<lambda>ws. (c1\<lparr>dc_elf_file_names := ws\<rparr>, cl)" "[]"] assms(3)
    by (simp add: one d)
  have s3: "consumes F (map (opt_text ''ids'') (dc_ids_file_names dc)) (c2, cl) (c4, cl)"
    using consumes_list [of "''ids''" "dc_ids_file_names dc" F "\<lambda>ws. (c2\<lparr>dc_ids_file_names := ws\<rparr>, cl)" "[]"] assms(3)
    by (simp add: one d)
  have s4: "consumes F (map (opt_text ''map'') (dc_map_file_names dc)) (c4, cl) (c5, cl)"
    using consumes_list [of "''map''" "dc_map_file_names dc" F "\<lambda>ws. (c4\<lparr>dc_map_file_names := ws\<rparr>, cl)" "[]"] assms(3)
    by (simp add: one d)
  have s5: "consumes F (if dc_ktrace_file_name dc \<noteq> '''' then [opt_text ''ktrace'' (dc_ktrace_file_name dc)] else []) (c5, cl) (c6, cl)"
    by (auto intro!: consumes_opt simp: one d consumes_Nil)
  have s6: "consumes F (if dc_kernel_file_name dc \<noteq> '''' then [opt_text ''kernel'' (dc_kernel_file_name dc)] else []) (c6, cl) (c7, cl)"
    by (auto intro!: consumes_opt simp: one d consumes_Nil)
  have s7: "consumes F [opt_text ''kernel-cr3'' (NumberToString F UInt64 16 (uint (dc_kernel_cr3 dc)))] (c7, cl) (dc, cl)"
    by (cases dc) (auto intro!: consumes_opt simp: one d c3)
  show ?thesis unfolding input_args_def c0_def [symmetric]
    by (intro consumes_append [OF s1] consumes_append [OF s2] consumes_append [OF s3] consumes_append [OF s4]
        consumes_append [OF s5] consumes_append [OF s6] s7)
qed

lemma output_args_consumed:
  assumes "ftl_conversions F"
  shows "consumes F (output_args F cl) (dc, CommandLineSettings_new) (dc, cl)"
proof -
  note c3 = ftl_conversions.hex_roundtrip [OF assms in_range_words(2) in_range_words(2)]
  define c1 where "c1 = CommandLineSettings_new\<lparr>cl_output_format := cl_output_format cl\<rparr>"
  define c2 where "c2 = c1\<lparr>cl_output_file_name := cl_output_file_name cl\<rparr>"
  define c4 where "c4 = c2\<lparr>cl_abstime := cl_abstime cl\<rparr>"
  define c5 where "c5 = c4\<lparr>cl_dump_pc := cl_dump_pc cl\<rparr>"
  define c6 where "c6 = c5\<lparr>cl_dump_insn := cl_dump_insn cl\<rparr>"
  define c7 where "c7 = c6\<lparr>cl_report_lost_mtc_cyc := cl_report_lost_mtc_cyc cl\<rparr>"
  define c8 where "c8 = c7\<lparr>cl_id := cl_id cl\<rparr>"
  note d = c8_def c7_def c6_def c5_def c4_def c2_def c1_def CommandLineSettings_new_def
  note one = parse_one_def printer_option_def
  have s1: "consumes F [opt_text ''output-format'' (format_text (cl_output_format cl))] (dc, CommandLineSettings_new) (dc, c1)"
    by (rule consumes_opt) (auto simp: one d format_text_def split: OutputFormat.splits)
  have s2: "consumes F [opt_text ''output-file'' (cl_output_file_name cl)] (dc, c1) (dc, c2)"
    by (rule consumes_opt) (auto simp: one d)
  have s3: "consumes F [opt_text ''time'' (if cl_abstime cl then ''abs'' else ''rel'')] (dc, c2) (dc, c4)"
    by (rule consumes_opt) (auto simp: one d)
  have s4: "consumes F (if cl_dump_pc cl then [''--'' @ ''pc''] else []) (dc, c4) (dc, c5)"
    using consumes_flag [of F "''pc''" "(dc, c4)"] by (auto simp: one d consumes_Nil)
  have s5: "consumes F (if cl_dump_insn cl then [''--'' @ ''insn''] else []) (dc, c5) (dc, c6)"
    using consumes_flag [of F "''insn''" "(dc, c5)"] by (auto simp: one d consumes_Nil)
  have s6: "consumes F (if cl_report_lost_mtc_cyc cl then [''--'' @ ''report-lost''] else []) (dc, c6) (dc, c7)"
    using consumes_flag [of F "''report-lost''" "(dc, c6)"] by (auto simp: one d consumes_Nil)
  have s7: "consumes F [opt_text ''id'' (NumberToString F UInt32 16 (uint (cl_id cl)))] (dc, c7) (dc, c8)"
    by (rule consumes_opt) (auto simp: one d c3)
  have s8: "consumes F [opt_text ''view'' (view_text (cl_view cl))] (dc, c8) (dc, cl)"
    by (rule consumes_opt) (cases cl, auto simp: one d view_text_def split: OutputView.splits)
  have "consumes F ([opt_text ''output-format'' (format_text (cl_output_format cl))]
      @ [opt_text ''output-file'' (cl_output_file_name cl)] @ [opt_text ''time'' (if cl_abstime cl then ''abs'' else ''rel'')]
      @ (if cl_dump_pc cl then [''--'' @ ''pc''] else []) @ (if cl_dump_insn cl then [''--'' @ ''insn''] else [])
      @ (if cl_report_lost_mtc_cyc cl then [''--'' @ ''report-lost''] else [])
      @ [opt_text ''id'' (NumberToString F UInt32 16 (uint (cl_id cl)))] @ [opt_text ''view'' (view_text (cl_view cl))])
      (dc, CommandLineSettings_new) (dc, cl)"
    by (intro consumes_append [OF s1] consumes_append [OF s2] consumes_append [OF s3] consumes_append [OF s4]
        consumes_append [OF s5] consumes_append [OF s6] consumes_append [OF s7] s8)
  then show ?thesis unfolding output_args_def by simp
qed

text \<open>
  C25: every setting can be given on the command line: from the options for a decoder configuration with exactly one of the two
  kinds of trace input and no empty file names, and for any printer settings, \<^verbatim>\<open>ParseArgv\<close> reads back exactly these, and
  consumes every argument.
\<close>

theorem ParseArgv_roundtrip:
  assumes "ftl_conversions F" "dc_pt_file_name dc = '''' \<longleftrightarrow> dc_pt_list_file_name dc \<noteq> ''''"
    "\<forall>v \<in> set (dc_elf_file_names dc) \<union> set (dc_ids_file_names dc) \<union> set (dc_map_file_names dc). v \<noteq> []"
  shows "ParseArgv F (prog # input_args F dc @ output_args F cl) (DecoderConfig_new T, CommandLineSettings_new) =
    (int (Suc (length (input_args F dc @ output_args F cl))), dc, cl)"
proof -
  have "consumes F (input_args F dc @ output_args F cl) (DecoderConfig_new T, CommandLineSettings_new) (dc, cl)"
    using consumes_append [OF input_args_consumed [OF assms] output_args_consumed [OF assms(1)]] .
  then have "parse_args F ((input_args F dc @ output_args F cl) @ []) 1 (DecoderConfig_new T, CommandLineSettings_new) =
      parse_args F [] (1 + int (length (input_args F dc @ output_args F cl))) (dc, cl)"
    unfolding consumes_def by blast
  then show ?thesis using assms(2) by (auto simp: ParseArgv_def Let_def)
qed

theorem ParseArgv_roundtrip_witness:
  "\<exists>n. ParseArgv ftl_ref (''ipt-dump'' # input_args ftl_ref (DecoderConfig_new ref_ipt\<lparr>dc_pt_file_name := ''a=b''\<rparr>)
       @ output_args ftl_ref (CommandLineSettings_new\<lparr>cl_output_format := kRaw\<rparr>)) (DecoderConfig_new ref_ipt, CommandLineSettings_new) =
     (n, DecoderConfig_new ref_ipt\<lparr>dc_pt_file_name := ''a=b''\<rparr>, CommandLineSettings_new\<lparr>cl_output_format := kRaw\<rparr>)"
  by (subst ParseArgv_roundtrip [OF ftl_ref.ftl_conversions_axioms])
    (simp_all add: DecoderConfig_new_def)

section \<open>A run\<close>


definition dump_files :: ref_fs where
  "dump_files = \<lparr>fs_files = [(''k'', []), (''p'', [1])], fs_fds = [], fs_next = 3, fs_maps = []\<rparr>"

definition dump_dc :: DecoderConfig where
  "dump_dc = (DecoderConfig_new ref_ipt)\<lparr>dc_pt_file_name := ''p'', dc_ktrace_file_name := ''k''\<rparr>"

lemma dump_create:
  "\<exists>d. DecoderState_Create ref_dump_env dump_dc dump_files = Some (Some d, dump_files\<lparr>fs_next := 4\<rparr>)"
  by (simp add: DecoderState_Create_def create_steps_def dump_dc_def dump_files_def DecoderConfig_new_def AllocImage_def
      ReadKtraceFile_def ReadFile_def ReadFile_loop.simps pt_files_step_def kernel_step_def ref_dump_env_def ref_posix_def
      ref_ipt_def magenta_ktrace_def DecoderState_new_def fs_read_def fs_view_def fs_pos_def fs_seek_def store_raw_def
      KtraceRecord_new_def Let_def)




end
