(* ===== verification/Spec2Isabelle.thy ===== *)
theory Spec2Isabelle
  imports Cmd_Props Notify Io_Loop Ipt_Server Ipt_Dump
begin

text \<open>
  A verification development for the Magenta debug agent: the three programs \<^verbatim>\<open>debugserver\<close>, which serves a debugger
  over the GDB remote serial protocol (RSP), \<^verbatim>\<open>ipt\<close>, which records Intel Processor Trace while a program runs, and
  \<^verbatim>\<open>ipt-dump\<close>, which decodes and prints such a trace.  All file names are relative to \<^verbatim>\<open>src/\<close>.

  \<^bold>\<open>The programs.\<close>  \<^verbatim>\<open>debugserver\<close> has a main thread with a message loop; a read and a write thread move bytes between it
  and the socket of the client, and another thread waits on the exception port of the kernel.  Everything
  that changes the state of the server is a task of the main loop: bytes that were read are verified as a packet, acknowledged
  and given to the command handler, which acts on the inferior (process, threads, registers, memory, breakpoints)
  and posts a reply; exceptions of the inferior become stop notifications.  \<^verbatim>\<open>ipt\<close> uses the same process, thread and
  exception classes, and drives the trace device and the kernel's event trace.  \<^verbatim>\<open>ipt-dump\<close> reads what \<^verbatim>\<open>ipt\<close>
  wrote with sideband data (kernel events, load maps, build ids, ELF files) and hands it to the decoder library.

  \<^bold>\<open>How code is modelled.\<close>  Classes and structs are records, enums are datatypes, machine integers are words that wrap.  Operations are
  functions that take and return the state.  A result in \<^verbatim>\<open>option\<close> is \<^verbatim>\<open>None\<close> where the source fails an assertion (\<^verbatim>\<open>FTL_DCHECK\<close>),
  reads memory that was not written or is not there, stores outside a buffer, or does not end; an error that the source reports is a
  value.  Statements about such functions use \<^verbatim>\<open>post\<close> and \<^verbatim>\<open>run\<close> of the theory \<^verbatim>\<open>Prelude\<close>.  Loops over data are recursive
  functions, loops that may not end are partial functions, with a theorem where they do; no definition needs fuel.  Log messages
  are left out, except where their arguments can fail.

  \<^bold>\<open>What is not in the repository\<close> is a parameter, a record of functions, and what is relied on is a locale that
  is interpreted on a reference implementation, so that no assumption is vacuous: number conversion of ftl (\<^verbatim>\<open>ftl_conversions\<close> of \<^verbatim>\<open>Ftl\<close>),
  kernel and launchpad (\<^verbatim>\<open>Magenta\<close>), the trace device (\<^verbatim>\<open>Ipt_Control_Inv\<close>), sockets (\<^verbatim>\<open>socket_table\<close> of \<^verbatim>\<open>Io_Loop\<close>), files and \<^verbatim>\<open>getline\<close>
  (\<^verbatim>\<open>posix_files\<close>, \<^verbatim>\<open>getline_buffer\<close> of \<^verbatim>\<open>Files\<close> and \<^verbatim>\<open>Load_Maps\<close>), sequential reads (\<^verbatim>\<open>sequential_file\<close> of \<^verbatim>\<open>Ktrace\<close>), sorting and searching (\<^verbatim>\<open>c_search\<close> of
  \<^verbatim>\<open>Elf_Symtab\<close>), and the trace library (\<^verbatim>\<open>pt_library\<close> of \<^verbatim>\<open>Raw_Printer\<close>).  \<^verbatim>\<open>sscanf\<close> is defined in \<^verbatim>\<open>Scan\<close> for the conversions that occur.

  \<^bold>\<open>Theories for all programs.\<close>
  \<^verbatim>\<open>Prelude\<close>: words, byte images, string views, the reasoning rules.  \<^verbatim>\<open>Util\<close>: \<^verbatim>\<open>lib/debugger-utils/util.cc\<close>.
  \<^verbatim>\<open>Elf_Reader\<close>, \<^verbatim>\<open>Dso_List\<close>: \<^verbatim>\<open>elf-reader.cc\<close> and \<^verbatim>\<open>dso-list.cc\<close> of \<^verbatim>\<open>lib/debugger-utils\<close>; build ids, termination of the note search, lookup
  by address, and that a cyclic list of objects is followed for ever.
  \<^verbatim>\<open>Byte_Block\<close>: memory of the inferior.  \<^verbatim>\<open>Arch\<close>, \<^verbatim>\<open>Registers\<close>, \<^verbatim>\<open>Breakpoint\<close>, \<^verbatim>\<open>Thread\<close>, \<^verbatim>\<open>Exception_Port\<close>, \<^verbatim>\<open>Process\<close>: the files of these names in
  \<^verbatim>\<open>lib/inferior-control\<close>.  \<^verbatim>\<open>Process_Inv\<close>: the invariant of a process, kept by every operation, and the contract of a process delegate.

  \<^bold>\<open>The debug server.\<close>
  \<^verbatim>\<open>Rsp_Util\<close>, \<^verbatim>\<open>Stop_Reply\<close>, \<^verbatim>\<open>Thread_Actions\<close>: \<^verbatim>\<open>util.cc\<close>, \<^verbatim>\<open>stop-reply-packet.cc\<close>, \<^verbatim>\<open>thread-action-list.cc\<close> of \<^verbatim>\<open>bin/debugserver\<close>.
  \<^verbatim>\<open>Server\<close>: notifications, replies and call-backs of \<^verbatim>\<open>server.cc\<close>; \<^verbatim>\<open>Server_Inv\<close>: their invariant.  \<^verbatim>\<open>Cmd_Handler\<close>: every command of
  \<^verbatim>\<open>cmd-handler.cc\<close>; \<^verbatim>\<open>Cmd_Inv\<close>: each of them answers once and keeps the invariant; \<^verbatim>\<open>Cmd_Props\<close>: what single commands do.
  \<^verbatim>\<open>Rsp_Server\<close>: packets, tasks, start and end of the program, and the step relation of the running program.  \<^verbatim>\<open>Notify\<close>: stop
  notifications refine a FIFO channel.  \<^verbatim>\<open>Io_Loop\<close>: sockets and the i/o threads as a step relation, the order of delivery, and the end of the
  loop.  This theory: the invariant of every reachable state, the answers to packets, the framing of
  packets, and what the start and the end of the inferior do.

  \<^bold>\<open>The tracer.\<close>
  \<^verbatim>\<open>X86\<close>: the cached processor features.  \<^verbatim>\<open>Ipt_Config\<close>: command line and control register.  \<^verbatim>\<open>Ipt_Control\<close>, \<^verbatim>\<open>Ipt_Control_Inv\<close>: every operation
  of \<^verbatim>\<open>bin/ipt/control.cc\<close>, that it closes what it opened, and what a trace file holds.  \<^verbatim>\<open>Ipt_Server\<close>: \<^verbatim>\<open>bin/ipt/server.cc\<close> and \<^verbatim>\<open>main.cc\<close>, and the
  invariant of the running tracer.

  \<^bold>\<open>The trace printer.\<close>
  \<^verbatim>\<open>Files\<close>: \<^verbatim>\<open>byte-block-file.cc\<close> and the system calls for files.  \<^verbatim>\<open>Elf_Symtab\<close>: symbol tables, and that the binary search finds what a scan finds.
  \<^verbatim>\<open>Load_Maps\<close>: the readers of load maps and build ids.  \<^verbatim>\<open>Ktrace\<close>: \<^verbatim>\<open>ktrace-reader.cc\<close>.  \<^verbatim>\<open>Simple_Pt\<close>: \<^verbatim>\<open>elf.cc\<close> and \<^verbatim>\<open>symtab.cc\<close> of
  \<^verbatim>\<open>third_party/simple-pt\<close>.  \<^verbatim>\<open>Decoder\<close>: \<^verbatim>\<open>lib/intel-pt-decode\<close>.  \<^verbatim>\<open>Raw_Printer\<close>, \<^verbatim>\<open>Call_Printer\<close>: the two output formats, as functions to the text that is
  printed.  \<^verbatim>\<open>Ipt_Dump\<close>: the command line and \<^verbatim>\<open>main\<close>, and the life of the decoder over a whole run.

  \<^bold>\<open>Bounds.\<close>  The lemmas on symbol tables are for symbols in a range of 2 to the power of 31 addresses, because the comparison truncates
  differences to 32 bits; other lemmas show what goes wrong beyond.  Records of a kernel event file are of at most 256
  bytes, the size of the buffer.  The output buffer of the server has 4096 bytes.

  \<^bold>\<open>Not modelled:\<close> usage texts, the formatted display of registers and the hexadecimal dump (printing only); the stubs for
  processors other than x86-64 and arm64, which do nothing; the body of \<^verbatim>\<open>Handle_zZ\<close> and other code that the preprocessor
  removes, among it the disassembler of the call printer; mutexes, as the main thread is the only one that changes the server's state; freeing memory;
  the test programs and unit tests.
\<close>

section \<open>The running server\<close>

text \<open>
  C1: the invariant of the running program.  In every state that \<^verbatim>\<open>debugserver\<close> can reach, whatever
  the client, the kernel and the other threads do, the process, its thread map and the exception
  port are consistent, notifications only wait while one is outstanding, an outstanding notification
  has a time-out pending, and every posted packet fits the output buffer; hence no write and no
  time-out can fail an assertion.
\<close>

theorem server_reach_invariant:
  assumes "rsp_env E" and "server_reach E s"
  shows "service_ok (en_mx E) s \<and> rsp_inv s
    \<and> (\<forall>b d. WriteTask b d \<in> set (srv_tasks s) \<longrightarrow> run_task E (WriteTask b d) s \<noteq> None)
    \<and> (\<forall>ts a d ts'. srv_timers s = ts @ (a, d) # ts' \<longrightarrow> run_timeout a (s\<lparr>srv_timers := ts @ ts'\<rparr>) \<noteq> None)"
proof -
  have good: "service_ok (en_mx E) s" "rsp_inv s" using rsp_env.reach_good [OF assms] by simp_all
  moreover have "run_task E (WriteTask b d) s \<noteq> None" if "WriteTask b d \<in> set (srv_tasks s)" for b d
    using good(2) that by (simp add: run_task_def run_WriteTask_eq rsp_inv_def)
  moreover have "run_timeout a (s\<lparr>srv_timers := ts @ ts'\<rparr>) \<noteq> None" if "srv_timers s = ts @ (a, d) # ts'" for ts a d ts'
    using run_not_None [OF timeout_inv [OF good(2) that]] .
  ultimately show ?thesis by blast
qed

definition demo_command_line :: command_line where
  "demo_command_line = \<lparr>cl_help = False, cl_positional_args = [''2345'', ''/boot/app''], cl_log_level = Some 0, cl_attach = None\<rparr>"

theorem server_reach_invariant_witness: "\<exists>s. server_reach demo_env s \<and> service_ok ref_mx s \<and> rsp_inv s"
proof -
  have "StringToNumberWithError ftl_ref UInt16 10 ''2345'' = Some 2345"
    using ftl_ref.parse_number [of UInt16 2345 10]
    by (simp add: number_string_def nat_string.simps digit_char_def char_of_def bit_0)
  then obtain s where m: "debugserver_main demo_env demo_command_line 0 demo_kernel = Some (Inr s)"
    by (simp add: debugserver_main_def demo_command_line_def Let_def)
  have "\<exists>s'. RspServer_start demo_env True s = Some (True, s')"
  proof -
    obtain p level where s: "s = (RspServer_new 0 level demo_kernel)\<lparr>i_proc := p\<rparr>"
      using debugserver_main_new [OF m] by metis
    have "\<not> p_attached_running p"
      using m by (auto simp: debugserver_main_def demo_command_line_def Let_def s RspServer_new_def Process_new_def
          split: option.splits)
    then show ?thesis
      by (simp add: s RspServer_start_def RspServer_new_def ExceptionPort_Run_def ExceptionPort_new_def start_attach_def)
  qed
  then obtain s' where "server_reach demo_env s'" using server_reach.start [OF m] by blast
  with server_reach_invariant [OF demo.rsp_env_axioms this] show ?thesis by auto
qed



section \<open>Packets\<close>

text \<open>
  C5: a packet that is posted reaches the client as it is.  The task it is posted as cannot overrun
  the output buffer, it hands the write thread one frame, and verifying that frame gives back the data,
  unless the data contains an unescaped number sign.
\<close>

theorem posted_packet_roundtrip:
  assumes "PostPacketWriteTask data s = Some s1" and "frameable data"
  shows "srv_tasks s1 = srv_tasks s @ [WriteTask False data]
    \<and> (\<exists>frame s2. run_task E (WriteTask False data) s1 = Some s2 \<and> srv_written s2 = srv_written s1 @ [frame]
      \<and> length frame < kMaxBufferSize \<and> VerifyPacket frame = Some data)"
proof -
  have len: "length data + 4 < kMaxBufferSize" and "srv_tasks s1 = srv_tasks s @ [WriteTask False data]"
    using assms(1) by (auto simp: PostPacketWriteTask_def PostWriteTask_def)
  moreover have "VerifyPacket (CHR ''$'' # data @ ''#'' @ EncodeByteString (checksum data)) = Some data"
    using VerifyPacket_frame [OF assms(2)] by simp
  ultimately show ?thesis by (simp add: run_task_def run_WriteTask_eq [OF len])
qed

theorem posted_packet_roundtrip_witness:
  "\<exists>s1 s2 frame. PostPacketWriteTask ''OK'' demo_server = Some s1
    \<and> run_task demo_env (WriteTask False ''OK'') s1 = Some s2 \<and> srv_written s2 = [frame]
    \<and> VerifyPacket frame = Some ''OK''"
proof -
  obtain s1 where s1: "PostPacketWriteTask ''OK'' demo_server = Some s1" "srv_written s1 = []"
    by (simp add: PostPacketWriteTask_def PostWriteTask_def demo_server_def kMaxBufferSize_def)
  have "frameable ''OK''" by code_simp
  from posted_packet_roundtrip [OF s1(1) this, of demo_env] s1 show ?thesis by auto
qed

section \<open>Events of the inferior\<close>

definition create_event :: "'k env \<Rightarrow> mx_exception_context \<Rightarrow> 'k rsp_server \<Rightarrow> string" where
  "create_event E cx s =
     ''T05thread:'' @ EncodeThreadId (en_ftl E) (p_id (i_proc s)) (ctx_tid cx) @ '';create:;''"

lemma encode_5: "EncodeByteString 5 = ''05''"
  by code_simp

lemma create_event_built:
  "do {
     p \<leftarrow> SetThreadId F pid i (SetSignalNumber 5 (StopReplyPacket_new kReceivedSignal));
     p \<leftarrow> SetStopReason ''create'' p;
     StopReplyPacket_Build p
   } = Some (''T05thread:'' @ EncodeThreadId F pid i @ '';create:;'')"
  by (simp add: SetThreadId_def SetSignalNumber_def StopReplyPacket_new_def SetStopReason_def
      StopReplyPacket_Build_def srp_type_char_def HasParameters_def srp_thread_field_def srp_signo_sent_def encode_5)

lemma OnThreadStarting_eq:
  "RspServer_OnThreadStarting E tid cx s =
     (case p_state (i_proc s) of
        prc_kStarting \<Rightarrow>
          do {
            s \<leftarrow> PostPacketWriteTask (create_event E cx s) s;
            p \<leftarrow> Process_set_state prc_kRunning (i_proc s);
            Some (s\<lparr>i_proc := p\<rparr>)
          }
      | prc_kRunning \<Rightarrow> QueueStopNotification E (create_event E cx s) kDefaultTimeoutSeconds s
      | _ \<Rightarrow> None)"
  using create_event_built [of "en_ftl E" "p_id (i_proc s)" "ctx_tid cx"]
  by (auto simp: RspServer_OnThreadStarting_def Let_def create_event_def bind_eq_Some_conv split: ProcessState.split)

text \<open>
  C8: the deferred answer of \<^verbatim>\<open>vRun\<close>.  The first thread of a program that is starting is reported with
  exactly one ordinary packet, which completes the \<^verbatim>\<open>vRun\<close>, and the process is running from then on;
  every later thread is reported by a stop notification.  Neither can fail an assertion.
\<close>

theorem OnThreadStarting_completes_vRun:
  assumes "rsp_env E" and "rsp_inv s"
  shows "(p_state (i_proc s) = prc_kStarting \<longrightarrow> RspServer_OnThreadStarting E tid cx s =
      Some (s\<lparr>i_proc := (i_proc s)\<lparr>p_state := prc_kRunning\<rparr>,
        srv_tasks := srv_tasks s @ [WriteTask False (create_event E cx s)]\<rparr>))
    \<and> (p_state (i_proc s) = prc_kRunning \<longrightarrow> (\<exists>s'. RspServer_OnThreadStarting E tid cx s = Some s'
      \<and> i_proc s' = i_proc s \<and> (notify_abs s', srv_tasks s') =
        (case channel_queue (create_event E cx s) (notify_abs s) of (c, ds) \<Rightarrow> (c, srv_tasks s @ map write_of ds))))"
proof -
  have len: "length (create_event E cx s) \<le> 128"
    using length_EncodeThreadId [OF rsp_env.conversions [OF assms(1)], of "p_id (i_proc s)" "ctx_tid cx"]
    by (simp add: create_event_def)
  obtain c ds where c: "channel_queue (create_event E cx s) (notify_abs s) = (c, ds)" by fastforce
  have io: "srv_io_loop s" using assms(2) by (simp add: rsp_inv_def)
  have "p_state (i_proc s) = prc_kStarting \<Longrightarrow> RspServer_OnThreadStarting E tid cx s =
      Some (s\<lparr>i_proc := (i_proc s)\<lparr>p_state := prc_kRunning\<rparr>,
        srv_tasks := srv_tasks s @ [WriteTask False (create_event E cx s)]\<rparr>)"
    using io fits_event(2) [OF len]
    by (simp add: OnThreadStarting_eq PostPacketWriteTask_def PostWriteTask_eq Process_set_state_def)
  moreover have "\<exists>s'. QueueStopNotification E (create_event E cx s) kDefaultTimeoutSeconds s = Some s'
      \<and> i_proc s' = i_proc s \<and> notify_abs s' = c \<and> srv_tasks s' = srv_tasks s @ map write_of ds"
    using stops.queue_refines [OF assms(2) len c, of E kDefaultTimeoutSeconds]
      QueueStopNotification_inv [OF assms(2) len, of E kDefaultTimeoutSeconds] by (auto simp: run_def)
  ultimately show ?thesis using c by (simp add: OnThreadStarting_eq)
qed

definition demo_context :: mx_exception_context where
  "demo_context = \<lparr>ctx_pid = 1, ctx_tid = 0, ctx_pc = 0, ctx_vector = 0, ctx_esr = 0\<rparr>"

theorem OnThreadStarting_completes_vRun_witness:
  "\<exists>s'. RspServer_OnThreadStarting demo_env 4 demo_context demo_server = Some s'
    \<and> srv_tasks s' = [WriteTask True (''Stop:'' @ create_event demo_env demo_context demo_server)]"
proof -
  have "notify_abs demo_server = None" by (simp add: notify_abs_def demo_server_def)
  with OnThreadStarting_completes_vRun [OF demo.rsp_env_axioms demo_server_ok(2), of 4 demo_context] show ?thesis
    by (auto simp: demo_server_ok)
qed

definition exit_event :: "int \<Rightarrow> string" where
  "exit_event code = ''W'' @ EncodeByteString (word_of_int code)"

lemma exit_event_built:
  "StopReplyPacket_Build (SetSignalNumber (word_of_int code) (StopReplyPacket_new kProcessExited)) = Some (exit_event code)"
  by (simp add: StopReplyPacket_Build_def SetSignalNumber_def StopReplyPacket_new_def srp_type_char_def
      srp_thread_field_def srp_signo_sent_def exit_event_def)



section \<open>Packets that end the program\<close>



end
